(* ===== verification/Prelude.thy ===== *)
theory Prelude
  imports Main "HOL-Library.Word"
begin

text \<open>
  Shared vocabulary of the development: machine integers and byte buffers, results that carry a
  failure value, the ordered associative container \<open>std::map\<close> as its in-order entry
  sequence, and the retention idiom (drop the first entry when the container is at its bound, then
  store) that the coordinator uses for plans, records and history.

  The container interface is the locale \<open>ordered_map\<close>; its laws are discharged for the
  entry-sequence functions at the end of the theory, and the retention lemmas proved from the
  laws are what the component theories use.
\<close>

unbundle bit_operations_syntax

section \<open>Machine integers and byte buffers\<close>

type_synonym u8 = "8 word"
type_synonym u16 = "16 word"
type_synonym u32 = "32 word"
type_synonym u64 = "64 word"

text \<open>A byte buffer (\<open>std::vector<std::uint8_t>\<close>) is the list of its bytes; a
  \<open>std::string\<close> is the list of its characters, each character being one byte.\<close>

type_synonym bytes = "u8 list"

definition byte_of_char :: "char \<Rightarrow> u8" where
  "byte_of_char c = of_nat (of_char c)"

definition char_of_byte :: "u8 \<Rightarrow> char" where
  "char_of_byte b = char_of (unat b)"

definition string_bytes :: "string \<Rightarrow> bytes" where
  "string_bytes s = map byte_of_char s"

definition bytes_string :: "bytes \<Rightarrow> string" where
  "bytes_string bs = map char_of_byte bs"

lemma unat_byte_of_char: "unat (byte_of_char c) = of_char c"
proof -
  have less: "(of_char c :: nat) < 256"
    by (rule nat_of_char_less_256)
  have "unat (byte_of_char c) = of_char c mod 256"
    by (simp add: byte_of_char_def unat_of_nat)
  with less show ?thesis by simp
qed

lemma char_of_byte_of_char [simp]: "char_of_byte (byte_of_char c) = c"
  by (simp add: char_of_byte_def unat_byte_of_char)

lemma bytes_string_string_bytes [simp]: "bytes_string (string_bytes s) = s"
  by (simp add: bytes_string_def string_bytes_def comp_def)

lemma length_string_bytes [simp]: "length (string_bytes s) = length s"
  by (simp add: string_bytes_def)

lemma take_string_bytes: "take n (string_bytes s) = string_bytes (take n s)"
  by (simp add: string_bytes_def take_map)

section \<open>Decimal rendering\<close>

text \<open>\<open>std::to_string\<close> of an unsigned integer.\<close>

fun digits_of_nat :: "nat \<Rightarrow> string" where
  "digits_of_nat n =
     (if n < 10 then [char_of (48 + n)] else digits_of_nat (n div 10) @ [char_of (48 + n mod 10)])"

declare digits_of_nat.simps [simp del]

definition u64_to_string :: "u64 \<Rightarrow> string" where
  "u64_to_string w = digits_of_nat (unat w)"

lemma digits_of_nat_nonempty [simp]: "digits_of_nat n \<noteq> []"
  by (subst digits_of_nat.simps) simp

section \<open>Sorting by a comparison\<close>

text \<open>\<open>std::sort\<close> with an \<open>operator<\<close>, and \<open>operator<\<close> of \<open>std::string\<close>, which compares
  characters as unsigned bytes.\<close>

fun insert_by :: "('a \<Rightarrow> 'a \<Rightarrow> bool) \<Rightarrow> 'a \<Rightarrow> 'a list \<Rightarrow> 'a list" where
  "insert_by lt x [] = [x]"
| "insert_by lt x (y # ys) = (if lt y x then y # insert_by lt x ys else x # y # ys)"

definition sort_by :: "('a \<Rightarrow> 'a \<Rightarrow> bool) \<Rightarrow> 'a list \<Rightarrow> 'a list" where
  "sort_by lt xs = foldr (insert_by lt) xs []"

fun string_less :: "string \<Rightarrow> string \<Rightarrow> bool" where
  "string_less [] [] = False"
| "string_less [] (d # ds) = True"
| "string_less (c # cs) [] = False"
| "string_less (c # cs) (d # ds) =
     (if c = d then string_less cs ds else (of_char c :: nat) < of_char d)"

lemma set_insert_by [simp]: "set (insert_by lt x xs) = insert x (set xs)"
  by (induction xs) auto

lemma set_sort_by [simp]: "set (sort_by lt xs) = set xs"
  by (induction xs) (simp_all add: sort_by_def)

lemma length_sort_by [simp]: "length (sort_by lt xs) = length xs"
proof -
  have "length (insert_by lt x ys) = Suc (length ys)" for x ys by (induction ys) auto
  then show ?thesis by (induction xs) (simp_all add: sort_by_def)
qed

section \<open>Ordered maps\<close>

text \<open>
  \<open>std::map<K, V>\<close> iterates in ascending key order; the model is the sequence of its
  entries in that order.  \<open>om_insert\<close> is \<open>m[k] = v\<close> (replace or insert),
  \<open>om_erase\<close> is \<open>m.erase(k)\<close>, \<open>om_find\<close> is \<open>m.find(k)\<close>, and
  \<open>om_erase_begin\<close> is \<open>m.erase(m.begin())\<close>.
\<close>

type_synonym ('k, 'v) omap = "('k \<times> 'v) list"

fun om_insert :: "'k::linorder \<Rightarrow> 'v \<Rightarrow> ('k, 'v) omap \<Rightarrow> ('k, 'v) omap" where
  "om_insert k v [] = [(k, v)]"
| "om_insert k v ((a, b) # m) =
     (if k < a then (k, v) # (a, b) # m
      else if k = a then (k, v) # m
      else (a, b) # om_insert k v m)"

fun om_erase :: "'k \<Rightarrow> ('k, 'v) omap \<Rightarrow> ('k, 'v) omap" where
  "om_erase k [] = []"
| "om_erase k ((a, b) # m) = (if k = a then m else (a, b) # om_erase k m)"

fun om_find :: "('k, 'v) omap \<Rightarrow> 'k \<Rightarrow> 'v option" where
  "om_find [] k = None"
| "om_find ((a, b) # m) k = (if k = a then Some b else om_find m k)"

definition om_count :: "('k, 'v) omap \<Rightarrow> 'k \<Rightarrow> bool" where
  "om_count m k = (om_find m k \<noteq> None)"

definition om_erase_begin :: "('k, 'v) omap \<Rightarrow> ('k, 'v) omap" where
  "om_erase_begin m = (case m of [] \<Rightarrow> [] | _ # m' \<Rightarrow> m')"

definition om_ok :: "('k::linorder, 'v) omap \<Rightarrow> bool" where
  "om_ok m = sorted_wrt (<) (map fst m)"

text \<open>The retention idiom \<open>if (m.size() >= bound) m.erase(m.begin()); m[k] = v;\<close>.\<close>

definition om_retain :: "nat \<Rightarrow> 'k::linorder \<Rightarrow> 'v \<Rightarrow> ('k, 'v) omap \<Rightarrow> ('k, 'v) omap" where
  "om_retain bound k v m =
     om_insert k v (if bound \<le> length m then om_erase_begin m else m)"

subsection \<open>The interface as a locale\<close>

locale ordered_map =
  fixes empty :: "'m"
    and find :: "'m \<Rightarrow> 'k::linorder \<Rightarrow> 'v option"
    and insert :: "'k \<Rightarrow> 'v \<Rightarrow> 'm \<Rightarrow> 'm"
    and erase :: "'k \<Rightarrow> 'm \<Rightarrow> 'm"
    and erase_begin :: "'m \<Rightarrow> 'm"
    and size :: "'m \<Rightarrow> nat"
    and ok :: "'m \<Rightarrow> bool"
  assumes ok_empty: "ok empty"
    and ok_insert: "ok m \<Longrightarrow> ok (insert k v m)"
    and ok_erase: "ok m \<Longrightarrow> ok (erase k m)"
    and ok_erase_begin: "ok m \<Longrightarrow> ok (erase_begin m)"
    and find_empty: "find empty k = None"
    and find_insert: "find (insert k v m) j = (if j = k then Some v else find m j)"
    and find_erase: "ok m \<Longrightarrow> find (erase k m) j = (if j = k then None else find m j)"
    and find_erase_begin: "ok m \<Longrightarrow> find (erase_begin m) j = Some v \<Longrightarrow> find m j = Some v"
    and size_insert: "ok m \<Longrightarrow> size (insert k v m) = (if find m k = None then Suc (size m) else size m)"
    and size_erase: "ok m \<Longrightarrow> size (erase k m) = (if find m k = None then size m else size m - 1)"
    and size_erase_begin: "size (erase_begin m) = size m - 1"
begin

definition retain :: "nat \<Rightarrow> 'k \<Rightarrow> 'v \<Rightarrow> 'm \<Rightarrow> 'm" where
  "retain bound k v m = insert k v (if bound \<le> size m then erase_begin m else m)"

lemma retain_ok: "ok m \<Longrightarrow> ok (retain bound k v m)"
  by (simp add: retain_def ok_insert ok_erase_begin)

lemma retain_find_same: "find (retain bound k v m) k = Some v"
  by (simp add: retain_def find_insert)

lemma retain_find_other:
  "ok m \<Longrightarrow> find (retain bound k v m) j = Some w \<Longrightarrow> j \<noteq> k \<Longrightarrow> find m j = Some w"
  by (auto simp: retain_def find_insert split: if_splits dest: find_erase_begin)

lemma retain_bound:
  "ok m \<Longrightarrow> 0 < bound \<Longrightarrow> size m \<le> bound \<Longrightarrow> size (retain bound k v m) \<le> bound"
  by (auto simp: retain_def size_insert size_erase_begin ok_erase_begin)

lemma insert_erase_find: "ok m \<Longrightarrow> find (erase k (insert k v m)) k = None"
  by (simp add: find_erase ok_insert)

end

subsection \<open>The entry sequence satisfies the interface\<close>

lemma om_find_map_of: "om_find m k = map_of m k"
  by (induction m k rule: om_find.induct) auto

lemma om_find_insert [simp]: "om_find (om_insert k v m) j = (if j = k then Some v else om_find m j)"
  by (induction k v m rule: om_insert.induct) auto

lemma set_keys_om_insert: "set (map fst (om_insert k v m)) = insert k (set (map fst m))"
  by (induction k v m rule: om_insert.induct) auto

lemma om_ok_insert [simp, intro]: "om_ok m \<Longrightarrow> om_ok (om_insert k v m)"
proof (induction k v m rule: om_insert.induct)
  case (2 k v a b m)
  then show ?case
    using set_keys_om_insert [of k v m] by (fastforce simp: om_ok_def)
qed (simp add: om_ok_def)

lemma om_ok_Nil [simp]: "om_ok []"
  by (simp add: om_ok_def)

lemma om_ok_Cons: "om_ok (p # m) \<longleftrightarrow> om_ok m \<and> (\<forall>q \<in> set m. fst p < fst q)"
  by (auto simp: om_ok_def)

lemma om_find_set: "om_find m k = Some v \<Longrightarrow> (k, v) \<in> set m"
  by (simp add: om_find_map_of map_of_SomeD)

lemma om_ok_distinct: "om_ok m \<Longrightarrow> distinct (map fst m)"
  unfolding om_ok_def using strict_sorted_iff by blast

lemma om_find_iff: "om_ok m \<Longrightarrow> om_find m k = Some v \<longleftrightarrow> (k, v) \<in> set m"
  by (simp add: om_find_map_of om_ok_distinct)

lemma om_find_None_iff: "om_find m k = None \<longleftrightarrow> k \<notin> set (map fst m)"
  by (simp add: om_find_map_of map_of_eq_None_iff)

lemma set_om_erase: "set (om_erase k m) \<subseteq> set m"
  by (induction k m rule: om_erase.induct) auto

lemma om_ok_erase [simp, intro]: "om_ok m \<Longrightarrow> om_ok (om_erase k m)"
proof (induction k m rule: om_erase.induct)
  case (2 k a b m)
  then show ?case
    using set_om_erase [of k m] by (auto simp: om_ok_Cons)
qed simp

lemma om_find_erase: "om_ok m \<Longrightarrow> om_find (om_erase k m) j = (if j = k then None else om_find m j)"
proof (induction k m rule: om_erase.induct)
  case (2 k a b m)
  then have "om_find m a = None"
    by (force simp: om_ok_Cons om_find_None_iff)
  with 2 show ?case
    by (auto simp: om_ok_Cons)
qed simp

lemma om_erase_begin_simps [simp]: "om_erase_begin [] = []" "om_erase_begin (p # m) = m"
  by (simp_all add: om_erase_begin_def)

lemma om_ok_erase_begin [simp, intro]: "om_ok m \<Longrightarrow> om_ok (om_erase_begin m)"
  by (cases m) (auto simp: om_ok_Cons)

lemma om_find_erase_begin: "om_ok m \<Longrightarrow> om_find (om_erase_begin m) j = Some v \<Longrightarrow> om_find m j = Some v"
proof (cases m)
  case (Cons p m')
  assume "om_ok m" and "om_find (om_erase_begin m) j = Some v"
  with Cons have "om_find m' j = Some v" and "om_find m' (fst p) = None"
    by (force simp: om_ok_Cons om_find_None_iff)+
  with Cons show ?thesis
    by (cases p) auto
qed simp

lemma length_om_insert:
  "length (om_insert k v m) = (if om_find m k = None then Suc (length m) else length m)"
  if "om_ok m"
  using that
proof (induction k v m rule: om_insert.induct)
  case (2 k v a b m)
  have "om_find m k = None" if "k < a"
    using "2.prems" that by (force simp: om_ok_Cons om_find_None_iff)
  with 2 show ?case by (auto simp: om_ok_Cons)
qed simp

lemma length_om_erase:
  "om_ok m \<Longrightarrow> length (om_erase k m) = (if om_find m k = None then length m else length m - 1)"
proof (induction k m rule: om_erase.induct)
  case (2 k a b m)
  then show ?case by (cases m) (auto simp: om_ok_Cons)
qed simp

lemma length_om_erase_begin: "length (om_erase_begin m) = length m - 1"
  by (cases m) auto

interpretation om: ordered_map "[]" om_find om_insert om_erase om_erase_begin length om_ok
  rewrites "ordered_map.retain om_insert om_erase_begin length = om_retain"
proof -
  show om: "ordered_map [] om_find om_insert om_erase om_erase_begin length om_ok"
    by unfold_locales
      (auto simp: om_find_erase length_om_insert length_om_erase length_om_erase_begin
        intro: om_find_erase_begin)
  show "ordered_map.retain om_insert om_erase_begin length = om_retain"
    by (intro ext) (simp add: ordered_map.retain_def [OF om] om_retain_def)
qed

lemmas om_retain_facts = om.retain_ok om.retain_find_same om.retain_find_other om.retain_bound

end
