(* ===== verification/Errors.thy ===== *)
theory Errors
  imports Prelude
begin

text \<open>
  Typed failure semantics (\<open>include/artifact_promotion/error.hpp\<close>,
  \<open>src/core/error.cpp\<close>): the error codes in declaration order, the bounded diagnostic text
  \<open>StaticString\<close>, \<open>Status\<close>, \<open>Reason\<close> and \<open>Result\<close>, and the classification of
  codes.  The theory also holds the interface every closed enumeration of the program satisfies
  (locale \<open>enumeration\<close>): the underlying integer of an enumerator is its position in the
  declaration, and a raw integer is accepted exactly when it names an enumerator.
\<close>

section \<open>Closed enumerations\<close>

definition index_in :: "'a list \<Rightarrow> 'a \<Rightarrow> nat" where
  "index_in table x = length (takeWhile (\<lambda>y. y \<noteq> x) table)"

definition at_index :: "'a list \<Rightarrow> nat \<Rightarrow> 'a option" where
  "at_index table n = (if n < length table then Some (table ! n) else None)"

locale enumeration =
  fixes table :: "'a list"
  assumes table_distinct: "distinct table"
    and table_complete: "x \<in> set table"
begin

lemma index_less: "index_in table x < length table"
  using table_complete [of x]
  by (simp add: index_in_def) (metis (mono_tags, lifting) length_takeWhile_le nat_less_le takeWhile_eq_all_conv takeWhile_eq_take take_all_iff)

lemma nth_index: "table ! index_in table x = x"
  using index_less [of x] nth_length_takeWhile [of "\<lambda>y. y \<noteq> x" table]
  by (simp add: index_in_def)

lemma at_index_index: "at_index table (index_in table x) = Some x"
  by (simp add: at_index_def index_less nth_index)

lemma index_nth: "n < length table \<Longrightarrow> index_in table (table ! n) = n"
  by (metis index_less nth_index nth_eq_iff_index_eq table_distinct)

lemma index_inject: "index_in table x = index_in table y \<longleftrightarrow> x = y"
  by (metis nth_index)

lemma at_index_Some_iff: "at_index table n = Some x \<longleftrightarrow> n = index_in table x"
  by (auto simp: at_index_def index_nth index_less nth_index)

end

section \<open>Error codes\<close>

datatype (plugins only: code size) ErrorCode =
    EC_Ok | EC_InvalidArgument | EC_InvalidIdentity | EC_InvalidDigest | EC_InvalidName
    | EC_InvalidCount | EC_InvalidEnum | EC_InvalidStage | EC_InvalidTransition | EC_Unsupported
    | EC_PayloadTooLarge | EC_NumericOverflow | EC_ArtifactNotFound | EC_EvidenceNotFound
    | EC_PolicyNotFound | EC_PlanNotFound | EC_DecisionNotFound | EC_RequestNotFound
    | EC_ReservationNotFound | EC_AlreadyExists | EC_Conflict | EC_DuplicateRequest
    | EC_EvidenceMissing | EC_EvidenceMismatch | EC_EvidenceStale | EC_EvidenceRevoked
    | EC_EvidenceSuperseded | EC_EvidenceMalformed | EC_EvidenceIntegrityFailure
    | EC_EnvironmentMismatch | EC_OrderingViolation | EC_ArtifactMismatch | EC_DigestMismatch
    | EC_ArtifactGenerationStale | EC_ArtifactQuarantined | EC_ArtifactRevoked
    | EC_ArtifactSuperseded | EC_ArtifactRetired | EC_PolicyStale | EC_PolicyViolation
    | EC_PolicyGenerationStale | EC_TransitionIllegal | EC_CompatibilityFailed
    | EC_ProvenanceMissing | EC_ProvenanceMismatch | EC_SecurityVeto | EC_DependencyVeto
    | EC_ApprovalRequired | EC_StaleCoordinatorEpoch | EC_StaleWorkerBoot
    | EC_StaleEvidenceGeneration | EC_AuthorityStale | EC_PlanExpired | EC_PlanConsumed
    | EC_NotAuthorized | EC_ReservationHeld | EC_ReservationLost | EC_CommitUncertain | EC_Cancelled
    | EC_ShuttingDown | EC_AdmissionRejected | EC_PersistenceCorrupt | EC_PersistenceIoError
    | EC_PersistenceFormatError | EC_PersistenceVersionUnsupported | EC_TransportError
    | EC_ProtocolError | EC_ProtocolTruncated | EC_ProtocolOversized | EC_ProtocolMalformed
    | EC_ConnectionClosed | EC_InternalError | EC_InvariantViolation

text \<open>The enumerators in declaration order: the underlying value is the position.\<close>

definition error_codes :: "ErrorCode list" where
  "error_codes =
    [EC_Ok, EC_InvalidArgument, EC_InvalidIdentity, EC_InvalidDigest, EC_InvalidName
     , EC_InvalidCount, EC_InvalidEnum, EC_InvalidStage, EC_InvalidTransition, EC_Unsupported
     , EC_PayloadTooLarge, EC_NumericOverflow, EC_ArtifactNotFound, EC_EvidenceNotFound
     , EC_PolicyNotFound, EC_PlanNotFound, EC_DecisionNotFound, EC_RequestNotFound
     , EC_ReservationNotFound, EC_AlreadyExists, EC_Conflict, EC_DuplicateRequest
     , EC_EvidenceMissing, EC_EvidenceMismatch, EC_EvidenceStale, EC_EvidenceRevoked
     , EC_EvidenceSuperseded, EC_EvidenceMalformed, EC_EvidenceIntegrityFailure
     , EC_EnvironmentMismatch, EC_OrderingViolation, EC_ArtifactMismatch, EC_DigestMismatch
     , EC_ArtifactGenerationStale, EC_ArtifactQuarantined, EC_ArtifactRevoked, EC_ArtifactSuperseded
     , EC_ArtifactRetired, EC_PolicyStale, EC_PolicyViolation, EC_PolicyGenerationStale
     , EC_TransitionIllegal, EC_CompatibilityFailed, EC_ProvenanceMissing, EC_ProvenanceMismatch
     , EC_SecurityVeto, EC_DependencyVeto, EC_ApprovalRequired, EC_StaleCoordinatorEpoch
     , EC_StaleWorkerBoot, EC_StaleEvidenceGeneration, EC_AuthorityStale, EC_PlanExpired
     , EC_PlanConsumed, EC_NotAuthorized, EC_ReservationHeld, EC_ReservationLost, EC_CommitUncertain
     , EC_Cancelled, EC_ShuttingDown, EC_AdmissionRejected, EC_PersistenceCorrupt
     , EC_PersistenceIoError, EC_PersistenceFormatError, EC_PersistenceVersionUnsupported
     , EC_TransportError, EC_ProtocolError, EC_ProtocolTruncated, EC_ProtocolOversized
     , EC_ProtocolMalformed, EC_ConnectionClosed, EC_InternalError, EC_InvariantViolation]"

definition kCodeNames :: "string list" where
  "kCodeNames =
    [''Ok'', ''InvalidArgument'', ''InvalidIdentity'', ''InvalidDigest'', ''InvalidName''
     , ''InvalidCount'', ''InvalidEnum'', ''InvalidStage'', ''InvalidTransition'', ''Unsupported''
     , ''PayloadTooLarge'', ''NumericOverflow'', ''ArtifactNotFound'', ''EvidenceNotFound''
     , ''PolicyNotFound'', ''PlanNotFound'', ''DecisionNotFound'', ''RequestNotFound''
     , ''ReservationNotFound'', ''AlreadyExists'', ''Conflict'', ''DuplicateRequest''
     , ''EvidenceMissing'', ''EvidenceMismatch'', ''EvidenceStale'', ''EvidenceRevoked''
     , ''EvidenceSuperseded'', ''EvidenceMalformed'', ''EvidenceIntegrityFailure''
     , ''EnvironmentMismatch'', ''OrderingViolation'', ''ArtifactMismatch'', ''DigestMismatch''
     , ''ArtifactGenerationStale'', ''ArtifactQuarantined'', ''ArtifactRevoked''
     , ''ArtifactSuperseded'', ''ArtifactRetired'', ''PolicyStale'', ''PolicyViolation''
     , ''PolicyGenerationStale'', ''TransitionIllegal'', ''CompatibilityFailed''
     , ''ProvenanceMissing'', ''ProvenanceMismatch'', ''SecurityVeto'', ''DependencyVeto''
     , ''ApprovalRequired'', ''StaleCoordinatorEpoch'', ''StaleWorkerBoot''
     , ''StaleEvidenceGeneration'', ''AuthorityStale'', ''PlanExpired'', ''PlanConsumed''
     , ''NotAuthorized'', ''ReservationHeld'', ''ReservationLost'', ''CommitUncertain''
     , ''Cancelled'', ''ShuttingDown'', ''AdmissionRejected'', ''PersistenceCorrupt''
     , ''PersistenceIoError'', ''PersistenceFormatError'', ''PersistenceVersionUnsupported''
     , ''TransportError'', ''ProtocolError'', ''ProtocolTruncated'', ''ProtocolOversized''
     , ''ProtocolMalformed'', ''ConnectionClosed'', ''InternalError'', ''InvariantViolation'']"

interpretation ec: enumeration error_codes
proof
  show "distinct error_codes" by (simp add: error_codes_def)
  show "x \<in> set error_codes" for x by (cases x) (simp_all add: error_codes_def)
qed

definition error_code_value :: "ErrorCode \<Rightarrow> nat" where
  "error_code_value code = index_in error_codes code"

definition error_code_to_string :: "ErrorCode \<Rightarrow> string" where
  "error_code_to_string code =
     (let index = error_code_value code in
      if index \<ge> length kCodeNames then ''Unknown'' else kCodeNames ! index)"

definition is_retryable :: "ErrorCode \<Rightarrow> bool" where
  "is_retryable code \<longleftrightarrow> code \<in> set
    [EC_ReservationHeld, EC_ReservationLost, EC_CommitUncertain, EC_TransportError
     , EC_ProtocolTruncated, EC_ConnectionClosed, EC_ShuttingDown, EC_AdmissionRejected
     , EC_EvidenceStale, EC_AuthorityStale, EC_PolicyStale, EC_PlanExpired
     , EC_ArtifactGenerationStale, EC_PolicyGenerationStale, EC_StaleEvidenceGeneration]"

definition is_transport_failure :: "ErrorCode \<Rightarrow> bool" where
  "is_transport_failure code \<longleftrightarrow> code \<in> set
    [EC_TransportError, EC_ProtocolError, EC_ProtocolTruncated, EC_ProtocolOversized
     , EC_ProtocolMalformed, EC_ConnectionClosed]"

definition is_semantic_failure :: "ErrorCode \<Rightarrow> bool" where
  "is_semantic_failure code \<longleftrightarrow> code \<in> set
    [EC_EvidenceMissing, EC_EvidenceMismatch, EC_EvidenceRevoked, EC_EvidenceMalformed
     , EC_EvidenceIntegrityFailure, EC_ArtifactMismatch, EC_DigestMismatch, EC_ArtifactQuarantined
     , EC_ArtifactRevoked, EC_ArtifactSuperseded, EC_ArtifactRetired, EC_PolicyViolation
     , EC_TransitionIllegal, EC_CompatibilityFailed, EC_ProvenanceMissing, EC_ProvenanceMismatch
     , EC_SecurityVeto, EC_DependencyVeto, EC_ApprovalRequired, EC_NotAuthorized, EC_Conflict]"

section \<open>Bounded diagnostic text\<close>

definition kCapacity :: nat where "kCapacity = 192"
definition kMaxNameLength :: nat where "kMaxNameLength = 128"
definition kMaxTextLength :: nat where "kMaxTextLength = 512"
definition kMaxReferenceLength :: nat where "kMaxReferenceLength = 256"

text \<open>\<open>StaticString(std::string_view)\<close>: the first \<open>kCapacity\<close> characters.\<close>

definition static_string :: "string \<Rightarrow> string" where
  "static_string s = take kCapacity s"

text \<open>\<open>StaticString(const char*)\<close> stops at the first NUL character.\<close>

definition static_string_c :: "string \<Rightarrow> string" where
  "static_string_c s = take kCapacity (takeWhile (\<lambda>c. c \<noteq> char_of (0::nat)) s)"

text \<open>Diagnostic texts are opaque to rewriting: the simplifier does not enter them.\<close>

lemma static_string_opaque [cong]: "static_string s = static_string s"
  by (rule refl)

lemma length_static_string: "length (static_string s) \<le> kCapacity"
  by (simp add: static_string_def)

lemma static_string_idem: "static_string (static_string s) = static_string s"
  by (simp add: static_string_def)

section \<open>Status, reason and result\<close>

datatype Status = Status (status_code: ErrorCode) (status_message: string) (status_subject: string)

definition success :: Status where
  "success = Status EC_Ok [] []"

definition make_status :: "ErrorCode \<Rightarrow> string \<Rightarrow> string \<Rightarrow> Status" where
  "make_status code message subject = Status code (static_string message) subject"

abbreviation fail :: "ErrorCode \<Rightarrow> string \<Rightarrow> Status" where
  "fail code message \<equiv> make_status code message []"

definition status_ok :: "Status \<Rightarrow> bool" where
  "status_ok s \<longleftrightarrow> status_code s = EC_Ok"

definition status_failed :: "Status \<Rightarrow> bool" where
  "status_failed s \<longleftrightarrow> status_code s \<noteq> EC_Ok"

datatype Reason = Reason (reason_code: ErrorCode) (reason_text: string) (reason_subject: string)

definition make_reason :: "ErrorCode \<Rightarrow> string \<Rightarrow> string \<Rightarrow> Reason" where
  "make_reason code message subject = Reason code (static_string message) subject"

definition render_parts :: "ErrorCode \<Rightarrow> string \<Rightarrow> string \<Rightarrow> string" where
  "render_parts code text subject =
     error_code_to_string code
     @ (if text = [] then [] else '': '' @ text)
     @ (if subject = [] then [] else '' [subject='' @ subject @ '']'')"

definition reason_render :: "Reason \<Rightarrow> string" where
  "reason_render r = render_parts (reason_code r) (reason_text r) (reason_subject r)"

definition status_render :: "Status \<Rightarrow> string" where
  "status_render s = render_parts (status_code s) (status_message s) (status_subject s)"

type_synonym 'a Result = "Status + 'a"

lemma status_simps [simp]:
  "status_code success = EC_Ok"
  "status_code (make_status c m s) = c"
  "status_ok success"
  "\<not> status_failed success"
  "status_ok (make_status c m s) \<longleftrightarrow> c = EC_Ok"
  "status_failed (make_status c m s) \<longleftrightarrow> c \<noteq> EC_Ok"
  by (simp_all add: success_def make_status_def status_ok_def status_failed_def)

lemma status_failed_iff: "status_failed s \<longleftrightarrow> \<not> status_ok s"
  by (simp add: status_failed_def status_ok_def)

text \<open>A chain of validation checks returns the first failure, as the early returns do.\<close>

fun first_failure :: "(bool \<times> Status) list \<Rightarrow> Status" where
  "first_failure [] = success"
| "first_failure ((failed, st) # checks) = (if failed then st else first_failure checks)"

end
