(* ===== verification/Bytes.thy ===== *)
theory Bytes
  imports Errors
begin

text \<open>
  Bounded byte views, hexadecimal text, checked arithmetic, little-endian primitives and text
  validation (\<open>include/artifact_promotion/bytes.hpp\<close>, \<open>src/core/bytes.cpp\<close>).
  \<open>std::size_t\<close> is 64 bits wide.
\<close>

section \<open>Hexadecimal text\<close>

definition kHexDigits :: string where
  "kHexDigits = ''0123456789abcdef''"

definition hex_value :: "char \<Rightarrow> int" where
  "hex_value c =
     (let v = (of_char c :: nat) in
      if 48 \<le> v \<and> v \<le> 57 then int v - 48
      else if 97 \<le> v \<and> v \<le> 102 then int v - 97 + 10
      else - 1)"

definition hex_pair :: "u8 \<Rightarrow> string" where
  "hex_pair b = [kHexDigits ! unat (drop_bit 4 b), kHexDigits ! unat (b AND 0x0F)]"

definition to_hex :: "bytes \<Rightarrow> string" where
  "to_hex data = concat (map hex_pair data)"

fun from_hex_pairs :: "string \<Rightarrow> bytes option" where
  "from_hex_pairs (h # l # text) =
     (let high = hex_value h; low = hex_value l in
      if high < 0 \<or> low < 0 then None
      else map_option ((#) (word_of_int (push_bit 4 high OR low))) (from_hex_pairs text))"
| "from_hex_pairs _ = Some []"

definition from_hex :: "string \<Rightarrow> bytes option" where
  "from_hex text = (if length text mod 2 \<noteq> 0 then None else from_hex_pairs text)"

definition is_lower_hex :: "string \<Rightarrow> bool" where
  "is_lower_hex text \<longleftrightarrow>
     list_all (\<lambda>c. let v = (of_char c :: nat) in (48 \<le> v \<and> v \<le> 57) \<or> (97 \<le> v \<and> v \<le> 102)) text"

section \<open>Checked arithmetic\<close>

definition checked_add :: "u64 \<Rightarrow> u64 \<Rightarrow> u64 option" where
  "checked_add lhs rhs = (if rhs > - 1 - lhs then None else Some (lhs + rhs))"

definition checked_mul :: "u64 \<Rightarrow> u64 \<Rightarrow> u64 option" where
  "checked_mul lhs rhs =
     (if lhs \<noteq> 0 \<and> rhs > (- 1) div lhs then None else Some (lhs * rhs))"

definition checked_limit :: "u64 \<Rightarrow> u64 \<Rightarrow> u64 option" where
  "checked_limit value limit = (if value > limit then None else Some value)"

section \<open>Little-endian primitives\<close>

definition store_u16 :: "u16 \<Rightarrow> bytes" where
  "store_u16 v = [ucast (v AND 0xFF), ucast (drop_bit 8 v AND 0xFF)]"

definition store_u32 :: "u32 \<Rightarrow> bytes" where
  "store_u32 v = map (\<lambda>shift. ucast (drop_bit shift v AND 0xFF)) [0, 8, 16, 24]"

definition store_u64 :: "u64 \<Rightarrow> bytes" where
  "store_u64 v = map (\<lambda>shift. ucast (drop_bit shift v AND 0xFF)) [0, 8, 16, 24, 32, 40, 48, 56]"

text \<open>The loaders read a fixed number of bytes from the front of the region.\<close>

fun load_u16 :: "bytes \<Rightarrow> u16" where
  "load_u16 (a # b # _) = ucast a OR push_bit 8 (ucast b)"
| "load_u16 _ = 0"

fun load_le :: "nat \<Rightarrow> bytes \<Rightarrow> 'a::len word" where
  "load_le shift [] = 0"
| "load_le shift (b # bs) = push_bit shift (ucast b) OR load_le (shift + 8) bs"

definition load_u32 :: "bytes \<Rightarrow> u32" where
  "load_u32 data = load_le 0 (take 4 data)"

definition load_u64 :: "bytes \<Rightarrow> u64" where
  "load_u64 data = load_le 0 (take 8 data)"

definition store_string :: "string \<Rightarrow> bytes" where
  "store_string text = store_u32 (of_nat (length text)) @ string_bytes text"

section \<open>Text validation\<close>

definition is_valid_name :: "string \<Rightarrow> bool" where
  "is_valid_name text \<longleftrightarrow>
     text \<noteq> [] \<and> length text \<le> kMaxNameLength \<and>
     list_all (\<lambda>c. let v = (of_char c :: nat) in
       (97 \<le> v \<and> v \<le> 122) \<or> (65 \<le> v \<and> v \<le> 90) \<or> (48 \<le> v \<and> v \<le> 57)
       \<or> c \<in> set ''_-./:'') text"

definition is_valid_text :: "string \<Rightarrow> bool" where
  "is_valid_text text \<longleftrightarrow>
     length text \<le> kMaxTextLength \<and>
     list_all (\<lambda>c. let byte = (of_char c :: nat) in \<not> (byte < 0x20 \<or> byte = 0x7F)) text"

definition fnv1a64 :: "bytes \<Rightarrow> u64" where
  "fnv1a64 data =
     foldl (\<lambda>hash b. (hash XOR ucast b) * 0x100000001B3) 0xCBF29CE484222325 data"

section \<open>Properties\<close>

subsection \<open>Hexadecimal round trip\<close>

lemma nibble_cases:
  fixes n :: nat
  assumes "n < 16"
  shows "hex_value (kHexDigits ! n) = int n"
proof -
  from assms have "n \<in> set [0..<16]" by simp
  moreover have "list_all (\<lambda>n. hex_value (kHexDigits ! n) = int n) [0..<16]"
    by code_simp
  ultimately show ?thesis by (simp only: list_all_iff)
qed

lemma nibbles_of_byte:
  fixes b :: u8
  shows "unat (drop_bit 4 b) < 16" and "unat (b AND 0x0F) < 16"
    and "word_of_int (push_bit 4 (int (unat (drop_bit 4 b))) OR int (unat (b AND 0x0F))) = b"
proof -
  have "unat (drop_bit 4 b) = unat b div 16"
    by (simp only: unat_drop_bit_eq drop_bit_eq_div) (simp add: unat_div_distrib)
  moreover have "unat b < 256" using unsigned_less [of b, where 'a = nat] by simp
  ultimately show "unat (drop_bit 4 b) < 16" by simp
  have mask: "(0x0F :: u8) = mask 4" by (simp add: mask_eq_exp_minus_1)
  have "unat (b AND 0x0F) = unat b mod 16"
    unfolding mask by (simp add: unsigned_take_bit_eq take_bit_eq_mod unat_mod_distrib flip: take_bit_eq_mask)
  then show "unat (b AND 0x0F) < 16" by simp
  show "word_of_int (push_bit 4 (int (unat (drop_bit 4 b))) OR int (unat (b AND 0x0F))) = b"
    unfolding mask
    by (rule bit_word_eqI)
      (auto simp: bit_simps simp flip: take_bit_eq_mask)
qed

lemma from_hex_pairs_hex_pair:
  "from_hex_pairs (hex_pair b @ text) = map_option ((#) b) (from_hex_pairs text)"
proof -
  have "hex_value (kHexDigits ! unat (drop_bit 4 b)) = int (unat (drop_bit 4 b))"
    and "hex_value (kHexDigits ! unat (b AND 0x0F)) = int (unat (b AND 0x0F))"
    by (rule nibble_cases, rule nibbles_of_byte)+
  then show ?thesis
    using nibbles_of_byte(3) [of b]
    by (simp only: hex_pair_def append.simps from_hex_pairs.simps Let_def) simp
qed

lemma from_hex_pairs_to_hex: "from_hex_pairs (to_hex bs) = Some bs"
  by (induction bs) (simp_all add: to_hex_def from_hex_pairs_hex_pair)

lemma length_to_hex [simp]: "length (to_hex bs) = 2 * length bs"
  by (induction bs) (simp_all add: to_hex_def hex_pair_def)

lemma from_hex_to_hex: "from_hex (to_hex bs) = Some bs"
  by (simp add: from_hex_def from_hex_pairs_to_hex)

subsection \<open>Little-endian round trips\<close>

lemma length_store [simp]:
  "length (store_u16 a) = 2" "length (store_u32 b) = 4" "length (store_u64 c) = 8"
  by (simp_all add: store_u16_def store_u32_def store_u64_def)

lemma bit_load_le:
  "bit (load_le s bs :: 'a::len word) n \<longleftrightarrow>
     n < LENGTH('a) \<and> s \<le> n \<and> (n - s) div 8 < length bs \<and> bit (bs ! ((n - s) div 8)) ((n - s) mod 8)"
proof (induction bs arbitrary: s)
  case Nil
  then show ?case by simp
next
  case (Cons b bs)
  have low: "bit b (n - s) \<longleftrightarrow> n - s < 8 \<and> bit b (n - s)"
    using bit_imp_le_length [of b "n - s"] by auto
  show ?case
  proof (cases "s \<le> n \<and> s + 8 \<le> n")
    case True
    then have "(n - s) div 8 = Suc ((n - (s + 8)) div 8) \<and> (n - s) mod 8 = (n - (s + 8)) mod 8"
      by (auto simp: le_div_geq le_mod_geq)
    with True low show ?thesis
      by (auto simp: Cons.IH bit_simps)
  next
    case False
    then have "s \<le> n \<Longrightarrow> (n - s) div 8 = 0 \<and> (n - s) mod 8 = n - s"
      by auto
    with False show ?thesis
      by (auto simp: Cons.IH bit_simps)
  qed
qed

lemma load_le_store:
  fixes v :: "'a::len word"
  assumes "length bs * 8 = LENGTH('a)"
    and "\<And>j. j < length bs \<Longrightarrow> bs ! j = ucast (drop_bit (8 * j) v)"
  shows "load_le 0 bs = v"
proof (rule bit_word_eqI)
  fix n assume n: "n < LENGTH('a)"
  then have "n div 8 < length bs" using assms(1) by simp
  moreover have "8 * (n div 8) + n mod 8 = n" by simp
  ultimately show "bit (load_le 0 bs :: 'a word) n = bit v n"
    using n by (simp add: bit_load_le assms(2) bit_simps del: mult_div_mod_eq)
qed

lemma ucast_and_255: "(ucast (w AND 0xFF) :: u8) = ucast (w :: 'a::len word)"
proof -
  have mask: "(0xFF :: 'a word) = mask 8" by (simp add: mask_eq_exp_minus_1)
  show ?thesis
    unfolding mask by (rule bit_word_eqI) (auto simp: bit_simps dest: bit_imp_le_length)
qed

lemma less_Suc_cases: "j < Suc n \<longleftrightarrow> j = n \<or> j < n" for j n :: nat
  by auto

lemma load_u16_store: "load_u16 (store_u16 v @ rest) = v"
proof -
  have "load_u16 (store_u16 v @ rest) = load_le 0 (store_u16 v)"
    by (simp add: store_u16_def)
  also have "\<dots> = v"
    by (rule load_le_store) (auto simp: store_u16_def ucast_and_255 numeral_2_eq_2 less_Suc_cases)
  finally show ?thesis .
qed

lemma load_u32_store: "load_u32 (store_u32 v @ rest) = v"
proof -
  have "load_le 0 (store_u32 v) = v"
    by (rule load_le_store)
      (auto simp: store_u32_def ucast_and_255 eval_nat_numeral less_Suc_cases simp del: drop_bit_numeral_bit0)
  then show ?thesis by (simp add: load_u32_def)
qed

lemma load_u64_store: "load_u64 (store_u64 v @ rest) = v"
proof -
  have "load_le 0 (store_u64 v) = v"
    by (rule load_le_store)
      (auto simp: store_u64_def ucast_and_255 eval_nat_numeral less_Suc_cases)
  then show ?thesis by (simp add: load_u64_def)
qed

subsection \<open>Checked arithmetic\<close>

lemma checked_add_iff:
  "checked_add a b = (if unat a + unat b < 2 ^ 64 then Some (a + b) else None)"
proof -
  have bound: "unat a < 2 ^ 64" using unsigned_less [of a, where 'a = nat] by simp
  have "unat (- 1 - a) = 2 ^ 64 - 1 - unat a"
    using bound by (auto simp: unat_sub_if' unsigned_minus_1_eq_mask mask_eq_exp_minus_1)
  moreover note bound
  ultimately show ?thesis
    by (auto simp: checked_add_def word_less_nat_alt)
qed

lemma checked_add_Some: "checked_add a b = Some c \<Longrightarrow> unat c = unat a + unat b"
  by (auto simp: checked_add_iff unat_word_ariths split: if_splits)

end
