(* ===== verification/Identities.thy ===== *)
theory Identities
  imports Bytes
begin

text \<open>
  Strongly typed identity domains, monotone counters and the identity generator
  (\<open>include/artifact_promotion/identity.hpp\<close>, \<open>src/core/identity.cpp\<close>).  A phantom type
  parameter plays the part of the tag: identities of two domains have different types.
\<close>

section \<open>Identities\<close>

datatype 'tag Identity = Identity (high: u64) (low: u64)

definition null_id :: "'tag Identity" where
  "null_id = Identity 0 0"

definition id_valid :: "'tag Identity \<Rightarrow> bool" where
  "id_valid i \<longleftrightarrow> high i \<noteq> 0 \<or> low i \<noteq> 0"

abbreviation id_invalid :: "'tag Identity \<Rightarrow> bool" where
  "id_invalid i \<equiv> \<not> id_valid i"

instantiation Identity :: (type) linorder
begin

definition less_Identity :: "'a Identity \<Rightarrow> 'a Identity \<Rightarrow> bool" where
  "less_Identity lhs rhs \<longleftrightarrow>
     (if high lhs \<noteq> high rhs then high lhs < high rhs else low lhs < low rhs)"

definition less_eq_Identity :: "'a Identity \<Rightarrow> 'a Identity \<Rightarrow> bool" where
  "less_eq_Identity lhs rhs \<longleftrightarrow>
     \<not> (if high rhs \<noteq> high lhs then high rhs < high lhs else low rhs < low lhs)"

instance
  by standard
    (auto simp: less_Identity_def less_eq_Identity_def not_less split: if_splits
      intro: Identity.expand)

end

text \<open>The big-endian byte image used by canonical rendering.\<close>

definition be_u64 :: "u64 \<Rightarrow> bytes" where
  "be_u64 w = map (\<lambda>i. ucast (drop_bit (8 * (7 - i)) w AND 0xFF)) [0..<8]"

definition write_bytes :: "'tag Identity \<Rightarrow> bytes" where
  "write_bytes i = be_u64 (high i) @ be_u64 (low i)"

definition render_hex128 :: "u64 \<Rightarrow> u64 \<Rightarrow> string" where
  "render_hex128 h l = to_hex (be_u64 h @ be_u64 l)"

fun parse_hex_half :: "string \<Rightarrow> u64 \<Rightarrow> u64 option" where
  "parse_hex_half [] v = Some v"
| "parse_hex_half (c # text) v =
     (if hex_value c < 0 then None
      else parse_hex_half text (push_bit 4 v OR word_of_int (hex_value c)))"

definition parse_hex128 :: "string \<Rightarrow> (u64 \<times> u64) option" where
  "parse_hex128 text =
     (if length text \<noteq> 32 then None
      else case parse_hex_half (take 16 text) 0 of
        None \<Rightarrow> None
      | Some h \<Rightarrow> (case parse_hex_half (drop 16 text) 0 of None \<Rightarrow> None | Some l \<Rightarrow> Some (h, l)))"

definition id_to_string :: "'tag Identity \<Rightarrow> string" where
  "id_to_string i = render_hex128 (high i) (low i)"

definition id_parse :: "string \<Rightarrow> 'tag Identity option" where
  "id_parse text =
     (case parse_hex128 text of
        None \<Rightarrow> None
      | Some (h, l) \<Rightarrow> if h = 0 \<and> l = 0 then None else Some (Identity h l))"

section \<open>The identity domains\<close>

datatype ArtifactIdTag = ArtifactIdTag
datatype ArtifactDigestTag = ArtifactDigestTag
datatype ArtifactRevisionTag = ArtifactRevisionTag
datatype ArtifactInstanceIdTag = ArtifactInstanceIdTag
datatype PromotionRequestIdTag = PromotionRequestIdTag
datatype PromotionAttemptIdTag = PromotionAttemptIdTag
datatype PromotionDecisionIdTag = PromotionDecisionIdTag
datatype PromotionPlanIdTag = PromotionPlanIdTag
datatype PromotionPolicyIdTag = PromotionPolicyIdTag
datatype EvidenceIdTag = EvidenceIdTag
datatype WorkerIdTag = WorkerIdTag
datatype WorkerBootIdTag = WorkerBootIdTag
datatype CoordinatorIdTag = CoordinatorIdTag
datatype CompatibilityProfileIdTag = CompatibilityProfileIdTag
datatype AuthorityIdTag = AuthorityIdTag
datatype TransitionIdTag = TransitionIdTag
datatype ReservationIdTag = ReservationIdTag
datatype ProvenanceRefTag = ProvenanceRefTag

type_synonym ArtifactId = "ArtifactIdTag Identity"
type_synonym ArtifactDigestId = "ArtifactDigestTag Identity"
type_synonym ArtifactRevision = "ArtifactRevisionTag Identity"
type_synonym PromotionRequestId = "PromotionRequestIdTag Identity"
type_synonym PromotionAttemptId = "PromotionAttemptIdTag Identity"
type_synonym PromotionDecisionId = "PromotionDecisionIdTag Identity"
type_synonym PromotionPlanId = "PromotionPlanIdTag Identity"
type_synonym PromotionPolicyId = "PromotionPolicyIdTag Identity"
type_synonym EvidenceId = "EvidenceIdTag Identity"
type_synonym WorkerId = "WorkerIdTag Identity"
type_synonym WorkerBootId = "WorkerBootIdTag Identity"
type_synonym CoordinatorId = "CoordinatorIdTag Identity"
type_synonym CompatibilityProfileId = "CompatibilityProfileIdTag Identity"
type_synonym AuthorityId = "AuthorityIdTag Identity"
type_synonym TransitionId = "TransitionIdTag Identity"
type_synonym ReservationId = "ReservationIdTag Identity"
type_synonym ProvenanceRef = "ProvenanceRefTag Identity"

section \<open>Counters\<close>

datatype 'tag Counter = Counter (counter_value: u64)

definition counter_valid :: "'tag Counter \<Rightarrow> bool" where
  "counter_valid c \<longleftrightarrow> counter_value c \<noteq> 0"

text \<open>\<open>Counter::next()\<close> saturates at the largest value.\<close>

definition counter_next :: "'tag Counter \<Rightarrow> 'tag Counter" where
  "counter_next c =
     (let v = counter_value c in Counter (if v = 0xFFFFFFFFFFFFFFFF then v else v + 1))"

definition counter_to_string :: "'tag Counter \<Rightarrow> string" where
  "counter_to_string c = u64_to_string (counter_value c)"

instantiation Counter :: (type) linorder
begin

definition less_Counter :: "'a Counter \<Rightarrow> 'a Counter \<Rightarrow> bool" where
  "less_Counter lhs rhs \<longleftrightarrow> counter_value lhs < counter_value rhs"

definition less_eq_Counter :: "'a Counter \<Rightarrow> 'a Counter \<Rightarrow> bool" where
  "less_eq_Counter lhs rhs \<longleftrightarrow> \<not> counter_value rhs < counter_value lhs"

instance
  by standard (auto simp: less_Counter_def less_eq_Counter_def not_less intro: Counter.expand)

end

datatype ArtifactGenerationTag = ArtifactGenerationTag
datatype PolicyGenerationTag = PolicyGenerationTag
datatype EvidenceGenerationTag = EvidenceGenerationTag
datatype CoordinatorEpochTag = CoordinatorEpochTag
datatype StageGenerationTag = StageGenerationTag
datatype CommitSequenceTag = CommitSequenceTag
datatype CompatibilityGenerationTag = CompatibilityGenerationTag
datatype DecisionSequenceTag = DecisionSequenceTag

type_synonym ArtifactGeneration = "ArtifactGenerationTag Counter"
type_synonym PolicyGeneration = "PolicyGenerationTag Counter"
type_synonym EvidenceGeneration = "EvidenceGenerationTag Counter"
type_synonym CoordinatorEpoch = "CoordinatorEpochTag Counter"
type_synonym StageGeneration = "StageGenerationTag Counter"
type_synonym CommitSequence = "CommitSequenceTag Counter"
type_synonym CompatibilityGeneration = "CompatibilityGenerationTag Counter"
type_synonym DecisionSequence = "DecisionSequenceTag Counter"

section \<open>The identity generator\<close>

datatype 'tag IdentityGenerator = IdentityGenerator (gen_salt: u64) (gen_counter: u64)

definition gen_default :: "'tag IdentityGenerator" where
  "gen_default = IdentityGenerator 1 0"

definition gen_new :: "u64 \<Rightarrow> 'tag IdentityGenerator" where
  "gen_new salt = IdentityGenerator (if salt = 0 then 1 else salt) 0"

definition gen_next :: "'tag IdentityGenerator \<Rightarrow> 'tag Identity \<times> 'tag IdentityGenerator" where
  "gen_next g =
     (let c = gen_counter g + 1 in
      if c = 0 then
        (let s = gen_salt g + 1; s' = (if s = 0 then 1 else s) in
         (Identity s' 1, IdentityGenerator s' 1))
      else (Identity (gen_salt g) c, IdentityGenerator (gen_salt g) c))"

definition resume_after :: "u64 \<Rightarrow> u64 \<Rightarrow> 'tag IdentityGenerator" where
  "resume_after salt counter = IdentityGenerator (if salt = 0 then 1 else salt) counter"

definition observe_existing :: "u64 \<Rightarrow> u64 \<Rightarrow> 'tag IdentityGenerator \<Rightarrow> 'tag IdentityGenerator" where
  "observe_existing salt counter g =
     (if salt \<noteq> gen_salt g then g
      else if counter > gen_counter g then IdentityGenerator (gen_salt g) counter
      else g)"

section \<open>Properties\<close>

subsection \<open>Canonical rendering\<close>

lemma load_le_shift: "load_le (s + t) bs = (push_bit t (load_le s bs) :: 'a::len word)"
proof (induction bs arbitrary: s)
  case (Cons b bs)
  have "load_le (s + t + 8) bs = (push_bit t (load_le (s + 8) bs) :: 'a word)"
    using Cons.IH [of "s + 8"] by (simp add: ac_simps)
  then show ?case by (simp add: push_bit_or push_bit_push_bit add.commute)
qed simp

lemma foldl_be_load_le:
  "foldl (\<lambda>v b. push_bit 8 v OR ucast b) 0 bs = (load_le 0 (rev bs) :: 'a::len word)"
proof (induction bs rule: rev_induct)
  case (snoc b bs)
  have "(load_le 8 (rev bs) :: 'a word) = push_bit 8 (load_le 0 (rev bs))"
    using load_le_shift [of 0 8 "rev bs"] by simp
  with snoc show ?case by (simp add: or.commute)
qed simp

lemma length_be_u64 [simp]: "length (be_u64 w) = 8"
  by (simp add: be_u64_def)

lemma foldl_be_u64: "foldl (\<lambda>v b. push_bit 8 v OR ucast b) 0 (be_u64 w) = (w :: u64)"
proof -
  have "load_le 0 (rev (be_u64 w)) = w"
  proof (rule load_le_store)
    fix j assume "j < length (rev (be_u64 w))"
    then have "j < 8" by simp
    then have "[0..<8] ! (7 - j) = 7 - j" and "7 - (7 - j) = j"
      by (simp_all add: nth_upt)
    with \<open>j < 8\<close> show "rev (be_u64 w) ! j = ucast (drop_bit (8 * j) w)"
      by (simp add: be_u64_def rev_nth ucast_and_255 del: upt_Suc upt_rec_numeral)
  qed simp
  then show ?thesis by (simp add: foldl_be_load_le)
qed

lemma byte_shift_nibbles:
  fixes v :: u64 and b :: u8
  shows "push_bit 4 (push_bit 4 v OR word_of_int (int (unat (drop_bit 4 b))))
           OR word_of_int (int (unat (b AND 0x0F)))
         = push_bit 8 v OR ucast b"
proof -
  have mask: "(0x0F :: u8) = mask 4" by (simp add: mask_eq_exp_minus_1)
  show ?thesis
    unfolding mask
    by (rule bit_word_eqI) (auto simp: bit_simps dest: bit_imp_le_length simp flip: take_bit_eq_mask)
qed

lemma parse_hex_half_to_hex:
  "parse_hex_half (to_hex bs) v = Some (foldl (\<lambda>v b. push_bit 8 v OR ucast b) v bs)"
proof (induction bs arbitrary: v)
  case (Cons b bs)
  have "hex_value (kHexDigits ! unat (drop_bit 4 b)) = int (unat (drop_bit 4 b))"
    and "hex_value (kHexDigits ! unat (b AND 0x0F)) = int (unat (b AND 0x0F))"
    by (rule nibble_cases, rule nibbles_of_byte)+
  then have "parse_hex_half (hex_pair b @ to_hex bs) v = parse_hex_half (to_hex bs) (push_bit 8 v OR ucast b)"
    by (simp only: hex_pair_def append.simps parse_hex_half.simps byte_shift_nibbles) simp
  with Cons.IH show ?case by (simp add: to_hex_def)
qed (simp add: to_hex_def)

lemma to_hex_append: "to_hex (a @ b) = to_hex a @ to_hex b"
  by (simp add: to_hex_def)

lemma parse_render_hex128: "parse_hex128 (render_hex128 h l) = Some (h, l)"
  by (simp add: parse_hex128_def render_hex128_def to_hex_append parse_hex_half_to_hex foldl_be_u64)

lemma id_parse_to_string: "id_parse (id_to_string i) = (if id_valid i then Some i else None)"
  by (cases i) (simp add: id_parse_def id_to_string_def parse_render_hex128 id_valid_def)

lemma id_to_string_inject: "id_to_string i = id_to_string j \<longleftrightarrow> i = j"
  by (metis id_to_string_def parse_render_hex128 Pair_inject option.inject Identity.expand)

subsection \<open>Counters never move backwards\<close>

lemma counter_next_value:
  "unat (counter_value (counter_next c)) = min (unat (counter_value c) + 1) (2 ^ 64 - 1)"
proof -
  let ?v = "counter_value c"
  have bound: "unat ?v < 2 ^ 64" using unsigned_less [of ?v, where 'a = nat] by simp
  have top: "?v = 0xFFFFFFFFFFFFFFFF \<longleftrightarrow> unat ?v = 2 ^ 64 - 1"
    by (simp add: word_unat_eq_iff)
  show ?thesis
  proof (cases "?v = 0xFFFFFFFFFFFFFFFF")
    case True
    then show ?thesis by (simp add: counter_next_def)
  next
    case False
    with bound top have "unat (?v + 1) = unat ?v + 1"
      by (simp add: unat_word_ariths)
    with False bound top show ?thesis by (simp add: counter_next_def)
  qed
qed

lemma counter_next_ge: "c \<le> counter_next c"
  by (simp add: less_eq_Counter_def not_less word_le_nat_alt counter_next_value)
    (use unsigned_less [of "counter_value c", where 'a = nat] in simp)

lemma counter_next_greater: "counter_value c \<noteq> 0xFFFFFFFFFFFFFFFF \<Longrightarrow> c < counter_next c"
  using counter_next_value [of c] unsigned_less [of "counter_value c", where 'a = nat]
  by (simp add: less_Counter_def word_less_nat_alt word_unat_eq_iff)

lemma counter_next_valid [simp]: "counter_valid (counter_next c)"
  using counter_next_value [of c] by (auto simp: counter_valid_def)

subsection \<open>Freshness of generated identities\<close>

text \<open>
  What a client relies on: as long as the source is not exhausted, the next identity lies strictly
  beyond everything handed out before.
\<close>

locale id_source =
  fixes fresh :: "'g \<Rightarrow> 'i::linorder \<times> 'g"
    and last_issued :: "'g \<Rightarrow> 'i"
    and live :: "'g \<Rightarrow> bool"
  assumes fresh_beyond: "live g \<Longrightarrow> last_issued g < fst (fresh g)"
    and fresh_last: "live g \<Longrightarrow> last_issued (snd (fresh g)) = fst (fresh g)"
begin

fun issue :: "nat \<Rightarrow> 'g \<Rightarrow> 'i list" where
  "issue 0 g = []"
| "issue (Suc n) g = fst (fresh g) # issue n (snd (fresh g))"

fun live_for :: "nat \<Rightarrow> 'g \<Rightarrow> bool" where
  "live_for 0 g = True"
| "live_for (Suc n) g = (live g \<and> live_for n (snd (fresh g)))"

lemma issue_beyond: "live_for n g \<Longrightarrow> i \<in> set (issue n g) \<Longrightarrow> last_issued g < i"
proof (induction n arbitrary: g)
  case (Suc n)
  then show ?case
    using fresh_beyond [of g] fresh_last [of g] by fastforce
qed simp

lemma issue_increasing: "live_for n g \<Longrightarrow> sorted_wrt (<) (issue n g)"
proof (induction n arbitrary: g)
  case (Suc n)
  then show ?case
    using issue_beyond [of n "snd (fresh g)"] fresh_last [of g] by auto
qed simp

lemma issue_distinct: "live_for n g \<Longrightarrow> distinct (issue n g)"
  using issue_increasing strict_sorted_iff by blast

end

definition gen_last :: "'tag IdentityGenerator \<Rightarrow> 'tag Identity" where
  "gen_last g = Identity (gen_salt g) (gen_counter g)"

definition gen_live :: "'tag IdentityGenerator \<Rightarrow> bool" where
  "gen_live g \<longleftrightarrow> gen_salt g \<noteq> 0xFFFFFFFFFFFFFFFF \<or> gen_counter g \<noteq> 0xFFFFFFFFFFFFFFFF"

lemma word_less_succ: "w + 1 \<noteq> 0 \<Longrightarrow> w < w + 1" for w :: u64
proof -
  assume "w + 1 \<noteq> 0"
  moreover have "unat w < 2 ^ 64" using unsigned_less [of w, where 'a = nat] by simp
  ultimately have "unat (w + 1) = unat w + 1"
    by (metis Suc_eq_plus1 unatSuc add.commute)
  then show ?thesis by (simp add: word_less_nat_alt)
qed

interpretation ids: id_source gen_next gen_last gen_live
proof
  fix g :: "'tag IdentityGenerator"
  assume live: "gen_live g"
  have "gen_salt g + 1 \<noteq> 0" if "gen_counter g + 1 = 0"
  proof
    assume "gen_salt g + 1 = 0"
    with that have "gen_salt g = - 1" "gen_counter g = - 1"
      by (metis add.commute add_eq_0_iff)+
    with live show False by (simp add: gen_live_def)
  qed
  then show "gen_last g < fst (gen_next g)"
    by (auto simp: gen_next_def gen_last_def less_Identity_def Let_def word_less_succ)
  show "gen_last (snd (gen_next g)) = fst (gen_next g)"
    by (simp add: gen_next_def gen_last_def Let_def)
qed

lemma gen_next_valid: "id_valid (fst (gen_next g))"
  by (auto simp: gen_next_def id_valid_def Let_def)

lemma observe_existing_beyond:
  assumes "gen_salt g = salt" and "gen_counter (observe_existing salt c g) \<noteq> 0xFFFFFFFFFFFFFFFF"
  shows "Identity salt c < fst (gen_next (observe_existing salt c g))"
proof -
  let ?g = "observe_existing salt c g"
  have "c \<le> gen_counter ?g" and "gen_salt ?g = salt"
    using assms(1) by (auto simp: observe_existing_def not_less)
  then have "Identity salt c \<le> gen_last ?g"
    by (auto simp: gen_last_def less_eq_Identity_def not_less)
  also have "\<dots> < fst (gen_next ?g)"
    using assms(2) by (intro ids.fresh_beyond) (simp add: gen_live_def)
  finally show ?thesis .
qed

text \<open>
  A counter saturates: the successor is one more until the largest 64-bit value and stays there, so a generation
  never wraps to an older one.
\<close>

theorem counter_saturates:
  "unat (counter_value (counter_next c)) = min (unat (counter_value c) + 1) (2 ^ 64 - 1)"
  by (rule counter_next_value)

end
