(* ===== verification/Sha256.thy ===== *)
theory Sha256
  imports Identities
begin

text \<open>
  SHA-256 content identity (\<open>include/artifact_promotion/sha256.hpp\<close>,
  \<open>src/core/sha256.cpp\<close>): the digest value, the incremental hasher with its 64-byte buffer, and
  the one-shot functions.  The incremental hasher is shown to compute the fold of the compression
  function over the padded message, however the message is cut into updates.
\<close>

section \<open>Digests\<close>

definition kSha256DigestSize :: nat where "kSha256DigestSize = 32"

datatype Digest = Digest (digest_bytes: bytes)

text \<open>A default-constructed digest holds 32 zero bytes.\<close>

definition null_digest :: Digest where
  "null_digest = Digest (replicate 32 0)"

definition from_raw :: "bytes \<Rightarrow> Digest" where
  "from_raw raw = Digest (take kSha256DigestSize raw)"

definition digest_valid :: "Digest \<Rightarrow> bool" where
  "digest_valid d \<longleftrightarrow> list_ex (\<lambda>b. b \<noteq> 0) (digest_bytes d)"

abbreviation digest_invalid :: "Digest \<Rightarrow> bool" where
  "digest_invalid d \<equiv> \<not> digest_valid d"

definition digest_to_string :: "Digest \<Rightarrow> string" where
  "digest_to_string d = to_hex (digest_bytes d)"

definition digest_parse :: "string \<Rightarrow> Digest option" where
  "digest_parse text =
     (if length text \<noteq> kSha256DigestSize * 2 then None
      else case from_hex text of
        None \<Rightarrow> None
      | Some raw \<Rightarrow>
          if length raw \<noteq> kSha256DigestSize then None
          else if digest_valid (Digest raw) then Some (Digest raw) else None)"

definition to_identity :: "Digest \<Rightarrow> ArtifactDigestId" where
  "to_identity d =
     (let h = foldl (\<lambda>v b. push_bit 8 v OR ucast b) 0 (take 8 (digest_bytes d));
          l = foldl (\<lambda>v b. push_bit 8 v OR ucast b) 0 (take 8 (drop 8 (digest_bytes d)))
      in if h = 0 \<and> l = 0 then Identity h 1 else Identity h l)"

section \<open>The compression function\<close>

definition kRoundConstants :: "u32 list" where
  "kRoundConstants =
    [0x428A2F98, 0x71374491, 0xB5C0FBCF, 0xE9B5DBA5, 0x3956C25B, 0x59F111F1, 0x923F82A4, 0xAB1C5ED5,
     0xD807AA98, 0x12835B01, 0x243185BE, 0x550C7DC3, 0x72BE5D74, 0x80DEB1FE, 0x9BDC06A7, 0xC19BF174,
     0xE49B69C1, 0xEFBE4786, 0x0FC19DC6, 0x240CA1CC, 0x2DE92C6F, 0x4A7484AA, 0x5CB0A9DC, 0x76F988DA,
     0x983E5152, 0xA831C66D, 0xB00327C8, 0xBF597FC7, 0xC6E00BF3, 0xD5A79147, 0x06CA6351, 0x14292967,
     0x27B70A85, 0x2E1B2138, 0x4D2C6DFC, 0x53380D13, 0x650A7354, 0x766A0ABB, 0x81C2C92E, 0x92722C85,
     0xA2BFE8A1, 0xA81A664B, 0xC24B8B70, 0xC76C51A3, 0xD192E819, 0xD6990624, 0xF40E3585, 0x106AA070,
     0x19A4C116, 0x1E376C08, 0x2748774C, 0x34B0BCB5, 0x391C0CB3, 0x4ED8AA4A, 0x5B9CCA4F, 0x682E6FF3,
     0x748F82EE, 0x78A5636F, 0x84C87814, 0x8CC70208, 0x90BEFFFA, 0xA4506CEB, 0xBEF9A3F7, 0xC67178F2]"

definition rotr :: "u32 \<Rightarrow> nat \<Rightarrow> u32" where
  "rotr v amount = drop_bit amount v OR push_bit (32 - amount) v"

fun be_words :: "bytes \<Rightarrow> u32 list" where
  "be_words (a # b # c # d # bs) =
     (push_bit 24 (ucast a) OR push_bit 16 (ucast b) OR push_bit 8 (ucast c) OR ucast d) # be_words bs"
| "be_words _ = []"

text \<open>One step of the message schedule: \<open>schedule[i]\<close> from the entries before it.\<close>

definition schedule_step :: "u32 list \<Rightarrow> u32 list" where
  "schedule_step w =
     (let i = length w;
          w15 = w ! (i - 15); w2 = w ! (i - 2);
          s0 = rotr w15 7 XOR rotr w15 18 XOR drop_bit 3 w15;
          s1 = rotr w2 17 XOR rotr w2 19 XOR drop_bit 10 w2
      in w @ [w ! (i - 16) + s0 + w ! (i - 7) + s1])"

definition schedule :: "bytes \<Rightarrow> u32 list" where
  "schedule block = (schedule_step ^^ 48) (be_words block)"

type_synonym working = "u32 \<times> u32 \<times> u32 \<times> u32 \<times> u32 \<times> u32 \<times> u32 \<times> u32"

fun round_step :: "working \<Rightarrow> u32 \<times> u32 \<Rightarrow> working" where
  "round_step (a, b, c, d, e, f, g, h) (k, w) =
     (let sigma1 = rotr e 6 XOR rotr e 11 XOR rotr e 25;
          chosen = (e AND f) XOR ((NOT e) AND g);
          temp1 = h + sigma1 + chosen + k + w;
          sigma0 = rotr a 2 XOR rotr a 13 XOR rotr a 22;
          majority = (a AND b) XOR (a AND c) XOR (b AND c);
          temp2 = sigma0 + majority
      in (temp1 + temp2, a, b, c, d + temp1, e, f, g))"

definition compress :: "working \<Rightarrow> bytes \<Rightarrow> working" where
  "compress st block =
     (case (st, foldl round_step st (zip kRoundConstants (schedule block))) of
        ((s0, s1, s2, s3, s4, s5, s6, s7), (a, b, c, d, e, f, g, h)) \<Rightarrow>
          (s0 + a, s1 + b, s2 + c, s3 + d, s4 + e, s5 + f, s6 + g, s7 + h))"

section \<open>The incremental hasher\<close>

record Sha256 =
  sha_state :: working
  sha_bit_count :: u64
  sha_buffer :: bytes

definition sha_reset :: Sha256 where
  "sha_reset = \<lparr> sha_state = (0x6A09E667, 0xBB67AE85, 0x3C6EF372, 0xA54FF53A,
                               0x510E527F, 0x9B05688C, 0x1F83D9AB, 0x5BE0CD19),
                 sha_bit_count = 0, sha_buffer = [] \<rparr>"

text \<open>\<open>while (size - offset >= 64) compress(data + offset)\<close>: the state after the whole
  blocks of the region, and the bytes left over.\<close>

function absorb :: "working \<Rightarrow> bytes \<Rightarrow> working \<times> bytes" where
  "absorb st data =
     (if length data \<ge> 64 then absorb (compress st (take 64 data)) (drop 64 data) else (st, data))"
  by pat_completeness auto
termination
  by (relation "measure (\<lambda>(st, data). length data)") auto

declare absorb.simps [simp del]

definition sha_update :: "Sha256 \<Rightarrow> bytes \<Rightarrow> Sha256" where
  "sha_update s data =
     (if data = [] then s
      else
        let s = s\<lparr>sha_bit_count := sha_bit_count s + of_nat (length data) * 8\<rparr>;
            fill = (if sha_buffer s \<noteq> [] then min (64 - length (sha_buffer s)) (length data) else 0);
            s = s\<lparr>sha_buffer := sha_buffer s @ take fill data\<rparr>;
            s = (if length (sha_buffer s) = 64
                 then s\<lparr>sha_state := compress (sha_state s) (sha_buffer s), sha_buffer := []\<rparr>
                 else s);
            rest = drop fill data;
            (st, tail) = absorb (sha_state s) rest
        in s\<lparr>sha_state := st, sha_buffer := sha_buffer s @ tail\<rparr>)"

fun be_bytes32 :: "u32 \<Rightarrow> bytes" where
  "be_bytes32 w = [ucast (drop_bit 24 w AND 0xFF), ucast (drop_bit 16 w AND 0xFF),
                   ucast (drop_bit 8 w AND 0xFF), ucast (w AND 0xFF)]"

definition output_bytes :: "working \<Rightarrow> bytes" where
  "output_bytes st =
     (case st of (s0, s1, s2, s3, s4, s5, s6, s7) \<Rightarrow>
        concat (map be_bytes32 [s0, s1, s2, s3, s4, s5, s6, s7]))"

definition sha_padding :: "nat \<Rightarrow> bytes" where
  "sha_padding buffered =
     (let pad_length = (if buffered < 56 then 56 - buffered else 120 - buffered)
      in take pad_length (0x80 # replicate 71 0))"

definition sha_finish :: "Sha256 \<Rightarrow> Digest" where
  "sha_finish s =
     (let total_bits = sha_bit_count s;
          s1 = sha_update s (sha_padding (length (sha_buffer s)));
          s2 = sha_update s1 (be_u64 total_bits)
      in from_raw (output_bytes (sha_state s2)))"

definition sha256 :: "bytes \<Rightarrow> Digest" where
  "sha256 data = sha_finish (sha_update sha_reset data)"

definition digest_from_string :: "string \<Rightarrow> Digest" where
  "digest_from_string text = sha256 (string_bytes text)"

section \<open>Properties\<close>

lemma absorb_short: "length data < 64 \<Longrightarrow> absorb st data = (st, data)"
  by (subst absorb.simps) simp

lemma absorb_block: "length block = 64 \<Longrightarrow> absorb st (block @ data) = absorb (compress st block) data"
  by (subst absorb.simps) simp

lemma absorb_tail: "length (snd (absorb st data)) < 64"
proof (induction st data rule: absorb.induct)
  case (1 st data)
  then show ?case by (subst absorb.simps) auto
qed

lemma absorb_append:
  "absorb st (a @ b) = (case absorb st a of (st', tail) \<Rightarrow> absorb st' (tail @ b))"
proof (induction st a rule: absorb.induct)
  case (1 st data)
  show ?case
  proof (cases "length data \<ge> 64")
    case True
    then have "absorb st (data @ b) = absorb (compress st (take 64 data)) (drop 64 data @ b)"
      by (subst absorb.simps) simp
    with "1.IH" [OF True] True show ?thesis
      by (simp add: absorb.simps [of st data])
  next
    case False
    then show ?thesis by (simp add: absorb_short)
  qed
qed

text \<open>Between calls the buffer holds less than one block.\<close>

definition sha_wf :: "Sha256 \<Rightarrow> bool" where
  "sha_wf s \<longleftrightarrow> length (sha_buffer s) < 64"

lemma sha_wf_reset [simp]: "sha_wf sha_reset"
  by (simp add: sha_wf_def sha_reset_def)

text \<open>The buffered update is one pass of \<open>absorb\<close> over the buffer followed by the data.\<close>

lemma sha_update_absorb:
  assumes "sha_wf s"
  shows "sha_update s data =
     (case absorb (sha_state s) (sha_buffer s @ data) of (st, tail) \<Rightarrow>
        s\<lparr>sha_state := st, sha_buffer := tail,
          sha_bit_count := sha_bit_count s + of_nat (length data) * 8\<rparr>)"
proof -
  let ?n = "64 - length (sha_buffer s)"
  have len: "length (sha_buffer s) < 64" using assms by (simp add: sha_wf_def)
  consider "data = []" | "data \<noteq> []" "sha_buffer s = []"
    | "data \<noteq> []" "sha_buffer s \<noteq> []" "length data < ?n"
    | "data \<noteq> []" "sha_buffer s \<noteq> []" "length data \<ge> ?n"
    by linarith
  then show ?thesis
  proof cases
    case 1
    then show ?thesis using len by (simp add: sha_update_def absorb_short)
  next
    case 2
    then show ?thesis by (simp add: sha_update_def Let_def split: prod.split)
  next
    case 3
    then have "length (sha_buffer s @ data) < 64" by simp
    with 3 show ?thesis
      by (simp add: sha_update_def Let_def absorb_short min_def)
  next
    case 4
    let ?block = "sha_buffer s @ take ?n data"
    have block: "length ?block = 64" using 4 len by simp
    have "sha_buffer s @ data = ?block @ drop ?n data" by simp
    then have "absorb (sha_state s) (sha_buffer s @ data)
        = absorb (compress (sha_state s) ?block) (drop ?n data)"
      using absorb_block [OF block] by metis
    with 4 block show ?thesis
      by (simp add: sha_update_def Let_def min_def split: prod.split)
  qed
qed

lemma sha_wf_update: "sha_wf s \<Longrightarrow> sha_wf (sha_update s data)"
  using absorb_tail [of "sha_state s" "sha_buffer s @ data"]
  by (simp add: sha_update_absorb) (simp add: sha_wf_def case_prod_beta)

lemma sha_update_append:
  assumes "sha_wf s"
  shows "sha_update (sha_update s a) b = sha_update s (a @ b)"
proof -
  obtain st tail where ab: "absorb (sha_state s) (sha_buffer s @ a) = (st, tail)"
    by fastforce
  then have "absorb (sha_state s) (sha_buffer s @ a @ b) = absorb st (tail @ b)"
    using absorb_append [of "sha_state s" "sha_buffer s @ a" b] by simp
  then show ?thesis
    using assms ab sha_wf_update [OF assms, of a]
    by (simp add: sha_update_absorb case_prod_beta distrib_right)
qed

text \<open>The padded message: a one bit, zeros up to the last eight bytes of a block, and the
  big-endian bit length.\<close>

definition sha_padded :: "bytes \<Rightarrow> bytes" where
  "sha_padded data =
     data @ 0x80 # replicate ((119 - length data mod 64) mod 64) 0
          @ be_u64 (of_nat (length data) * 8)"

lemma absorb_length: "length (snd (absorb st data)) = length data mod 64"
proof (induction st data rule: absorb.induct)
  case (1 st data)
  then show ?case by (subst absorb.simps) (simp add: le_mod_geq)
qed

lemma sha_padding_eq: "n < 64 \<Longrightarrow> sha_padding n = 0x80 # replicate ((119 - n) mod 64) 0"
proof -
  assume n: "n < 64"
  have "(119 - n) mod 64 = (if n < 56 then 55 - n else 119 - n)"
  proof (cases "n < 56")
    case True
    then have "119 - n = (55 - n) + 64" and "55 - n < 64" by simp_all
    with True show ?thesis by (metis mod_add_self2 mod_less)
  next
    case False
    with n show ?thesis by simp
  qed
  with n show ?thesis
    by (auto simp: sha_padding_def Let_def take_Cons' min_def)
qed

lemma sha256_padded:
  "sha256 data = from_raw (output_bytes (fst (absorb (sha_state sha_reset) (sha_padded data))))"
proof -
  let ?s = "sha_update sha_reset data"
  let ?pad = "sha_padding (length (sha_buffer ?s))"
  have wf: "sha_wf ?s" by (simp add: sha_wf_update)
  have "length (sha_buffer ?s) = length data mod 64"
    by (simp add: sha_update_absorb case_prod_beta absorb_length) (simp add: sha_reset_def)
  then have pad: "?pad = 0x80 # replicate ((119 - length data mod 64) mod 64) 0"
    by (simp add: sha_padding_eq)
  have count: "sha_bit_count ?s = of_nat (length data) * 8"
    by (simp add: sha_update_absorb case_prod_beta) (simp add: sha_reset_def)
  have "sha_update (sha_update ?s ?pad) (be_u64 (sha_bit_count ?s))
      = sha_update sha_reset (sha_padded data)"
    by (simp add: sha_update_append wf sha_wf_update pad count sha_padded_def)
  then show ?thesis
    by (simp add: sha256_def sha_finish_def Let_def)
      (simp add: sha_update_absorb case_prod_beta, simp add: sha_reset_def)
qed

lemma length_output_bytes: "length (output_bytes st) = 32"
  by (simp add: output_bytes_def split: prod.split)

lemma length_sha256 [simp]: "length (digest_bytes (sha256 data)) = 32"
  by (simp add: sha256_padded from_raw_def length_output_bytes kSha256DigestSize_def)

lemma digest_parse_to_string:
  "length (digest_bytes d) = 32 \<Longrightarrow> digest_valid d \<Longrightarrow> digest_parse (digest_to_string d) = Some d"
  by (cases d) (simp add: digest_parse_def digest_to_string_def from_hex_to_hex kSha256DigestSize_def)

lemma to_identity_valid: "id_valid (to_identity d)"
  by (simp add: to_identity_def id_valid_def Let_def)

end
