(* ===== verification/Stage.thy ===== *)
theory Stage
  imports Sha256 Errors
begin

text \<open>
  Lifecycle stages and the transition graph (\<open>include/artifact_promotion/stage.hpp\<close>,
  \<open>src/domain/stage.cpp\<close>).  A \<open>std::array\<close> indexed by the stage value is a function of the
  stage; the breadth-first traversal and the topological count of \<open>LifecycleGraph::validate\<close>
  are modelled with their queues and visited flags, and terminate by a measure on the unvisited
  stages.
\<close>

section \<open>Stages\<close>

datatype Stage =
    St_Invalid | St_Candidate | St_Verified | St_Qualified | St_Staged | St_Approved | St_Promoted
  | St_Quarantined | St_Revoked | St_Superseded | St_Retired

text \<open>The stages in declaration order; the underlying value is the position.\<close>

definition all_stages :: "Stage list" where
  "all_stages = [St_Invalid, St_Candidate, St_Verified, St_Qualified, St_Staged, St_Approved,
     St_Promoted, St_Quarantined, St_Revoked, St_Superseded, St_Retired]"

fun stage_value :: "Stage \<Rightarrow> nat" where
  "stage_value St_Invalid = 0"
| "stage_value St_Candidate = 1"
| "stage_value St_Verified = 2"
| "stage_value St_Qualified = 3"
| "stage_value St_Staged = 4"
| "stage_value St_Approved = 5"
| "stage_value St_Promoted = 6"
| "stage_value St_Quarantined = 7"
| "stage_value St_Revoked = 8"
| "stage_value St_Superseded = 9"
| "stage_value St_Retired = 10"

definition kStageMin :: nat where "kStageMin = 1"
definition kStageMax :: nat where "kStageMax = 10"

definition kStageNames :: "(Stage \<times> string) list" where
  "kStageNames =
    [(St_Invalid, ''INVALID''), (St_Candidate, ''CANDIDATE''), (St_Verified, ''VERIFIED''),
     (St_Qualified, ''QUALIFIED''), (St_Staged, ''STAGED''), (St_Approved, ''APPROVED''),
     (St_Promoted, ''PROMOTED''), (St_Quarantined, ''QUARANTINED''), (St_Revoked, ''REVOKED''),
     (St_Superseded, ''SUPERSEDED''), (St_Retired, ''RETIRED'')]"

definition stage_to_string :: "Stage \<Rightarrow> string" where
  "stage_to_string stage =
     (case find (\<lambda>entry. fst entry = stage) kStageNames of
        Some entry \<Rightarrow> snd entry | None \<Rightarrow> ''INVALID'')"

definition stage_from_string :: "string \<Rightarrow> Stage option" where
  "stage_from_string text = map_option fst (find (\<lambda>entry. text = snd entry) kStageNames)"

definition is_valid_stage_value :: "nat \<Rightarrow> bool" where
  "is_valid_stage_value raw \<longleftrightarrow> kStageMin \<le> raw \<and> raw \<le> kStageMax"

definition is_terminal_failure_stage :: "Stage \<Rightarrow> bool" where
  "is_terminal_failure_stage stage \<longleftrightarrow>
     stage = St_Revoked \<or> stage = St_Retired \<or> stage = St_Superseded"

definition is_holding_stage :: "Stage \<Rightarrow> bool" where
  "is_holding_stage stage \<longleftrightarrow> stage = St_Quarantined"

interpretation stages: enumeration all_stages
  rewrites "index_in all_stages = stage_value"
proof -
  show "enumeration all_stages"
  proof
    show "distinct all_stages" by (simp add: all_stages_def)
    show "x \<in> set all_stages" for x by (cases x) (simp_all add: all_stages_def)
  qed
  show "index_in all_stages = stage_value"
  proof
    show "index_in all_stages x = stage_value x" for x
      by (cases x) (simp_all add: index_in_def all_stages_def)
  qed
qed

instantiation Stage :: linorder
begin

definition less_Stage :: "Stage \<Rightarrow> Stage \<Rightarrow> bool" where
  "less_Stage a b \<longleftrightarrow> stage_value a < stage_value b"

definition less_eq_Stage :: "Stage \<Rightarrow> Stage \<Rightarrow> bool" where
  "less_eq_Stage a b \<longleftrightarrow> stage_value a \<le> stage_value b"

instance
  by standard (auto simp: less_Stage_def less_eq_Stage_def stages.index_inject)

end

section \<open>The transition graph\<close>

datatype Edge = Edge (edge_from: Stage) (edge_to: Stage)

instantiation Edge :: linorder
begin

definition less_Edge :: "Edge \<Rightarrow> Edge \<Rightarrow> bool" where
  "less_Edge lhs rhs \<longleftrightarrow>
     (if edge_from lhs \<noteq> edge_from rhs then edge_from lhs < edge_from rhs
      else edge_to lhs < edge_to rhs)"

definition less_eq_Edge :: "Edge \<Rightarrow> Edge \<Rightarrow> bool" where
  "less_eq_Edge lhs rhs \<longleftrightarrow> \<not> rhs < lhs"

instance
  by standard
    (auto simp: less_Edge_def less_eq_Edge_def not_less split: if_splits intro: Edge.expand)

end

datatype LifecycleGraph = LifecycleGraph (edges: "Edge list")

definition kMaxEdges :: nat where "kMaxEdges = 64"

definition has_edge :: "LifecycleGraph \<Rightarrow> Stage \<Rightarrow> Stage \<Rightarrow> bool" where
  "has_edge g from to \<longleftrightarrow> list_ex (\<lambda>e. edge_from e = from \<and> edge_to e = to) (edges g)"

definition add_edge :: "LifecycleGraph \<Rightarrow> Stage \<Rightarrow> Stage \<Rightarrow> bool \<times> LifecycleGraph" where
  "add_edge g from to =
     (if from = St_Invalid \<or> to = St_Invalid then (False, g)
      else if from = to then (False, g)
      else if list_ex (\<lambda>e. edge_from e = from \<and> edge_to e = to) (edges g) then (False, g)
      else if length (edges g) \<ge> kMaxEdges then (False, g)
      else (True, LifecycleGraph (edges g @ [Edge from to])))"

definition successors :: "LifecycleGraph \<Rightarrow> Stage \<Rightarrow> Stage list" where
  "successors g from = sort (map edge_to (filter (\<lambda>e. edge_from e = from) (edges g)))"

definition canonicalize :: "LifecycleGraph \<Rightarrow> LifecycleGraph" where
  "canonicalize g = LifecycleGraph (remdups_adj (sort (edges g)))"

definition is_canonical :: "LifecycleGraph \<Rightarrow> bool" where
  "is_canonical g \<longleftrightarrow> sorted (edges g) \<and> distinct_adj (edges g)"

text \<open>The reference lifecycle inserts its edges in this order and canonicalizes.\<close>

definition reference_transitions :: "(Stage \<times> Stage) list" where
  "reference_transitions =
    [(St_Candidate, St_Verified), (St_Verified, St_Qualified), (St_Qualified, St_Staged),
     (St_Staged, St_Approved), (St_Approved, St_Promoted),
     (St_Candidate, St_Quarantined), (St_Verified, St_Quarantined), (St_Qualified, St_Quarantined),
     (St_Staged, St_Quarantined), (St_Approved, St_Quarantined), (St_Promoted, St_Quarantined),
     (St_Quarantined, St_Candidate),
     (St_Promoted, St_Revoked), (St_Staged, St_Revoked), (St_Approved, St_Revoked),
     (St_Promoted, St_Superseded), (St_Staged, St_Superseded), (St_Approved, St_Superseded),
     (St_Promoted, St_Retired), (St_Superseded, St_Retired), (St_Revoked, St_Retired)]"

definition graph_reference :: LifecycleGraph where
  "graph_reference =
     canonicalize
       (foldl (\<lambda>g (from, to). snd (add_edge g from to)) (LifecycleGraph []) reference_transitions)"

definition graph_digest :: "LifecycleGraph \<Rightarrow> Digest" where
  "graph_digest g =
     sha256 (concat (map (\<lambda>e. [of_nat (stage_value (edge_from e)), of_nat (stage_value (edge_to e))])
                         (edges g)))"

section \<open>Validation\<close>

definition kStageCount :: nat where "kStageCount = kStageMax + 1"

definition adjacency :: "LifecycleGraph \<Rightarrow> Stage \<Rightarrow> Stage list" where
  "adjacency g stage = sort (map edge_to (filter (\<lambda>e. edge_from e = stage) (edges g)))"

definition reverse_links :: "LifecycleGraph \<Rightarrow> Stage \<Rightarrow> Stage list" where
  "reverse_links g stage = sort (map edge_from (filter (\<lambda>e. edge_to e = stage) (edges g)))"

text \<open>One pass over the links of the current stage: the flag is the early return of the
  traversal when its queue is full, \<open>pending\<close> is the queue between head and tail, and
  \<open>tail\<close> is the tail index.\<close>

fun visit_links :: "Stage list \<Rightarrow> (Stage \<Rightarrow> bool) \<Rightarrow> Stage list \<Rightarrow> nat
    \<Rightarrow> bool \<times> (Stage \<Rightarrow> bool) \<times> Stage list \<times> nat" where
  "visit_links [] visited pending tail = (False, visited, pending, tail)"
| "visit_links (next # links) visited pending tail =
     (if \<not> visited next then
        (if tail \<ge> kStageCount then (True, visited, pending, tail)
         else visit_links links (visited(next := True)) (pending @ [next]) (tail + 1))
      else visit_links links visited pending tail)"

definition unvisited :: "(Stage \<Rightarrow> bool) \<Rightarrow> nat" where
  "unvisited visited = length (filter (\<lambda>s. \<not> visited s) all_stages)"

lemma length_filter_drop:
  assumes "distinct xs" "s \<in> set xs" "P s"
  shows "Suc (length (filter (\<lambda>t. t \<noteq> s \<and> P t) xs)) = length (filter P xs)"
proof -
  from split_list [OF assms(2)] obtain ys zs where xs: "xs = ys @ s # zs" by blast
  with assms(1) have "filter (\<lambda>t. t \<noteq> s \<and> P t) ys = filter P ys"
    and "filter (\<lambda>t. t \<noteq> s \<and> P t) zs = filter P zs"
    by (auto intro: filter_cong)
  with xs assms(3) show ?thesis by simp
qed

lemma unvisited_mark: "\<not> visited s \<Longrightarrow> Suc (unvisited (visited(s := True))) = unvisited visited"
  using length_filter_drop [OF stages.table_distinct stages.table_complete, of "\<lambda>t. \<not> visited t" s]
  by (simp add: unvisited_def fun_upd_def if_bool_eq_conj conj_commute cong: filter_cong)

lemma visit_links_measure:
  "visit_links links visited pending tail = (stop, visited', pending', tail') \<Longrightarrow>
     unvisited visited' + length pending' = unvisited visited + length pending
     \<and> unvisited visited' \<le> unvisited visited"
proof (induction links visited pending tail rule: visit_links.induct)
  case (2 "next" links visited pending tail)
  then show ?case
    using unvisited_mark [of visited "next"] by (fastforce split: if_splits)
qed simp

function traverse_loop ::
  "(Stage \<Rightarrow> Stage list) \<Rightarrow> (Stage \<Rightarrow> bool) \<Rightarrow> Stage list \<Rightarrow> nat \<Rightarrow> (Stage \<Rightarrow> bool)" where
  "traverse_loop links visited [] tail = visited"
| "traverse_loop links visited (current # pending) tail =
     (case visit_links (links current) visited pending tail of
        (stop, visited', pending', tail') \<Rightarrow>
          if stop then visited' else traverse_loop links visited' pending' tail')"
  by pat_completeness auto
termination
  by (relation "measure (\<lambda>(_, visited, pending, _). 2 * unvisited visited + length pending)")
    (auto dest!: visit_links_measure [OF sym])

definition traverse :: "Stage \<Rightarrow> (Stage \<Rightarrow> Stage list) \<Rightarrow> (Stage \<Rightarrow> bool) \<Rightarrow> (Stage \<Rightarrow> bool)" where
  "traverse start links visited = traverse_loop links (visited(start := True)) [start] 1"

definition has_exit_link :: "LifecycleGraph \<Rightarrow> Stage \<Rightarrow> bool" where
  "has_exit_link g stage \<longleftrightarrow>
     list_ex (\<lambda>next. is_terminal_failure_stage next \<or> next = St_Retired) (adjacency g stage)"

text \<open>The stages of the loops \<open>for raw = kStageMin .. kStageMax\<close>.\<close>

definition live_stages :: "Stage list" where
  "live_stages = drop kStageMin all_stages"

definition backward_reach :: "LifecycleGraph \<Rightarrow> (Stage \<Rightarrow> bool)" where
  "backward_reach g =
     foldl (\<lambda>backward stage.
         if has_exit_link g stage then traverse stage (reverse_links g) backward else backward)
       (\<lambda>_. False) live_stages"

definition appears :: "LifecycleGraph \<Rightarrow> Stage \<Rightarrow> bool" where
  "appears g stage \<longleftrightarrow> adjacency g stage \<noteq> [] \<or> reverse_links g stage \<noteq> []"

fun check_reachability ::
  "LifecycleGraph \<Rightarrow> (Stage \<Rightarrow> bool) \<Rightarrow> (Stage \<Rightarrow> bool) \<Rightarrow> Stage list \<Rightarrow> Status" where
  "check_reachability g forward backward [] = success"
| "check_reachability g forward backward (stage # stages) =
     (if \<not> appears g stage then check_reachability g forward backward stages
      else if \<not> forward stage then
        fail EC_InvalidTransition
          (''lifecycle stage '' @ stage_to_string stage @ '' is not reachable from the entry stage'')
      else if \<not> backward stage \<and> \<not> (is_terminal_failure_stage stage \<or> stage = St_Retired) then
        fail EC_InvalidTransition
          (''lifecycle stage '' @ stage_to_string stage
           @ '' cannot reach revocation, supersession, or retirement by any path'')
      else check_reachability g forward backward stages)"

subsection \<open>The topological count\<close>

definition in_degrees :: "LifecycleGraph \<Rightarrow> (Stage \<Rightarrow> bool) \<Rightarrow> (Stage \<Rightarrow> nat)" where
  "in_degrees g forward =
     foldl (\<lambda>degree index.
         if \<not> forward index then degree
         else if is_holding_stage index then degree
         else foldl (\<lambda>degree next. degree(next := degree next + 1)) degree (adjacency g index))
       (\<lambda>_. 0) all_stages"

text \<open>\<open>pending\<close> is the order queue between head and its size \<open>queue_size\<close>.\<close>

fun relax_links :: "(Stage \<Rightarrow> bool) \<Rightarrow> Stage list \<Rightarrow> (Stage \<Rightarrow> nat) \<Rightarrow> Stage list \<Rightarrow> nat
    \<Rightarrow> (Stage \<Rightarrow> nat) \<times> Stage list \<times> nat" where
  "relax_links forward [] degree pending queue_size = (degree, pending, queue_size)"
| "relax_links forward (next # links) degree pending queue_size =
     (if degree next = 0 \<or> \<not> forward next then relax_links forward links degree pending queue_size
      else
        let degree' = degree(next := degree next - 1) in
        if degree' next = 0 \<and> queue_size < kStageCount
        then relax_links forward links degree' (pending @ [next]) (queue_size + 1)
        else relax_links forward links degree' pending queue_size)"

definition undone :: "(Stage \<Rightarrow> nat) \<Rightarrow> nat" where
  "undone degree = length (filter (\<lambda>s. degree s \<noteq> 0) all_stages)"

lemma undone_zero: "degree s \<noteq> 0 \<Longrightarrow> Suc (undone (degree(s := 0))) = undone degree"
  using length_filter_drop [OF stages.table_distinct stages.table_complete, of "\<lambda>t. degree t \<noteq> 0" s]
  by (simp add: undone_def fun_upd_def cong: conj_cong)

lemma undone_nonzero: "degree s \<noteq> 0 \<Longrightarrow> n \<noteq> 0 \<Longrightarrow> undone (degree(s := n)) = undone degree"
  unfolding undone_def by (rule arg_cong [where f = length], rule filter_cong) auto

lemma relax_links_measure:
  "relax_links forward links degree pending n = (degree', pending', n') \<Longrightarrow>
     undone degree' + length pending' \<le> undone degree + length pending
     \<and> undone degree' \<le> undone degree"
proof (induction forward links degree pending n rule: relax_links.induct)
  case (2 forward "next" links degree pending n)
  show ?case
  proof (cases "degree next = 0 \<or> \<not> forward next")
    case True
    with 2 show ?thesis by auto
  next
    case False
    then show ?thesis
      using 2 undone_zero [of degree "next"] undone_nonzero [of degree "next" "degree next - 1"]
      by (cases "degree next = 1") (fastforce simp: Let_def split: if_splits)+
  qed
qed simp

function order_loop :: "LifecycleGraph \<Rightarrow> (Stage \<Rightarrow> bool) \<Rightarrow> (Stage \<Rightarrow> nat) \<Rightarrow> Stage list \<Rightarrow> nat
    \<Rightarrow> nat \<Rightarrow> nat" where
  "order_loop g forward degree [] queue_size ordered = ordered"
| "order_loop g forward degree (current # pending) queue_size ordered =
     (case relax_links forward (adjacency g current) degree pending queue_size of
        (degree', pending', queue_size') \<Rightarrow>
          order_loop g forward degree' pending' queue_size' (ordered + 1))"
  by pat_completeness auto
termination
  by (relation "measure (\<lambda>(_, _, degree, pending, _, _). 2 * undone degree + length pending)")
    (auto dest!: relax_links_measure [OF sym])

definition order_roots :: "(Stage \<Rightarrow> bool) \<Rightarrow> (Stage \<Rightarrow> nat) \<Rightarrow> Stage list" where
  "order_roots forward degree = filter (\<lambda>s. forward s \<and> degree s = 0) all_stages"

definition topologically_ordered :: "LifecycleGraph \<Rightarrow> (Stage \<Rightarrow> bool) \<Rightarrow> nat" where
  "topologically_ordered g forward =
     (let degree = in_degrees g forward; roots = order_roots forward degree
      in order_loop g forward degree roots (length roots) 0)"

definition reachable_nodes :: "(Stage \<Rightarrow> bool) \<Rightarrow> nat" where
  "reachable_nodes forward = length (filter forward all_stages)"

subsection \<open>The whole check\<close>

fun check_edges :: "Edge list \<Rightarrow> Status" where
  "check_edges [] = success"
| "check_edges (e # es) =
     (if edge_from e = St_Invalid \<or> edge_to e = St_Invalid \<or> edge_from e = edge_to e
      then fail EC_InvalidTransition ''lifecycle graph contains an invalid edge''
      else if \<not> is_valid_stage_value (stage_value (edge_from e))
           \<or> \<not> is_valid_stage_value (stage_value (edge_to e))
      then fail EC_InvalidStage ''lifecycle graph references an unknown stage''
      else check_edges es)"

definition graph_validate :: "LifecycleGraph \<Rightarrow> Stage \<Rightarrow> Status" where
  "graph_validate g entry =
     (if entry = St_Invalid then fail EC_InvalidStage ''entry stage is INVALID''
      else if edges g = [] then fail EC_InvalidTransition ''lifecycle graph has no transitions''
      else if length (edges g) > kMaxEdges
      then fail EC_InvalidCount ''lifecycle graph exceeds the configured edge bound''
      else if \<not> is_canonical g
      then fail EC_InvalidTransition ''lifecycle graph is not in canonical order''
      else if status_failed (check_edges (edges g)) then check_edges (edges g)
      else
        let forward = traverse entry (adjacency g) (\<lambda>_. False);
            backward = backward_reach g;
            reach = check_reachability g forward backward live_stages
        in if status_failed reach then reach
           else if topologically_ordered g forward \<noteq> reachable_nodes forward
           then fail EC_InvalidTransition ''lifecycle graph contains a cycle''
           else if \<not> list_ex (\<lambda>e. is_terminal_failure_stage (edge_to e) \<or> edge_to e = St_Retired) (edges g)
           then fail EC_InvalidTransition
                  ''lifecycle graph has no quarantine, revocation, or retirement edge''
           else success)"

end
