(* ===== verification/Artifact.thy ===== *)
theory Artifact
  imports Stage
begin

text \<open>
  Governed artifact metadata (\<open>include/artifact_promotion/artifact.hpp\<close>,
  \<open>src/domain/artifact.cpp\<close>): artifact classes, producer incarnations, provenance, the
  quarantine, revocation and supersession sub-records, one immutable revision of an artifact, and
  the registration a caller supplies.
\<close>

section \<open>Artifact classes and producers\<close>

datatype ArtifactKind =
    AK_Invalid | AK_Model | AK_Kernel | AK_Executable | AK_Library | AK_Configuration | AK_Dataset
  | AK_ResearchResult | AK_BenchmarkBundle | AK_GeneratedCode | AK_DeploymentManifest | AK_Opaque

definition artifact_kinds :: "ArtifactKind list" where
  "artifact_kinds = [AK_Invalid, AK_Model, AK_Kernel, AK_Executable, AK_Library, AK_Configuration,
     AK_Dataset, AK_ResearchResult, AK_BenchmarkBundle, AK_GeneratedCode, AK_DeploymentManifest,
     AK_Opaque]"

definition artifact_kind_value :: "ArtifactKind \<Rightarrow> nat" where
  "artifact_kind_value kind = index_in artifact_kinds kind"

definition kKindNames :: "(ArtifactKind \<times> string) list" where
  "kKindNames =
    [(AK_Invalid, ''INVALID''), (AK_Model, ''MODEL''), (AK_Kernel, ''KERNEL''),
     (AK_Executable, ''EXECUTABLE''), (AK_Library, ''LIBRARY''),
     (AK_Configuration, ''CONFIGURATION''), (AK_Dataset, ''DATASET''),
     (AK_ResearchResult, ''RESEARCH_RESULT''), (AK_BenchmarkBundle, ''BENCHMARK_BUNDLE''),
     (AK_GeneratedCode, ''GENERATED_CODE''), (AK_DeploymentManifest, ''DEPLOYMENT_MANIFEST''),
     (AK_Opaque, ''OPAQUE'')]"

definition artifact_kind_to_string :: "ArtifactKind \<Rightarrow> string" where
  "artifact_kind_to_string kind =
     (case find (\<lambda>entry. fst entry = kind) kKindNames of
        Some entry \<Rightarrow> snd entry | None \<Rightarrow> ''INVALID'')"

definition artifact_kind_from_string :: "string \<Rightarrow> ArtifactKind option" where
  "artifact_kind_from_string text = map_option fst (find (\<lambda>entry. text = snd entry) kKindNames)"

definition is_valid_artifact_kind :: "nat \<Rightarrow> bool" where
  "is_valid_artifact_kind raw \<longleftrightarrow> 1 \<le> raw \<and> raw \<le> 11"

interpretation kinds: enumeration artifact_kinds
  rewrites "index_in artifact_kinds = artifact_kind_value"
proof -
  show "enumeration artifact_kinds"
  proof
    show "distinct artifact_kinds" by (simp add: artifact_kinds_def)
    show "x \<in> set artifact_kinds" for x by (cases x) (simp_all add: artifact_kinds_def)
  qed
  show "index_in artifact_kinds = artifact_kind_value" by (rule ext) (simp add: artifact_kind_value_def)
qed

record ProducerIncarnation =
  pi_worker :: WorkerId
  pi_boot :: WorkerBootId

definition process_bound :: "ProducerIncarnation \<Rightarrow> bool" where
  "process_bound p \<longleftrightarrow> id_valid (pi_worker p)"

definition producer_valid :: "ProducerIncarnation \<Rightarrow> bool" where
  "producer_valid p \<longleftrightarrow> id_valid (pi_worker p) = id_valid (pi_boot p)"

definition null_producer :: ProducerIncarnation where
  "null_producer = \<lparr> pi_worker = null_id, pi_boot = null_id \<rparr>"

section \<open>Provenance\<close>

datatype ProvenanceResolution = PR_Unknown | PR_Resolved | PR_Superseded | PR_Rejected

fun provenance_resolution_to_string :: "ProvenanceResolution \<Rightarrow> string" where
  "provenance_resolution_to_string PR_Unknown = ''UNKNOWN''"
| "provenance_resolution_to_string PR_Resolved = ''RESOLVED''"
| "provenance_resolution_to_string PR_Superseded = ''SUPERSEDED''"
| "provenance_resolution_to_string PR_Rejected = ''REJECTED''"

fun provenance_resolution_value :: "ProvenanceResolution \<Rightarrow> nat" where
  "provenance_resolution_value PR_Unknown = 0"
| "provenance_resolution_value PR_Resolved = 1"
| "provenance_resolution_value PR_Superseded = 2"
| "provenance_resolution_value PR_Rejected = 3"

record ProvenanceRecord =
  pv_reference :: ProvenanceRef
  pv_source :: string
  pv_subject :: string
  pv_resolution :: ProvenanceResolution

section \<open>Quarantine, revocation, supersession\<close>

record QuarantineRecord =
  qr_active :: bool
  qr_reason_class :: string
  qr_detail :: string
  qr_authority :: AuthorityId
  qr_sequence :: CommitSequence
  qr_policy_generation :: PolicyGeneration

definition no_quarantine :: QuarantineRecord where
  "no_quarantine = \<lparr> qr_active = False, qr_reason_class = [], qr_detail = [], qr_authority = null_id,
     qr_sequence = Counter 0, qr_policy_generation = Counter 0 \<rparr>"

definition quarantine_valid :: "QuarantineRecord \<Rightarrow> bool" where
  "quarantine_valid q \<longleftrightarrow> \<not> qr_active q \<or> (id_valid (qr_authority q) \<and> counter_valid (qr_sequence q))"

record RevocationRecord =
  rv_active :: bool
  rv_decision :: PromotionDecisionId
  rv_reason_class :: string
  rv_detail :: string
  rv_authority :: AuthorityId
  rv_sequence :: CommitSequence
  rv_policy_generation :: PolicyGeneration
  rv_cause :: EvidenceId

definition no_revocation :: RevocationRecord where
  "no_revocation = \<lparr> rv_active = False, rv_decision = null_id, rv_reason_class = [], rv_detail = [],
     rv_authority = null_id, rv_sequence = Counter 0, rv_policy_generation = Counter 0,
     rv_cause = null_id \<rparr>"

definition revocation_valid :: "RevocationRecord \<Rightarrow> bool" where
  "revocation_valid r \<longleftrightarrow> \<not> rv_active r \<or> (id_valid (rv_authority r) \<and> counter_valid (rv_sequence r))"

record SupersessionRecord =
  sp_active :: bool
  sp_successor :: ArtifactId
  sp_successor_revision :: ArtifactRevision
  sp_reason :: string
  sp_authority :: AuthorityId
  sp_sequence :: CommitSequence

definition no_supersession :: SupersessionRecord where
  "no_supersession = \<lparr> sp_active = False, sp_successor = null_id, sp_successor_revision = null_id,
     sp_reason = [], sp_authority = null_id, sp_sequence = Counter 0 \<rparr>"

definition supersession_valid :: "SupersessionRecord \<Rightarrow> bool" where
  "supersession_valid s \<longleftrightarrow>
     \<not> sp_active s
     \<or> (id_valid (sp_successor s) \<and> id_valid (sp_successor_revision s) \<and> counter_valid (sp_sequence s))"

section \<open>Artifact revisions\<close>

record ArtifactRecord =
  ar_id :: ArtifactId
  ar_revision :: ArtifactRevision
  ar_generation :: ArtifactGeneration
  ar_kind :: ArtifactKind
  ar_digest :: Digest
  ar_size_bytes :: u64
  ar_name :: string
  ar_producer :: ProducerIncarnation
  ar_created_sequence :: CommitSequence
  ar_created_unix_millis :: u64
  ar_provenance :: "ProvenanceRecord list"
  ar_dependencies :: "string list"
  ar_stage :: Stage
  ar_stage_generation :: StageGeneration
  ar_promoted :: bool
  ar_promotion_decision :: PromotionDecisionId
  ar_promotion_authority :: AuthorityId
  ar_promotion_sequence :: CommitSequence
  ar_last_sequence :: CommitSequence
  ar_quarantine :: QuarantineRecord
  ar_revocation :: RevocationRecord
  ar_supersession :: SupersessionRecord

definition kMaxProvenanceRefs :: nat where "kMaxProvenanceRefs = 64"
definition kMaxDependencies :: nat where "kMaxDependencies = 64"

definition artifact_valid :: "ArtifactRecord \<Rightarrow> bool" where
  "artifact_valid r \<longleftrightarrow>
     id_valid (ar_id r) \<and> id_valid (ar_revision r) \<and> counter_valid (ar_generation r)
     \<and> ar_kind r \<noteq> AK_Invalid \<and> digest_valid (ar_digest r) \<and> ar_stage r \<noteq> St_Invalid
     \<and> counter_valid (ar_stage_generation r) \<and> producer_valid (ar_producer r)
     \<and> quarantine_valid (ar_quarantine r) \<and> revocation_valid (ar_revocation r)
     \<and> supersession_valid (ar_supersession r)
     \<and> length (ar_provenance r) \<le> kMaxProvenanceRefs \<and> length (ar_dependencies r) \<le> kMaxDependencies"

definition has_provenance :: "ArtifactRecord \<Rightarrow> ProvenanceRef \<Rightarrow> bool" where
  "has_provenance r reference \<longleftrightarrow> list_ex (\<lambda>p. pv_reference p = reference) (ar_provenance r)"

definition currently_authoritative :: "ArtifactRecord \<Rightarrow> bool" where
  "currently_authoritative r \<longleftrightarrow>
     ar_promoted r \<and> ar_stage r = St_Promoted \<and> \<not> rv_active (ar_revocation r)"

definition blocked_by_quarantine :: "ArtifactRecord \<Rightarrow> bool" where
  "blocked_by_quarantine r \<longleftrightarrow> qr_active (ar_quarantine r)"

definition render_artifact_summary :: "ArtifactRecord \<Rightarrow> string" where
  "render_artifact_summary r =
     ''artifact='' @ id_to_string (ar_id r) @ '' revision='' @ id_to_string (ar_revision r)
     @ '' generation='' @ counter_to_string (ar_generation r)
     @ '' kind='' @ artifact_kind_to_string (ar_kind r)
     @ '' digest='' @ digest_to_string (ar_digest r) @ '' stage='' @ stage_to_string (ar_stage r)
     @ '' stage_generation='' @ counter_to_string (ar_stage_generation r)
     @ '' promoted='' @ (if ar_promoted r then ''true'' else ''false'')
     @ (if qr_active (ar_quarantine r) then '' quarantined=true'' else [])
     @ (if rv_active (ar_revocation r) then '' revoked=true'' else [])
     @ (if sp_active (ar_supersession r) then '' superseded=true'' else [])"

section \<open>Registrations\<close>

record ArtifactRegistration =
  rg_id :: ArtifactId
  rg_kind :: ArtifactKind
  rg_digest :: Digest
  rg_size_bytes :: u64
  rg_name :: string
  rg_producer :: ProducerIncarnation
  rg_provenance :: "ProvenanceRecord list"
  rg_dependencies :: "string list"

fun check_provenance :: "ProvenanceRecord list \<Rightarrow> Status" where
  "check_provenance [] = success"
| "check_provenance (p # ps) =
     (if id_invalid (pv_reference p)
      then fail EC_InvalidIdentity ''provenance reference is the invalid sentinel''
      else if pv_source p = [] \<or> length (pv_source p) > kMaxNameLength
      then fail EC_InvalidName ''provenance source name is empty or too long''
      else check_provenance ps)"

definition registration_validate :: "ArtifactRegistration \<Rightarrow> Status" where
  "registration_validate r =
     (if id_invalid (rg_id r)
      then fail EC_InvalidIdentity ''artifact identity is the invalid sentinel''
      else if \<not> is_valid_artifact_kind (artifact_kind_value (rg_kind r))
      then fail EC_InvalidEnum ''artifact kind is not a known artifact class''
      else if digest_invalid (rg_digest r)
      then fail EC_InvalidDigest ''artifact digest is the invalid sentinel''
      else if \<not> is_valid_name (rg_name r)
      then fail EC_InvalidName ''artifact name is empty, too long, or contains rejected characters''
      else if \<not> producer_valid (rg_producer r)
      then fail EC_InvalidIdentity
             ''producer incarnation has a boot identity without a worker identity''
      else if length (rg_provenance r) > kMaxProvenanceRefs
      then fail EC_InvalidCount ''artifact provenance reference count exceeds the configured bound''
      else if length (rg_dependencies r) > kMaxDependencies
      then fail EC_InvalidCount ''artifact dependency count exceeds the configured bound''
      else if status_failed (check_provenance (rg_provenance r)) then check_provenance (rg_provenance r)
      else if \<not> list_all is_valid_name (rg_dependencies r)
      then fail EC_InvalidName ''artifact dependency name is empty, too long, or malformed''
      else success)"

lemma valid_artifact_kind_iff: "is_valid_artifact_kind (artifact_kind_value k) \<longleftrightarrow> k \<noteq> AK_Invalid"
  by (cases k)
    (simp_all add: is_valid_artifact_kind_def artifact_kind_value_def index_in_def artifact_kinds_def)

lemma registration_validate_ok:
  "status_ok (registration_validate r) \<Longrightarrow>
     id_valid (rg_id r) \<and> rg_kind r \<noteq> AK_Invalid \<and> digest_valid (rg_digest r) \<and> producer_valid (rg_producer r)
     \<and> length (rg_provenance r) \<le> kMaxProvenanceRefs \<and> length (rg_dependencies r) \<le> kMaxDependencies"
  by (auto simp: registration_validate_def valid_artifact_kind_iff split: if_splits)

end
