(* ===== verification/Wire.thy ===== *)
theory Wire
  imports Sha256
begin

text \<open>
  The canonical binary format (\<open>detail/writer.hpp\<close>, \<open>detail/reader.hpp\<close>,
  \<open>src/core/wire.cpp\<close>).  A \<open>Writer\<close> only appends, so each of its operations is the byte
  sequence it appends; a \<open>Reader\<close> is the region that is still unread, and each of its operations
  returns a failure or a value with the region left.  Callers stop at the first failure, so the
  cursor of a failed read is never looked at again.

  Locale \<open>codec\<close> is the interface of a writer and a reader of one type: what was written is
  read back, and a reader accepts only what the writer would have produced, so the format has one
  encoding per value.  Element sequences are proved once in the locale and used for every record.
\<close>

section \<open>Writer operations\<close>

definition write_u8 :: "u8 \<Rightarrow> bytes" where
  "write_u8 v = [v]"

definition write_boolean :: "bool \<Rightarrow> bytes" where
  "write_boolean v = write_u8 (if v then 1 else 0)"

definition write_text :: "nat \<Rightarrow> string \<Rightarrow> bytes" where
  "write_text limit v =
     (let size = (if length v < limit then length v else limit)
      in store_u32 (of_nat size) @ take size (string_bytes v))"

definition write_identity :: "'tag Identity \<Rightarrow> bytes" where
  "write_identity i = store_u64 (high i) @ store_u64 (low i)"

definition write_counter :: "'tag Counter \<Rightarrow> bytes" where
  "write_counter c = store_u64 (counter_value c)"

definition write_digest :: "Digest \<Rightarrow> bytes" where
  "write_digest d = digest_bytes d"

definition write_blob :: "bytes \<Rightarrow> bytes" where
  "write_blob data = store_u32 (of_nat (length data)) @ data"

definition write_list :: "('a \<Rightarrow> bytes) \<Rightarrow> 'a list \<Rightarrow> bytes" where
  "write_list encode_element xs = store_u32 (of_nat (length xs)) @ concat (map encode_element xs)"

text \<open>\<open>SectionWriter\<close>: the kind, a reserved length slot, the body, and then the back-patched
  length.\<close>

definition patch_u32 :: "nat \<Rightarrow> u32 \<Rightarrow> bytes \<Rightarrow> bytes" where
  "patch_u32 offset v buffer =
     buffer[offset := ucast (v AND 0xFF),
            offset + 1 := ucast (drop_bit 8 v AND 0xFF),
            offset + 2 := ucast (drop_bit 16 v AND 0xFF),
            offset + 3 := ucast (drop_bit 24 v AND 0xFF)]"

definition section_writer :: "bytes \<Rightarrow> u16 \<Rightarrow> bytes \<Rightarrow> bytes" where
  "section_writer outer kind body =
     (let outer1 = outer @ store_u16 kind;
          length_offset = length outer1;
          outer2 = outer1 @ store_u32 0;
          header_offset = length outer2;
          outer3 = outer2 @ body
      in patch_u32 length_offset (of_nat (length outer3 - header_offset)) outer3)"

section \<open>Reader operations\<close>

type_synonym 'a reader = "bytes \<Rightarrow> Status + ('a \<times> bytes)"

definition read_return :: "'a \<Rightarrow> 'a reader" where
  "read_return x region = Inr (x, region)"

definition read_fail :: "Status \<Rightarrow> 'a reader" where
  "read_fail st region = Inl st"

definition read_bind :: "'a reader \<Rightarrow> ('a \<Rightarrow> 'b reader) \<Rightarrow> 'b reader" where
  "read_bind r f region =
     (case r region of Inl st \<Rightarrow> Inl st | Inr (x, rest) \<Rightarrow> f x rest)"

definition available :: "nat \<Rightarrow> bytes \<Rightarrow> bool" where
  "available n region \<longleftrightarrow> n \<le> length region"

definition read_u8 :: "u8 reader" where
  "read_u8 region =
     (if \<not> available 1 region then Inl (fail EC_ProtocolTruncated ''input ended while reading a byte'')
      else Inr (region ! 0, drop 1 region))"

definition read_u16 :: "u16 reader" where
  "read_u16 region =
     (if \<not> available 2 region
      then Inl (fail EC_ProtocolTruncated ''input ended while reading a 16-bit value'')
      else Inr (load_u16 region, drop 2 region))"

definition read_u32 :: "u32 reader" where
  "read_u32 region =
     (if \<not> available 4 region
      then Inl (fail EC_ProtocolTruncated ''input ended while reading a 32-bit value'')
      else Inr (load_u32 region, drop 4 region))"

definition read_u64 :: "u64 reader" where
  "read_u64 region =
     (if \<not> available 8 region
      then Inl (fail EC_ProtocolTruncated ''input ended while reading a 64-bit value'')
      else Inr (load_u64 region, drop 8 region))"

definition read_boolean :: "bool reader" where
  "read_boolean =
     read_bind read_u8 (\<lambda>v.
       if v > 1 then read_fail (fail EC_ProtocolMalformed ''boolean field holds a value other than 0 or 1'')
       else read_return (v = 1))"

definition read_raw :: "nat \<Rightarrow> bytes reader" where
  "read_raw n region =
     (if \<not> available n region
      then Inl (fail EC_ProtocolTruncated ''input ended while reading a byte region'')
      else Inr (take n region, drop n region))"

definition read_skip :: "nat \<Rightarrow> unit reader" where
  "read_skip n region =
     (if \<not> available n region
      then Inl (fail EC_ProtocolTruncated ''input ended while skipping a byte region'')
      else Inr ((), drop n region))"

definition read_text :: "nat \<Rightarrow> string reader" where
  "read_text limit =
     read_bind read_u32 (\<lambda>declared region.
       let size = unat declared in
       if size > limit
       then Inl (fail EC_ProtocolOversized ''declared text length exceeds the configured bound'')
       else if \<not> available size region
       then Inl (fail EC_ProtocolTruncated ''input ended while reading text'')
       else Inr (bytes_string (take size region), drop size region))"

definition read_identity :: "'tag Identity reader" where
  "read_identity = read_bind read_u64 (\<lambda>h. read_bind read_u64 (\<lambda>l. read_return (Identity h l)))"

definition read_counter :: "'tag Counter reader" where
  "read_counter = read_bind read_u64 (\<lambda>v. read_return (Counter v))"

definition read_digest :: "Digest reader" where
  "read_digest region =
     (if \<not> available kSha256DigestSize region
      then Inl (fail EC_ProtocolTruncated ''input ended while reading a digest'')
      else Inr (from_raw region, drop kSha256DigestSize region))"

definition read_blob :: "nat \<Rightarrow> bytes reader" where
  "read_blob limit =
     read_bind read_u32 (\<lambda>declared.
       let size = unat declared in
       if size > limit
       then read_fail (fail EC_ProtocolOversized ''declared blob length exceeds the configured bound'')
       else read_raw size)"

text \<open>The sub-reader of a section is the region it may read.\<close>

definition read_sub_region :: "nat \<Rightarrow> bytes reader" where
  "read_sub_region limit =
     read_bind read_u32 (\<lambda>declared region.
       let size = unat declared in
       if size > limit
       then Inl (fail EC_ProtocolOversized ''declared section length exceeds the configured bound'')
       else if \<not> available size region
       then Inl (fail EC_ProtocolTruncated ''input ended while reading a section'')
       else Inr (take size region, drop size region))"

definition read_count :: "nat \<Rightarrow> nat reader" where
  "read_count limit =
     read_bind read_u32 (\<lambda>declared.
       if unat declared > limit
       then read_fail (fail EC_ProtocolOversized ''declared element count exceeds the configured bound'')
       else read_return (unat declared))"

definition require_finished :: "bytes \<Rightarrow> Status" where
  "require_finished region =
     (if region \<noteq> [] then fail EC_ProtocolMalformed ''input contains trailing bytes'' else success)"

text \<open>The element loop that follows a validated count.\<close>

fun read_elements :: "'a reader \<Rightarrow> nat \<Rightarrow> 'a list reader" where
  "read_elements r 0 region = Inr ([], region)"
| "read_elements r (Suc n) region =
     (case r region of
        Inl st \<Rightarrow> Inl st
      | Inr (x, rest) \<Rightarrow>
          (case read_elements r n rest of
             Inl st \<Rightarrow> Inl st
           | Inr (xs, rest') \<Rightarrow> Inr (x # xs, rest')))"

definition read_list :: "nat \<Rightarrow> 'a reader \<Rightarrow> 'a list reader" where
  "read_list limit r = read_bind (read_count limit) (\<lambda>n. read_elements r n)"

section \<open>The codec interface\<close>

lemma read_bind_Inr [simp]: "r region = Inr (x, rest) \<Longrightarrow> read_bind r f region = f x rest"
  by (simp add: read_bind_def)

lemma read_bind_Inl [simp]: "r region = Inl st \<Longrightarrow> read_bind r f region = Inl st"
  by (simp add: read_bind_def)

lemma read_bind_eq_Inr:
  "read_bind r f region = Inr (y, rest) \<longleftrightarrow>
     (\<exists>x region'. r region = Inr (x, region') \<and> f x region' = Inr (y, rest))"
  by (auto simp: read_bind_def split: sum.splits)

lemma read_return_simp [simp]: "read_return x region = Inr (x, region)"
  by (simp add: read_return_def)

lemma read_fail_simp [simp]: "read_fail st region = Inl st"
  by (simp add: read_fail_def)

locale codec =
  fixes encode :: "'a \<Rightarrow> bytes" and decode :: "'a reader" and ok :: "'a \<Rightarrow> bool"
  assumes decode_encode: "ok x \<Longrightarrow> decode (encode x @ rest) = Inr (x, rest)"
    and decode_only: "decode region = Inr (x, rest) \<Longrightarrow> region = encode x @ rest \<and> ok x"
begin

lemma decode_iff: "decode region = Inr (x, rest) \<longleftrightarrow> ok x \<and> region = encode x @ rest"
  using decode_encode decode_only by blast

lemma encode_prefix_free:
  assumes "ok x" "ok y" "encode x @ r = encode y @ s"
  shows "x = y \<and> r = s"
proof -
  have "decode (encode x @ r) = decode (encode y @ s)" using assms(3) by (rule arg_cong)
  then show ?thesis by (simp only: decode_encode assms(1,2) sum.inject prod.inject)
qed

lemma encode_append_eq: "ok x \<Longrightarrow> ok y \<Longrightarrow> encode x @ r = encode y @ s \<longleftrightarrow> x = y \<and> r = s"
  using encode_prefix_free by blast

lemma encode_inject: "ok x \<Longrightarrow> ok y \<Longrightarrow> encode x = encode y \<longleftrightarrow> x = y"
  using encode_prefix_free [of x y "[]" "[]"] by auto

lemma elements_iff:
  "read_elements decode n region = Inr (xs, rest) \<longleftrightarrow>
     length xs = n \<and> list_all ok xs \<and> region = concat (map encode xs) @ rest"
proof (induction n arbitrary: region xs)
  case (Suc n)
  have step: "read_elements decode (Suc n) region = Inr (xs, rest) \<longleftrightarrow>
      (\<exists>x r ys. decode region = Inr (x, r) \<and> read_elements decode n r = Inr (ys, rest) \<and> xs = x # ys)"
    by (auto split: sum.splits)
  show ?case
    unfolding step Suc decode_iff by (cases xs) auto
qed auto

end

section \<open>The primitive codecs\<close>

abbreviation any :: "'a \<Rightarrow> bool" where
  "any \<equiv> \<lambda>_. True"

lemma store_load_le:
  fixes region :: bytes
  assumes "length region * 8 = LENGTH('a::len)" "n < length region"
  shows "(ucast (drop_bit (8 * n) (load_le 0 region :: 'a word)) :: u8) = region ! n"
proof (rule bit_word_eqI)
  fix k assume "k < LENGTH(8)"
  then show "bit (ucast (drop_bit (8 * n) (load_le 0 region :: 'a word)) :: u8) k = bit (region ! n) k"
    using assms by (auto simp: bit_simps bit_load_le)
qed

lemma nths_conv:
  "length xs = 4 \<Longrightarrow> [xs ! 0, xs ! 1, xs ! 2, xs ! 3] = xs"
  "length xs = 8 \<Longrightarrow> [xs ! 0, xs ! 1, xs ! 2, xs ! 3, xs ! 4, xs ! 5, xs ! 6, xs ! 7] = xs"
  for xs :: "'a list"
  by (auto simp: length_Suc_conv eval_nat_numeral)

lemma store_load:
  "4 \<le> length region \<Longrightarrow> store_u32 (load_u32 region) = take 4 region"
  "8 \<le> length region \<Longrightarrow> store_u64 (load_u64 region) = take 8 region"
proof -
  assume "4 \<le> length region"
  then have len: "length (take 4 region) = 4" by simp
  note nth = store_load_le [of "take 4 region", where 'a = 32]
  show "store_u32 (load_u32 region) = take 4 region"
    using nth [of 0] nth [of 1] nth [of 2] nth [of 3] nths_conv(1) [OF len] len
    by (simp add: store_u32_def load_u32_def ucast_and_255 del: nth_take)
next
  assume "8 \<le> length region"
  then have len: "length (take 8 region) = 8" by simp
  note nth = store_load_le [of "take 8 region", where 'a = 64]
  show "store_u64 (load_u64 region) = take 8 region"
    using nth [of 0] nth [of 1] nth [of 2] nth [of 3] nth [of 4] nth [of 5] nth [of 6] nth [of 7]
      nths_conv(2) [OF len] len
    by (simp add: store_u64_def load_u64_def ucast_and_255 del: nth_take)
qed

lemma string_bytes_bytes_string [simp]: "string_bytes (bytes_string bs) = bs"
proof -
  have "byte_of_char (char_of_byte b) = b" for b
  proof -
    have "(of_char (char_of (unat b)) :: nat) = unat b"
      using unsigned_less [of b, where 'a = nat] by simp
    then show ?thesis by (simp add: byte_of_char_def char_of_byte_def)
  qed
  then show ?thesis by (simp add: string_bytes_def bytes_string_def comp_def)
qed

lemma length_bytes_string [simp]: "length (bytes_string bs) = length bs"
  by (simp add: bytes_string_def)

interpretation u8: codec write_u8 read_u8 any
  by unfold_locales
    (auto simp: write_u8_def read_u8_def available_def Suc_le_length_iff split: if_splits)

interpretation u32: codec store_u32 read_u32 any
  by unfold_locales
    (auto simp: read_u32_def available_def load_u32_store store_load split: if_splits)

interpretation u64: codec store_u64 read_u64 any
  by unfold_locales
    (auto simp: read_u64_def available_def load_u64_store store_load split: if_splits)

interpretation boolean: codec write_boolean read_boolean any
proof
  show "read_boolean (write_boolean x @ rest) = Inr (x, rest)" for x rest
    by (cases x) (simp_all add: read_boolean_def write_boolean_def u8.decode_encode)
  show "region = write_boolean x @ rest \<and> True" if "read_boolean region = Inr (x, rest)" for region x rest
  proof -
    have "v = 0 \<or> v = 1" if "\<not> v > 1" for v :: u8
      using that by (simp add: word_less_nat_alt word_unat_eq_iff) arith
    with that show ?thesis
      by (auto simp: read_boolean_def read_bind_eq_Inr u8.decode_iff write_boolean_def split: if_splits)
  qed
qed

interpretation identity: codec write_identity read_identity any
  by unfold_locales
    (auto simp: read_identity_def write_identity_def read_bind_eq_Inr u64.decode_iff u64.decode_encode)

interpretation counter: codec write_counter read_counter any
  by unfold_locales
    (auto simp: read_counter_def write_counter_def read_bind_eq_Inr u64.decode_iff u64.decode_encode)

definition digest_sized :: "Digest \<Rightarrow> bool" where
  "digest_sized d \<longleftrightarrow> length (digest_bytes d) = kSha256DigestSize"

interpretation digest: codec write_digest read_digest digest_sized
  by unfold_locales
    (auto simp: read_digest_def write_digest_def digest_sized_def available_def from_raw_def
      split: if_splits)

definition text_fits :: "nat \<Rightarrow> string \<Rightarrow> bool" where
  "text_fits limit s \<longleftrightarrow> length s \<le> limit \<and> length s < 2 ^ 32"

lemma unat_of_nat_u32: "n < 2 ^ 32 \<Longrightarrow> unat (of_nat n :: u32) = n"
  by (simp add: unat_of_nat)

lemma of_nat_length_unat: "length xs = unat (w :: u32) \<Longrightarrow> of_nat (length xs) = w"
  by simp

lemma unat_u32_bound: "unat (w :: u32) < 2 ^ 32"
  using unsigned_less [of w, where 'a = nat] by simp

interpretation text_codec: codec "write_text limit" "read_text limit" "text_fits limit"
proof
  show "read_text limit (write_text limit x @ rest) = Inr (x, rest)" if "text_fits limit x" for x rest
    using that
    by (cases "length x < limit")
      (auto simp: read_text_def write_text_def text_fits_def u32.decode_encode unat_of_nat_u32
        available_def Let_def simp del: of_nat_numeral)
  show "region = write_text limit x @ rest \<and> text_fits limit x"
    if dec: "read_text limit region = Inr (x, rest)" for region x rest
  proof -
    from dec obtain declared r where r: "read_u32 region = Inr (declared, r)"
      and "unat declared \<le> limit" and "unat declared \<le> length r"
      and x: "x = bytes_string (take (unat declared) r)" and "rest = drop (unat declared) r"
      by (auto simp: read_text_def read_bind_eq_Inr Let_def available_def split: if_splits)
    moreover from this have "length x = unat declared" by simp
    ultimately show ?thesis
      using unat_u32_bound [of declared]
      by (auto simp: u32.decode_iff write_text_def text_fits_def Let_def)
  qed
qed

definition list_fits :: "nat \<Rightarrow> ('a \<Rightarrow> bool) \<Rightarrow> 'a list \<Rightarrow> bool" where
  "list_fits limit ok xs \<longleftrightarrow> length xs \<le> limit \<and> length xs < 2 ^ 32 \<and> list_all ok xs"

context codec
begin

lemma list_codec: "codec (write_list encode) (read_list limit decode) (list_fits limit ok)"
proof
  show "read_list limit decode (write_list encode x @ rest) = Inr (x, rest)"
    if "list_fits limit ok x" for x rest
    using that elements_iff [of "length x" "concat (map encode x) @ rest" x rest]
    by (simp add: read_list_def read_count_def write_list_def list_fits_def u32.decode_encode
        unat_of_nat_u32 del: of_nat_numeral)
  show "region = write_list encode x @ rest \<and> list_fits limit ok x"
    if dec: "read_list limit decode region = Inr (x, rest)" for region x rest
  proof -
    from dec obtain declared where "region = store_u32 declared @ concat (map encode x) @ rest"
      and "unat declared \<le> limit" and len: "length x = unat declared" and "list_all ok x"
      by (auto simp: read_list_def read_count_def read_bind_eq_Inr u32.decode_iff elements_iff
          split: if_splits)
    then show ?thesis
      using unat_u32_bound [of declared] of_nat_length_unat [OF len]
      by (auto simp: write_list_def list_fits_def)
  qed
qed

end

section \<open>Sections\<close>

lemma patch_u32_append:
  "length slot = 4 \<Longrightarrow> patch_u32 (length pre) v (pre @ slot @ post) = pre @ store_u32 v @ post"
  by (auto simp: patch_u32_def store_u32_def length_Suc_conv eval_nat_numeral list_update_append)

text \<open>The back-patched section is the kind followed by the length-prefixed body.\<close>

lemma section_writer_bytes: "section_writer outer kind body = outer @ store_u16 kind @ write_blob body"
  using patch_u32_append [of "store_u32 0" "outer @ store_u16 kind" "of_nat (length body)" body]
  by (simp add: section_writer_def Let_def write_blob_def)

lemma read_sub_region_section:
  assumes "length body \<le> limit" "length body < 2 ^ 32"
  shows "read_sub_region limit (write_blob body @ rest) = Inr (body, rest)"
  using assms
  by (simp add: read_sub_region_def write_blob_def u32.decode_encode unat_of_nat_u32 available_def
      Let_def del: of_nat_numeral)

end
