(* ===== verification/Evidence.thy ===== *)
theory Evidence
  imports Artifact Wire
begin

text \<open>
  First-class promotion evidence (\<open>include/artifact_promotion/evidence.hpp\<close>,
  \<open>src/domain/evidence.cpp\<close>): evidence classes and results, evidence records and submissions, the
  evidence snapshot a plan is bound to, and the digests over them.

  \<open>EvidenceType\<close> is the byte of the C++ enumeration: the range check of the program accepts
  every byte from 1 to 63, also the ones between the last named class and \<open>Custom\<close>, so values
  without a name are part of the model.
\<close>

section \<open>Evidence classes and results\<close>

datatype EvidenceType = EvidenceType (et_raw: u8)

abbreviation "ET_Invalid \<equiv> EvidenceType 0"
abbreviation "ET_BuildPass \<equiv> EvidenceType 1"
abbreviation "ET_UnitTestPass \<equiv> EvidenceType 2"
abbreviation "ET_IntegrationTestPass \<equiv> EvidenceType 3"
abbreviation "ET_PropertyTestPass \<equiv> EvidenceType 4"
abbreviation "ET_AdversarialTestPass \<equiv> EvidenceType 5"
abbreviation "ET_SanitizerPass \<equiv> EvidenceType 6"
abbreviation "ET_SecurityScanPass \<equiv> EvidenceType 7"
abbreviation "ET_BenchmarkResult \<equiv> EvidenceType 8"
abbreviation "ET_CompatibilityPass \<equiv> EvidenceType 9"
abbreviation "ET_AbiCompatibilityPass \<equiv> EvidenceType 10"
abbreviation "ET_DataValidationPass \<equiv> EvidenceType 11"
abbreviation "ET_ModelEvalPass \<equiv> EvidenceType 12"
abbreviation "ET_HumanApproval \<equiv> EvidenceType 13"
abbreviation "ET_MachineCriticApproval \<equiv> EvidenceType 14"
abbreviation "ET_ReproducibilityPass \<equiv> EvidenceType 15"
abbreviation "ET_SignatureValid \<equiv> EvidenceType 16"
abbreviation "ET_ProvenanceComplete \<equiv> EvidenceType 17"
abbreviation "ET_DependencyPolicyPass \<equiv> EvidenceType 18"
abbreviation "ET_Custom \<equiv> EvidenceType 63"

definition kEvidenceNames :: "(EvidenceType \<times> string) list" where
  "kEvidenceNames =
    [(ET_Invalid, ''INVALID''), (ET_BuildPass, ''BUILD_PASS''), (ET_UnitTestPass, ''UNIT_TEST_PASS''),
     (ET_IntegrationTestPass, ''INTEGRATION_TEST_PASS''),
     (ET_PropertyTestPass, ''PROPERTY_TEST_PASS''),
     (ET_AdversarialTestPass, ''ADVERSARIAL_TEST_PASS''), (ET_SanitizerPass, ''SANITIZER_PASS''),
     (ET_SecurityScanPass, ''SECURITY_SCAN_PASS''), (ET_BenchmarkResult, ''BENCHMARK_RESULT''),
     (ET_CompatibilityPass, ''COMPATIBILITY_PASS''),
     (ET_AbiCompatibilityPass, ''ABI_COMPATIBILITY_PASS''),
     (ET_DataValidationPass, ''DATA_VALIDATION_PASS''), (ET_ModelEvalPass, ''MODEL_EVAL_PASS''),
     (ET_HumanApproval, ''HUMAN_APPROVAL''), (ET_MachineCriticApproval, ''MACHINE_CRITIC_APPROVAL''),
     (ET_ReproducibilityPass, ''REPRODUCIBILITY_PASS''), (ET_SignatureValid, ''SIGNATURE_VALID''),
     (ET_ProvenanceComplete, ''PROVENANCE_COMPLETE''),
     (ET_DependencyPolicyPass, ''DEPENDENCY_POLICY_PASS''), (ET_Custom, ''CUSTOM'')]"

definition evidence_type_to_string :: "EvidenceType \<Rightarrow> string" where
  "evidence_type_to_string t =
     (case find (\<lambda>entry. fst entry = t) kEvidenceNames of
        Some entry \<Rightarrow> snd entry | None \<Rightarrow> ''INVALID'')"

definition evidence_type_from_string :: "string \<Rightarrow> EvidenceType option" where
  "evidence_type_from_string text = map_option fst (find (\<lambda>entry. text = snd entry) kEvidenceNames)"

definition is_valid_evidence_type :: "nat \<Rightarrow> bool" where
  "is_valid_evidence_type raw \<longleftrightarrow> 1 \<le> raw \<and> raw \<le> 63"

abbreviation evidence_type_valid :: "EvidenceType \<Rightarrow> bool" where
  "evidence_type_valid t \<equiv> is_valid_evidence_type (unat (et_raw t))"

datatype EvidenceResult = ER_Unknown | ER_Pass | ER_Fail | ER_Inconclusive | ER_NotApplicable

fun evidence_result_value :: "EvidenceResult \<Rightarrow> nat" where
  "evidence_result_value ER_Unknown = 0"
| "evidence_result_value ER_Pass = 1"
| "evidence_result_value ER_Fail = 2"
| "evidence_result_value ER_Inconclusive = 3"
| "evidence_result_value ER_NotApplicable = 4"

fun evidence_result_to_string :: "EvidenceResult \<Rightarrow> string" where
  "evidence_result_to_string ER_Unknown = ''UNKNOWN''"
| "evidence_result_to_string ER_Pass = ''PASS''"
| "evidence_result_to_string ER_Fail = ''FAIL''"
| "evidence_result_to_string ER_Inconclusive = ''INCONCLUSIVE''"
| "evidence_result_to_string ER_NotApplicable = ''NOT_APPLICABLE''"

definition is_valid_evidence_result :: "nat \<Rightarrow> bool" where
  "is_valid_evidence_result raw \<longleftrightarrow> raw \<le> 4"

definition satisfies_mandatory_gate :: "EvidenceResult \<Rightarrow> bool" where
  "satisfies_mandatory_gate r \<longleftrightarrow> r = ER_Pass"

section \<open>Evidence records\<close>

record EvidenceRecord =
  ev_id :: EvidenceId
  ev_type :: EvidenceType
  ev_generation :: EvidenceGeneration
  ev_custom_type :: string
  ev_subject :: ArtifactId
  ev_subject_digest :: Digest
  ev_subject_revision :: ArtifactRevision
  ev_producer :: ProducerIncarnation
  ev_result :: EvidenceResult
  ev_confidence_milli :: u32
  ev_measurement :: string
  ev_detail :: string
  ev_payload_digest :: Digest
  ev_integrity_digest :: Digest
  ev_provenance :: ProvenanceRef
  ev_created_sequence :: CommitSequence
  ev_produced_unix_millis :: u64
  ev_has_validity_window :: bool
  ev_valid_from_unix_millis :: u64
  ev_valid_until_unix_millis :: u64
  ev_environment :: string
  ev_revoked :: bool
  ev_revocation_reason :: string
  ev_revocation_authority :: AuthorityId
  ev_revocation_sequence :: CommitSequence
  ev_superseded :: bool
  ev_superseded_by :: EvidenceId

definition validity_window_well_formed :: "EvidenceRecord \<Rightarrow> bool" where
  "validity_window_well_formed r \<longleftrightarrow>
     \<not> ev_has_validity_window r \<or> ev_valid_until_unix_millis r \<ge> ev_valid_from_unix_millis r"

definition evidence_valid :: "EvidenceRecord \<Rightarrow> bool" where
  "evidence_valid r \<longleftrightarrow>
     (if id_invalid (ev_id r) \<or> \<not> counter_valid (ev_generation r) \<or> \<not> evidence_type_valid (ev_type r)
      then False
      else if ev_type r = ET_Custom \<and> ev_custom_type r = [] then False
      else if ev_type r \<noteq> ET_Custom \<and> ev_custom_type r \<noteq> [] then False
      else if id_invalid (ev_subject r) \<or> digest_invalid (ev_subject_digest r)
              \<or> \<not> id_valid (ev_subject_revision r) then False
      else if \<not> producer_valid (ev_producer r) then False
      else if \<not> is_valid_evidence_result (evidence_result_value (ev_result r)) then False
      else if ev_confidence_milli r > 1000 then False
      else if digest_invalid (ev_payload_digest r) \<or> digest_invalid (ev_integrity_digest r) then False
      else if \<not> counter_valid (ev_created_sequence r) then False
      else if ev_has_validity_window r \<and> ev_valid_until_unix_millis r < ev_valid_from_unix_millis r
      then False
      else if ev_revoked r \<and> id_invalid (ev_revocation_authority r) then False
      else True)"

section \<open>Submissions\<close>

record EvidenceSubmission =
  es_subject :: ArtifactId
  es_subject_digest :: Digest
  es_subject_revision :: ArtifactRevision
  es_type :: EvidenceType
  es_custom_type :: string
  es_producer :: ProducerIncarnation
  es_result :: EvidenceResult
  es_confidence_milli :: u32
  es_measurement :: string
  es_detail :: string
  es_payload_digest :: Digest
  es_provenance :: ProvenanceRef
  es_produced_unix_millis :: u64
  es_has_validity_window :: bool
  es_valid_from_unix_millis :: u64
  es_valid_until_unix_millis :: u64
  es_environment :: string

definition submission_validate :: "EvidenceSubmission \<Rightarrow> Status" where
  "submission_validate s =
     (if id_invalid (es_subject s)
      then fail EC_InvalidIdentity ''evidence subject artifact identity is invalid''
      else if digest_invalid (es_subject_digest s)
      then fail EC_InvalidDigest ''evidence subject digest is the invalid sentinel''
      else if \<not> id_valid (es_subject_revision s)
      then fail EC_InvalidIdentity ''evidence subject artifact revision is invalid''
      else if \<not> evidence_type_valid (es_type s)
      then fail EC_InvalidEnum ''evidence type is not a known evidence class''
      else if es_type s = ET_Custom \<and> \<not> is_valid_name (es_custom_type s)
      then fail EC_InvalidName ''custom evidence type name is empty or malformed''
      else if es_type s \<noteq> ET_Custom \<and> es_custom_type s \<noteq> []
      then fail EC_InvalidArgument ''a built-in evidence type must not carry a custom type name''
      else if \<not> producer_valid (es_producer s)
      then fail EC_InvalidIdentity ''evidence producer incarnation is inconsistent''
      else if \<not> is_valid_evidence_result (evidence_result_value (es_result s))
      then fail EC_InvalidEnum ''evidence result is not a known result class''
      else if es_confidence_milli s > 1000
      then fail EC_InvalidArgument ''evidence confidence exceeds the documented 0..1000 range''
      else if digest_invalid (es_payload_digest s)
      then fail EC_InvalidDigest ''evidence payload digest is the invalid sentinel''
      else if \<not> is_valid_text (es_measurement s) \<or> \<not> is_valid_text (es_detail s)
              \<or> \<not> is_valid_text (es_environment s)
      then fail EC_InvalidArgument ''evidence text field is too long or contains control characters''
      else if length (es_measurement s) > kMaxTextLength \<or> length (es_detail s) > kMaxTextLength
      then fail EC_InvalidArgument ''evidence text field exceeds the configured bound''
      else if es_has_validity_window s \<and> es_valid_until_unix_millis s < es_valid_from_unix_millis s
      then fail EC_InvalidArgument ''evidence validity window ends before it begins''
      else success)"

section \<open>Evidence snapshots\<close>

record EvidenceSnapshotEntry =
  se_id :: EvidenceId
  se_type :: EvidenceType
  se_custom_type :: string
  se_generation :: EvidenceGeneration
  se_result :: EvidenceResult
  se_subject_digest :: Digest
  se_subject_revision :: ArtifactRevision
  se_producer :: ProducerIncarnation
  se_integrity_digest :: Digest

definition snapshot_entry_less :: "EvidenceSnapshotEntry \<Rightarrow> EvidenceSnapshotEntry \<Rightarrow> bool" where
  "snapshot_entry_less lhs rhs \<longleftrightarrow>
     (if se_type lhs \<noteq> se_type rhs then et_raw (se_type lhs) < et_raw (se_type rhs)
      else if se_custom_type lhs \<noteq> se_custom_type rhs
      then string_less (se_custom_type lhs) (se_custom_type rhs)
      else se_id lhs < se_id rhs)"

record EvidenceSnapshot =
  sn_subject :: ArtifactId
  sn_subject_revision :: ArtifactRevision
  sn_subject_digest :: Digest
  sn_entries :: "EvidenceSnapshotEntry list"
  sn_snapshot_digest :: Digest

definition snapshot_contains :: "EvidenceSnapshot \<Rightarrow> EvidenceId \<Rightarrow> bool" where
  "snapshot_contains s i \<longleftrightarrow> list_ex (\<lambda>e. se_id e = i) (sn_entries s)"

definition snapshot_contains_type :: "EvidenceSnapshot \<Rightarrow> EvidenceType \<Rightarrow> bool" where
  "snapshot_contains_type s t \<longleftrightarrow> list_ex (\<lambda>e. se_type e = t) (sn_entries s)"

definition write_snapshot_entry :: "EvidenceSnapshotEntry \<Rightarrow> bytes" where
  "write_snapshot_entry e =
     write_identity (se_id e) @ write_u8 (et_raw (se_type e))
     @ write_text kMaxNameLength (se_custom_type e) @ write_counter (se_generation e)
     @ write_u8 (of_nat (evidence_result_value (se_result e))) @ write_digest (se_subject_digest e)
     @ write_identity (se_subject_revision e) @ write_identity (pi_worker (se_producer e))
     @ write_identity (pi_boot (se_producer e)) @ write_digest (se_integrity_digest e)"

text \<open>The bytes that are hashed, as a definition of their own.\<close>

definition snapshot_preimage ::
  "ArtifactId \<Rightarrow> ArtifactRevision \<Rightarrow> Digest \<Rightarrow> EvidenceSnapshotEntry list \<Rightarrow> bytes" where
  "snapshot_preimage subject revision digest entries =
     write_identity subject @ write_identity revision @ write_digest digest
     @ write_list write_snapshot_entry (sort_by snapshot_entry_less entries)"

definition compute_snapshot_digest ::
  "ArtifactId \<Rightarrow> ArtifactRevision \<Rightarrow> Digest \<Rightarrow> EvidenceSnapshotEntry list \<Rightarrow> Digest" where
  "compute_snapshot_digest subject revision digest entries =
     sha256 (snapshot_preimage subject revision digest entries)"

definition evidence_preimage :: "EvidenceRecord \<Rightarrow> bytes" where
  "evidence_preimage r =
     write_identity (ev_id r) @ write_u8 (et_raw (ev_type r))
     @ write_text kMaxNameLength (ev_custom_type r) @ write_counter (ev_generation r)
     @ write_identity (ev_subject r) @ write_digest (ev_subject_digest r)
     @ write_identity (ev_subject_revision r) @ write_identity (pi_worker (ev_producer r))
     @ write_identity (pi_boot (ev_producer r))
     @ write_u8 (of_nat (evidence_result_value (ev_result r)))
     @ store_u32 (ev_confidence_milli r) @ write_text kMaxTextLength (ev_measurement r)
     @ write_text kMaxTextLength (ev_detail r) @ write_digest (ev_payload_digest r)
     @ write_identity (ev_provenance r) @ write_counter (ev_created_sequence r)
     @ store_u64 (ev_produced_unix_millis r) @ write_boolean (ev_has_validity_window r)
     @ store_u64 (ev_valid_from_unix_millis r) @ store_u64 (ev_valid_until_unix_millis r)
     @ write_text kMaxTextLength (ev_environment r) @ write_boolean (ev_revoked r)"

definition compute_evidence_integrity :: "EvidenceRecord \<Rightarrow> Digest" where
  "compute_evidence_integrity r = sha256 (evidence_preimage r)"

section \<open>What the digests bind\<close>

text \<open>
  The hashed bytes determine every field they cover: two records with the same preimage agree on
  the whole observation.  With a collision-free hash the integrity digest therefore changes
  whenever a covered field changes.
\<close>

lemma result_byte_inject:
  "(of_nat (evidence_result_value a) :: u8) = of_nat (evidence_result_value b) \<longleftrightarrow> a = b"
  by (cases a; cases b) simp_all

lemmas encodings_eq =
  u8.encode_append_eq [OF TrueI TrueI] u32.encode_append_eq [OF TrueI TrueI]
  u64.encode_append_eq [OF TrueI TrueI] boolean.encode_append_eq [OF TrueI TrueI]
  identity.encode_append_eq [OF TrueI TrueI] counter.encode_append_eq [OF TrueI TrueI]
  digest.encode_append_eq text_codec.encode_append_eq boolean.encode_inject [OF TrueI TrueI]

definition evidence_fits :: "EvidenceRecord \<Rightarrow> bool" where
  "evidence_fits r \<longleftrightarrow>
     text_fits kMaxNameLength (ev_custom_type r) \<and> digest_sized (ev_subject_digest r)
     \<and> text_fits kMaxTextLength (ev_measurement r) \<and> text_fits kMaxTextLength (ev_detail r)
     \<and> digest_sized (ev_payload_digest r) \<and> text_fits kMaxTextLength (ev_environment r)"

text \<open>The fields the integrity digest covers.\<close>

definition same_observation :: "EvidenceRecord \<Rightarrow> EvidenceRecord \<Rightarrow> bool" where
  "same_observation a b \<longleftrightarrow>
     ev_id a = ev_id b \<and> ev_type a = ev_type b \<and> ev_custom_type a = ev_custom_type b
     \<and> ev_generation a = ev_generation b \<and> ev_subject a = ev_subject b
     \<and> ev_subject_digest a = ev_subject_digest b \<and> ev_subject_revision a = ev_subject_revision b
     \<and> ev_producer a = ev_producer b \<and> ev_result a = ev_result b
     \<and> ev_confidence_milli a = ev_confidence_milli b \<and> ev_measurement a = ev_measurement b
     \<and> ev_detail a = ev_detail b \<and> ev_payload_digest a = ev_payload_digest b
     \<and> ev_provenance a = ev_provenance b \<and> ev_created_sequence a = ev_created_sequence b
     \<and> ev_produced_unix_millis a = ev_produced_unix_millis b
     \<and> ev_has_validity_window a = ev_has_validity_window b
     \<and> ev_valid_from_unix_millis a = ev_valid_from_unix_millis b
     \<and> ev_valid_until_unix_millis a = ev_valid_until_unix_millis b
     \<and> ev_environment a = ev_environment b \<and> ev_revoked a = ev_revoked b"

lemma evidence_preimage_eq:
  assumes "evidence_fits a" "evidence_fits b"
  shows "evidence_preimage a = evidence_preimage b \<longleftrightarrow> same_observation a b"
proof -
  have producer: "p = q \<longleftrightarrow> pi_worker p = pi_worker q \<and> pi_boot p = pi_boot q" for p q :: ProducerIncarnation
    by (cases p; cases q) simp
  have type: "et_raw t = et_raw u \<longleftrightarrow> t = u" for t u
    using EvidenceType.expand by blast
  show ?thesis
    using assms
    by (simp add: evidence_preimage_def evidence_fits_def encodings_eq same_observation_def producer type
        result_byte_inject conj_assoc)
qed

end
