(* ===== verification/Policy.thy ===== *)
theory Policy
  imports Evidence
begin

text \<open>
  Versioned promotion policy (\<open>include/artifact_promotion/policy.hpp\<close>,
  \<open>src/domain/policy.cpp\<close>): gates, rules, policies with their validation and digest, the
  reference policy, and the coordinator authority pair.
\<close>

section \<open>Gates\<close>

datatype (plugins only: code size) GateKind =
    GK_Invalid | GK_EvidenceRequired | GK_EvidenceFreshness | GK_EvidenceIntegrity
  | GK_ArtifactIdentity | GK_ArtifactNotQuarantined | GK_ArtifactNotRevoked
  | GK_ArtifactNotSuperseded | GK_ProvenanceRequired | GK_ProvenanceResolved
  | GK_CompatibilityGenerationCurrent | GK_EnvironmentBinding | GK_DependentArtifactPromoted
  | GK_ApprovalRequired | GK_SecurityVetoClear | GK_DependencyVetoClear
  | GK_PolicyGenerationCurrent | GK_CoordinatorEpochCurrent | GK_NoConflictingTransition

definition gate_kinds :: "GateKind list" where
  "gate_kinds =
    [GK_Invalid, GK_EvidenceRequired, GK_EvidenceFreshness, GK_EvidenceIntegrity,
     GK_ArtifactIdentity, GK_ArtifactNotQuarantined, GK_ArtifactNotRevoked,
     GK_ArtifactNotSuperseded, GK_ProvenanceRequired, GK_ProvenanceResolved,
     GK_CompatibilityGenerationCurrent, GK_EnvironmentBinding, GK_DependentArtifactPromoted,
     GK_ApprovalRequired, GK_SecurityVetoClear, GK_DependencyVetoClear,
     GK_PolicyGenerationCurrent, GK_CoordinatorEpochCurrent, GK_NoConflictingTransition]"

definition gate_kind_value :: "GateKind \<Rightarrow> nat" where
  "gate_kind_value kind = index_in gate_kinds kind"

definition kGateKindNames :: "(GateKind \<times> string) list" where
  "kGateKindNames =
    [(GK_Invalid, ''INVALID''), (GK_EvidenceRequired, ''EVIDENCE_REQUIRED''),
     (GK_EvidenceFreshness, ''EVIDENCE_FRESHNESS''), (GK_EvidenceIntegrity, ''EVIDENCE_INTEGRITY''),
     (GK_ArtifactIdentity, ''ARTIFACT_IDENTITY''),
     (GK_ArtifactNotQuarantined, ''ARTIFACT_NOT_QUARANTINED''),
     (GK_ArtifactNotRevoked, ''ARTIFACT_NOT_REVOKED''),
     (GK_ArtifactNotSuperseded, ''ARTIFACT_NOT_SUPERSEDED''),
     (GK_ProvenanceRequired, ''PROVENANCE_REQUIRED''),
     (GK_ProvenanceResolved, ''PROVENANCE_RESOLVED''),
     (GK_CompatibilityGenerationCurrent, ''COMPATIBILITY_GENERATION_CURRENT''),
     (GK_EnvironmentBinding, ''ENVIRONMENT_BINDING''),
     (GK_DependentArtifactPromoted, ''DEPENDENT_ARTIFACT_PROMOTED''),
     (GK_ApprovalRequired, ''APPROVAL_REQUIRED''), (GK_SecurityVetoClear, ''SECURITY_VETO_CLEAR''),
     (GK_DependencyVetoClear, ''DEPENDENCY_VETO_CLEAR''),
     (GK_PolicyGenerationCurrent, ''POLICY_GENERATION_CURRENT''),
     (GK_CoordinatorEpochCurrent, ''COORDINATOR_EPOCH_CURRENT''),
     (GK_NoConflictingTransition, ''NO_CONFLICTING_TRANSITION'')]"

definition gate_kind_to_string :: "GateKind \<Rightarrow> string" where
  "gate_kind_to_string kind =
     (case find (\<lambda>entry. fst entry = kind) kGateKindNames of
        Some entry \<Rightarrow> snd entry | None \<Rightarrow> ''INVALID'')"

definition gate_kind_from_string :: "string \<Rightarrow> GateKind option" where
  "gate_kind_from_string text = map_option fst (find (\<lambda>entry. text = snd entry) kGateKindNames)"

definition is_valid_gate_kind :: "nat \<Rightarrow> bool" where
  "is_valid_gate_kind raw \<longleftrightarrow> 1 \<le> raw \<and> raw \<le> 18"

interpretation gate_kind: enumeration gate_kinds
  rewrites "index_in gate_kinds = gate_kind_value"
proof -
  show "enumeration gate_kinds"
  proof
    show "distinct gate_kinds" by (simp add: gate_kinds_def)
    show "x \<in> set gate_kinds" for x by (cases x) (simp_all add: gate_kinds_def)
  qed
  show "index_in gate_kinds = gate_kind_value" by (rule ext) (simp add: gate_kind_value_def)
qed

datatype OrderingRule =
    ORule_None | ORule_LowerCommitSequence | ORule_HigherCommitSequence
  | ORule_LexicographicArtifactId | ORule_LexicographicDigest

fun ordering_rule_value :: "OrderingRule \<Rightarrow> nat" where
  "ordering_rule_value ORule_None = 0"
| "ordering_rule_value ORule_LowerCommitSequence = 1"
| "ordering_rule_value ORule_HigherCommitSequence = 2"
| "ordering_rule_value ORule_LexicographicArtifactId = 3"
| "ordering_rule_value ORule_LexicographicDigest = 4"

fun ordering_rule_to_string :: "OrderingRule \<Rightarrow> string" where
  "ordering_rule_to_string ORule_None = ''NONE''"
| "ordering_rule_to_string ORule_LowerCommitSequence = ''LOWER_COMMIT_SEQUENCE''"
| "ordering_rule_to_string ORule_HigherCommitSequence = ''HIGHER_COMMIT_SEQUENCE''"
| "ordering_rule_to_string ORule_LexicographicArtifactId = ''LEXICOGRAPHIC_ARTIFACT_ID''"
| "ordering_rule_to_string ORule_LexicographicDigest = ''LEXICOGRAPHIC_DIGEST''"

definition is_valid_ordering_rule :: "nat \<Rightarrow> bool" where
  "is_valid_ordering_rule raw \<longleftrightarrow> raw \<le> 4"

record Gate =
  gt_kind :: GateKind
  gt_evidence_type :: EvidenceType
  gt_custom_evidence_type :: string
  gt_max_age_millis :: u64
  gt_required_compatibility_generation :: CompatibilityGeneration
  gt_required_environment :: string
  gt_required_provenance :: ProvenanceRef
  gt_label :: string

definition empty_gate :: Gate where
  "empty_gate = \<lparr> gt_kind = GK_Invalid, gt_evidence_type = ET_Invalid, gt_custom_evidence_type = [],
     gt_max_age_millis = 0, gt_required_compatibility_generation = Counter 0,
     gt_required_environment = [], gt_required_provenance = null_id, gt_label = [] \<rparr>"

definition evidence_gate_validate :: "Gate \<Rightarrow> Status" where
  "evidence_gate_validate g =
     (if \<not> evidence_type_valid (gt_evidence_type g) \<or> gt_evidence_type g = ET_Invalid
      then fail EC_InvalidEnum ''gate requires a specific evidence type''
      else if gt_evidence_type g = ET_Custom \<and> \<not> is_valid_name (gt_custom_evidence_type g)
      then fail EC_InvalidName ''custom evidence gate requires a valid custom type name''
      else if gt_evidence_type g \<noteq> ET_Custom \<and> gt_custom_evidence_type g \<noteq> []
      then fail EC_InvalidArgument ''built-in evidence gate must not name a custom type''
      else if gt_kind g = GK_EvidenceFreshness \<and> gt_max_age_millis g = 0
      then fail EC_InvalidArgument ''freshness gate requires a non-zero maximum age''
      else success)"

definition gate_validate :: "Gate \<Rightarrow> Status" where
  "gate_validate g =
     (if \<not> is_valid_gate_kind (gate_kind_value (gt_kind g))
      then fail EC_InvalidEnum ''gate kind is not a known gate class''
      else if \<not> is_valid_text (gt_label g) \<or> gt_label g = []
      then fail EC_InvalidName ''gate label is empty, too long, or contains control characters''
      else if gt_kind g \<in> set [GK_EvidenceRequired, GK_EvidenceFreshness, GK_ApprovalRequired]
      then evidence_gate_validate g
      else if gt_kind g = GK_EnvironmentBinding then
        (if gt_evidence_type g = ET_Invalid \<or> \<not> evidence_type_valid (gt_evidence_type g)
         then fail EC_InvalidEnum ''environment binding gate requires an evidence type''
         else if \<not> is_valid_text (gt_required_environment g) \<or> gt_required_environment g = []
         then fail EC_InvalidName ''environment binding gate requires a non-empty environment''
         else success)
      else if gt_kind g = GK_ProvenanceRequired then
        (if id_invalid (gt_required_provenance g)
         then fail EC_InvalidIdentity ''provenance gate requires a provenance reference'' else success)
      else if gt_kind g = GK_CompatibilityGenerationCurrent then
        (if \<not> counter_valid (gt_required_compatibility_generation g)
         then fail EC_InvalidCount ''compatibility gate requires a non-zero generation'' else success)
      else if gt_kind g = GK_Invalid then fail EC_InvalidEnum ''gate kind is INVALID''
      else success)"

definition gate_describe :: "Gate \<Rightarrow> string" where
  "gate_describe g =
     gate_kind_to_string (gt_kind g)
     @ (if evidence_type_valid (gt_evidence_type g) \<and> gt_evidence_type g \<noteq> ET_Invalid then
          ''('' @ (if gt_evidence_type g = ET_Custom then gt_custom_evidence_type g
                  else evidence_type_to_string (gt_evidence_type g))
          @ (if gt_kind g = GK_EvidenceFreshness
             then '', max_age_ms='' @ u64_to_string (gt_max_age_millis g) else [])
          @ (if gt_kind g = GK_EnvironmentBinding
             then '', environment='' @ gt_required_environment g else [])
          @ '')''
        else [])"

section \<open>Rules\<close>

text \<open>The reserved field \<open>artifact_type_scope\<close> is never read.\<close>

record PolicyRule =
  ru_has_kind_scope :: bool
  ru_kind_scope :: ArtifactKind
  ru_from :: Stage
  ru_to :: Stage
  ru_requirements :: "Gate list"
  ru_preferences :: "GateKind list"
  ru_ordering :: OrderingRule
  ru_allow_idempotent_replay :: bool
  ru_allow_rollback_eligibility :: bool
  ru_supersedes_previous :: bool

definition kMaxGates :: nat where "kMaxGates = 32"

definition empty_rule :: PolicyRule where
  "empty_rule = \<lparr> ru_has_kind_scope = False, ru_kind_scope = AK_Invalid, ru_from = St_Invalid,
     ru_to = St_Invalid, ru_requirements = [], ru_preferences = [], ru_ordering = ORule_None,
     ru_allow_idempotent_replay = True, ru_allow_rollback_eligibility = False,
     ru_supersedes_previous = False \<rparr>"

definition rule_matches :: "PolicyRule \<Rightarrow> ArtifactKind \<Rightarrow> Stage \<Rightarrow> Stage \<Rightarrow> bool" where
  "rule_matches r kind source destination \<longleftrightarrow>
     (if ru_from r \<noteq> source \<or> ru_to r \<noteq> destination then False
      else if ru_has_kind_scope r \<and> ru_kind_scope r \<noteq> kind then False
      else True)"

fun check_gates :: "Gate list \<Rightarrow> Status" where
  "check_gates [] = success"
| "check_gates (g # gs) =
     (if status_failed (gate_validate g) then gate_validate g else check_gates gs)"

definition rule_validate :: "PolicyRule \<Rightarrow> Status" where
  "rule_validate r =
     (if ru_from r = St_Invalid \<or> ru_to r = St_Invalid
      then fail EC_InvalidStage ''policy rule references an invalid stage''
      else if ru_from r = ru_to r
      then fail EC_InvalidTransition ''policy rule declares a self transition''
      else if ru_has_kind_scope r \<and> \<not> is_valid_artifact_kind (artifact_kind_value (ru_kind_scope r))
      then fail EC_InvalidEnum ''policy rule scope references an unknown artifact kind''
      else if length (ru_requirements r) > kMaxGates
      then fail EC_InvalidCount ''policy rule exceeds the configured gate bound''
      else if length (ru_preferences r) > kMaxGates
      then fail EC_InvalidCount ''policy rule exceeds the configured preference bound''
      else if \<not> is_valid_ordering_rule (ordering_rule_value (ru_ordering r))
      then fail EC_InvalidEnum ''policy rule declares an unknown ordering rule''
      else if status_failed (check_gates (ru_requirements r)) then check_gates (ru_requirements r)
      else if \<not> list_all (\<lambda>k. is_valid_gate_kind (gate_kind_value k)) (ru_preferences r)
      then fail EC_InvalidEnum ''policy rule preference references an unknown gate kind''
      else success)"

section \<open>Policies\<close>

record PromotionPolicy =
  po_id :: PromotionPolicyId
  po_generation :: PolicyGeneration
  po_name :: string
  po_description :: string
  po_graph :: LifecycleGraph
  po_entry_stage :: Stage
  po_rules :: "PolicyRule list"
  po_policy_digest :: Digest

definition kMaxRules :: nat where "kMaxRules = 64"

definition empty_policy :: PromotionPolicy where
  "empty_policy = \<lparr> po_id = null_id, po_generation = Counter 0, po_name = [], po_description = [],
     po_graph = LifecycleGraph [], po_entry_stage = St_Candidate, po_rules = [],
     po_policy_digest = null_digest \<rparr>"

definition stage_byte :: "Stage \<Rightarrow> u8" where
  "stage_byte s = of_nat (stage_value s)"

definition write_digest_gate :: "Gate \<Rightarrow> bytes" where
  "write_digest_gate g =
     write_u8 (of_nat (gate_kind_value (gt_kind g))) @ write_u8 (et_raw (gt_evidence_type g))
     @ write_text kMaxNameLength (gt_custom_evidence_type g) @ store_u64 (gt_max_age_millis g)
     @ write_counter (gt_required_compatibility_generation g)
     @ write_text kMaxTextLength (gt_required_environment g)
     @ write_identity (gt_required_provenance g) @ write_text kMaxNameLength (gt_label g)"

definition write_digest_rule :: "PolicyRule \<Rightarrow> bytes" where
  "write_digest_rule r =
     write_boolean (ru_has_kind_scope r) @ write_u8 (of_nat (artifact_kind_value (ru_kind_scope r)))
     @ write_u8 (stage_byte (ru_from r)) @ write_u8 (stage_byte (ru_to r))
     @ write_u8 (of_nat (ordering_rule_value (ru_ordering r)))
     @ write_boolean (ru_allow_idempotent_replay r) @ write_boolean (ru_allow_rollback_eligibility r)
     @ write_boolean (ru_supersedes_previous r)
     @ concat (map write_digest_gate (ru_requirements r))
     @ concat (map (\<lambda>k. write_u8 (of_nat (gate_kind_value k))) (ru_preferences r))"

definition policy_preimage :: "PromotionPolicy \<Rightarrow> bytes" where
  "policy_preimage p =
     write_identity (po_id p) @ write_counter (po_generation p) @ write_u8 (stage_byte (po_entry_stage p))
     @ write_list (\<lambda>e. write_u8 (stage_byte (edge_from e)) @ write_u8 (stage_byte (edge_to e)))
         (edges (po_graph p))
     @ write_list write_digest_rule (po_rules p)"

definition compute_digest :: "PromotionPolicy \<Rightarrow> Digest" where
  "compute_digest p = sha256 (policy_preimage p)"

fun check_rules :: "LifecycleGraph \<Rightarrow> PolicyRule list \<Rightarrow> Status" where
  "check_rules g [] = success"
| "check_rules g (r # rs) =
     (if status_failed (rule_validate r) then rule_validate r
      else if \<not> has_edge g (ru_from r) (ru_to r)
      then fail EC_InvalidTransition ''policy rule declares a transition the lifecycle graph forbids''
      else check_rules g rs)"

definition policy_validate :: "PromotionPolicy \<Rightarrow> Status" where
  "policy_validate p =
     (if id_invalid (po_id p) then fail EC_InvalidIdentity ''policy identity is the invalid sentinel''
      else if \<not> counter_valid (po_generation p)
      then fail EC_InvalidCount ''policy generation must be non-zero''
      else if \<not> is_valid_name (po_name p)
      then fail EC_InvalidName ''policy name is empty, too long, or malformed''
      else if length (po_rules p) > kMaxRules
      then fail EC_InvalidCount ''policy rule count exceeds the configured bound''
      else if status_failed (graph_validate (po_graph p) (po_entry_stage p))
      then graph_validate (po_graph p) (po_entry_stage p)
      else if status_failed (check_rules (po_graph p) (po_rules p))
      then check_rules (po_graph p) (po_rules p)
      else if po_rules p = [] then fail EC_InvalidCount ''policy declares no rules''
      else success)"

definition find_rule :: "PromotionPolicy \<Rightarrow> ArtifactKind \<Rightarrow> Stage \<Rightarrow> Stage \<Rightarrow> PolicyRule option" where
  "find_rule p kind from to = find (\<lambda>r. rule_matches r kind from to) (po_rules p)"

definition allows_transition :: "PromotionPolicy \<Rightarrow> ArtifactKind \<Rightarrow> Stage \<Rightarrow> Stage \<Rightarrow> bool" where
  "allows_transition p kind from to \<longleftrightarrow> find_rule p kind from to \<noteq> None"

section \<open>Coordinator authority\<close>

record CoordinatorAuthority =
  ca_coordinator :: CoordinatorId
  ca_epoch :: CoordinatorEpoch

definition authority_valid :: "CoordinatorAuthority \<Rightarrow> bool" where
  "authority_valid a \<longleftrightarrow> id_valid (ca_coordinator a) \<and> counter_valid (ca_epoch a)"

end
