(* ===== verification/Decision.thy ===== *)
theory Decision
  imports Policy
begin

text \<open>
  Promotion decisions, requests, plans and audit records
  (\<open>include/artifact_promotion/decision.hpp\<close>, \<open>src/domain/decision.cpp\<close>).
\<close>

section \<open>Outcomes and gate statuses\<close>

datatype (plugins only: code size) PromotionOutcome =
    PO_Invalid | PO_PromotionEligible | PO_PromotionCommitted | PO_PromotionIneligible
  | PO_RevalidationRequired | PO_EvidenceMissing | PO_EvidenceStale | PO_EvidenceRevoked
  | PO_EvidenceMismatch | PO_ArtifactMismatch | PO_DigestMismatch | PO_TransitionIllegal
  | PO_PolicyStale | PO_CompatibilityFailed | PO_ApprovalRequired | PO_Quarantined | PO_Revoked
  | PO_Superseded | PO_Conflict | PO_AlreadyPromoted | PO_OutcomeUnknown | PO_Unsupported
  | PO_ArtifactNotFound | PO_PolicyNotFound | PO_Cancelled | PO_AuthorityStale
  | PO_ProvenanceMissing | PO_SecurityVeto | PO_DependencyVeto | PO_AdmissionRejected

definition promotion_outcomes :: "PromotionOutcome list" where
  "promotion_outcomes =
    [PO_Invalid, PO_PromotionEligible, PO_PromotionCommitted, PO_PromotionIneligible,
     PO_RevalidationRequired, PO_EvidenceMissing, PO_EvidenceStale, PO_EvidenceRevoked,
     PO_EvidenceMismatch, PO_ArtifactMismatch, PO_DigestMismatch, PO_TransitionIllegal,
     PO_PolicyStale, PO_CompatibilityFailed, PO_ApprovalRequired, PO_Quarantined, PO_Revoked,
     PO_Superseded, PO_Conflict, PO_AlreadyPromoted, PO_OutcomeUnknown, PO_Unsupported,
     PO_ArtifactNotFound, PO_PolicyNotFound, PO_Cancelled, PO_AuthorityStale,
     PO_ProvenanceMissing, PO_SecurityVeto, PO_DependencyVeto, PO_AdmissionRejected]"

definition promotion_outcome_value :: "PromotionOutcome \<Rightarrow> nat" where
  "promotion_outcome_value outcome = index_in promotion_outcomes outcome"

definition kOutcomeNames :: "string list" where
  "kOutcomeNames =
    [''INVALID'', ''PROMOTION_ELIGIBLE'', ''PROMOTION_COMMITTED'', ''PROMOTION_INELIGIBLE'',
     ''REVALIDATION_REQUIRED'', ''EVIDENCE_MISSING'', ''EVIDENCE_STALE'', ''EVIDENCE_REVOKED'',
     ''EVIDENCE_MISMATCH'', ''ARTIFACT_MISMATCH'', ''DIGEST_MISMATCH'', ''TRANSITION_ILLEGAL'',
     ''POLICY_STALE'', ''COMPATIBILITY_FAILED'', ''APPROVAL_REQUIRED'', ''QUARANTINED'',
     ''REVOKED'', ''SUPERSEDED'', ''CONFLICT'', ''ALREADY_PROMOTED'', ''OUTCOME_UNKNOWN'',
     ''UNSUPPORTED'', ''ARTIFACT_NOT_FOUND'', ''POLICY_NOT_FOUND'', ''CANCELLED'',
     ''AUTHORITY_STALE'', ''PROVENANCE_MISSING'', ''SECURITY_VETO'', ''DEPENDENCY_VETO'',
     ''ADMISSION_REJECTED'']"

definition promotion_outcome_to_string :: "PromotionOutcome \<Rightarrow> string" where
  "promotion_outcome_to_string outcome =
     (case find (\<lambda>entry. fst entry = outcome) (zip promotion_outcomes kOutcomeNames) of
        Some entry \<Rightarrow> snd entry | None \<Rightarrow> ''INVALID'')"

definition is_valid_promotion_outcome :: "nat \<Rightarrow> bool" where
  "is_valid_promotion_outcome raw \<longleftrightarrow> 1 \<le> raw \<and> raw \<le> 29"

definition is_success_outcome :: "PromotionOutcome \<Rightarrow> bool" where
  "is_success_outcome outcome \<longleftrightarrow>
     outcome = PO_PromotionEligible \<or> outcome = PO_PromotionCommitted \<or> outcome = PO_AlreadyPromoted"

interpretation outcomes: enumeration promotion_outcomes
  rewrites "index_in promotion_outcomes = promotion_outcome_value"
proof -
  show "enumeration promotion_outcomes"
  proof
    show "distinct promotion_outcomes" by (simp add: promotion_outcomes_def)
    show "x \<in> set promotion_outcomes" for x by (cases x) (simp_all add: promotion_outcomes_def)
  qed
  show "index_in promotion_outcomes = promotion_outcome_value"
    by (rule ext) (simp add: promotion_outcome_value_def)
qed

datatype GateStatus = GS_NotEvaluated | GS_Satisfied | GS_Failed | GS_Unknown | GS_NotApplicable

fun gate_status_value :: "GateStatus \<Rightarrow> nat" where
  "gate_status_value GS_NotEvaluated = 0"
| "gate_status_value GS_Satisfied = 1"
| "gate_status_value GS_Failed = 2"
| "gate_status_value GS_Unknown = 3"
| "gate_status_value GS_NotApplicable = 4"

fun gate_status_to_string :: "GateStatus \<Rightarrow> string" where
  "gate_status_to_string GS_NotEvaluated = ''NOT_EVALUATED''"
| "gate_status_to_string GS_Satisfied = ''SATISFIED''"
| "gate_status_to_string GS_Failed = ''FAILED''"
| "gate_status_to_string GS_Unknown = ''UNKNOWN''"
| "gate_status_to_string GS_NotApplicable = ''NOT_APPLICABLE''"

section \<open>Decisions\<close>

record GateExplanation =
  ge_kind :: GateKind
  ge_label :: string
  ge_status :: GateStatus
  ge_code :: ErrorCode
  ge_detail :: string

definition gate_explanation_render :: "GateExplanation \<Rightarrow> string" where
  "gate_explanation_render g =
     gate_kind_to_string (ge_kind g) @ '' '' @ gate_status_to_string (ge_status g)
     @ (if ge_label g \<noteq> [] then '' ('' @ ge_label g @ '')'' else [])
     @ (if ge_code g \<noteq> EC_Ok then '' code='' @ error_code_to_string (ge_code g) else [])
     @ (if ge_detail g \<noteq> [] then '' detail='' @ ge_detail g else [])"

record EvidenceFinding =
  ef_id :: EvidenceId
  ef_type :: EvidenceType
  ef_custom_type :: string
  ef_generation :: EvidenceGeneration
  ef_result :: EvidenceResult
  ef_subject_digest :: Digest
  ef_subject_revision :: ArtifactRevision
  ef_code :: ErrorCode
  ef_detail :: string

record PromotionDecision =
  de_id :: PromotionDecisionId
  de_request :: PromotionRequestId
  de_attempt :: PromotionAttemptId
  de_artifact :: ArtifactId
  de_artifact_revision :: ArtifactRevision
  de_artifact_generation :: ArtifactGeneration
  de_artifact_digest :: Digest
  de_artifact_kind :: ArtifactKind
  de_from :: Stage
  de_to :: Stage
  de_outcome :: PromotionOutcome
  de_policy :: PromotionPolicyId
  de_policy_generation :: PolicyGeneration
  de_policy_digest :: Digest
  de_authority :: CoordinatorAuthority
  de_sequence :: DecisionSequence
  de_evidence_snapshot_digest :: Digest
  de_gates :: "GateExplanation list"
  de_findings :: "EvidenceFinding list"
  de_reasons :: "Reason list"
  de_plan :: PromotionPlanId
  de_authoritative :: bool
  de_decided_unix_millis :: "u64 option"

definition null_authority :: CoordinatorAuthority where
  "null_authority = \<lparr> ca_coordinator = null_id, ca_epoch = Counter 0 \<rparr>"

definition empty_decision :: PromotionDecision where
  "empty_decision = \<lparr> de_id = null_id, de_request = null_id, de_attempt = null_id,
     de_artifact = null_id, de_artifact_revision = null_id, de_artifact_generation = Counter 0,
     de_artifact_digest = null_digest, de_artifact_kind = AK_Invalid, de_from = St_Invalid,
     de_to = St_Invalid, de_outcome = PO_Invalid, de_policy = null_id,
     de_policy_generation = Counter 0, de_policy_digest = null_digest,
     de_authority = null_authority, de_sequence = Counter 0,
     de_evidence_snapshot_digest = null_digest, de_gates = [], de_findings = [], de_reasons = [],
     de_plan = null_id, de_authoritative = False, de_decided_unix_millis = None \<rparr>"

definition gate_blocks :: "GateExplanation \<Rightarrow> bool" where
  "gate_blocks g \<longleftrightarrow> ge_status g = GS_Failed \<or> ge_status g = GS_Unknown"

definition failed_gate_count :: "PromotionDecision \<Rightarrow> nat" where
  "failed_gate_count d = length (filter gate_blocks (de_gates d))"

definition failed_gate_labels :: "PromotionDecision \<Rightarrow> string list" where
  "failed_gate_labels d =
     map (\<lambda>g. if ge_label g = [] then gate_kind_to_string (ge_kind g) else ge_label g)
       (filter gate_blocks (de_gates d))"

definition newline :: string where "newline = [char_of (10::nat)]"

definition decision_render :: "PromotionDecision \<Rightarrow> string" where
  "decision_render d =
     ''decision='' @ id_to_string (de_id d) @ '' outcome='' @ promotion_outcome_to_string (de_outcome d)
     @ '' artifact='' @ id_to_string (de_artifact d)
     @ '' revision='' @ id_to_string (de_artifact_revision d)
     @ '' digest='' @ digest_to_string (de_artifact_digest d)
     @ '' transition='' @ stage_to_string (de_from d) @ ''->'' @ stage_to_string (de_to d)
     @ '' policy='' @ id_to_string (de_policy d) @ ''#'' @ counter_to_string (de_policy_generation d)
     @ '' authority='' @ id_to_string (ca_coordinator (de_authority d)) @ ''@''
     @ counter_to_string (ca_epoch (de_authority d))
     @ '' sequence='' @ counter_to_string (de_sequence d)
     @ '' authoritative='' @ (if de_authoritative d then ''true'' else ''false'')
     @ concat (map (\<lambda>g. newline @ ''  gate '' @ gate_explanation_render g) (de_gates d))
     @ concat (map (\<lambda>r. newline @ ''  reason '' @ reason_render r) (de_reasons d))
     @ concat (map (\<lambda>f. newline @ ''  evidence '' @ id_to_string (ef_id f)
           @ '' type='' @ evidence_type_to_string (ef_type f)
           @ '' subject_revision='' @ id_to_string (ef_subject_revision f)
           @ '' subject_digest='' @ digest_to_string (ef_subject_digest f)
           @ '' code='' @ error_code_to_string (ef_code f) @ '' detail='' @ ef_detail f)
         (de_findings d))"

section \<open>Requests and plans\<close>

record PromotionRequest =
  rq_artifact :: ArtifactId
  rq_expected_revision :: ArtifactRevision
  rq_expected_digest :: Digest
  rq_requested_stage :: Stage
  rq_request :: PromotionRequestId
  rq_attempt :: PromotionAttemptId
  rq_authority :: CoordinatorAuthority
  rq_requester :: ProducerIncarnation

record PromotionPlan =
  pl_id :: PromotionPlanId
  pl_request :: PromotionRequestId
  pl_attempt :: PromotionAttemptId
  pl_decision :: PromotionDecisionId
  pl_artifact :: ArtifactId
  pl_artifact_revision :: ArtifactRevision
  pl_artifact_generation :: ArtifactGeneration
  pl_artifact_digest :: Digest
  pl_artifact_kind :: ArtifactKind
  pl_from :: Stage
  pl_to :: Stage
  pl_stage_generation :: StageGeneration
  pl_policy :: PromotionPolicyId
  pl_policy_generation :: PolicyGeneration
  pl_policy_digest :: Digest
  pl_lifecycle_digest :: Digest
  pl_authority :: CoordinatorAuthority
  pl_evidence_snapshot_digest :: Digest
  pl_evidence_entry_count :: nat
  pl_compatibility_profile :: CompatibilityProfileId
  pl_compatibility_generation :: CompatibilityGeneration
  pl_artifact_sequence :: CommitSequence
  pl_created_sequence :: CommitSequence
  pl_decision_sequence :: DecisionSequence
  pl_has_expiry :: bool
  pl_expires_unix_millis :: u64

definition plan_valid :: "PromotionPlan \<Rightarrow> bool" where
  "plan_valid p \<longleftrightarrow>
     id_valid (pl_id p) \<and> id_valid (pl_request p) \<and> id_valid (pl_attempt p) \<and> id_valid (pl_decision p)
     \<and> id_valid (pl_artifact p) \<and> id_valid (pl_artifact_revision p)
     \<and> counter_valid (pl_artifact_generation p) \<and> digest_valid (pl_artifact_digest p)
     \<and> pl_artifact_kind p \<noteq> AK_Invalid \<and> pl_from p \<noteq> St_Invalid \<and> pl_to p \<noteq> St_Invalid
     \<and> counter_valid (pl_stage_generation p) \<and> id_valid (pl_policy p)
     \<and> counter_valid (pl_policy_generation p) \<and> digest_valid (pl_policy_digest p)
     \<and> digest_valid (pl_lifecycle_digest p) \<and> authority_valid (pl_authority p)
     \<and> digest_valid (pl_evidence_snapshot_digest p) \<and> counter_valid (pl_created_sequence p)
     \<and> counter_valid (pl_decision_sequence p)"

definition plan_render :: "PromotionPlan \<Rightarrow> string" where
  "plan_render p =
     ''plan='' @ id_to_string (pl_id p) @ '' artifact='' @ id_to_string (pl_artifact p)
     @ '' revision='' @ id_to_string (pl_artifact_revision p)
     @ '' generation='' @ counter_to_string (pl_artifact_generation p)
     @ '' digest='' @ digest_to_string (pl_artifact_digest p)
     @ '' transition='' @ stage_to_string (pl_from p) @ ''->'' @ stage_to_string (pl_to p)
     @ '' stage_generation='' @ counter_to_string (pl_stage_generation p)
     @ '' policy='' @ id_to_string (pl_policy p) @ ''#'' @ counter_to_string (pl_policy_generation p)
     @ '' authority='' @ id_to_string (ca_coordinator (pl_authority p)) @ ''@''
     @ counter_to_string (ca_epoch (pl_authority p))
     @ '' evidence_snapshot='' @ digest_to_string (pl_evidence_snapshot_digest p)
     @ '' compatibility='' @ id_to_string (pl_compatibility_profile p) @ ''#''
     @ counter_to_string (pl_compatibility_generation p)
     @ '' created_sequence='' @ counter_to_string (pl_created_sequence p)
     @ (if pl_has_expiry p
        then '' expires_unix_millis='' @ u64_to_string (pl_expires_unix_millis p) else [])"

section \<open>Audit records\<close>

record PromotionRecord =
  pr_transition :: TransitionId
  pr_artifact :: ArtifactId
  pr_artifact_revision :: ArtifactRevision
  pr_artifact_digest :: Digest
  pr_from :: Stage
  pr_to :: Stage
  pr_decision :: PromotionDecisionId
  pr_plan :: PromotionPlanId
  pr_request :: PromotionRequestId
  pr_attempt :: PromotionAttemptId
  pr_policy :: PromotionPolicyId
  pr_policy_generation :: PolicyGeneration
  pr_authority :: CoordinatorAuthority
  pr_evidence_snapshot_digest :: Digest
  pr_sequence :: CommitSequence
  pr_committed_unix_millis :: u64
  pr_note :: string

definition promotion_record_valid :: "PromotionRecord \<Rightarrow> bool" where
  "promotion_record_valid r \<longleftrightarrow>
     (let decision_requirement = (pr_to r \<noteq> St_Promoted \<or> id_valid (pr_decision r)) in
      id_valid (pr_transition r) \<and> id_valid (pr_artifact r) \<and> id_valid (pr_artifact_revision r)
      \<and> digest_valid (pr_artifact_digest r) \<and> pr_from r \<noteq> St_Invalid \<and> pr_to r \<noteq> St_Invalid
      \<and> decision_requirement \<and> id_valid (pr_policy r) \<and> counter_valid (pr_policy_generation r)
      \<and> authority_valid (pr_authority r) \<and> digest_valid (pr_evidence_snapshot_digest r)
      \<and> counter_valid (pr_sequence r))"

end
