(* ===== verification/Store.thy ===== *)
theory Store
  imports Decision
begin

text \<open>
  The authoritative coordinator state (\<open>include/artifact_promotion/store.hpp\<close>,
  \<open>src/domain/store.cpp\<close>) and the engine configuration (\<open>config.hpp\<close>).  Each
  \<open>std::map\<close> is an ordered entry sequence; \<open>find_current\<close> and \<open>find_revision\<close>
  return the record itself, and the places of the program that write through the returned pointer
  use \<open>update_current\<close> and \<open>update_revision\<close>.
\<close>

section \<open>Configuration\<close>

record EngineConfig =
  max_artifacts :: nat
  max_artifact_revisions_per_id :: nat
  max_evidence_records :: nat
  max_evidence_per_artifact_revision :: nat
  max_policies_retained :: nat
  max_pending_promotions :: nat
  max_plans_retained :: nat
  max_decisions_retained :: nat
  max_records_retained :: nat
  max_history_events :: nat
  max_evidence_per_snapshot :: nat
  plan_ttl_millis :: u64
  reservation_stale_millis :: u64
  future_skew_tolerance_millis :: u64
  identity_salt_seed :: u64

definition config_defaults :: EngineConfig where
  "config_defaults = \<lparr> max_artifacts = 100000, max_artifact_revisions_per_id = 64,
     max_evidence_records = 500000, max_evidence_per_artifact_revision = 256,
     max_policies_retained = 16, max_pending_promotions = 4096, max_plans_retained = 4096,
     max_decisions_retained = 65536, max_records_retained = 65536, max_history_events = 262144,
     max_evidence_per_snapshot = 256, plan_ttl_millis = 60000, reservation_stale_millis = 30000,
     future_skew_tolerance_millis = 5000, identity_salt_seed = 0x5A17C0DE \<rparr>"

definition config_valid :: "EngineConfig \<Rightarrow> bool" where
  "config_valid c \<longleftrightarrow>
     max_artifacts c > 0 \<and> max_evidence_records c > 0 \<and> max_pending_promotions c > 0
     \<and> max_plans_retained c > 0 \<and> max_history_events c > 0 \<and> max_evidence_per_snapshot c > 0
     \<and> max_policies_retained c > 0 \<and> plan_ttl_millis c > 0 \<and> max_decisions_retained c > 0
     \<and> max_records_retained c > 0 \<and> max_artifact_revisions_per_id c > 0
     \<and> max_evidence_per_artifact_revision c > 0"

section \<open>History, reservations, idempotency, vetoes\<close>

datatype HistoryEventKind =
    HE_Invalid | HE_ArtifactRegistered | HE_ArtifactSupersededRegistration | HE_EvidenceSubmitted
  | HE_EvidenceSuperseded | HE_EvidenceRevoked | HE_PolicyPublished | HE_PromotionEvaluated
  | HE_PromotionCommitted | HE_PromotionRejected | HE_Quarantined | HE_QuarantineReleased
  | HE_Revoked | HE_Superseded | HE_Retired | HE_RecoveryNote

fun history_event_kind_to_string :: "HistoryEventKind \<Rightarrow> string" where
  "history_event_kind_to_string HE_Invalid = ''INVALID''"
| "history_event_kind_to_string HE_ArtifactRegistered = ''ARTIFACT_REGISTERED''"
| "history_event_kind_to_string HE_ArtifactSupersededRegistration = ''ARTIFACT_SUPERSEDED_REGISTRATION''"
| "history_event_kind_to_string HE_EvidenceSubmitted = ''EVIDENCE_SUBMITTED''"
| "history_event_kind_to_string HE_EvidenceSuperseded = ''EVIDENCE_SUPERSEDED''"
| "history_event_kind_to_string HE_EvidenceRevoked = ''EVIDENCE_REVOKED''"
| "history_event_kind_to_string HE_PolicyPublished = ''POLICY_PUBLISHED''"
| "history_event_kind_to_string HE_PromotionEvaluated = ''PROMOTION_EVALUATED''"
| "history_event_kind_to_string HE_PromotionCommitted = ''PROMOTION_COMMITTED''"
| "history_event_kind_to_string HE_PromotionRejected = ''PROMOTION_REJECTED''"
| "history_event_kind_to_string HE_Quarantined = ''QUARANTINED''"
| "history_event_kind_to_string HE_QuarantineReleased = ''QUARANTINE_RELEASED''"
| "history_event_kind_to_string HE_Revoked = ''REVOKED''"
| "history_event_kind_to_string HE_Superseded = ''SUPERSEDED''"
| "history_event_kind_to_string HE_Retired = ''RETIRED''"
| "history_event_kind_to_string HE_RecoveryNote = ''RECOVERY_NOTE''"

record HistoryEvent =
  he_sequence :: CommitSequence
  he_kind :: HistoryEventKind
  he_artifact :: ArtifactId
  he_artifact_revision :: ArtifactRevision
  he_evidence :: EvidenceId
  he_decision :: PromotionDecisionId
  he_outcome :: PromotionOutcome
  he_from :: Stage
  he_to :: Stage
  he_authority :: CoordinatorAuthority
  he_note :: string

definition empty_event :: HistoryEvent where
  "empty_event = \<lparr> he_sequence = Counter 0, he_kind = HE_Invalid, he_artifact = null_id,
     he_artifact_revision = null_id, he_evidence = null_id, he_decision = null_id,
     he_outcome = PO_Invalid, he_from = St_Invalid, he_to = St_Invalid,
     he_authority = null_authority, he_note = [] \<rparr>"

record PendingTransition =
  pt_id :: ReservationId
  pt_artifact :: ArtifactId
  pt_artifact_revision :: ArtifactRevision
  pt_artifact_generation :: ArtifactGeneration
  pt_stage_generation :: StageGeneration
  pt_from :: Stage
  pt_to :: Stage
  pt_plan :: PromotionPlanId
  pt_request :: PromotionRequestId
  pt_attempt :: PromotionAttemptId
  pt_authority :: CoordinatorAuthority
  pt_created_sequence :: CommitSequence
  pt_created_unix_millis :: u64

record IdempotencyRecord =
  ir_request :: PromotionRequestId
  ir_attempt :: PromotionAttemptId
  ir_decision :: PromotionDecisionId
  ir_outcome :: PromotionOutcome
  ir_plan :: PromotionPlanId
  ir_request_digest :: Digest
  ir_created_sequence :: CommitSequence

record VetoState =
  vs_security_veto :: bool
  vs_security_reason :: string
  vs_dependency_veto :: bool
  vs_dependency_reason :: string

definition no_veto :: VetoState where
  "no_veto = \<lparr> vs_security_veto = False, vs_security_reason = [], vs_dependency_veto = False,
     vs_dependency_reason = [] \<rparr>"

section \<open>Coordinator state\<close>

record CoordinatorState =
  coordinator :: CoordinatorId
  epoch :: CoordinatorEpoch
  commit_sequence :: CommitSequence
  decision_sequence :: DecisionSequence
  artifact_generation :: ArtifactGeneration
  compatibility_generation :: CompatibilityGeneration
  compatibility_profile :: CompatibilityProfileId
  active_policy :: PromotionPolicyId
  active_policy_generation :: PolicyGeneration
  active_policy_digest :: Digest
  artifacts :: "(ArtifactId, ArtifactRecord list) omap"
  evidence :: "(EvidenceId, EvidenceRecord) omap"
  plans :: "(PromotionPlanId, PromotionPlan) omap"
  decisions :: "(PromotionDecisionId, PromotionDecision) omap"
  records :: "(TransitionId, PromotionRecord) omap"
  idempotency :: "(PromotionRequestId, IdempotencyRecord) omap"
  history :: "(CommitSequence, HistoryEvent) omap"
  vetoes :: "(ArtifactId, VetoState) omap"
  pending :: "(ArtifactId, PendingTransition) omap"
  revision_generator :: "ArtifactRevisionTag IdentityGenerator"
  evidence_generator :: "EvidenceIdTag IdentityGenerator"
  plan_generator :: "PromotionPlanIdTag IdentityGenerator"
  decision_generator :: "PromotionDecisionIdTag IdentityGenerator"
  transition_generator :: "TransitionIdTag IdentityGenerator"
  reservation_generator :: "ReservationIdTag IdentityGenerator"
  instance_generator :: "ArtifactInstanceIdTag IdentityGenerator"
  provenance_generator :: "ProvenanceRefTag IdentityGenerator"
  internal_request_generator :: "PromotionRequestIdTag IdentityGenerator"
  internal_attempt_generator :: "PromotionAttemptIdTag IdentityGenerator"
  active_policy_id :: PromotionPolicyId
  active_policy_body :: PromotionPolicy

definition empty_state :: CoordinatorState where
  "empty_state = \<lparr> coordinator = null_id, epoch = Counter 0, commit_sequence = Counter 0,
     decision_sequence = Counter 0, artifact_generation = Counter 0,
     compatibility_generation = Counter 1, compatibility_profile = null_id,
     active_policy = null_id, active_policy_generation = Counter 0,
     active_policy_digest = null_digest, artifacts = [], evidence = [], plans = [], decisions = [],
     records = [], idempotency = [], history = [], vetoes = [], pending = [],
     revision_generator = gen_default, evidence_generator = gen_default,
     plan_generator = gen_default, decision_generator = gen_default,
     transition_generator = gen_default, reservation_generator = gen_default,
     instance_generator = gen_default, provenance_generator = gen_default,
     internal_request_generator = gen_default, internal_attempt_generator = gen_default,
     active_policy_id = null_id, active_policy_body = empty_policy \<rparr>"

definition find_current :: "CoordinatorState \<Rightarrow> ArtifactId \<Rightarrow> ArtifactRecord option" where
  "find_current st i =
     (case om_find (artifacts st) i of
        None \<Rightarrow> None
      | Some revisions \<Rightarrow> if revisions = [] then None else Some (last revisions))"

definition find_revision ::
  "CoordinatorState \<Rightarrow> ArtifactId \<Rightarrow> ArtifactRevision \<Rightarrow> ArtifactRecord option" where
  "find_revision st i revision =
     (case om_find (artifacts st) i of
        None \<Rightarrow> None
      | Some revisions \<Rightarrow> find (\<lambda>r. ar_revision r = revision) revisions)"

text \<open>Writing through the non-const pointers.\<close>

fun update_first :: "('a \<Rightarrow> bool) \<Rightarrow> ('a \<Rightarrow> 'a) \<Rightarrow> 'a list \<Rightarrow> 'a list" where
  "update_first P f [] = []"
| "update_first P f (x # xs) = (if P x then f x # xs else x # update_first P f xs)"

definition update_last :: "('a \<Rightarrow> 'a) \<Rightarrow> 'a list \<Rightarrow> 'a list" where
  "update_last f xs = (if xs = [] then [] else butlast xs @ [f (last xs)])"

fun om_update :: "'k \<Rightarrow> ('v \<Rightarrow> 'v) \<Rightarrow> ('k, 'v) omap \<Rightarrow> ('k, 'v) omap" where
  "om_update k f [] = []"
| "om_update k f ((a, b) # m) = (if k = a then (a, f b) # m else (a, b) # om_update k f m)"

definition update_current ::
  "ArtifactId \<Rightarrow> (ArtifactRecord \<Rightarrow> ArtifactRecord) \<Rightarrow> CoordinatorState \<Rightarrow> CoordinatorState" where
  "update_current i f st = st \<lparr> artifacts := om_update i (update_last f) (artifacts st) \<rparr>"

definition update_revision :: "ArtifactId \<Rightarrow> ArtifactRevision \<Rightarrow> (ArtifactRecord \<Rightarrow> ArtifactRecord)
    \<Rightarrow> CoordinatorState \<Rightarrow> CoordinatorState" where
  "update_revision i revision f st =
     st \<lparr> artifacts := om_update i (update_first (\<lambda>r. ar_revision r = revision) f) (artifacts st) \<rparr>"

definition set_active_policy :: "PromotionPolicy \<Rightarrow> CoordinatorState \<Rightarrow> CoordinatorState" where
  "set_active_policy p st =
     st \<lparr> active_policy := po_id p, active_policy_id := po_id p,
          active_policy_generation := po_generation p, active_policy_body := p,
          active_policy_digest := po_policy_digest p \<rparr>"

definition next_sequence :: "CoordinatorState \<Rightarrow> CommitSequence \<times> CoordinatorState" where
  "next_sequence st =
     (let s = counter_next (commit_sequence st) in (s, st \<lparr> commit_sequence := s \<rparr>))"

definition next_decision_sequence :: "CoordinatorState \<Rightarrow> DecisionSequence \<times> CoordinatorState" where
  "next_decision_sequence st =
     (let s = counter_next (decision_sequence st) in (s, st \<lparr> decision_sequence := s \<rparr>))"

definition next_internal_request :: "CoordinatorState \<Rightarrow> PromotionRequestId \<times> CoordinatorState" where
  "next_internal_request st =
     (let (i, g) = gen_next (internal_request_generator st)
      in (i, st \<lparr> internal_request_generator := g \<rparr>))"

definition next_internal_attempt :: "CoordinatorState \<Rightarrow> PromotionAttemptId \<times> CoordinatorState" where
  "next_internal_attempt st =
     (let (i, g) = gen_next (internal_attempt_generator st)
      in (i, st \<lparr> internal_attempt_generator := g \<rparr>))"

section \<open>Consistency of a loaded state\<close>

text \<open>A loop whose body returns at the first failure.\<close>

fun check_all :: "('a \<Rightarrow> Status) \<Rightarrow> 'a list \<Rightarrow> Status" where
  "check_all f [] = success"
| "check_all f (x # xs) = (if status_failed (f x) then f x else check_all f xs)"

abbreviation corrupt :: "string \<Rightarrow> Status" where
  "corrupt message \<equiv> fail EC_PersistenceCorrupt message"

fun check_revisions :: "ArtifactId \<Rightarrow> ArtifactRevision list \<Rightarrow> nat \<Rightarrow> ArtifactRecord list \<Rightarrow> Status" where
  "check_revisions i seen index [] = success"
| "check_revisions i seen index (r # rs) =
     (if \<not> artifact_valid r \<or> ar_id r \<noteq> i then corrupt ''artifact revision record is malformed''
      else if ar_revision r \<in> set seen then corrupt ''artifact identity has a duplicate revision''
      else if unat (counter_value (ar_generation r)) \<noteq> index + 1
      then corrupt ''artifact revision generation does not match its position in the revision chain''
      else if ar_promoted r \<and> id_invalid (ar_promotion_decision r)
      then corrupt ''promoted artifact has no promotion decision''
      else check_revisions i (ar_revision r # seen) (index + 1) rs)"

definition check_artifact_chain :: "ArtifactId \<times> ArtifactRecord list \<Rightarrow> Status" where
  "check_artifact_chain entry =
     (case entry of (i, revisions) \<Rightarrow>
        if id_invalid i \<or> revisions = []
        then corrupt ''artifact entry has an invalid identity or no revisions''
        else check_revisions i [] 0 revisions)"

definition check_evidence_entry :: "CoordinatorState \<Rightarrow> EvidenceId \<times> EvidenceRecord \<Rightarrow> Status" where
  "check_evidence_entry st entry =
     (case entry of (i, r) \<Rightarrow>
        if id_invalid i \<or> ev_id r \<noteq> i \<or> \<not> evidence_valid r then corrupt ''evidence record is malformed''
        else case find_revision st (ev_subject r) (ev_subject_revision r) of
          None \<Rightarrow> corrupt ''evidence references an unknown artifact revision''
        | Some subject \<Rightarrow>
            if ar_digest subject \<noteq> ev_subject_digest r
            then corrupt ''evidence subject digest does not match the artifact revision''
            else if compute_evidence_integrity r \<noteq> ev_integrity_digest r
            then corrupt ''evidence integrity digest does not match its content''
            else success)"

definition check_plan_entry :: "PromotionPlanId \<times> PromotionPlan \<Rightarrow> Status" where
  "check_plan_entry entry =
     (case entry of (i, p) \<Rightarrow>
        if id_invalid i \<or> pl_id p \<noteq> i \<or> \<not> plan_valid p then corrupt ''promotion plan is malformed''
        else success)"

definition check_decision_entry :: "PromotionDecisionId \<times> PromotionDecision \<Rightarrow> Status" where
  "check_decision_entry entry =
     (case entry of (i, d) \<Rightarrow>
        if id_invalid i \<or> de_id d \<noteq> i then corrupt ''promotion decision identity mismatch''
        else if \<not> is_valid_promotion_outcome (promotion_outcome_value (de_outcome d))
        then corrupt ''promotion decision carries an unknown outcome''
        else success)"

definition check_record_entry :: "CoordinatorState \<Rightarrow> TransitionId \<times> PromotionRecord \<Rightarrow> Status" where
  "check_record_entry st entry =
     (case entry of (i, r) \<Rightarrow>
        if id_invalid i \<or> pr_transition r \<noteq> i \<or> \<not> promotion_record_valid r
        then corrupt ''promotion record is malformed''
        else if \<not> counter_valid (pr_sequence r) then corrupt ''promotion record has no commit sequence''
        else if pr_to r = St_Promoted \<and> id_invalid (pr_decision r)
        then corrupt ''promotion record names no promotion decision''
        else case find_revision st (pr_artifact r) (pr_artifact_revision r) of
          None \<Rightarrow> corrupt ''promotion record references an unknown artifact revision''
        | Some subject \<Rightarrow>
            if ar_digest subject \<noteq> pr_artifact_digest r
            then corrupt ''promotion record digest does not match the artifact revision''
            else success)"

fun check_history :: "CommitSequence \<Rightarrow> (CommitSequence \<times> HistoryEvent) list \<Rightarrow> Status" where
  "check_history previous [] = success"
| "check_history previous ((s, e) # es) =
     (if \<not> counter_valid s \<or> he_sequence e \<noteq> s then corrupt ''history event sequence mismatch''
      else if counter_valid previous \<and> \<not> previous < s then corrupt ''history is not strictly increasing''
      else check_history s es)"

definition check_references :: "CoordinatorState \<Rightarrow> ArtifactRecord \<Rightarrow> Status" where
  "check_references st r =
     (if rv_active (ar_revocation r) \<and> id_invalid (rv_decision (ar_revocation r))
      then corrupt ''active revocation names no promotion decision''
      else if rv_active (ar_revocation r) \<and> \<not> om_count (decisions st) (rv_decision (ar_revocation r))
      then corrupt ''active revocation references an unknown promotion decision''
      else if sp_active (ar_supersession r)
           \<and> find_revision st (sp_successor (ar_supersession r)) (sp_successor_revision (ar_supersession r)) = None
      then corrupt ''supersession references an unknown successor''
      else success)"

definition verify_consistency :: "CoordinatorState \<Rightarrow> Status" where
  "verify_consistency st =
     (let body = active_policy_body st;
          policy_status = policy_validate body;
          artifact_status = check_all check_artifact_chain (artifacts st);
          evidence_status = check_all (check_evidence_entry st) (evidence st);
          plan_status = check_all check_plan_entry (plans st);
          decision_status = check_all check_decision_entry (decisions st);
          record_status = check_all (check_record_entry st) (records st);
          history_status = check_history (Counter 0) (history st)
      in if id_invalid (coordinator st) then corrupt ''coordinator identity is the invalid sentinel''
         else if \<not> counter_valid (epoch st) then corrupt ''coordinator epoch is zero''
         else if \<not> id_valid (po_id body) \<or> po_id body \<noteq> active_policy st
         then corrupt ''active policy body does not match the recorded policy identity''
         else if po_generation body \<noteq> active_policy_generation st
         then corrupt ''active policy generation does not match the policy body''
         else if po_policy_digest body \<noteq> active_policy_digest st
         then corrupt ''active policy digest does not match the policy body''
         else if status_failed policy_status then policy_status
         else if status_failed artifact_status then artifact_status
         else if status_failed evidence_status then evidence_status
         else if status_failed plan_status then plan_status
         else if status_failed decision_status then decision_status
         else if status_failed record_status then record_status
         else if status_failed history_status then history_status
         else check_all (\<lambda>(i, revisions). check_all (check_references st) revisions) (artifacts st))"

section \<open>Lookups after updates\<close>

lemma check_all_ok: "status_ok (check_all f xs) \<longleftrightarrow> (\<forall>x \<in> set xs. status_ok (f x))"
  by (induction xs) (auto simp: status_failed_iff)

lemma keys_om_update [simp]: "map fst (om_update k f m) = map fst m"
  by (induction k f m rule: om_update.induct) auto

lemma om_ok_update [simp]: "om_ok (om_update k f m) \<longleftrightarrow> om_ok m"
  by (simp add: om_ok_def)

lemma om_find_update [simp]: "om_find (om_update k f m) j = (if j = k then map_option f (om_find m k) else om_find m j)"
  by (induction k f m rule: om_update.induct) auto

lemma length_om_update [simp]: "length (om_update k f m) = length m"
  by (induction k f m rule: om_update.induct) auto

lemma update_last_Nil [simp]: "update_last f xs = [] \<longleftrightarrow> xs = []"
  by (simp add: update_last_def)

lemma last_update_last [simp]: "xs \<noteq> [] \<Longrightarrow> last (update_last f xs) = f (last xs)"
  by (simp add: update_last_def)

lemma find_current_update_current:
  "find_current (update_current i f st) j =
     (if j = i then map_option f (find_current st i) else find_current st j)"
  by (auto simp: find_current_def update_current_def split: option.splits)

lemma find_update_first:
  assumes "\<And>x. P (f x) \<longleftrightarrow> P x"
  shows "find P (update_first P f xs) = map_option f (find P xs)"
  using assms by (induction xs) auto

lemma find_update_first_other:
  assumes "\<And>x. P x \<Longrightarrow> \<not> Q x" "\<And>x. P x \<Longrightarrow> \<not> Q (f x)"
  shows "find Q (update_first P f xs) = find Q xs"
  using assms by (induction xs) auto

text \<open>An update that keeps the revision identity changes exactly the revision it names.\<close>

lemma find_revision_update_revision:
  assumes "\<And>r. ar_revision (f r) = ar_revision r"
  shows "find_revision (update_revision i v f st) j w =
     (if j = i \<and> w = v then map_option f (find_revision st i v) else find_revision st j w)"
  using assms
  by (auto simp: find_revision_def update_revision_def find_update_first find_update_first_other
      split: option.splits)

end
