(* ===== verification/Evaluate.thy ===== *)
theory Evaluate
  imports Store
begin

text \<open>
  Hard gate evaluation (\<open>src/engine/evaluate.cpp\<close>): gathering and selecting evidence, one
  verdict per gate kind, and the loop over the requirements of the governing rule that builds the
  explanation.  The wall clock is the parameter \<open>now\<close>.
\<close>

section \<open>Diagnostic text\<close>

text \<open>Texts assembled at run time are wrapped in \<open>lit\<close>, which rewriting does not enter.\<close>

definition lit :: "string \<Rightarrow> string" where
  "lit s = s"

lemma lit_opaque [cong]: "lit s = lit s"
  by simp

section \<open>Selecting evidence\<close>

definition gate_targets :: "EvidenceType \<Rightarrow> string \<Rightarrow> EvidenceRecord \<Rightarrow> bool" where
  "gate_targets gate_type gate_custom r \<longleftrightarrow>
     (if gate_type \<noteq> ev_type r then False
      else if gate_type = ET_Custom then gate_custom = ev_custom_type r
      else True)"

definition evidence_less :: "EvidenceRecord \<Rightarrow> EvidenceRecord \<Rightarrow> bool" where
  "evidence_less lhs rhs \<longleftrightarrow>
     (if ev_type lhs \<noteq> ev_type rhs then et_raw (ev_type lhs) < et_raw (ev_type rhs)
      else if ev_custom_type lhs \<noteq> ev_custom_type rhs
      then string_less (ev_custom_type lhs) (ev_custom_type rhs)
      else ev_id lhs < ev_id rhs)"

definition gather_evidence :: "CoordinatorState \<Rightarrow> ArtifactId \<Rightarrow> ArtifactRevision \<Rightarrow> EvidenceRecord list" where
  "gather_evidence st subject revision =
     sort_by evidence_less
       (filter (\<lambda>r. \<not> (ev_subject r \<noteq> subject \<or> ev_subject_revision r \<noteq> revision))
         (map snd (evidence st)))"

text \<open>Keep the newest record by ingestion sequence.\<close>

definition keep_newest :: "EvidenceRecord option \<Rightarrow> EvidenceRecord \<Rightarrow> EvidenceRecord option" where
  "keep_newest best r =
     (case best of
        None \<Rightarrow> Some r
      | Some b \<Rightarrow> if ev_created_sequence b < ev_created_sequence r then Some r else Some b)"

definition newest_evidence :: "EvidenceRecord list \<Rightarrow> EvidenceType \<Rightarrow> string \<Rightarrow> EvidenceRecord option" where
  "newest_evidence evs t custom =
     foldl (\<lambda>best r.
         if \<not> gate_targets t custom r then best
         else if ev_revoked r \<or> ev_superseded r then best
         else keep_newest best r)
       None evs"

record Selection =
  sel_exact :: "EvidenceRecord option"
  sel_mismatched_digest :: "EvidenceRecord option"
  sel_stale_revision :: "EvidenceRecord option"
  sel_revoked :: "EvidenceRecord option"
  sel_superseded :: "EvidenceRecord option"

definition select_step :: "Gate \<Rightarrow> Digest \<Rightarrow> ArtifactRevision \<Rightarrow> Selection \<Rightarrow> EvidenceRecord \<Rightarrow> Selection" where
  "select_step gate digest revision s r =
     (if \<not> gate_targets (gt_evidence_type gate) (gt_custom_evidence_type gate) r then s
      else if ev_subject_digest r \<noteq> digest
      then s \<lparr> sel_mismatched_digest := keep_newest (sel_mismatched_digest s) r \<rparr>
      else if ev_subject_revision r \<noteq> revision
      then s \<lparr> sel_stale_revision := keep_newest (sel_stale_revision s) r \<rparr>
      else if ev_revoked r then s \<lparr> sel_revoked := keep_newest (sel_revoked s) r \<rparr>
      else if ev_superseded r then s \<lparr> sel_superseded := keep_newest (sel_superseded s) r \<rparr>
      else s \<lparr> sel_exact := keep_newest (sel_exact s) r \<rparr>)"

definition empty_selection :: Selection where
  "empty_selection = \<lparr> sel_exact = None, sel_mismatched_digest = None, sel_stale_revision = None,
     sel_revoked = None, sel_superseded = None \<rparr>"

text \<open>The result is the code, the detail text and the record that explains it.\<close>

type_synonym verdict = "ErrorCode \<times> string \<times> EvidenceRecord option"

definition select_evidence_for_gate ::
  "EvidenceRecord list \<Rightarrow> Gate \<Rightarrow> Digest \<Rightarrow> ArtifactRevision \<Rightarrow> verdict" where
  "select_evidence_for_gate evs gate digest revision =
     (let s = foldl (select_step gate digest revision) empty_selection evs in
      if sel_exact s \<noteq> None then (EC_Ok, [], sel_exact s)
      else if sel_revoked s \<noteq> None
      then (EC_EvidenceRevoked, lit ''the matching evidence record was explicitly revoked'', sel_revoked s)
      else if sel_superseded s \<noteq> None
      then (EC_EvidenceSuperseded, lit ''the matching evidence record was superseded by a newer record'',
            sel_superseded s)
      else if sel_mismatched_digest s \<noteq> None
      then (EC_EvidenceMismatch,
            lit ''evidence exists for this artifact but for a different content digest'',
            sel_mismatched_digest s)
      else if sel_stale_revision s \<noteq> None
      then (EC_ArtifactGenerationStale,
            lit ''evidence exists only for a previous revision of this artifact'',
            sel_stale_revision s)
      else (EC_EvidenceMissing,
            lit ''no evidence of the required class exists for this artifact revision'', None))"

definition make_finding :: "EvidenceRecord \<Rightarrow> ErrorCode \<Rightarrow> string \<Rightarrow> EvidenceFinding" where
  "make_finding r code detail = \<lparr> ef_id = ev_id r, ef_type = ev_type r,
     ef_custom_type = ev_custom_type r, ef_generation = ev_generation r, ef_result = ev_result r,
     ef_subject_digest = ev_subject_digest r, ef_subject_revision = ev_subject_revision r,
     ef_code = code, ef_detail = detail \<rparr>"

section \<open>Outcome of a failed gate\<close>

definition outcome_for_requirement :: "ErrorCode \<Rightarrow> PromotionOutcome" where
  "outcome_for_requirement code =
     (if code \<in> set [EC_EvidenceMissing, EC_EvidenceMalformed] then PO_EvidenceMissing
      else if code = EC_EvidenceStale then PO_EvidenceStale
      else if code = EC_EvidenceRevoked then PO_EvidenceRevoked
      else if code = EC_EvidenceMismatch then PO_EvidenceMismatch
      else if code = EC_ArtifactGenerationStale then PO_RevalidationRequired
      else if code = EC_EvidenceIntegrityFailure then PO_EvidenceMismatch
      else if code = EC_EnvironmentMismatch then PO_EvidenceMismatch
      else if code = EC_OrderingViolation then PO_RevalidationRequired
      else if code = EC_CompatibilityFailed then PO_CompatibilityFailed
      else if code = EC_ProvenanceMissing then PO_ProvenanceMissing
      else if code = EC_ProvenanceMismatch then PO_ProvenanceMissing
      else if code = EC_ApprovalRequired then PO_ApprovalRequired
      else if code = EC_SecurityVeto then PO_SecurityVeto
      else if code = EC_DependencyVeto then PO_DependencyVeto
      else if code = EC_ArtifactQuarantined then PO_Quarantined
      else if code = EC_ArtifactRevoked then PO_Revoked
      else if code = EC_ArtifactSuperseded then PO_Superseded
      else if code \<in> set [EC_PolicyGenerationStale, EC_PolicyStale] then PO_PolicyStale
      else if code = EC_StaleCoordinatorEpoch then PO_AuthorityStale
      else if code \<in> set [EC_Conflict, EC_ReservationHeld] then PO_Conflict
      else if code \<in> set [EC_ArtifactMismatch, EC_DigestMismatch, EC_InvalidDigest] then PO_DigestMismatch
      else if code = EC_TransitionIllegal then PO_TransitionIllegal
      else if code = EC_Unsupported then PO_Unsupported
      else PO_PromotionIneligible)"

definition gate_error_code :: "GateKind \<Rightarrow> ErrorCode \<Rightarrow> ErrorCode" where
  "gate_error_code kind default_code =
     (case kind of
        GK_ArtifactIdentity \<Rightarrow> EC_InvalidIdentity
      | GK_EvidenceIntegrity \<Rightarrow> EC_EvidenceIntegrityFailure
      | GK_ArtifactNotQuarantined \<Rightarrow> EC_ArtifactQuarantined
      | GK_ArtifactNotRevoked \<Rightarrow> EC_ArtifactRevoked
      | GK_ArtifactNotSuperseded \<Rightarrow> EC_ArtifactSuperseded
      | GK_ProvenanceRequired \<Rightarrow> EC_ProvenanceMissing
      | GK_ProvenanceResolved \<Rightarrow> EC_ProvenanceMissing
      | GK_CompatibilityGenerationCurrent \<Rightarrow> EC_CompatibilityFailed
      | GK_EnvironmentBinding \<Rightarrow> EC_EnvironmentMismatch
      | GK_DependentArtifactPromoted \<Rightarrow> EC_DependencyVeto
      | GK_ApprovalRequired \<Rightarrow> EC_ApprovalRequired
      | GK_SecurityVetoClear \<Rightarrow> EC_SecurityVeto
      | GK_DependencyVetoClear \<Rightarrow> EC_DependencyVeto
      | GK_PolicyGenerationCurrent \<Rightarrow> EC_PolicyGenerationStale
      | GK_CoordinatorEpochCurrent \<Rightarrow> EC_StaleCoordinatorEpoch
      | GK_NoConflictingTransition \<Rightarrow> EC_Conflict
      | _ \<Rightarrow> default_code)"

definition compute_request_digest :: "PromotionRequest \<Rightarrow> Digest" where
  "compute_request_digest r =
     sha256 (write_identity (rq_artifact r) @ write_identity (rq_expected_revision r)
       @ write_digest (rq_expected_digest r) @ write_u8 (stage_byte (rq_requested_stage r)))"

section \<open>One verdict per gate\<close>

definition satisfied :: verdict where
  "satisfied = (EC_Ok, [], None)"

definition resolve_gate_evidence :: "EvidenceRecord list \<Rightarrow> ArtifactRecord \<Rightarrow> Gate \<Rightarrow> verdict" where
  "resolve_gate_evidence evs art gate =
     (if \<not> evidence_type_valid (gt_evidence_type gate) \<or> gt_evidence_type gate = ET_Invalid
      then (EC_InvalidEnum, lit ''policy gate names no evidence class'', None)
      else case select_evidence_for_gate evs gate (ar_digest art) (ar_revision art) of
        (code, detail, None) \<Rightarrow> (code, detail, None)
      | (code, detail, Some found) \<Rightarrow>
          if code \<noteq> EC_Ok then (code, detail, Some found)
          else if ev_result found \<noteq> ER_Pass
          then (EC_PolicyViolation, lit (''evidence result is '' @ evidence_result_to_string (ev_result found)),
                Some found)
          else (EC_Ok, [], Some found))"

definition artifact_identity_gate :: "ArtifactRecord \<Rightarrow> verdict" where
  "artifact_identity_gate art =
     (if id_invalid (ar_id art) \<or> digest_invalid (ar_digest art) \<or> id_invalid (ar_revision art)
         \<or> ar_kind art = AK_Invalid
      then (EC_InvalidIdentity, lit ''artifact identity, digest, revision, or class is not well formed'', None)
      else satisfied)"

definition evidence_integrity_gate :: "EvidenceRecord list \<Rightarrow> verdict" where
  "evidence_integrity_gate evs =
     (case find (\<lambda>r. \<not> (ev_revoked r \<or> ev_superseded r)
                  \<and> compute_evidence_integrity r \<noteq> ev_integrity_digest r) evs of
        None \<Rightarrow> satisfied
      | Some r \<Rightarrow> (EC_EvidenceIntegrityFailure, lit ''an evidence record failed its integrity check'', Some r))"

definition not_quarantined_gate :: "ArtifactRecord \<Rightarrow> verdict" where
  "not_quarantined_gate art =
     (if qr_active (ar_quarantine art)
      then (EC_ArtifactQuarantined,
            lit (''artifact is quarantined: '' @ qr_reason_class (ar_quarantine art)), None)
      else satisfied)"

definition not_revoked_gate :: "ArtifactRecord \<Rightarrow> verdict" where
  "not_revoked_gate art =
     (if rv_active (ar_revocation art)
      then (EC_ArtifactRevoked,
            lit (''artifact promotion authority was revoked: '' @ rv_reason_class (ar_revocation art)), None)
      else satisfied)"

definition not_superseded_gate :: "ArtifactRecord \<Rightarrow> verdict" where
  "not_superseded_gate art =
     (if sp_active (ar_supersession art)
      then (EC_ArtifactSuperseded, lit ''artifact was superseded by a newer artifact'', None)
      else satisfied)"

definition provenance_required_gate :: "ArtifactRecord \<Rightarrow> Gate \<Rightarrow> verdict" where
  "provenance_required_gate art gate =
     (let matching = filter (\<lambda>p. pv_reference p = gt_required_provenance gate) (ar_provenance art);
          present = (matching \<noteq> []);
          rejected = list_ex (\<lambda>p. pv_resolution p = PR_Rejected) matching
      in if \<not> present
         then (EC_ProvenanceMissing,
               lit ''the required provenance reference is not attached to this artifact revision'', None)
         else if rejected
         then (EC_ProvenanceMismatch,
               lit ''the required provenance reference was rejected by its source system'', None)
         else satisfied)"

definition provenance_resolved_gate :: "ArtifactRecord \<Rightarrow> verdict" where
  "provenance_resolved_gate art =
     (if ar_provenance art = []
      then (EC_ProvenanceMissing, lit ''the artifact revision carries no provenance references'', None)
      else if list_ex (\<lambda>p. pv_resolution p = PR_Rejected) (ar_provenance art)
      then (EC_ProvenanceMismatch, lit ''a provenance reference was rejected by its source system'', None)
      else if list_ex (\<lambda>p. pv_resolution p \<noteq> PR_Resolved) (ar_provenance art)
      then (EC_ProvenanceMissing,
            lit ''a provenance reference has not been resolved by its source system'', None)
      else satisfied)"

definition compatibility_gate :: "CoordinatorState \<Rightarrow> Gate \<Rightarrow> verdict" where
  "compatibility_gate st gate =
     (if compatibility_generation st \<noteq> gt_required_compatibility_generation gate
      then (EC_CompatibilityFailed,
            lit (''compatibility generation '' @ counter_to_string (compatibility_generation st)
                 @ '' does not match the generation the policy requires (''
                 @ counter_to_string (gt_required_compatibility_generation gate) @ '')''), None)
      else satisfied)"

definition environment_gate :: "EvidenceRecord list \<Rightarrow> ArtifactRecord \<Rightarrow> Gate \<Rightarrow> verdict" where
  "environment_gate evs art gate =
     (case resolve_gate_evidence evs art gate of
        (code, detail, r) \<Rightarrow>
          if code \<noteq> EC_Ok then (code, detail, r)
          else case r of
            None \<Rightarrow> satisfied
          | Some e \<Rightarrow>
              if ev_environment e \<noteq> gt_required_environment gate
              then (EC_EnvironmentMismatch,
                    lit (''evidence was produced in environment '' @ [CHR 0x27] @ ev_environment e
                         @ [CHR 0x27] @ '' but the policy requires '' @ [CHR 0x27]
                         @ gt_required_environment gate @ [CHR 0x27]), Some e)
              else satisfied)"

text \<open>
  The dependency gate compares every dependency name with the current revision of every
  artifact; a name nothing matches ends the whole evaluation (the left alternative).
\<close>

definition dependency_matches :: "CoordinatorState \<Rightarrow> string \<Rightarrow> ArtifactRecord list" where
  "dependency_matches st dependency =
     filter (\<lambda>r. ar_name r = dependency)
       (map last (filter (\<lambda>revisions. revisions \<noteq> []) (map snd (artifacts st))))"

fun dependency_gate :: "CoordinatorState \<Rightarrow> string list \<Rightarrow> string + verdict" where
  "dependency_gate st [] = Inr satisfied"
| "dependency_gate st (dependency # dependencies) =
     (let matching = dependency_matches st dependency in
      if list_ex (\<lambda>r. \<not> currently_authoritative r) matching
      then Inr (EC_DependencyVeto,
                lit (''dependency '' @ [CHR 0x27] @ dependency @ [CHR 0x27]
                     @ '' exists but is not currently promoted''), None)
      else if matching = [] then Inl dependency
      else dependency_gate st dependencies)"

definition approval_gate :: "EvidenceRecord list \<Rightarrow> ArtifactRecord \<Rightarrow> Gate \<Rightarrow> verdict" where
  "approval_gate evs art gate =
     (case resolve_gate_evidence evs art gate of
        (code, detail, r) \<Rightarrow>
          if code \<noteq> EC_Ok
          then (if code = EC_PolicyViolation then EC_ApprovalRequired else code, detail, r)
          else satisfied)"

definition security_veto_gate :: "VetoState option \<Rightarrow> verdict" where
  "security_veto_gate veto =
     (case veto of
        Some v \<Rightarrow> if vs_security_veto v
          then (EC_SecurityVeto,
                lit (''an open security veto blocks promotion: '' @ vs_security_reason v), None)
          else satisfied
      | None \<Rightarrow> satisfied)"

definition dependency_veto_gate :: "VetoState option \<Rightarrow> verdict" where
  "dependency_veto_gate veto =
     (case veto of
        Some v \<Rightarrow> if vs_dependency_veto v
          then (EC_DependencyVeto,
                lit (''an open dependency veto blocks promotion: '' @ vs_dependency_reason v), None)
          else satisfied
      | None \<Rightarrow> satisfied)"

definition policy_generation_gate :: "CoordinatorState \<Rightarrow> PromotionRequest \<Rightarrow> PolicyGeneration \<Rightarrow> verdict" where
  "policy_generation_gate st req formed =
     (if \<not> counter_valid (ca_epoch (rq_authority req))
      then (EC_StaleCoordinatorEpoch, lit ''the request carries no coordinator epoch'', None)
      else if formed \<noteq> active_policy_generation st
      then (EC_PolicyGenerationStale,
            lit (''the decision was formed under policy generation '' @ counter_to_string formed
                 @ '' but the active generation is '' @ counter_to_string (active_policy_generation st)), None)
      else satisfied)"

definition coordinator_epoch_gate :: "CoordinatorState \<Rightarrow> PromotionRequest \<Rightarrow> verdict" where
  "coordinator_epoch_gate st req =
     (if ca_coordinator (rq_authority req) \<noteq> coordinator st
      then (EC_StaleCoordinatorEpoch, lit ''the request was addressed to a different coordinator identity'', None)
      else if ca_epoch (rq_authority req) \<noteq> epoch st
      then (EC_StaleCoordinatorEpoch,
            lit (''the request carries coordinator epoch '' @ counter_to_string (ca_epoch (rq_authority req))
                 @ '' but the current epoch is '' @ counter_to_string (epoch st)), None)
      else satisfied)"

definition no_conflict_gate :: "CoordinatorState \<Rightarrow> PromotionRequest \<Rightarrow> ArtifactRecord \<Rightarrow> verdict" where
  "no_conflict_gate st req art =
     (case om_find (pending st) (ar_id art) of
        None \<Rightarrow> satisfied
      | Some p \<Rightarrow>
          if \<not> (pt_request p = rq_request req \<and> pt_attempt p = rq_attempt req)
          then (EC_ReservationHeld, lit ''another promotion attempt holds a reservation on this artifact'', None)
          else satisfied)"

text \<open>The freshness arithmetic is that of \<open>std::uint64_t\<close>: both \<open>now + skew\<close> and
  \<open>now - produced\<close> wrap around.\<close>

definition freshness_code :: "EngineConfig \<Rightarrow> u64 \<Rightarrow> Gate \<Rightarrow> EvidenceRecord \<Rightarrow> (ErrorCode \<times> string) option" where
  "freshness_code cfg now gate e =
     (let produced = ev_produced_unix_millis e;
          skew = future_skew_tolerance_millis cfg;
          age = now - produced
      in if produced > now + skew
         then Some (EC_EvidenceStale,
                    lit ''evidence was produced after the evaluation instant and cannot be trusted'')
         else if age > gt_max_age_millis gate
         then Some (EC_EvidenceStale,
                    lit (''evidence age '' @ u64_to_string age @ '' ms exceeds the policy limit ''
                         @ u64_to_string (gt_max_age_millis gate) @ '' ms''))
         else None)"

definition evidence_gate :: "EngineConfig \<Rightarrow> u64 \<Rightarrow> EvidenceRecord list \<Rightarrow> ArtifactRecord \<Rightarrow> Gate \<Rightarrow> verdict" where
  "evidence_gate cfg now evs art gate =
     (case resolve_gate_evidence evs art gate of
        (code, detail, r) \<Rightarrow>
          if code \<noteq> EC_Ok then (code, detail, r)
          else case r of
            None \<Rightarrow> (EC_EvidenceMissing,
              lit ''no evidence of the required class exists for this artifact revision'', None)
          | Some e \<Rightarrow>
              (case if gt_kind gate = GK_EvidenceFreshness then freshness_code cfg now gate e else None of
                 Some (stale, text) \<Rightarrow> (stale, text, Some e)
               | None \<Rightarrow>
                   if ev_has_validity_window e
                      \<and> (now < ev_valid_from_unix_millis e \<or> now > ev_valid_until_unix_millis e)
                   then (EC_EvidenceStale,
                         lit ''the evaluation instant is outside the evidence validity window'', Some e)
                   else (EC_Ok, [], Some e)))"

definition eval_gate :: "EngineConfig \<Rightarrow> CoordinatorState \<Rightarrow> PromotionRequest \<Rightarrow> u64 \<Rightarrow> PolicyGeneration
    \<Rightarrow> ArtifactRecord \<Rightarrow> EvidenceRecord list \<Rightarrow> Gate \<Rightarrow> string + verdict" where
  "eval_gate cfg st req now formed art evs gate =
     (case gt_kind gate of
        GK_ArtifactIdentity \<Rightarrow> Inr (artifact_identity_gate art)
      | GK_EvidenceIntegrity \<Rightarrow> Inr (evidence_integrity_gate evs)
      | GK_ArtifactNotQuarantined \<Rightarrow> Inr (not_quarantined_gate art)
      | GK_ArtifactNotRevoked \<Rightarrow> Inr (not_revoked_gate art)
      | GK_ArtifactNotSuperseded \<Rightarrow> Inr (not_superseded_gate art)
      | GK_ProvenanceRequired \<Rightarrow> Inr (provenance_required_gate art gate)
      | GK_ProvenanceResolved \<Rightarrow> Inr (provenance_resolved_gate art)
      | GK_CompatibilityGenerationCurrent \<Rightarrow> Inr (compatibility_gate st gate)
      | GK_EnvironmentBinding \<Rightarrow> Inr (environment_gate evs art gate)
      | GK_DependentArtifactPromoted \<Rightarrow> dependency_gate st (ar_dependencies art)
      | GK_ApprovalRequired \<Rightarrow> Inr (approval_gate evs art gate)
      | GK_SecurityVetoClear \<Rightarrow> Inr (security_veto_gate (om_find (vetoes st) (ar_id art)))
      | GK_DependencyVetoClear \<Rightarrow> Inr (dependency_veto_gate (om_find (vetoes st) (ar_id art)))
      | GK_PolicyGenerationCurrent \<Rightarrow> Inr (policy_generation_gate st req formed)
      | GK_CoordinatorEpochCurrent \<Rightarrow> Inr (coordinator_epoch_gate st req)
      | GK_NoConflictingTransition \<Rightarrow> Inr (no_conflict_gate st req art)
      | GK_EvidenceRequired \<Rightarrow> Inr (evidence_gate cfg now evs art gate)
      | GK_EvidenceFreshness \<Rightarrow> Inr (evidence_gate cfg now evs art gate)
      | GK_Invalid \<Rightarrow> Inr (EC_InvalidEnum, lit ''policy contains an invalid gate'', None))"

section \<open>The gate loop\<close>

record GateOutcome =
  go_outcome :: PromotionOutcome
  go_failed :: bool

definition initial_outcome :: GateOutcome where
  "initial_outcome = \<lparr> go_outcome = PO_PromotionIneligible, go_failed = False \<rparr>"

definition explain_gate :: "Gate \<Rightarrow> GateStatus \<Rightarrow> ErrorCode \<Rightarrow> string \<Rightarrow> GateExplanation" where
  "explain_gate gate status code detail = \<lparr> ge_kind = gt_kind gate, ge_label = gt_label gate,
     ge_status = status, ge_code = code, ge_detail = detail \<rparr>"

definition failure_status :: "ErrorCode \<Rightarrow> GateStatus" where
  "failure_status code =
     (if code = EC_EvidenceMissing \<or> code = EC_ProvenanceMissing then GS_Unknown else GS_Failed)"

definition record_failure :: "Gate \<Rightarrow> verdict \<Rightarrow> PromotionDecision \<Rightarrow> PromotionDecision" where
  "record_failure gate v d =
     (case v of (code, detail, referenced) \<Rightarrow>
        d \<lparr> de_gates := de_gates d @ [explain_gate gate (failure_status code) code detail],
            de_reasons := de_reasons d @ [make_reason code detail (gt_label gate)],
            de_findings := de_findings d
              @ (case referenced of None \<Rightarrow> [] | Some r \<Rightarrow> [make_finding r code detail]) \<rparr>)"

definition record_unregistered :: "Gate \<Rightarrow> string \<Rightarrow> PromotionDecision \<Rightarrow> PromotionDecision" where
  "record_unregistered gate dependency d =
     d \<lparr> de_gates := de_gates d
           @ [explain_gate gate GS_Unknown EC_OrderingViolation
                (lit (''dependency '' @ [CHR 0x27] @ dependency @ [CHR 0x27]
                      @ '' has never been registered''))],
         de_reasons := de_reasons d
           @ [make_reason EC_OrderingViolation ''a declared dependency has never been registered'' dependency] \<rparr>"

definition record_satisfied :: "Gate \<Rightarrow> PromotionDecision \<Rightarrow> PromotionDecision" where
  "record_satisfied gate d = d \<lparr> de_gates := de_gates d @ [explain_gate gate GS_Satisfied EC_Ok []] \<rparr>"

text \<open>The flag is \<open>first_failure\<close>; the generation the decision was formed under is read from
  the decision, as the policy-generation gate does.\<close>

fun gate_loop :: "EngineConfig \<Rightarrow> CoordinatorState \<Rightarrow> PromotionRequest \<Rightarrow> u64 \<Rightarrow> ArtifactRecord
    \<Rightarrow> EvidenceRecord list \<Rightarrow> Gate list \<Rightarrow> bool \<Rightarrow> GateOutcome \<Rightarrow> PromotionDecision
    \<Rightarrow> GateOutcome \<times> PromotionDecision" where
  "gate_loop cfg st req now art evs [] first result d =
     (if \<not> go_failed result then result \<lparr> go_outcome := PO_PromotionEligible \<rparr> else result, d)"
| "gate_loop cfg st req now art evs (gate # gates) first result d =
     (case eval_gate cfg st req now (de_policy_generation d) art evs gate of
        Inl dependency \<Rightarrow>
          (\<lparr> go_outcome = PO_ProvenanceMissing, go_failed = True \<rparr>, record_unregistered gate dependency d)
      | Inr (code, detail, referenced) \<Rightarrow>
          if code \<noteq> EC_Ok then
            gate_loop cfg st req now art evs gates False
              (if first
               then \<lparr> go_outcome = outcome_for_requirement (gate_error_code (gt_kind gate) code),
                      go_failed = True \<rparr>
               else result)
              (record_failure gate (code, detail, referenced) d)
          else gate_loop cfg st req now art evs gates first result (record_satisfied gate d))"

definition snapshot_entry :: "EvidenceRecord \<Rightarrow> EvidenceSnapshotEntry" where
  "snapshot_entry r = \<lparr> se_id = ev_id r, se_type = ev_type r, se_custom_type = ev_custom_type r,
     se_generation = ev_generation r, se_result = ev_result r,
     se_subject_digest = ev_subject_digest r, se_subject_revision = ev_subject_revision r,
     se_producer = ev_producer r, se_integrity_digest = ev_integrity_digest r \<rparr>"

definition snapshot_entries :: "EvidenceRecord list \<Rightarrow> EvidenceSnapshotEntry list" where
  "snapshot_entries evs =
     map snapshot_entry (filter (\<lambda>r. \<not> (ev_revoked r \<or> ev_superseded r)) evs)"

definition bind_artifact :: "ArtifactRecord \<Rightarrow> PromotionRequest \<Rightarrow> PromotionDecision \<Rightarrow> PromotionDecision" where
  "bind_artifact art req d = d \<lparr> de_artifact := ar_id art, de_artifact_revision := ar_revision art,
     de_artifact_generation := ar_generation art, de_artifact_digest := ar_digest art,
     de_artifact_kind := ar_kind art, de_from := ar_stage art, de_to := rq_requested_stage req \<rparr>"

definition bind_snapshot ::
  "ArtifactRecord \<Rightarrow> EvidenceSnapshotEntry list \<Rightarrow> PromotionDecision \<Rightarrow> PromotionDecision" where
  "bind_snapshot art entries d = d \<lparr> de_evidence_snapshot_digest :=
     compute_snapshot_digest (ar_id art) (ar_revision art) (ar_digest art) entries \<rparr>"

text \<open>Callers pass an empty entry vector; the third component is what it holds afterwards.\<close>

definition evaluate_gates :: "EngineConfig \<Rightarrow> CoordinatorState \<Rightarrow> PromotionRequest \<Rightarrow> u64
    \<Rightarrow> PromotionDecision \<Rightarrow> GateOutcome \<times> PromotionDecision \<times> EvidenceSnapshotEntry list" where
  "evaluate_gates cfg st req now d =
     (case find_revision st (rq_artifact req) (rq_expected_revision req) of
        None \<Rightarrow>
          (\<lparr> go_outcome = PO_ArtifactNotFound, go_failed = True \<rparr>,
           d \<lparr> de_reasons := de_reasons d
             @ [make_reason EC_ArtifactNotFound
                  ''the requested artifact revision is not registered under this coordinator''
                  (id_to_string (rq_artifact req))] \<rparr>,
           [])
      | Some art \<Rightarrow>
          let d1 = bind_artifact art req d;
              policy = active_policy_body st
          in case find_rule policy (ar_kind art) (ar_stage art) (rq_requested_stage req) of
               None \<Rightarrow>
                 let graph_allows = has_edge (po_graph policy) (ar_stage art) (rq_requested_stage req) in
                 (\<lparr> go_outcome = if graph_allows then PO_Unsupported else PO_TransitionIllegal,
                    go_failed = True \<rparr>,
                  d1 \<lparr> de_reasons := de_reasons d1
                    @ [make_reason (if graph_allows then EC_Unsupported else EC_TransitionIllegal)
                         (if graph_allows
                          then ''the lifecycle permits this transition but no active policy rule governs it''
                          else ''the lifecycle graph does not permit this transition'')
                         (stage_to_string (ar_stage art) @ ''->''
                          @ stage_to_string (rq_requested_stage req))] \<rparr>,
                  [])
             | Some rule \<Rightarrow>
                 let evs = gather_evidence st (ar_id art) (ar_revision art);
                     entries = snapshot_entries evs;
                     (result, d2) = gate_loop cfg st req now art evs (ru_requirements rule) True
                                      initial_outcome (bind_snapshot art entries d1)
                 in (result, d2, entries))"

end
