(* ===== verification/Gates.thy ===== *)
theory Gates
  imports Evaluate
begin

text \<open>
  Correctness of hard gate evaluation: which evidence a gate accepts, when a request is eligible,
  what the explanation holds, and that evaluation never reports eligibility for a failed gate.
\<close>

section \<open>Evidence selection\<close>

definition newest_of :: "EvidenceRecord list \<Rightarrow> EvidenceRecord option" where
  "newest_of evs = foldl keep_newest None evs"

lemma foldl_keep_newest:
  "foldl keep_newest best evs = Some r \<Longrightarrow>
     (r \<in> set evs \<or> best = Some r)
     \<and> (\<forall>e \<in> set evs. ev_created_sequence e \<le> ev_created_sequence r)
     \<and> (\<forall>b. best = Some b \<longrightarrow> ev_created_sequence b \<le> ev_created_sequence r)"
proof (induction evs arbitrary: best)
  case (Cons e evs)
  from Cons.prems have "foldl keep_newest (keep_newest best e) evs = Some r" by simp
  from Cons.IH [OF this] show ?case
    by (auto simp: keep_newest_def split: option.splits if_splits)
qed simp

lemma newest_of_Some:
  "newest_of evs = Some r \<Longrightarrow> r \<in> set evs \<and> (\<forall>e \<in> set evs. ev_created_sequence e \<le> ev_created_sequence r)"
  using foldl_keep_newest [of None evs r] by (simp add: newest_of_def)

lemma foldl_keep_newest_None: "foldl keep_newest best evs = None \<longleftrightarrow> best = None \<and> evs = []"
proof (induction evs arbitrary: best)
  case (Cons e evs)
  have "keep_newest best e \<noteq> None" by (simp add: keep_newest_def split: option.splits)
  with Cons.IH [of "keep_newest best e"] show ?case by simp
qed simp

lemma newest_of_None [simp]: "newest_of evs = None \<longleftrightarrow> evs = []"
  by (simp add: newest_of_def foldl_keep_newest_None)

text \<open>The records a gate may count: the exact class, digest and revision, neither revoked nor
  superseded.\<close>

definition applicable :: "Gate \<Rightarrow> Digest \<Rightarrow> ArtifactRevision \<Rightarrow> EvidenceRecord \<Rightarrow> bool" where
  "applicable gate digest revision r \<longleftrightarrow>
     gate_targets (gt_evidence_type gate) (gt_custom_evidence_type gate) r
     \<and> ev_subject_digest r = digest \<and> ev_subject_revision r = revision
     \<and> \<not> ev_revoked r \<and> \<not> ev_superseded r"

lemma sel_exact_fold:
  "sel_exact (foldl (select_step gate digest revision) s evs)
   = foldl keep_newest (sel_exact s) (filter (applicable gate digest revision) evs)"
proof (induction evs arbitrary: s)
  case (Cons e evs)
  have "sel_exact (select_step gate digest revision s e)
      = (if applicable gate digest revision e then keep_newest (sel_exact s) e else sel_exact s)"
    by (simp add: select_step_def applicable_def)
  with Cons.IH show ?case by simp
qed simp

lemma sel_exact_newest:
  "sel_exact (foldl (select_step gate digest revision) empty_selection evs)
   = newest_of (filter (applicable gate digest revision) evs)"
  by (simp add: sel_exact_fold newest_of_def empty_selection_def)

lemma select_ok_newest:
  "fst (select_evidence_for_gate evs gate digest revision) = EC_Ok
   \<longleftrightarrow> newest_of (filter (applicable gate digest revision) evs) \<noteq> None"
  unfolding select_evidence_for_gate_def Let_def sel_exact_newest by simp

lemma select_ok_iff:
  "fst (select_evidence_for_gate evs gate digest revision) = EC_Ok
   \<longleftrightarrow> (\<exists>e \<in> set evs. applicable gate digest revision e)"
  by (auto simp add: select_ok_newest newest_of_None filter_empty_conv simp del: not_None_eq)

lemma select_ok:
  assumes "select_evidence_for_gate evs gate digest revision = (EC_Ok, detail, r)"
  shows "r = newest_of (filter (applicable gate digest revision) evs) \<and> r \<noteq> None"
proof -
  have "newest_of (filter (applicable gate digest revision) evs) \<noteq> None"
    using assms select_ok_newest [of evs gate digest revision] by simp
  with assms show ?thesis
    unfolding select_evidence_for_gate_def Let_def sel_exact_newest by (auto simp del: newest_of_None)
qed

text \<open>A gate resolves only to the newest applicable record, and only when it passed.\<close>

lemma resolve_ok:
  assumes "resolve_gate_evidence evs art gate = (EC_Ok, detail, r)"
  shows "\<exists>e. r = Some e \<and> e \<in> set evs \<and> applicable gate (ar_digest art) (ar_revision art) e
    \<and> ev_result e = ER_Pass
    \<and> (\<forall>f \<in> set evs. applicable gate (ar_digest art) (ar_revision art) f
          \<longrightarrow> ev_created_sequence f \<le> ev_created_sequence e)"
proof -
  obtain code d r' where sel: "select_evidence_for_gate evs gate (ar_digest art) (ar_revision art) = (code, d, r')"
    by (cases "select_evidence_for_gate evs gate (ar_digest art) (ar_revision art)") auto
  with assms have "code = EC_Ok"
    by (auto simp: resolve_gate_evidence_def split: if_splits option.splits)
  with select_ok sel obtain e where e: "r' = Some e"
    and new: "newest_of (filter (applicable gate (ar_digest art) (ar_revision art)) evs) = Some e"
    by (metis not_None_eq)
  from assms sel e \<open>code = EC_Ok\<close> have "r = Some e \<and> ev_result e = ER_Pass"
    by (auto simp: resolve_gate_evidence_def split: if_splits)
  with newest_of_Some [OF new] show ?thesis by auto
qed

lemma set_gather_evidence:
  "e \<in> set (gather_evidence st subject revision) \<longleftrightarrow>
     e \<in> snd ` set (evidence st) \<and> ev_subject e = subject \<and> ev_subject_revision e = revision"
  by (auto simp: gather_evidence_def)

section \<open>Verdicts\<close>

lemma evidence_gate_ok:
  assumes "evidence_gate cfg now evs art gate = (EC_Ok, detail, r)"
  shows "\<exists>e \<in> set evs. r = Some e \<and> applicable gate (ar_digest art) (ar_revision art) e
    \<and> ev_result e = ER_Pass
    \<and> (gt_kind gate = GK_EvidenceFreshness \<longrightarrow> freshness_code cfg now gate e = None)
    \<and> (ev_has_validity_window e \<longrightarrow>
         ev_valid_from_unix_millis e \<le> now \<and> now \<le> ev_valid_until_unix_millis e)"
proof -
  obtain code d r' where res: "resolve_gate_evidence evs art gate = (code, d, r')"
    by (cases "resolve_gate_evidence evs art gate") auto
  with assms have "code = EC_Ok"
    by (auto simp: evidence_gate_def split: if_splits)
  with resolve_ok res obtain e where "r' = Some e" "e \<in> set evs"
    "applicable gate (ar_digest art) (ar_revision art) e" "ev_result e = ER_Pass"
    by blast
  moreover have "freshness_code cfg now gate e \<noteq> Some (EC_Ok, t)" for t
    by (simp add: freshness_code_def Let_def)
  ultimately show ?thesis
    using assms res \<open>code = EC_Ok\<close>
    by (auto simp: evidence_gate_def not_less split: if_splits option.splits)
qed

lemma approval_gate_ok:
  assumes "approval_gate evs art gate = (EC_Ok, detail, r)"
  shows "\<exists>e \<in> set evs. applicable gate (ar_digest art) (ar_revision art) e \<and> ev_result e = ER_Pass"
proof -
  obtain code d r' where res: "resolve_gate_evidence evs art gate = (code, d, r')"
    by (cases "resolve_gate_evidence evs art gate") auto
  with assms have "code = EC_Ok" by (auto simp: approval_gate_def split: if_splits)
  with resolve_ok res show ?thesis by blast
qed

lemma environment_gate_ok:
  assumes "environment_gate evs art gate = (EC_Ok, detail, r)"
  shows "\<exists>e \<in> set evs. applicable gate (ar_digest art) (ar_revision art) e \<and> ev_result e = ER_Pass
    \<and> ev_environment e = gt_required_environment gate"
proof -
  obtain code d r' where res: "resolve_gate_evidence evs art gate = (code, d, r')"
    by (cases "resolve_gate_evidence evs art gate") auto
  with assms have "code = EC_Ok" by (auto simp: environment_gate_def split: if_splits)
  with resolve_ok res obtain e where "r' = Some e" "e \<in> set evs"
    "applicable gate (ar_digest art) (ar_revision art) e" "ev_result e = ER_Pass"
    by blast
  with assms res \<open>code = EC_Ok\<close> show ?thesis
    by (auto simp: environment_gate_def split: if_splits)
qed

section \<open>The loop\<close>

definition gate_passes :: "EngineConfig \<Rightarrow> CoordinatorState \<Rightarrow> PromotionRequest \<Rightarrow> u64 \<Rightarrow> PolicyGeneration
    \<Rightarrow> ArtifactRecord \<Rightarrow> EvidenceRecord list \<Rightarrow> Gate \<Rightarrow> bool" where
  "gate_passes cfg st req now formed art evs gate \<longleftrightarrow>
     (\<exists>detail r. eval_gate cfg st req now formed art evs gate = Inr (EC_Ok, detail, r))"

lemma record_simps [simp]:
  "de_policy_generation (record_failure gate v d) = de_policy_generation d"
  "de_policy_generation (record_satisfied gate d) = de_policy_generation d"
  by (cases v; simp add: record_failure_def) (simp add: record_satisfied_def)

lemma gate_loop_failed:
  "\<not> go_failed (fst (gate_loop cfg st req now art evs gates first result d)) \<longleftrightarrow>
     \<not> go_failed result \<and> (\<forall>g \<in> set gates. gate_passes cfg st req now (de_policy_generation d) art evs g)"
  if "first \<or> go_failed result"
  using that
proof (induction cfg st req now art evs gates first result d rule: gate_loop.induct)
  case (1 cfg st req now art evs first result d)
  then show ?case by simp
next
  case (2 cfg st req now art evs gate gates first result d)
  show ?case
  proof (cases "eval_gate cfg st req now (de_policy_generation d) art evs gate")
    case (Inl dependency)
    then show ?thesis by (simp add: gate_passes_def)
  next
    case (Inr v)
    obtain code detail r where v: "v = (code, detail, r)" by (cases v) auto
    show ?thesis
      using 2 Inr v by (cases "code = EC_Ok") (auto simp: gate_passes_def)
  qed
qed

lemma outcome_for_requirement_not_eligible: "outcome_for_requirement code \<noteq> PO_PromotionEligible"
  by (simp add: outcome_for_requirement_def)

lemma gate_loop_outcome:
  assumes "go_failed result \<longrightarrow> go_outcome result \<noteq> PO_PromotionEligible"
  shows "go_outcome (fst (gate_loop cfg st req now art evs gates first result d)) = PO_PromotionEligible
    \<longleftrightarrow> \<not> go_failed (fst (gate_loop cfg st req now art evs gates first result d))"
  using assms
proof (induction cfg st req now art evs gates first result d rule: gate_loop.induct)
  case (1 cfg st req now art evs first result d)
  then show ?case by simp
next
  case (2 cfg st req now art evs gate gates first result d)
  show ?case
  proof (cases "eval_gate cfg st req now (de_policy_generation d) art evs gate")
    case (Inr v)
    obtain code detail r where v: "v = (code, detail, r)" by (cases v) auto
    show ?thesis
      using 2 Inr v by (cases "code = EC_Ok") (auto simp: outcome_for_requirement_not_eligible)
  qed simp
qed

text \<open>The explanation lists the gates in the declared order, one entry each, up to the
  unregistered dependency that ends the evaluation.\<close>

lemma gate_loop_prefix:
  "\<exists>k \<le> length gates. map ge_label (de_gates (snd (gate_loop cfg st req now art evs gates first result d)))
     = map ge_label (de_gates d) @ map gt_label (take k gates)
     \<and> (k < length gates \<longrightarrow> go_failed (fst (gate_loop cfg st req now art evs gates first result d)))"
proof (induction cfg st req now art evs gates first result d rule: gate_loop.induct)
  case (1 cfg st req now art evs first result d)
  then show ?case by simp
next
  case (2 cfg st req now art evs gate gates first result d)
  show ?case
  proof (cases "eval_gate cfg st req now (de_policy_generation d) art evs gate")
    case (Inl dependency)
    then show ?thesis
      by (intro exI [of _ 1]) (simp add: record_unregistered_def explain_gate_def)
  next
    case (Inr v)
    obtain code detail r where v: "v = (code, detail, r)" by (cases v) auto
    have fail: "map ge_label (de_gates (record_failure gate (code, detail, r) d)) = map ge_label (de_gates d) @ [gt_label gate]"
      by (simp add: record_failure_def explain_gate_def)
    have sat: "map ge_label (de_gates (record_satisfied gate d)) = map ge_label (de_gates d) @ [gt_label gate]"
      by (simp add: record_satisfied_def explain_gate_def)
    show ?thesis
    proof (cases "code = EC_Ok")
      case True
      from "2.IH"(2) [OF Inr v [symmetric] refl] True obtain k where "k \<le> length gates"
        "map ge_label (de_gates (snd (gate_loop cfg st req now art evs gates first result (record_satisfied gate d))))
          = map ge_label (de_gates d) @ gt_label gate # map gt_label (take k gates)"
        "k < length gates \<longrightarrow> go_failed (fst (gate_loop cfg st req now art evs gates first result (record_satisfied gate d)))"
        by (auto simp: sat)
      with Inr v True show ?thesis by (intro exI [of _ "Suc k"]) simp
    next
      case False
      from "2.IH"(1) [OF Inr v [symmetric] refl] False obtain k where "k \<le> length gates"
        "map ge_label (de_gates (snd (gate_loop cfg st req now art evs gates False
            (if first then \<lparr> go_outcome = outcome_for_requirement (gate_error_code (gt_kind gate) code), go_failed = True \<rparr> else result)
            (record_failure gate (code, detail, r) d))))
          = map ge_label (de_gates d) @ gt_label gate # map gt_label (take k gates)"
        "k < length gates \<longrightarrow> go_failed (fst (gate_loop cfg st req now art evs gates False
            (if first then \<lparr> go_outcome = outcome_for_requirement (gate_error_code (gt_kind gate) code), go_failed = True \<rparr> else result)
            (record_failure gate (code, detail, r) d)))"
        by (auto simp: fail)
      with Inr v False show ?thesis by (intro exI [of _ "Suc k"]) simp
    qed
  qed
qed

text \<open>The loop writes the explanation, the reasons and the findings of the decision only.\<close>

definition same_binding :: "PromotionDecision \<Rightarrow> PromotionDecision \<Rightarrow> bool" where
  "same_binding d d' \<longleftrightarrow>
     d' = d \<lparr> de_gates := de_gates d', de_reasons := de_reasons d', de_findings := de_findings d' \<rparr>"

lemma same_binding_refl [simp]: "same_binding d d"
  by (simp add: same_binding_def)

lemma same_binding_trans: "same_binding a b \<Longrightarrow> same_binding b c \<Longrightarrow> same_binding a c"
  by (cases a; cases b; cases c) (simp add: same_binding_def)

lemma same_binding_record:
  "same_binding d (record_failure gate v d)" "same_binding d (record_satisfied gate d)"
  "same_binding d (record_unregistered gate t d)"
  by (cases d; cases v; simp add: same_binding_def record_failure_def record_satisfied_def record_unregistered_def)+

lemma gate_loop_binding:
  "same_binding d (snd (gate_loop cfg st req now art evs gates first result d))"
proof (induction cfg st req now art evs gates first result d rule: gate_loop.induct)
  case (2 cfg st req now art evs gate gates first result d)
  show ?case
  proof (cases "eval_gate cfg st req now (de_policy_generation d) art evs gate")
    case (Inl dependency)
    then show ?thesis by (simp add: same_binding_record)
  next
    case (Inr v)
    obtain code detail r where v: "v = (code, detail, r)" by (cases v) auto
    show ?thesis
    proof (cases "code = EC_Ok")
      case True
      with 2 Inr v have "same_binding (record_satisfied gate d)
          (snd (gate_loop cfg st req now art evs gates first result (record_satisfied gate d)))" by auto
      with Inr v True show ?thesis by (simp add: same_binding_trans [OF same_binding_record(2)])
    next
      case False
      let ?result = "if first then \<lparr> go_outcome = outcome_for_requirement (gate_error_code (gt_kind gate) code),
        go_failed = True \<rparr> else result"
      from 2 Inr v False have "same_binding (record_failure gate (code, detail, r) d)
          (snd (gate_loop cfg st req now art evs gates False ?result (record_failure gate (code, detail, r) d)))"
        by blast
      with Inr v False show ?thesis by (auto intro: same_binding_trans [OF same_binding_record(1)])
    qed
  qed
qed simp

lemma same_bindingD:
  assumes "same_binding d d'"
  shows "de_id d' = de_id d" "de_sequence d' = de_sequence d"
    "de_evidence_snapshot_digest d' = de_evidence_snapshot_digest d"
    "de_policy_generation d' = de_policy_generation d" "de_artifact d' = de_artifact d"
    "de_artifact_revision d' = de_artifact_revision d" "de_to d' = de_to d" "de_from d' = de_from d"
    "de_request d' = de_request d" "de_plan d' = de_plan d" "de_authority d' = de_authority d"
  using assms by (cases d; cases d'; simp add: same_binding_def)+

section \<open>Eligibility\<close>

lemma bind_simps [simp]:
  "de_policy_generation (bind_artifact art req d) = de_policy_generation d"
  "de_policy_generation (bind_snapshot art entries d) = de_policy_generation d"
  by (simp_all add: bind_artifact_def bind_snapshot_def)

abbreviation gathered :: "CoordinatorState \<Rightarrow> ArtifactRecord \<Rightarrow> EvidenceRecord list" where
  "gathered st art \<equiv> gather_evidence st (ar_id art) (ar_revision art)"

abbreviation run_gates where
  "run_gates cfg st req now d art rule \<equiv>
     gate_loop cfg st req now art (gathered st art) (ru_requirements rule) True initial_outcome
       (bind_snapshot art (snapshot_entries (gathered st art)) (bind_artifact art req d))"

lemma evaluate_gates_rule:
  assumes "find_revision st (rq_artifact req) (rq_expected_revision req) = Some art"
    and "find_rule (active_policy_body st) (ar_kind art) (ar_stage art) (rq_requested_stage req) = Some rule"
  shows "evaluate_gates cfg st req now d
    = (fst (run_gates cfg st req now d art rule), snd (run_gates cfg st req now d art rule),
       snapshot_entries (gathered st art))"
  using assms by (simp add: evaluate_gates_def Let_def split: prod.split)

definition all_gates_pass :: "EngineConfig \<Rightarrow> CoordinatorState \<Rightarrow> PromotionRequest \<Rightarrow> u64 \<Rightarrow> PolicyGeneration
    \<Rightarrow> ArtifactRecord \<Rightarrow> PolicyRule \<Rightarrow> bool" where
  "all_gates_pass cfg st req now formed art rule \<longleftrightarrow>
     (\<forall>g \<in> set (ru_requirements rule). gate_passes cfg st req now formed art (gathered st art) g)"

lemma run_gates_failed:
  "go_failed (fst (run_gates cfg st req now d art rule)) \<longleftrightarrow>
     \<not> all_gates_pass cfg st req now (de_policy_generation d) art rule"
  using gate_loop_failed [of True initial_outcome cfg st req now art "gathered st art" "ru_requirements rule"
      "bind_snapshot art (snapshot_entries (gathered st art)) (bind_artifact art req d)"]
  by (auto simp: initial_outcome_def all_gates_pass_def)

lemma run_gates_outcome:
  "go_outcome (fst (run_gates cfg st req now d art rule)) = PO_PromotionEligible \<longleftrightarrow>
     \<not> go_failed (fst (run_gates cfg st req now d art rule))"
  by (rule gate_loop_outcome) (simp add: initial_outcome_def)

lemma evaluate_gates_cases:
  obtains (unknown) "find_revision st (rq_artifact req) (rq_expected_revision req) = None"
  | (ungoverned) art where "find_revision st (rq_artifact req) (rq_expected_revision req) = Some art"
      "find_rule (active_policy_body st) (ar_kind art) (ar_stage art) (rq_requested_stage req) = None"
  | (governed) art rule where "find_revision st (rq_artifact req) (rq_expected_revision req) = Some art"
      "find_rule (active_policy_body st) (ar_kind art) (ar_stage art) (rq_requested_stage req) = Some rule"
  by (cases "find_revision st (rq_artifact req) (rq_expected_revision req)") auto

lemma evaluate_gates_eligible:
  "go_outcome (fst (evaluate_gates cfg st req now d)) = PO_PromotionEligible \<longleftrightarrow>
     (\<exists>art rule. find_revision st (rq_artifact req) (rq_expected_revision req) = Some art
        \<and> find_rule (active_policy_body st) (ar_kind art) (ar_stage art) (rq_requested_stage req) = Some rule
        \<and> all_gates_pass cfg st req now (de_policy_generation d) art rule)"
proof (cases st req rule: evaluate_gates_cases)
  case governed
  then show ?thesis by (simp add: evaluate_gates_rule run_gates_outcome run_gates_failed)
qed (simp_all add: evaluate_gates_def Let_def)

lemma evaluate_gates_failed:
  "go_failed (fst (evaluate_gates cfg st req now d)) \<longleftrightarrow>
     go_outcome (fst (evaluate_gates cfg st req now d)) \<noteq> PO_PromotionEligible"
proof (cases st req rule: evaluate_gates_cases)
  case governed
  then show ?thesis by (simp add: evaluate_gates_rule run_gates_outcome)
qed (simp_all add: evaluate_gates_def Let_def)

end
