(* ===== verification/Stage_Graph.thy ===== *)
theory Stage_Graph
  imports Stage
begin

text \<open>
  Correctness of the lifecycle graph operations of theory \<open>Stage\<close>: edge insertion and
  canonical form, the breadth-first traversal computes reachability, the topological count decides
  acyclicity of the edges that leave no holding stage, and hence what an accepted graph guarantees.
\<close>

section \<open>Edges and canonical form\<close>

lemma has_edge_iff: "has_edge g a b \<longleftrightarrow> Edge a b \<in> set (edges g)"
proof -
  have "edge_from e = a \<and> edge_to e = b \<longleftrightarrow> e = Edge a b" for e by (cases e) auto
  then show ?thesis by (simp add: has_edge_def list_ex_iff)
qed

lemma set_adjacency: "s \<in> set (adjacency g a) \<longleftrightarrow> has_edge g a s"
  by (auto simp: adjacency_def has_edge_iff image_iff)

lemma set_reverse_links: "s \<in> set (reverse_links g b) \<longleftrightarrow> has_edge g s b"
  by (auto simp: reverse_links_def has_edge_iff image_iff)

lemma successors_adjacency: "successors g = adjacency g"
  by (rule ext) (simp add: successors_def adjacency_def)

lemma add_edge_has_edge:
  assumes "add_edge g a b = (added, g')"
  shows "has_edge g' x y \<longleftrightarrow> has_edge g x y \<or> (added \<and> x = a \<and> y = b)"
    and "added \<longleftrightarrow> a \<noteq> St_Invalid \<and> b \<noteq> St_Invalid \<and> a \<noteq> b \<and> \<not> has_edge g a b
           \<and> length (edges g) < kMaxEdges"
  using assms by (auto simp: add_edge_def has_edge_def split: if_splits)

lemma set_canonicalize: "set (edges (canonicalize g)) = set (edges g)"
  by (simp add: canonicalize_def)

lemma canonicalize_canonical: "is_canonical (canonicalize g)"
  by (simp add: is_canonical_def canonicalize_def)

lemma canonical_sorted_distinct: "is_canonical g \<longleftrightarrow> sorted_wrt (<) (edges g)"
proof -
  have "sorted xs \<and> distinct_adj xs \<longleftrightarrow> sorted_wrt (<) xs" for xs :: "Edge list"
    by (induction xs rule: induct_list012) fastforce+
  then show ?thesis by (simp add: is_canonical_def)
qed

lemma distinct_adjacency:
  assumes "is_canonical g"
  shows "distinct (adjacency g a)"
proof -
  have "distinct (edges g)"
    using assms strict_sorted_iff unfolding canonical_sorted_distinct by blast
  then have "distinct (map edge_to (filter (\<lambda>e. edge_from e = a) (edges g)))"
    by (simp add: distinct_map inj_on_def) (metis Edge.expand)
  then show ?thesis by (simp add: adjacency_def)
qed

section \<open>The traversal computes reachability\<close>

definition link :: "(Stage \<Rightarrow> Stage list) \<Rightarrow> Stage \<Rightarrow> Stage \<Rightarrow> bool" where
  "link links a b \<longleftrightarrow> b \<in> set (links a)"

definition closed_under :: "(Stage \<Rightarrow> Stage list) \<Rightarrow> (Stage \<Rightarrow> bool) \<Rightarrow> bool" where
  "closed_under links visited \<longleftrightarrow> (\<forall>a b. visited a \<longrightarrow> link links a b \<longrightarrow> visited b)"

lemma closed_under_reach: "closed_under links visited \<Longrightarrow> (link links)\<^sup>*\<^sup>* a b \<Longrightarrow> visited a \<Longrightarrow> visited b"
  by (rotate_tac 1, induction rule: rtranclp_induct) (auto simp: closed_under_def)

text \<open>The queue never overflows: the guard of the traversal is never taken.\<close>

lemma visit_links_spec:
  assumes "tail + unvisited visited \<le> kStageCount"
  shows "\<exists>new. visit_links links visited pending tail
           = (False, (\<lambda>s. visited s \<or> s \<in> set links), pending @ new, tail + length new)
         \<and> set new = {s \<in> set links. \<not> visited s}
         \<and> tail + length new + unvisited (\<lambda>s. visited s \<or> s \<in> set links) \<le> kStageCount"
  using assms
proof (induction links arbitrary: visited pending tail)
  case (Cons n links)
  show ?case
  proof (cases "visited n")
    case True
    have "(\<lambda>s. visited s \<or> s \<in> set (n # links)) = (\<lambda>s. visited s \<or> s \<in> set links)"
      using True by auto
    with Cons.IH [OF Cons.prems, of pending] True show ?thesis by (auto simp: Collect_disj_eq)
  next
    case False
    note mark = unvisited_mark [of visited n, OF False]
    have room: "tail < kStageCount" using mark Cons.prems by simp
    have "tail + 1 + unvisited (visited(n := True)) \<le> kStageCount" using mark Cons.prems by simp
    from Cons.IH [OF this, of "pending @ [n]"] obtain new where
      new: "visit_links links (visited(n := True)) (pending @ [n]) (tail + 1)
        = (False, (\<lambda>s. (visited(n := True)) s \<or> s \<in> set links), (pending @ [n]) @ new, tail + 1 + length new)"
      "set new = {s \<in> set links. \<not> (visited(n := True)) s}"
      "tail + 1 + length new + unvisited (\<lambda>s. (visited(n := True)) s \<or> s \<in> set links) \<le> kStageCount"
      by blast
    have eq: "(\<lambda>s. (visited(n := True)) s \<or> s \<in> set links) = (\<lambda>s. visited s \<or> s \<in> set (n # links))"
      by auto
    show ?thesis
      using new False room unfolding eq by (intro exI [of _ "n # new"]) auto
  qed
qed simp

lemma traverse_loop_reach:
  assumes "set pending \<subseteq> Collect visited"
    and "\<forall>a b. visited a \<longrightarrow> a \<notin> set pending \<longrightarrow> link links a b \<longrightarrow> visited b"
    and "tail + unvisited visited \<le> kStageCount"
  shows "traverse_loop links visited pending tail s \<longleftrightarrow> (\<exists>p. visited p \<and> (link links)\<^sup>*\<^sup>* p s)"
  using assms
proof (induction links visited pending tail rule: traverse_loop.induct)
  case (1 links visited tail)
  then have "closed_under links visited" by (simp add: closed_under_def)
  then show ?case by (auto dest: closed_under_reach)
next
  case (2 links visited current pending tail)
  let ?visited = "\<lambda>s. visited s \<or> s \<in> set (links current)"
  from visit_links_spec [OF "2.prems"(3), of "links current" pending] obtain new where
    new: "visit_links (links current) visited pending tail = (False, ?visited, pending @ new, tail + length new)"
    "set new = {s \<in> set (links current). \<not> visited s}"
    "tail + length new + unvisited ?visited \<le> kStageCount"
    by blast
  have "traverse_loop links ?visited (pending @ new) (tail + length new) s
      \<longleftrightarrow> (\<exists>p. ?visited p \<and> (link links)\<^sup>*\<^sup>* p s)"
  proof (rule "2.IH" [OF new(1) [symmetric] refl refl])
    show "set (pending @ new) \<subseteq> Collect ?visited" using "2.prems"(1) new(2) by auto
    show "\<forall>a b. ?visited a \<longrightarrow> a \<notin> set (pending @ new) \<longrightarrow> link links a b \<longrightarrow> ?visited b"
      using "2.prems"(2) new(2) by (auto simp: link_def)
  qed (simp_all add: new(3))
  also have "\<dots> \<longleftrightarrow> (\<exists>p. visited p \<and> (link links)\<^sup>*\<^sup>* p s)"
  proof -
    have "visited current" using "2.prems"(1) by simp
    then show ?thesis by (metis converse_rtranclp_into_rtranclp link_def)
  qed
  finally show ?case using new(1) by simp
qed

lemma unvisited_marked: "visited s \<Longrightarrow> 1 + unvisited visited \<le> kStageCount"
proof -
  assume "visited s"
  then have "\<not> (\<lambda>t. t \<noteq> s \<and> visited t) s" by simp
  moreover have "(\<lambda>t. t \<noteq> s \<and> visited t)(s := True) = visited"
    using \<open>visited s\<close> by (auto simp: fun_eq_iff)
  ultimately have "Suc (unvisited visited) = unvisited (\<lambda>t. t \<noteq> s \<and> visited t)"
    using unvisited_mark [of "\<lambda>t. t \<noteq> s \<and> visited t" s] by simp
  also have "\<dots> \<le> length all_stages" unfolding unvisited_def by (rule length_filter_le)
  finally show ?thesis by (simp add: all_stages_def kStageCount_def kStageMax_def)
qed

theorem traverse_reach:
  assumes "closed_under links visited"
  shows "traverse start links visited s \<longleftrightarrow> visited s \<or> (link links)\<^sup>*\<^sup>* start s"
proof -
  have "traverse start links visited s
      \<longleftrightarrow> (\<exists>p. (visited(start := True)) p \<and> (link links)\<^sup>*\<^sup>* p s)"
    unfolding traverse_def
    using assms unvisited_marked [of "visited(start := True)" start]
    by (intro traverse_loop_reach) (auto simp: closed_under_def split: if_splits)
  also have "\<dots> \<longleftrightarrow> visited s \<or> (link links)\<^sup>*\<^sup>* start s"
    using closed_under_reach [OF assms] by (metis fun_upd_apply rtranclp.rtrancl_refl)
  finally show ?thesis .
qed

lemma traverse_closed: "closed_under links visited \<Longrightarrow> closed_under links (traverse start links visited)"
  unfolding closed_under_def [of links "traverse start links visited"]
  by (auto simp: traverse_reach dest: rtranclp.rtrancl_into_rtrancl) (auto simp: closed_under_def)

abbreviation reaches :: "LifecycleGraph \<Rightarrow> Stage \<Rightarrow> Stage \<Rightarrow> bool" where
  "reaches g \<equiv> (has_edge g)\<^sup>*\<^sup>*"

lemma link_adjacency: "link (adjacency g) = has_edge g"
  by (intro ext) (simp add: link_def set_adjacency)

lemma link_reverse: "link (reverse_links g) = (has_edge g)\<inverse>\<inverse>"
  by (intro ext) (simp add: link_def set_reverse_links)

lemma forward_iff: "traverse entry (adjacency g) (\<lambda>_. False) s \<longleftrightarrow> reaches g entry s"
  by (simp add: traverse_reach closed_under_def link_adjacency)

lemma live_stages_iff: "s \<in> set live_stages \<longleftrightarrow> s \<noteq> St_Invalid"
  by (cases s) (simp_all add: live_stages_def all_stages_def kStageMin_def)

lemma backward_fold:
  assumes "closed_under (reverse_links g) visited"
  shows "foldl (\<lambda>backward stage.
           if has_exit_link g stage then traverse stage (reverse_links g) backward else backward)
         visited stages s
       \<longleftrightarrow> visited s \<or> (\<exists>e \<in> set stages. has_exit_link g e \<and> reaches g s e)"
  using assms
proof (induction stages arbitrary: visited)
  case (Cons e stages)
  then show ?case
    using traverse_closed [OF Cons.prems, of e]
    by (auto simp: traverse_reach link_reverse rtranclp_conversep)
qed simp

lemma backward_iff: "backward_reach g s \<longleftrightarrow> (\<exists>e. e \<noteq> St_Invalid \<and> has_exit_link g e \<and> reaches g s e)"
  unfolding backward_reach_def
  by (subst backward_fold) (auto simp: closed_under_def live_stages_iff)

lemma appears_iff: "appears g s \<longleftrightarrow> (\<exists>t. has_edge g s t \<or> has_edge g t s)"
proof -
  have "adjacency g s \<noteq> [] \<longleftrightarrow> (\<exists>t. has_edge g s t)" "reverse_links g s \<noteq> [] \<longleftrightarrow> (\<exists>t. has_edge g t s)"
    by (simp_all add: ex_in_conv [symmetric] set_adjacency set_reverse_links flip: set_empty)
  then show ?thesis by (auto simp: appears_def)
qed

lemma check_reachability_ok:
  "status_ok (check_reachability g forward backward stages) \<longleftrightarrow>
     (\<forall>s \<in> set stages. appears g s \<longrightarrow> forward s \<and> (backward s \<or> is_terminal_failure_stage s))"
  by (induction stages) (auto simp: is_terminal_failure_stage_def)

lemma check_edges_ok:
  "status_ok (check_edges es) \<longleftrightarrow>
     (\<forall>e \<in> set es. edge_from e \<noteq> St_Invalid \<and> edge_to e \<noteq> St_Invalid \<and> edge_from e \<noteq> edge_to e)"
proof -
  have "is_valid_stage_value (stage_value s) \<longleftrightarrow> s \<noteq> St_Invalid" for s
    by (cases s) (simp_all add: is_valid_stage_value_def kStageMin_def kStageMax_def)
  then show ?thesis by (induction es) auto
qed

section \<open>The topological count decides acyclicity\<close>

text \<open>The edges the count treats as promotion steps.\<close>

definition step_edge :: "LifecycleGraph \<Rightarrow> Stage \<Rightarrow> Stage \<Rightarrow> bool" where
  "step_edge g a b \<longleftrightarrow> has_edge g a b \<and> \<not> is_holding_stage a"

definition preds :: "LifecycleGraph \<Rightarrow> (Stage \<Rightarrow> bool) \<Rightarrow> Stage \<Rightarrow> Stage set" where
  "preds g forward b = {a. forward a \<and> step_edge g a b}"

lemma finite_stages [simp]: "finite (A :: Stage set)"
proof (rule finite_subset)
  show "A \<subseteq> set all_stages" using stages.table_complete by blast
qed simp

lemma foldl_count:
  "foldl (\<lambda>degree n. degree(n := degree n + 1)) degree ns v = (degree v :: nat) + count_list ns v"
  by (induction ns arbitrary: degree) auto

lemma count_list_distinct: "distinct xs \<Longrightarrow> count_list xs v = of_bool (v \<in> set xs)"
  by (induction xs) (auto simp: count_notin)

lemma in_degrees_card:
  assumes "is_canonical g"
  shows "in_degrees g forward v = card (preds g forward v)"
proof -
  have count: "count_list (adjacency g a) v = of_bool (has_edge g a v)" for a
    using distinct_adjacency [OF assms, of a] set_adjacency [of v g a]
    by (simp add: count_list_distinct)
  have fold: "foldl (\<lambda>degree index.
         if \<not> forward index then degree
         else if is_holding_stage index then degree
         else foldl (\<lambda>degree next. degree(next := degree next + 1)) degree (adjacency g index))
       degree xs v = degree v + card {a \<in> set xs. forward a \<and> step_edge g a v}"
    if "distinct xs" for degree xs
    using that
  proof (induction xs arbitrary: degree)
    case (Cons x xs)
    have "{a \<in> set (x # xs). forward a \<and> step_edge g a v}
        = (if forward x \<and> step_edge g x v then {x} else {}) \<union> {a \<in> set xs. forward a \<and> step_edge g a v}"
      by auto
    with Cons show ?case
      by (auto simp: foldl_count [simplified] count step_edge_def card_insert_if)
  qed simp
  show ?thesis
    using fold [OF stages.table_distinct, of "\<lambda>_. 0"] stages.table_complete
    by (simp add: in_degrees_def preds_def)
qed

lemma relax_links_spec:
  assumes "distinct links" "\<forall>s \<in> set links. forward s" "n + undone degree \<le> kStageCount"
  shows "\<exists>new. relax_links forward links degree pending n
           = ((\<lambda>s. if s \<in> set links then degree s - 1 else degree s), pending @ new, n + length new)
         \<and> distinct new \<and> set new = {s \<in> set links. degree s = 1}"
  using assms
proof (induction links arbitrary: degree pending n)
  case (Cons l links)
  let ?degree = "degree(l := degree l - 1)"
  have eq: "(\<lambda>s. if s \<in> set links then ?degree s - 1 else ?degree s)
      = (\<lambda>s. if s \<in> set (l # links) then degree s - 1 else degree s)"
    using Cons.prems(1) by auto
  have set_eq: "{s \<in> set links. ?degree s = 1} = {s \<in> set links. degree s = 1}"
    using Cons.prems(1) by auto
  have links: "distinct links" "\<forall>s \<in> set links. forward s" and l: "l \<notin> set links" "forward l"
    using Cons.prems by auto
  show ?case
  proof (cases "degree l = 0")
    case True
    then have same: "?degree = degree" by auto
    have "{s \<in> set (l # links). degree s = 1} = {s \<in> set links. degree s = 1}" using True by auto
    with Cons.IH [OF links, of n ?degree pending, unfolded eq set_eq] Cons.prems(3) True show ?thesis
      unfolding same by simp
  next
    case False
    show ?thesis
    proof (cases "degree l = 1")
      case True
      then have "?degree = degree(l := 0)" by simp
      with undone_zero [of degree l] True Cons.prems(3)
      have room: "n + 1 + undone ?degree \<le> kStageCount" by simp
      from Cons.IH [OF links room, of "pending @ [l]", unfolded eq set_eq] obtain new where
        "relax_links forward links ?degree (pending @ [l]) (n + 1)
          = ((\<lambda>s. if s \<in> set (l # links) then degree s - 1 else degree s), (pending @ [l]) @ new, n + 1 + length new)"
        "distinct new" "set new = {s \<in> set links. degree s = 1}"
        by blast
      with True room l show ?thesis
        by (intro exI [of _ "l # new"]) auto
    next
      case one: False
      with False undone_nonzero [of degree l "degree l - 1"] Cons.prems(3)
      have room: "n + undone ?degree \<le> kStageCount" by simp
      from Cons.IH [OF links room, of pending, unfolded eq set_eq] obtain new where
        "relax_links forward links ?degree pending n
          = ((\<lambda>s. if s \<in> set (l # links) then degree s - 1 else degree s), pending @ new, n + length new)"
        "distinct new" "set new = {s \<in> set links. degree s = 1}"
        by blast
      with False one l show ?thesis by (intro exI [of _ new]) (auto simp: Let_def)
    qed
  qed
qed simp

text \<open>
  The state of the ordering loop: \<open>D\<close> are the stages already ordered, and every in-degree counts
  the promotion-step predecessors that are not ordered yet.
\<close>

definition order_inv ::
  "LifecycleGraph \<Rightarrow> (Stage \<Rightarrow> bool) \<Rightarrow> Stage set \<Rightarrow> (Stage \<Rightarrow> nat) \<Rightarrow> Stage list \<Rightarrow> nat \<Rightarrow> bool" where
  "order_inv g forward D degree pending n \<longleftrightarrow>
     (\<forall>v. degree v = card (preds g forward v - D))
     \<and> distinct pending \<and> set pending \<inter> D = {}
     \<and> D \<union> set pending = {v. forward v \<and> degree v = 0}
     \<and> n = card D + length pending"

definition holding_returns_to_root :: "LifecycleGraph \<Rightarrow> (Stage \<Rightarrow> bool) \<Rightarrow> bool" where
  "holding_returns_to_root g forward \<longleftrightarrow>
     (\<forall>h v. is_holding_stage h \<longrightarrow> has_edge g h v \<longrightarrow> preds g forward v = {})"

lemma card_zero_undone:
  assumes "\<forall>v \<in> A. degree v = 0"
  shows "card A + undone degree \<le> kStageCount"
proof -
  have "undone degree = card {v. degree v \<noteq> 0}"
    unfolding undone_def
    using distinct_card [of "filter (\<lambda>s. degree s \<noteq> 0) all_stages"] stages.table_distinct stages.table_complete
    by simp
  moreover have "card A + card {v. degree v \<noteq> 0} = card (A \<union> {v. degree v \<noteq> 0})"
    using assms by (intro card_Un_disjoint [symmetric]) auto
  moreover have "\<dots> \<le> card (set all_stages)"
    using stages.table_complete by (intro card_mono) auto
  moreover have "card (set all_stages) = kStageCount"
    using distinct_card [OF stages.table_distinct]
    by (simp add: all_stages_def kStageCount_def kStageMax_def)
  ultimately show ?thesis by simp
qed

lemma order_inv_step:
  assumes canon: "is_canonical g" and closed: "closed_under (adjacency g) forward"
    and holding: "holding_returns_to_root g forward"
    and inv: "order_inv g forward D degree (current # pending) n"
    and relax: "relax_links forward (adjacency g current) degree pending n = (degree', pending', n')"
  shows "order_inv g forward (insert current D) degree' pending' n'"
proof -
  let ?links = "adjacency g current"
  have deg: "degree v = card (preds g forward v - D)" for v using inv by (simp add: order_inv_def)
  have fwd: "forward current" and "current \<notin> D" and zero: "D \<union> set (current # pending) = {v. forward v \<and> degree v = 0}"
    using inv by (auto simp: order_inv_def)
  have links_fwd: "\<forall>s \<in> set ?links. forward s"
    using closed fwd by (auto simp: closed_under_def link_def)
  have "card (D \<union> set (current # pending)) = n"
    using inv by (subst card_Un_disjoint) (auto simp: order_inv_def distinct_card)
  then have room: "n + undone degree \<le> kStageCount"
    using card_zero_undone [of "D \<union> set (current # pending)" degree] zero by auto
  from relax_links_spec [OF distinct_adjacency [OF canon] links_fwd room, of pending] relax obtain new where
    degree': "degree' = (\<lambda>s. if s \<in> set ?links then degree s - 1 else degree s)"
    and pending': "pending' = pending @ new" and n': "n' = n + length new"
    and new: "distinct new" "set new = {s \<in> set ?links. degree s = 1}"
    by auto
  have deg': "degree' v = card (preds g forward v - insert current D)" for v
  proof (cases "current \<in> preds g forward v")
    case True
    then have "v \<in> set ?links" by (simp add: preds_def step_edge_def set_adjacency)
    moreover have "preds g forward v - insert current D = (preds g forward v - D) - {current}" by auto
    ultimately show ?thesis using True \<open>current \<notin> D\<close> by (simp add: degree' deg)
  next
    case False
    have "degree v = 0" if "v \<in> set ?links"
    proof -
      from that False fwd have "is_holding_stage current"
        by (auto simp: preds_def step_edge_def set_adjacency)
      with that holding show ?thesis by (simp add: holding_returns_to_root_def deg set_adjacency)
    qed
    moreover have "preds g forward v - insert current D = preds g forward v - D" using False by auto
    ultimately show ?thesis by (auto simp: degree' deg [symmetric])
  qed
  have zero': "insert current D \<union> set pending' = {v. forward v \<and> degree' v = 0}"
  proof -
    have "{v. forward v \<and> degree' v = 0} = {v. forward v \<and> degree v = 0} \<union> set new"
      using new(2) links_fwd by (auto simp: degree')
    with zero show ?thesis by (auto simp: pending')
  qed
  have "set new \<inter> (D \<union> set (current # pending)) = {}" using new(2) zero by auto
  then show ?thesis
    using inv new zero' deg' \<open>current \<notin> D\<close> n' by (auto simp: order_inv_def pending')
qed

lemma order_inv_ready:
  "order_inv g forward D degree pending n \<Longrightarrow> degree v = 0 \<longleftrightarrow> preds g forward v \<subseteq> D"
  by (simp add: order_inv_def)

lemma order_loop_spec:
  assumes "is_canonical g" "closed_under (adjacency g) forward" "holding_returns_to_root g forward"
    and "order_inv g forward D degree pending n"
  shows "\<exists>xs. order_loop g forward degree pending n k = k + length xs \<and> distinct xs
           \<and> set xs \<inter> D = {} \<and> (\<forall>i < length xs. preds g forward (xs ! i) \<subseteq> D \<union> set (take i xs))
           \<and> D \<union> set xs = {v. forward v \<and> preds g forward v \<subseteq> D \<union> set xs}"
  using assms
proof (induction g forward degree pending n k arbitrary: D rule: order_loop.induct)
  case (1 g forward degree n k)
  have "D \<union> set [] = {v. forward v \<and> degree v = 0}"
    using "1.prems"(4) unfolding order_inv_def by blast
  then have "D = {v. forward v \<and> degree v = 0}" unfolding list.set Un_empty_right .
  also have "\<dots> = {v. forward v \<and> preds g forward v \<subseteq> D}"
    using order_inv_ready [OF "1.prems"(4)] by simp
  finally have D: "D = {v. forward v \<and> preds g forward v \<subseteq> D}" .
  have "D \<union> set [] = {v. forward v \<and> preds g forward v \<subseteq> D \<union> set []}"
    unfolding list.set Un_empty_right by (rule D)
  then show ?case by (intro exI [of _ "[]"] conjI) simp_all
next
  case (2 g forward degree current pending n k)
  obtain degree' pending' n' where
    relax: "relax_links forward (adjacency g current) degree pending n = (degree', pending', n')"
    by (cases "relax_links forward (adjacency g current) degree pending n") auto
  note inv' = order_inv_step [OF "2.prems" relax]
  from "2.IH" [OF relax [symmetric] refl "2.prems"(1-3) inv'] obtain xs where
    xs: "order_loop g forward degree' pending' n' (k + 1) = k + 1 + length xs" "distinct xs"
    "set xs \<inter> insert current D = {}"
    "\<forall>i < length xs. preds g forward (xs ! i) \<subseteq> insert current D \<union> set (take i xs)"
    "insert current D \<union> set xs = {v. forward v \<and> preds g forward v \<subseteq> insert current D \<union> set xs}"
    by blast
  have "D \<union> set (current # pending) = {v. forward v \<and> degree v = 0}" and "current \<notin> D"
    using "2.prems"(4) by (auto simp: order_inv_def)
  then have "preds g forward current \<subseteq> D"
    using order_inv_ready [OF "2.prems"(4), of current] by auto
  then have order: "preds g forward ((current # xs) ! i) \<subseteq> D \<union> set (take i (current # xs))"
    if "i < length (current # xs)" for i
    using that xs(4) by (cases i) auto
  have union: "D \<union> set (current # xs) = insert current D \<union> set xs" by simp
  show ?case
    using xs(1-3) xs(5) \<open>current \<notin> D\<close> order relax
    by (intro exI [of _ "current # xs"]) (simp only: union, simp)
qed

lemma order_inv_initial:
  assumes "is_canonical g"
  shows "order_inv g forward {} (in_degrees g forward) (order_roots forward (in_degrees g forward))
           (length (order_roots forward (in_degrees g forward)))"
  using stages.table_distinct stages.table_complete
  by (auto simp: order_inv_def in_degrees_card [OF assms] order_roots_def)

lemma index_in_nth:
  assumes "distinct xs" "n < length xs"
  shows "index_in xs (xs ! n) = n"
proof -
  have "takeWhile (\<lambda>y. y \<noteq> xs ! n) xs = take n xs"
    using assms by (intro takeWhile_eq_take_P_nth) (auto simp: nth_eq_iff_index_eq)
  with assms(2) show ?thesis by (simp add: index_in_def)
qed

theorem topological_count:
  assumes "is_canonical g" "closed_under (adjacency g) forward" "holding_returns_to_root g forward"
  shows "topologically_ordered g forward = reachable_nodes forward
     \<longleftrightarrow> acyclicP (\<lambda>a b. forward a \<and> step_edge g a b)"
proof -
  from order_loop_spec [OF assms order_inv_initial [OF assms(1)], of 0] obtain xs where
    count: "topologically_ordered g forward = length xs" and "distinct xs"
    and order: "\<forall>i < length xs. preds g forward (xs ! i) \<subseteq> set (take i xs)"
    and all: "set xs = {v. forward v \<and> preds g forward v \<subseteq> set xs}"
    by (auto simp: topologically_ordered_def Let_def)
  have nodes: "reachable_nodes forward = card (Collect forward)"
    unfolding reachable_nodes_def
    using distinct_card [of "filter forward all_stages"] stages.table_distinct stages.table_complete
    by simp
  have sub: "set xs \<subseteq> Collect forward" using all by blast
  have "topologically_ordered g forward = reachable_nodes forward \<longleftrightarrow> set xs = Collect forward"
    unfolding count nodes using \<open>distinct xs\<close> sub card_subset_eq [of "Collect forward" "set xs"]
    by (metis distinct_card finite_stages)
  also have "\<dots> \<longleftrightarrow> acyclicP (\<lambda>a b. forward a \<and> step_edge g a b)"
  proof
    assume full: "set xs = Collect forward"
    have "index_in xs a < index_in xs b" if "forward a" "step_edge g a b" for a b
    proof -
      have "forward b"
        using that assms(2) by (auto simp: closed_under_def link_adjacency step_edge_def)
      then obtain i where i: "i < length xs" "b = xs ! i" using full by (metis in_set_conv_nth mem_Collect_eq)
      moreover from this that order have "a \<in> set (take i xs)" by (auto simp: preds_def)
      ultimately obtain j where "j < i" "a = xs ! j" by (auto simp: in_set_conv_nth)
      with i show ?thesis using \<open>distinct xs\<close> by (simp add: index_in_nth)
    qed
    then have "{(a, b). forward a \<and> step_edge g a b} \<subseteq> measure (index_in xs)" by auto
    then show "acyclicP (\<lambda>a b. forward a \<and> step_edge g a b)"
      using acyclic_subset wf_acyclic wf_measure by blast
  next
    assume acyc: "acyclicP (\<lambda>a b. forward a \<and> step_edge g a b)"
    have "finite {(a, b). forward a \<and> step_edge g a b}"
      by (rule finite_subset [of _ "UNIV \<times> UNIV"]) (simp, intro finite_cartesian_product finite_stages)
    then have wf: "wf {(a, b). forward a \<and> step_edge g a b}"
      using acyc by (rule finite_acyclic_wf)
    have "v \<in> set xs" if "forward v" for v
      using wf that
    proof (induction v rule: wf_induct_rule)
      case (less v)
      then show ?case using all by (auto simp: preds_def)
    qed
    with sub show "set xs = Collect forward" by blast
  qed
  finally show ?thesis .
qed

section \<open>What an accepted graph guarantees\<close>

text \<open>
  The return condition: a stage a quarantine hands back to is not also the target of a promotion
  step.  The reference lifecycle satisfies it, since nothing else leads back to \<open>CANDIDATE\<close>.
\<close>

definition governed_returns :: "LifecycleGraph \<Rightarrow> bool" where
  "governed_returns g \<longleftrightarrow>
     (\<forall>h v a. is_holding_stage h \<longrightarrow> has_edge g h v \<longrightarrow> \<not> step_edge g a v)"

definition edges_proper :: "LifecycleGraph \<Rightarrow> bool" where
  "edges_proper g \<longleftrightarrow>
     (\<forall>a b. has_edge g a b \<longrightarrow> a \<noteq> St_Invalid \<and> b \<noteq> St_Invalid \<and> a \<noteq> b)"

lemma check_edges_proper: "status_ok (check_edges (edges g)) \<longleftrightarrow> edges_proper g"
proof -
  have "(\<forall>e \<in> set (edges g). P (edge_from e) (edge_to e)) \<longleftrightarrow> (\<forall>a b. has_edge g a b \<longrightarrow> P a b)" for P
    by (auto simp: has_edge_def list_ex_iff)
  from this [of "\<lambda>a b. a \<noteq> St_Invalid \<and> b \<noteq> St_Invalid \<and> a \<noteq> b"]
  show ?thesis unfolding check_edges_ok edges_proper_def .
qed

definition can_leave :: "LifecycleGraph \<Rightarrow> Stage \<Rightarrow> bool" where
  "can_leave g s \<longleftrightarrow>
     (\<exists>e t. reaches g s e \<and> has_edge g e t \<and> is_terminal_failure_stage t)"

lemma exit_stage_iff: "is_terminal_failure_stage t \<or> t = St_Retired \<longleftrightarrow> is_terminal_failure_stage t"
  by (auto simp: is_terminal_failure_stage_def)

lemma has_exit_link_iff:
  "has_exit_link g e \<longleftrightarrow> (\<exists>t. has_edge g e t \<and> is_terminal_failure_stage t)"
  unfolding has_exit_link_def list_ex_iff exit_stage_iff Bex_def set_adjacency ..

lemma reach_check:
  assumes "edges_proper g"
  shows "status_ok (check_reachability g (traverse entry (adjacency g) (\<lambda>_. False)) (backward_reach g) live_stages)
    \<longleftrightarrow> (\<forall>s. appears g s \<longrightarrow> reaches g entry s \<and> (can_leave g s \<or> is_terminal_failure_stage s))"
proof -
  have "backward_reach g s \<longleftrightarrow> can_leave g s" for s
    using assms unfolding backward_iff has_exit_link_iff can_leave_def edges_proper_def by metis
  moreover have "s \<noteq> St_Invalid" if "appears g s" for s
    using that assms by (auto simp: appears_iff edges_proper_def)
  ultimately show ?thesis by (auto simp: check_reachability_ok forward_iff live_stages_iff)
qed

lemma step_edge_reachable:
  assumes "\<forall>s. appears g s \<longrightarrow> reaches g entry s"
  shows "(\<lambda>a b. traverse entry (adjacency g) (\<lambda>_. False) a \<and> step_edge g a b) = step_edge g"
  using assms by (intro ext) (auto simp: forward_iff step_edge_def appears_iff)

lemma graph_validate_ok:
  assumes "governed_returns g"
  shows "status_ok (graph_validate g entry) \<longleftrightarrow>
     entry \<noteq> St_Invalid \<and> edges g \<noteq> [] \<and> length (edges g) \<le> kMaxEdges \<and> sorted_wrt (<) (edges g)
     \<and> edges_proper g
     \<and> (\<forall>s. appears g s \<longrightarrow> reaches g entry s \<and> (can_leave g s \<or> is_terminal_failure_stage s))
     \<and> acyclicP (step_edge g)
     \<and> (\<exists>a b. has_edge g a b \<and> is_terminal_failure_stage b)"
proof -
  let ?forward = "traverse entry (adjacency g) (\<lambda>_. False)"
  have exit: "list_ex (\<lambda>e. is_terminal_failure_stage (edge_to e) \<or> edge_to e = St_Retired) (edges g)
      \<longleftrightarrow> (\<exists>a b. has_edge g a b \<and> is_terminal_failure_stage b)"
    unfolding exit_stage_iff by (auto simp: has_edge_def list_ex_iff)
  have returns: "holding_returns_to_root g ?forward"
    using assms by (auto simp: holding_returns_to_root_def governed_returns_def preds_def)
  have closed: "closed_under (adjacency g) ?forward"
    by (rule traverse_closed) (simp add: closed_under_def)
  have count: "topologically_ordered g ?forward = reachable_nodes ?forward \<longleftrightarrow> acyclicP (step_edge g)"
    if "is_canonical g" "\<forall>s. appears g s \<longrightarrow> reaches g entry s"
    using topological_count [OF that(1) closed returns] step_edge_reachable [OF that(2)] by simp
  show ?thesis
    unfolding graph_validate_def Let_def status_failed_iff
    using count by (auto simp: check_edges_proper reach_check exit canonical_sorted_distinct)
qed

text \<open>
  C17: For every graph in which no promotion step leads to a stage that a quarantine hands back to, validation succeeds
  exactly when the entry is a real stage, the edge list is non-empty, within its bound, strictly sorted and free
  of invalid or self edges, every stage that appears is reachable from the entry and can reach a
  terminal stage (or is one), the promotion steps are acyclic, and some edge ends the life of an
  artifact.  A cycle of an accepted graph therefore passes through a quarantine; where the quarantine leads is not
  restricted to \<open>CANDIDATE\<close>.
\<close>

theorem graph_validate_iff:
  assumes "governed_returns g"
  shows "status_ok (graph_validate g entry) \<longleftrightarrow>
     entry \<noteq> St_Invalid \<and> edges g \<noteq> [] \<and> length (edges g) \<le> kMaxEdges \<and> sorted_wrt (<) (edges g)
     \<and> edges_proper g
     \<and> (\<forall>s. appears g s \<longrightarrow> reaches g entry s \<and> (can_leave g s \<or> is_terminal_failure_stage s))
     \<and> acyclicP (step_edge g)
     \<and> (\<exists>a b. has_edge g a b \<and> is_terminal_failure_stage b)"
  using assms by (rule graph_validate_ok)

section \<open>The reference lifecycle\<close>

definition reference_edges :: "Edge list" where
  "reference_edges =
    [Edge St_Candidate St_Verified, Edge St_Candidate St_Quarantined,
     Edge St_Verified St_Qualified, Edge St_Verified St_Quarantined,
     Edge St_Qualified St_Staged, Edge St_Qualified St_Quarantined,
     Edge St_Staged St_Approved, Edge St_Staged St_Quarantined,
     Edge St_Staged St_Revoked, Edge St_Staged St_Superseded,
     Edge St_Approved St_Promoted, Edge St_Approved St_Quarantined,
     Edge St_Approved St_Revoked, Edge St_Approved St_Superseded,
     Edge St_Promoted St_Quarantined, Edge St_Promoted St_Revoked,
     Edge St_Promoted St_Superseded, Edge St_Promoted St_Retired,
     Edge St_Quarantined St_Candidate, Edge St_Revoked St_Retired,
     Edge St_Superseded St_Retired]"

lemma edges_graph_reference: "edges graph_reference = reference_edges"
  by code_simp

lemma has_edge_reference:
  "has_edge graph_reference a b \<longleftrightarrow> (a, b) \<in> set reference_transitions"
proof -
  have "set reference_edges = (\<lambda>(a, b). Edge a b) ` set reference_transitions"
    by (simp add: reference_edges_def reference_transitions_def insert_commute)
  then show ?thesis by (auto simp: has_edge_iff edges_graph_reference image_iff)
qed

text \<open>Outside quarantine, every reference transition moves to a later stage.\<close>

lemma reference_step_increases: "step_edge graph_reference a b \<Longrightarrow> a < b"
proof -
  have "list_all (\<lambda>(a, b). is_holding_stage a \<or> a < b) reference_transitions" by code_simp
  then show "step_edge graph_reference a b \<Longrightarrow> a < b"
    by (auto simp: step_edge_def has_edge_reference list_all_iff)
qed

lemma reference_acyclic: "acyclicP (step_edge graph_reference)"
proof -
  have "{(a, b). step_edge graph_reference a b} \<subseteq> measure stage_value"
    using reference_step_increases by (auto simp: less_Stage_def)
  then show ?thesis using acyclic_subset wf_acyclic wf_measure by blast
qed

lemma reference_governed: "governed_returns graph_reference"
proof -
  have "list_all (\<lambda>(h, v). is_holding_stage h \<longrightarrow> list_all (\<lambda>(a, b). is_holding_stage a \<or> b \<noteq> v) reference_transitions)
      reference_transitions"
    by code_simp
  then show ?thesis
    by (fastforce simp: governed_returns_def step_edge_def has_edge_reference list_all_iff)
qed

lemma reference_proper: "edges_proper graph_reference"
proof -
  have "status_ok (check_edges reference_edges)" by code_simp
  then show ?thesis by (simp add: check_edges_proper [symmetric] edges_graph_reference)
qed

lemma reference_reachability:
  "\<forall>s. appears graph_reference s \<longrightarrow> reaches graph_reference St_Candidate s
     \<and> (can_leave graph_reference s \<or> is_terminal_failure_stage s)"
proof -
  have "list_all (\<lambda>s. traverse St_Candidate (adjacency graph_reference) (\<lambda>_. False) s) live_stages"
    and "list_all (\<lambda>s. backward_reach graph_reference s \<or> is_terminal_failure_stage s) live_stages"
    by code_simp+
  then have "status_ok (check_reachability graph_reference
      (traverse St_Candidate (adjacency graph_reference) (\<lambda>_. False)) (backward_reach graph_reference) live_stages)"
    by (simp add: check_reachability_ok list_all_iff)
  then show ?thesis by (simp add: reach_check reference_proper)
qed

lemma reference_sorted:
  "sorted_wrt (<) (edges graph_reference)" "edges graph_reference \<noteq> []"
  "length (edges graph_reference) \<le> kMaxEdges"
  using canonicalize_canonical
  by (simp add: graph_reference_def canonical_sorted_distinct [symmetric])
    (simp_all add: edges_graph_reference reference_edges_def kMaxEdges_def)

lemma reference_exit: "has_edge graph_reference St_Promoted St_Retired" "is_terminal_failure_stage St_Retired"
  by (simp_all add: has_edge_reference reference_transitions_def is_terminal_failure_stage_def)

lemmas reference_facts = reference_sorted reference_proper reference_reachability reference_acyclic
  reference_exit

lemma reference_graph_valid: "status_ok (graph_validate graph_reference St_Candidate)"
  unfolding graph_validate_ok [OF reference_governed] using reference_facts by blast

theorem graph_validate_iff_witness:
  "governed_returns graph_reference \<and> status_ok (graph_validate graph_reference St_Candidate)"
  unfolding graph_validate_iff [OF reference_governed]
  using reference_governed reference_facts by blast

text \<open>
  A graph whose quarantine hands artifacts back to a stage of the promotion spine.  The ordering
  loop decrements the in-degree of \<open>VERIFIED\<close> along the quarantine exit, which never contributed
  to it, and so orders a stage whose predecessor is still waiting.
\<close>

definition bypass_graph :: LifecycleGraph where
  "bypass_graph = LifecycleGraph
     [Edge St_Candidate St_Quarantined, Edge St_Verified St_Qualified, Edge St_Verified St_Retired,
      Edge St_Qualified St_Verified, Edge St_Quarantined St_Verified]"

text \<open>
  Validation accepts \<open>bypass_graph\<close>, in which \<open>VERIFIED\<close> and \<open>QUALIFIED\<close> form a cycle of
  promotion steps that passes through no holding stage.
\<close>

theorem validate_accepts_cycle:
  "status_ok (graph_validate bypass_graph St_Candidate) \<and>
   step_edge bypass_graph St_Verified St_Qualified \<and> step_edge bypass_graph St_Qualified St_Verified"
proof (intro conjI)
  show "status_ok (graph_validate bypass_graph St_Candidate)" by code_simp
qed (simp_all add: step_edge_def has_edge_def bypass_graph_def is_holding_stage_def)

text \<open>
  Nor does validation demand that the return leads to \<open>CANDIDATE\<close>: here the only cycle is between \<open>VERIFIED\<close> and
  \<open>QUARANTINED\<close>, and nothing leads back to the entry stage.
\<close>

definition foreign_return_graph :: LifecycleGraph where
  "foreign_return_graph = LifecycleGraph
     [Edge St_Candidate St_Quarantined, Edge St_Verified St_Quarantined, Edge St_Verified St_Retired,
      Edge St_Quarantined St_Verified]"

theorem validate_accepts_foreign_return:
  "status_ok (graph_validate foreign_return_graph St_Candidate) \<and> governed_returns foreign_return_graph
   \<and> has_edge foreign_return_graph St_Verified St_Quarantined \<and> has_edge foreign_return_graph St_Quarantined St_Verified
   \<and> (\<forall>a. \<not> has_edge foreign_return_graph a St_Candidate)"
proof (intro conjI)
  show "status_ok (graph_validate foreign_return_graph St_Candidate)" by code_simp
qed (auto simp: governed_returns_def step_edge_def has_edge_def foreign_return_graph_def is_holding_stage_def)

end
