(* ===== verification/Reference_Policy.thy ===== *)
theory Reference_Policy
  imports Policy Stage_Graph
begin

text \<open>
  The reference policy \<open>make_reference_policy\<close> (\<open>src/domain/policy.cpp\<close>) with the gate
  constructors it uses, that it validates, and the contract between a validated policy and its
  lifecycle graph.
\<close>

section \<open>Gate constructors\<close>

definition make_evidence_gate :: "EvidenceType \<Rightarrow> string \<Rightarrow> Gate" where
  "make_evidence_gate t label =
     empty_gate \<lparr> gt_kind := GK_EvidenceRequired, gt_evidence_type := t, gt_label := label \<rparr>"

definition make_freshness_gate :: "EvidenceType \<Rightarrow> u64 \<Rightarrow> string \<Rightarrow> Gate" where
  "make_freshness_gate t max_age_millis label =
     empty_gate \<lparr> gt_kind := GK_EvidenceFreshness, gt_evidence_type := t,
       gt_max_age_millis := max_age_millis, gt_label := label \<rparr>"

definition make_simple_gate :: "GateKind \<Rightarrow> string \<Rightarrow> Gate" where
  "make_simple_gate kind label = empty_gate \<lparr> gt_kind := kind, gt_label := label \<rparr>"

definition make_environment_gate :: "EvidenceType \<Rightarrow> string \<Rightarrow> string \<Rightarrow> Gate" where
  "make_environment_gate t environment label =
     empty_gate \<lparr> gt_kind := GK_EnvironmentBinding, gt_evidence_type := t,
       gt_required_environment := environment, gt_label := label \<rparr>"

definition make_compatibility_gate :: "CompatibilityGeneration \<Rightarrow> string \<Rightarrow> Gate" where
  "make_compatibility_gate generation label =
     empty_gate \<lparr> gt_kind := GK_CompatibilityGenerationCurrent,
       gt_required_compatibility_generation := generation, gt_label := label \<rparr>"

definition make_provenance_gate :: "ProvenanceRef \<Rightarrow> string \<Rightarrow> Gate" where
  "make_provenance_gate reference label =
     empty_gate \<lparr> gt_kind := GK_ProvenanceRequired, gt_required_provenance := reference,
       gt_label := label \<rparr>"

definition make_approval_gate :: "EvidenceType \<Rightarrow> string \<Rightarrow> Gate" where
  "make_approval_gate t label =
     empty_gate \<lparr> gt_kind := GK_ApprovalRequired, gt_evidence_type := t, gt_label := label \<rparr>"

definition kHourMillis :: u64 where "kHourMillis = 60 * 60 * 1000"
definition kDayMillis :: u64 where "kDayMillis = 24 * kHourMillis"

definition common_hard_gates :: "Gate list" where
  "common_hard_gates =
    [make_simple_gate GK_ArtifactIdentity ''artifact identity and digest are valid'',
     make_simple_gate GK_EvidenceIntegrity ''candidate evidence passes integrity checks'',
     make_simple_gate GK_ArtifactNotQuarantined ''artifact is not quarantined'',
     make_simple_gate GK_ArtifactNotRevoked ''artifact is not revoked'',
     make_simple_gate GK_SecurityVetoClear ''no open security veto'',
     make_simple_gate GK_DependencyVetoClear ''no open dependency veto'',
     make_simple_gate GK_NoConflictingTransition ''no conflicting committed transition'']"

section \<open>The reference rules\<close>

definition verify_any :: PolicyRule where
  "verify_any = empty_rule \<lparr> ru_from := St_Candidate, ru_to := St_Verified,
     ru_requirements := common_hard_gates @
       [make_simple_gate GK_ProvenanceResolved ''provenance references resolve'',
        make_freshness_gate ET_ProvenanceComplete (30 * kDayMillis)
          ''provenance completeness evidence is fresh''],
     ru_preferences := [GK_ArtifactNotSuperseded], ru_ordering := ORule_LowerCommitSequence \<rparr>"

definition qualified_executable :: PolicyRule where
  "qualified_executable = empty_rule \<lparr> ru_has_kind_scope := True, ru_kind_scope := AK_Executable,
     ru_from := St_Verified, ru_to := St_Qualified,
     ru_requirements := common_hard_gates @
       [make_evidence_gate ET_BuildPass ''build evidence for the exact artifact digest'',
        make_evidence_gate ET_UnitTestPass ''unit test evidence for the exact artifact digest'',
        make_evidence_gate ET_IntegrationTestPass ''integration test evidence'',
        make_freshness_gate ET_BuildPass (7 * kDayMillis) ''build evidence is fresh'',
        make_environment_gate ET_UnitTestPass ''windows-x64-msvc''
          ''unit tests ran in the declared environment'',
        make_compatibility_gate (Counter 1) ''compatibility generation is current'',
        make_simple_gate GK_DependentArtifactPromoted ''declared dependencies are promoted or absent''],
     ru_ordering := ORule_LowerCommitSequence \<rparr>"

definition qualified_model :: PolicyRule where
  "qualified_model = empty_rule \<lparr> ru_has_kind_scope := True, ru_kind_scope := AK_Model,
     ru_from := St_Verified, ru_to := St_Qualified,
     ru_requirements := common_hard_gates @
       [make_evidence_gate ET_ModelEvalPass ''model evaluation evidence'',
        make_evidence_gate ET_DataValidationPass ''training data validation evidence'',
        make_freshness_gate ET_ModelEvalPass (14 * kDayMillis) ''model evaluation evidence is fresh'',
        make_compatibility_gate (Counter 1) ''compatibility generation is current'',
        make_simple_gate GK_DependentArtifactPromoted ''declared dependencies are promoted or absent''],
     ru_ordering := ORule_LowerCommitSequence \<rparr>"

definition qualified_generic :: PolicyRule where
  "qualified_generic = empty_rule \<lparr> ru_from := St_Verified, ru_to := St_Qualified,
     ru_requirements := common_hard_gates @
       [make_evidence_gate ET_ProvenanceComplete ''provenance completeness evidence'',
        make_simple_gate GK_DependentArtifactPromoted ''declared dependencies are promoted or absent''] \<rparr>"

definition staged_any :: PolicyRule where
  "staged_any = empty_rule \<lparr> ru_from := St_Qualified, ru_to := St_Staged,
     ru_requirements := common_hard_gates @
       [make_evidence_gate ET_ReproducibilityPass ''reproducibility evidence'',
        make_simple_gate GK_CoordinatorEpochCurrent ''coordinator epoch is current''],
     ru_preferences := [GK_PolicyGenerationCurrent] \<rparr>"

definition approved_any :: PolicyRule where
  "approved_any = empty_rule \<lparr> ru_from := St_Staged, ru_to := St_Approved,
     ru_requirements := common_hard_gates @
       [make_approval_gate ET_MachineCriticApproval
          ''machine critic approval bound to the exact artifact and transition''] \<rparr>"

definition promoted_any :: PolicyRule where
  "promoted_any = empty_rule \<lparr> ru_from := St_Approved, ru_to := St_Promoted,
     ru_requirements := common_hard_gates @
       [make_simple_gate GK_PolicyGenerationCurrent ''governing policy generation is current'',
        make_simple_gate GK_CoordinatorEpochCurrent
          ''coordinator epoch that produced the plan is current'',
        make_evidence_gate ET_SignatureValid ''artifact signature evidence''],
     ru_supersedes_previous := True, ru_allow_rollback_eligibility := True \<rparr>"

definition quarantine_release :: PolicyRule where
  "quarantine_release = empty_rule \<lparr> ru_from := St_Quarantined, ru_to := St_Candidate,
     ru_requirements :=
       [make_evidence_gate ET_SecurityScanPass ''security scan evidence for the release decision'',
        make_evidence_gate ET_HumanApproval
          ''authorized human approval of the quarantine release''] \<rparr>"

definition revoke_any :: PolicyRule where
  "revoke_any = empty_rule \<lparr> ru_from := St_Promoted, ru_to := St_Revoked,
     ru_requirements := [make_simple_gate GK_ArtifactIdentity ''artifact identity is valid''] \<rparr>"

definition supersede_any :: PolicyRule where
  "supersede_any = empty_rule \<lparr> ru_from := St_Promoted, ru_to := St_Superseded,
     ru_requirements := [make_simple_gate GK_ArtifactIdentity ''artifact identity is valid''] \<rparr>"

definition reference_rules :: "PolicyRule list" where
  "reference_rules =
    [verify_any, qualified_executable, qualified_model, qualified_generic, staged_any, approved_any,
     promoted_any, quarantine_release, revoke_any, supersede_any]"

definition make_reference_policy :: "PromotionPolicyId \<Rightarrow> PolicyGeneration \<Rightarrow> PromotionPolicy" where
  "make_reference_policy i generation =
     (let policy = \<lparr> po_id = i, po_generation = generation, po_name = ''reference-policy'',
            po_description = ''Reference promotion policy: a strict executable pipeline, a distinct model pipeline, and opaque artifacts that require provenance rather than test evidence.'',
            po_graph = graph_reference, po_entry_stage = St_Candidate, po_rules = reference_rules,
            po_policy_digest = null_digest \<rparr>
      in policy \<lparr> po_policy_digest := compute_digest policy \<rparr>)"

section \<open>The reference policy validates\<close>

lemma valid_gate_kind_iff: "is_valid_gate_kind (gate_kind_value k) \<longleftrightarrow> k \<noteq> GK_Invalid"
  by (cases k) (simp_all add: is_valid_gate_kind_def gate_kind_value_def index_in_def gate_kinds_def)

lemma check_gates_ok: "status_ok (check_gates gs) \<longleftrightarrow> (\<forall>g \<in> set gs. status_ok (gate_validate g))"
  by (induction gs) (auto simp: status_failed_iff)

lemma simple_gate_ok:
  "status_ok (gate_validate (make_simple_gate kind label)) \<longleftrightarrow>
     is_valid_text label \<and> label \<noteq> []"
  if "kind \<in> set [GK_EvidenceIntegrity, GK_ArtifactIdentity, GK_ArtifactNotQuarantined,
      GK_ArtifactNotRevoked, GK_ArtifactNotSuperseded, GK_ProvenanceResolved,
      GK_DependentArtifactPromoted, GK_SecurityVetoClear, GK_DependencyVetoClear,
      GK_PolicyGenerationCurrent, GK_CoordinatorEpochCurrent, GK_NoConflictingTransition]"
  using that
  by (auto simp: gate_validate_def valid_gate_kind_iff make_simple_gate_def empty_gate_def)

lemma evidence_gate_valid:
  assumes "evidence_type_valid t" "t \<noteq> ET_Invalid" "t \<noteq> ET_Custom" "is_valid_text label" "label \<noteq> []"
  shows "status_ok (gate_validate (make_evidence_gate t label))"
    and "status_ok (gate_validate (make_approval_gate t label))"
    and "age \<noteq> 0 \<Longrightarrow> status_ok (gate_validate (make_freshness_gate t age label))"
    and "is_valid_text env \<Longrightarrow> env \<noteq> [] \<Longrightarrow> status_ok (gate_validate (make_environment_gate t env label))"
  using assms
  by (simp_all add: gate_validate_def valid_gate_kind_iff evidence_gate_validate_def
      make_evidence_gate_def make_approval_gate_def make_freshness_gate_def make_environment_gate_def
      empty_gate_def)

lemma compatibility_gate_ok:
  "counter_valid generation \<Longrightarrow> is_valid_text label \<Longrightarrow> label \<noteq> [] \<Longrightarrow>
     status_ok (gate_validate (make_compatibility_gate generation label))"
  by (simp add: gate_validate_def valid_gate_kind_iff make_compatibility_gate_def empty_gate_def)

lemmas text_eval = is_valid_text_def kMaxTextLength_def

lemmas gates_ok = simple_gate_ok evidence_gate_valid compatibility_gate_ok

lemma common_gates_ok: "\<forall>g \<in> set common_hard_gates. status_ok (gate_validate g)"
  by (simp add: common_hard_gates_def simple_gate_ok text_eval)

lemmas rule_eval = rule_validate_def check_gates_ok is_valid_ordering_rule_def empty_rule_def
  valid_artifact_kind_iff kMaxGates_def valid_gate_kind_iff ball_Un

lemma length_common_gates: "length common_hard_gates = 7"
  by (simp add: common_hard_gates_def)

lemma day_nonzero: "30 * kDayMillis \<noteq> 0" "7 * kDayMillis \<noteq> 0" "14 * kDayMillis \<noteq> 0"
  by (simp_all add: kDayMillis_def kHourMillis_def)

lemma reference_rule_ok:
  "status_ok (rule_validate verify_any)" "status_ok (rule_validate qualified_executable)"
  "status_ok (rule_validate qualified_model)" "status_ok (rule_validate qualified_generic)"
  "status_ok (rule_validate staged_any)" "status_ok (rule_validate approved_any)"
  "status_ok (rule_validate promoted_any)" "status_ok (rule_validate quarantine_release)"
  "status_ok (rule_validate revoke_any)" "status_ok (rule_validate supersede_any)"
  using common_gates_ok
  by (simp_all add: verify_any_def qualified_executable_def qualified_model_def qualified_generic_def
      staged_any_def approved_any_def promoted_any_def quarantine_release_def revoke_any_def
      supersede_any_def rule_eval length_common_gates gates_ok text_eval is_valid_evidence_type_def
      day_nonzero counter_valid_def)

lemma check_rules_ok:
  "status_ok (check_rules g rs) \<longleftrightarrow>
     (\<forall>r \<in> set rs. status_ok (rule_validate r) \<and> has_edge g (ru_from r) (ru_to r))"
  by (induction rs) (auto simp: status_failed_iff)

lemma reference_rule_stages:
  "map (\<lambda>r. (ru_from r, ru_to r)) reference_rules =
    [(St_Candidate, St_Verified), (St_Verified, St_Qualified), (St_Verified, St_Qualified),
     (St_Verified, St_Qualified), (St_Qualified, St_Staged), (St_Staged, St_Approved),
     (St_Approved, St_Promoted), (St_Quarantined, St_Candidate), (St_Promoted, St_Revoked),
     (St_Promoted, St_Superseded)]"
  unfolding reference_rules_def verify_any_def qualified_executable_def qualified_model_def
    qualified_generic_def staged_any_def approved_any_def promoted_any_def quarantine_release_def
    revoke_any_def supersede_any_def empty_rule_def list.map
  by (simp only: PolicyRule.simps)

lemma reference_rules_ok: "status_ok (check_rules graph_reference reference_rules)"
proof -
  have "set (map (\<lambda>r. (ru_from r, ru_to r)) reference_rules) \<subseteq> set reference_transitions"
    unfolding reference_rule_stages by (simp add: reference_transitions_def)
  then have "\<forall>r \<in> set reference_rules. has_edge graph_reference (ru_from r) (ru_to r)"
    by (auto simp: has_edge_reference)
  moreover have "\<forall>r \<in> set reference_rules. status_ok (rule_validate r)"
    by (simp add: reference_rules_def reference_rule_ok)
  ultimately show ?thesis by (simp add: check_rules_ok)
qed

lemma reference_policy_fields [simp]:
  "po_id (make_reference_policy i g) = i" "po_generation (make_reference_policy i g) = g"
  "po_graph (make_reference_policy i g) = graph_reference"
  "po_entry_stage (make_reference_policy i g) = St_Candidate"
  "po_rules (make_reference_policy i g) = reference_rules"
  "po_name (make_reference_policy i g) = ''reference-policy''"
  unfolding make_reference_policy_def Let_def by (simp_all only: PromotionPolicy.simps)

lemma policy_validate_ok:
  "status_ok (policy_validate p) \<longleftrightarrow>
     id_valid (po_id p) \<and> counter_valid (po_generation p) \<and> is_valid_name (po_name p)
     \<and> length (po_rules p) \<le> kMaxRules \<and> po_rules p \<noteq> []
     \<and> status_ok (graph_validate (po_graph p) (po_entry_stage p))
     \<and> status_ok (check_rules (po_graph p) (po_rules p))"
  by (auto simp: policy_validate_def status_failed_iff)

lemma reference_policy_valid:
  assumes "id_valid i" "counter_valid g"
  shows "status_ok (policy_validate (make_reference_policy i g))"
proof -
  have "is_valid_name ''reference-policy''" by (simp add: is_valid_name_def kMaxNameLength_def)
  then show ?thesis
    using assms by (simp add: policy_validate_ok reference_graph_valid reference_rules_ok)
      (simp add: reference_rules_def kMaxRules_def)
qed

section \<open>Rules and the graph\<close>

text \<open>In a validated policy every rule that can be found governs an edge of the graph.\<close>

lemma find_rule_Some:
  "find_rule p kind from to = Some r \<Longrightarrow>
     r \<in> set (po_rules p) \<and> ru_from r = from \<and> ru_to r = to
     \<and> (ru_has_kind_scope r \<longrightarrow> ru_kind_scope r = kind)"
  by (auto simp: find_rule_def find_Some_iff rule_matches_def split: if_splits)

lemma validated_rule_edge:
  assumes "status_ok (policy_validate p)" "find_rule p kind from to = Some r"
  shows "has_edge (po_graph p) from to \<and> status_ok (rule_validate r)"
  using assms find_rule_Some [OF assms(2)] by (auto simp: policy_validate_ok check_rules_ok)

end
