(* ===== verification/Engine.thy ===== *)
theory Engine
  imports Gates Reference_Policy
begin

text \<open>
  The coordinator core (\<open>include/artifact_promotion/engine.hpp\<close>, \<open>src/engine/engine.cpp\<close>):
  construction, policy publication, restart and recovery, registration, evidence submission,
  inspection, snapshots and the invariant check.

  An operation takes the engine and returns its result with the engine afterwards; each public
  operation runs under the exclusive state lock, so operations are sequential.  The wall clock is a
  parameter \<open>now\<close>, one per read.  The change listener is external code: the model records
  whether one is registered and the sequence of states it was called in.
\<close>

section \<open>The engine\<close>

record engine =
  config :: EngineConfig
  state :: CoordinatorState
  admission_open :: bool
  persist_epoch :: u64
  persist_clean_epoch :: u64
  listener :: bool
  notified :: "CoordinatorState list"

definition mix64 :: "u64 \<Rightarrow> u64" where
  "mix64 m0 =
     (let m1 = m0 XOR drop_bit 30 m0;
          m2 = m1 * 0xBF58476D1CE4E5B9;
          m3 = m2 XOR drop_bit 27 m2;
          m4 = m3 * 0x94D049BB133111EB;
          m5 = m4 XOR drop_bit 31 m4
      in if m5 = 0 then 1 else m5)"

text \<open>The two sources of \<open>entropy()\<close>, the steady clock and the thread identity, are arguments.\<close>

definition entropy :: "u64 \<Rightarrow> u64 \<Rightarrow> u64" where
  "entropy ticks thread_hash = mix64 ((ticks XOR thread_hash) XOR 0x9E3779B97F4A7C15)"

definition seed_from :: "u64 \<Rightarrow> u64 \<Rightarrow> u64" where
  "seed_from base index = mix64 (base + index * 0x9E3779B97F4A7C15)"

definition engine_new :: "EngineConfig \<Rightarrow> CoordinatorEpoch \<Rightarrow> u64 \<Rightarrow> u64 \<Rightarrow> u64 \<Rightarrow> engine" where
  "engine_new cfg0 ep ticks1 ticks2 thread_hash =
     (let cfg = (if config_valid cfg0 then cfg0 else config_defaults);
          salt = seed_from (identity_salt_seed cfg) (entropy ticks1 thread_hash);
          st = empty_state
            \<lparr> coordinator := Identity salt (entropy ticks2 thread_hash),
              epoch := (if counter_valid ep then ep else Counter 1),
              revision_generator := gen_new (seed_from salt 1),
              evidence_generator := gen_new (seed_from salt 2),
              plan_generator := gen_new (seed_from salt 3),
              decision_generator := gen_new (seed_from salt 4),
              transition_generator := gen_new (seed_from salt 5),
              reservation_generator := gen_new (seed_from salt 6),
              instance_generator := gen_new (seed_from salt 7),
              provenance_generator := gen_new (seed_from salt 8) \<rparr>;
          policy = make_reference_policy (Identity salt 0xA1) (Counter 1)
      in \<lparr> config = cfg,
           state = (set_active_policy policy st)
             \<lparr> compatibility_generation := Counter 1, compatibility_profile := Identity salt 0xB2 \<rparr>,
           admission_open = True, persist_epoch = 0, persist_clean_epoch = 0, listener = False,
           notified = [] \<rparr>)"

section \<open>Change notification\<close>

definition notify_change :: "engine \<Rightarrow> engine" where
  "notify_change e =
     (if listener e then
        (if persist_clean_epoch e = persist_epoch e then e
         else
           let target_epoch = persist_epoch e;
               called = e \<lparr> notified := notified e @ [state e] \<rparr>
           in called \<lparr> persist_clean_epoch :=
                (if target_epoch > persist_clean_epoch called then target_epoch
                 else persist_clean_epoch called) \<rparr>)
      else e)"

definition set_change_listener :: "bool \<Rightarrow> engine \<Rightarrow> engine" where
  "set_change_listener present e = e \<lparr> listener := present \<rparr>"

definition close_admission :: "engine \<Rightarrow> engine" where
  "close_admission e = e \<lparr> admission_open := False \<rparr>"

definition open_admission :: "engine \<Rightarrow> engine" where
  "open_admission e = e \<lparr> admission_open := True \<rparr>"

definition authority_of :: "CoordinatorState \<Rightarrow> CoordinatorAuthority" where
  "authority_of st = \<lparr> ca_coordinator = coordinator st, ca_epoch = epoch st \<rparr>"

text \<open>\<open>++persist_epoch_\<close> wraps at 64 bits.\<close>

definition touch :: "engine \<Rightarrow> engine" where
  "touch e = e \<lparr> persist_epoch := persist_epoch e + 1 \<rparr>"

section \<open>History\<close>

definition push_event :: "EngineConfig \<Rightarrow> HistoryEvent \<Rightarrow> CoordinatorState \<Rightarrow> CoordinatorState" where
  "push_event cfg ev st =
     st \<lparr> history := om_retain (max_history_events cfg) (he_sequence ev) ev (history st) \<rparr>"

text \<open>The places that append without the bound.\<close>

definition push_event_unbounded :: "HistoryEvent \<Rightarrow> CoordinatorState \<Rightarrow> CoordinatorState" where
  "push_event_unbounded ev st = st \<lparr> history := om_insert (he_sequence ev) ev (history st) \<rparr>"

section \<open>Policy, restart and recovery\<close>

definition publish_policy :: "PromotionPolicy \<Rightarrow> engine \<Rightarrow> PolicyGeneration Result \<times> engine" where
  "publish_policy policy0 e =
     (let validation = policy_validate policy0 in
      if status_failed validation then (Inl validation, e)
      else
        let policy = policy0 \<lparr> po_policy_digest := compute_digest policy0 \<rparr>; st = state e in
        if po_id policy = active_policy st \<and> \<not> po_generation policy > active_policy_generation st
        then (Inl (fail EC_Conflict
                ''republishing the same policy identity requires an advancing generation''), e)
        else
          let st1 = set_active_policy policy st;
              (seq, st2) = next_sequence st1;
              event = empty_event \<lparr> he_sequence := seq, he_kind := HE_PolicyPublished,
                he_authority := authority_of st2,
                he_note := lit (''policy generation '' @ counter_to_string (po_generation policy)
                  @ '' published'') \<rparr>
          in (Inr (po_generation policy),
              notify_change ((touch e) \<lparr> state := push_event (config e) event st2 \<rparr>)))"

text \<open>One released reservation: a recovery note, then the erase.\<close>

definition release_reservation :: "string \<Rightarrow> ArtifactId \<Rightarrow> PendingTransition \<Rightarrow> CoordinatorState \<Rightarrow> CoordinatorState" where
  "release_reservation note i p st =
     (let (seq, st1) = next_sequence st;
          event = empty_event \<lparr> he_sequence := seq, he_kind := HE_RecoveryNote, he_artifact := i,
            he_artifact_revision := pt_artifact_revision p, he_authority := authority_of st1,
            he_note := note \<rparr>
      in (push_event_unbounded event st1) \<lparr> pending := om_erase i (pending st1) \<rparr>)"

fun release_all :: "(PendingTransition \<Rightarrow> string) \<Rightarrow> ArtifactId list \<Rightarrow> CoordinatorState \<Rightarrow> nat \<times> CoordinatorState" where
  "release_all note [] st = (0, st)"
| "release_all note (i # is) st =
     (case om_find (pending st) i of
        None \<Rightarrow> release_all note is st
      | Some p \<Rightarrow>
          (case release_all note is (release_reservation (note p) i p st) of
             (n, st') \<Rightarrow> (Suc n, st')))"

definition restart_note :: "PendingTransition \<Rightarrow> string" where
  "restart_note p = lit (''reservation released by coordinator restart; plan ''
     @ id_to_string (pt_plan p) @ '' is not authority under the new epoch'')"

definition recovery_note :: "PendingTransition \<Rightarrow> string" where
  "recovery_note p =
     lit ''in-flight transition recovered conservatively: not promoted, reservation released''"

definition restart :: "CoordinatorEpoch \<Rightarrow> engine \<Rightarrow> CoordinatorEpoch Result \<times> engine" where
  "restart ep e =
     (let st = state e in
      if \<not> counter_valid ep \<or> \<not> ep > epoch st
      then (Inl (fail EC_InvalidCount ''a coordinator restart must advance the coordinator epoch''), e)
      else
        let st1 = st \<lparr> epoch := ep \<rparr>;
            (released, st2) = release_all restart_note (map fst (pending st1)) st1
        in (Inr ep, notify_change ((touch e) \<lparr> state := st2 \<rparr>)))"

definition recover_in_flight :: "engine \<Rightarrow> nat \<times> engine" where
  "recover_in_flight e =
     (let st = state e;
          (released, st1) = release_all recovery_note (map fst (pending st)) st
      in if released > 0 then (released, notify_change ((touch e) \<lparr> state := st1 \<rparr>))
         else (released, e \<lparr> state := st1 \<rparr>))"

section \<open>Registration\<close>

definition provenance_less :: "ProvenanceRecord \<Rightarrow> ProvenanceRecord \<Rightarrow> bool" where
  "provenance_less lhs rhs \<longleftrightarrow>
     (if pv_reference lhs \<noteq> pv_reference rhs then pv_reference lhs < pv_reference rhs
      else if pv_source lhs \<noteq> pv_source rhs then string_less (pv_source lhs) (pv_source rhs)
      else string_less (pv_subject lhs) (pv_subject rhs))"

text \<open>The first registered revision, in map and chain order, with the same digest and another
  class.\<close>

definition conflicting_class :: "ArtifactRegistration \<Rightarrow> CoordinatorState \<Rightarrow> ArtifactId option" where
  "conflicting_class rg st =
     map_option fst
       (find (\<lambda>(i, chain). list_ex (\<lambda>other. ar_digest other = rg_digest rg \<and> ar_kind other \<noteq> rg_kind rg) chain)
         (artifacts st))"

definition new_revision :: "ArtifactRegistration \<Rightarrow> ArtifactRevision \<Rightarrow> Stage \<Rightarrow> ArtifactRecord" where
  "new_revision rg revision entry = \<lparr>
     ar_id = rg_id rg, ar_revision = revision, ar_generation = Counter 0, ar_kind = rg_kind rg,
     ar_digest = rg_digest rg, ar_size_bytes = rg_size_bytes rg, ar_name = rg_name rg,
     ar_producer = rg_producer rg, ar_created_sequence = Counter 0, ar_created_unix_millis = 0,
     ar_provenance = sort_by provenance_less (rg_provenance rg),
     ar_dependencies = remdups_adj (sort_by string_less (rg_dependencies rg)),
     ar_stage = entry, ar_stage_generation = Counter 1, ar_promoted = False,
     ar_promotion_decision = null_id, ar_promotion_authority = null_id,
     ar_promotion_sequence = Counter 0, ar_last_sequence = Counter 0, ar_quarantine = no_quarantine,
     ar_revocation = no_revocation, ar_supersession = no_supersession \<rparr>"

definition state_authority_id :: "CoordinatorState \<Rightarrow> AuthorityId" where
  "state_authority_id st = Identity (high (coordinator st)) (counter_value (epoch st))"

definition supersede_previous ::
  "ArtifactId \<Rightarrow> ArtifactRevision \<Rightarrow> AuthorityId \<Rightarrow> CommitSequence \<Rightarrow> ArtifactRecord \<Rightarrow> ArtifactRecord" where
  "supersede_previous successor revision authority seq previous =
     (let marked = previous \<lparr>
            ar_supersession := \<lparr> sp_active = True, sp_successor = successor,
              sp_successor_revision = revision,
              sp_reason = lit ''newer revision of the same artifact identity was registered'',
              sp_authority = authority, sp_sequence = seq \<rparr>,
            ar_last_sequence := seq \<rparr>
      in if ar_stage marked \<noteq> St_Promoted \<and> ar_stage marked \<noteq> St_Revoked \<and> ar_stage marked \<noteq> St_Retired
         then marked \<lparr> ar_stage := St_Superseded,
                       ar_stage_generation := counter_next (ar_stage_generation marked) \<rparr>
         else marked)"

text \<open>The block that runs when the chain is not empty: the chain and the state afterwards.\<close>

definition register_supersession ::
  "ArtifactRecord list \<Rightarrow> ArtifactRecord \<Rightarrow> CoordinatorState \<Rightarrow> ArtifactRecord list \<times> CoordinatorState" where
  "register_supersession chain record st =
     (if chain = [] then (chain, st)
      else
        let (seq, st1) = next_sequence st;
            previous = supersede_previous (ar_id record) (ar_revision record) (state_authority_id st1)
              seq (last chain);
            event = empty_event \<lparr> he_sequence := seq, he_kind := HE_ArtifactSupersededRegistration,
              he_artifact := ar_id previous, he_artifact_revision := ar_revision previous,
              he_from := ar_stage previous, he_to := ar_stage previous,
              he_authority := authority_of st1,
              he_note := lit (''superseded by revision '' @ id_to_string (ar_revision record)) \<rparr>
        in (butlast chain @ [previous], push_event_unbounded event st1))"

definition register_artifact :: "u64 \<Rightarrow> ArtifactRegistration \<Rightarrow> engine \<Rightarrow> ArtifactRecord Result \<times> engine" where
  "register_artifact now rg e =
     (let validation = registration_validate rg; st = state e; cfg = config e in
      if status_failed validation then (Inl validation, e)
      else if \<not> admission_open e
      then (Inl (fail EC_ShuttingDown ''the coordinator is not admitting new work''), e)
      else if om_find (artifacts st) (rg_id rg) = None \<and> length (artifacts st) \<ge> max_artifacts cfg
      then (Inl (fail EC_AdmissionRejected ''artifact registry is at its configured bound''), e)
      else case conflicting_class rg st of
        Some other \<Rightarrow>
          (Inl (make_status EC_Conflict
             ''this content digest is already registered under a different artifact class''
             (id_to_string other)), e)
      | None \<Rightarrow>
        let (revision, gen) = gen_next (revision_generator st);
            st1 = st \<lparr> revision_generator := gen \<rparr>;
            record = new_revision rg revision (po_entry_stage (active_policy_body st1));
            chain = (case om_find (artifacts st1) (rg_id rg) of None \<Rightarrow> [] | Some c \<Rightarrow> c);
            st2 = st1 \<lparr> artifacts := om_insert (rg_id rg) chain (artifacts st1) \<rparr>
        in if length chain \<ge> max_artifact_revisions_per_id cfg
           then (Inl (fail EC_AdmissionRejected
                  ''artifact identity has reached its configured revision bound''), e \<lparr> state := st2 \<rparr>)
           else if chain \<noteq> [] \<and> ar_digest (last chain) = rg_digest rg
           then (Inl (make_status EC_AlreadyExists
                  ''artifact identity already has this exact content digest as its current revision''
                  (id_to_string (rg_id rg))), e \<lparr> state := st2 \<rparr>)
           else
             let (chain', st3) = register_supersession chain record st2;
                 (seq, st4) = next_sequence st3;
                 stored = record \<lparr> ar_created_sequence := seq, ar_created_unix_millis := now,
                   ar_last_sequence := seq,
                   ar_generation := Counter (of_nat (length chain') + 1) \<rparr>;
                 st5 = st4 \<lparr> artifact_generation := counter_next (artifact_generation st4),
                   artifacts := om_insert (rg_id rg) (chain' @ [stored]) (artifacts st4) \<rparr>;
                 event = empty_event \<lparr> he_sequence := seq, he_kind := HE_ArtifactRegistered,
                   he_artifact := ar_id stored, he_artifact_revision := ar_revision stored,
                   he_to := ar_stage stored, he_authority := authority_of st5,
                   he_note := lit (''revision '' @ id_to_string (ar_revision stored) @ '' digest ''
                     @ digest_to_string (ar_digest stored)) \<rparr>
             in (Inr stored, notify_change ((touch e) \<lparr> state := push_event cfg event st5 \<rparr>)))"

section \<open>Evidence submission\<close>

text \<open>\<open>EvidenceKey::of(record) == key\<close>.\<close>

definition same_evidence_key :: "EvidenceSubmission \<Rightarrow> EvidenceRecord \<Rightarrow> bool" where
  "same_evidence_key s r \<longleftrightarrow>
     ev_subject r = es_subject s \<and> ev_subject_revision r = es_subject_revision s
     \<and> ev_type r = es_type s \<and> ev_custom_type r = es_custom_type s \<and> ev_producer r = es_producer s"

definition previous_evidence :: "EvidenceSubmission \<Rightarrow> CoordinatorState \<Rightarrow> (EvidenceId \<times> EvidenceRecord) option" where
  "previous_evidence s st = find (\<lambda>(i, r). same_evidence_key s r \<and> \<not> ev_superseded r) (evidence st)"

definition evidence_per_revision :: "EvidenceSubmission \<Rightarrow> CoordinatorState \<Rightarrow> nat" where
  "evidence_per_revision s st =
     length (filter (\<lambda>(i, r). ev_subject r = es_subject s \<and> ev_subject_revision r = es_subject_revision s)
       (evidence st))"

definition new_evidence ::
  "EvidenceSubmission \<Rightarrow> EvidenceId \<Rightarrow> CommitSequence \<Rightarrow> EvidenceGeneration \<Rightarrow> EvidenceRecord" where
  "new_evidence s i seq generation = \<lparr>
     ev_id = i, ev_type = es_type s, ev_generation = generation, ev_custom_type = es_custom_type s,
     ev_subject = es_subject s, ev_subject_digest = es_subject_digest s,
     ev_subject_revision = es_subject_revision s, ev_producer = es_producer s,
     ev_result = es_result s, ev_confidence_milli = es_confidence_milli s,
     ev_measurement = es_measurement s, ev_detail = es_detail s,
     ev_payload_digest = es_payload_digest s, ev_integrity_digest = null_digest,
     ev_provenance = es_provenance s, ev_created_sequence = seq,
     ev_produced_unix_millis = es_produced_unix_millis s,
     ev_has_validity_window = es_has_validity_window s,
     ev_valid_from_unix_millis = es_valid_from_unix_millis s,
     ev_valid_until_unix_millis = es_valid_until_unix_millis s, ev_environment = es_environment s,
     ev_revoked = False, ev_revocation_reason = [], ev_revocation_authority = null_id,
     ev_revocation_sequence = Counter 0, ev_superseded = False, ev_superseded_by = null_id \<rparr>"

text \<open>The block that marks the replaced record and records the event.\<close>

definition replace_evidence :: "EngineConfig \<Rightarrow> EvidenceId \<Rightarrow> EvidenceRecord \<Rightarrow> EvidenceRecord
    \<Rightarrow> CoordinatorState \<Rightarrow> CoordinatorState" where
  "replace_evidence cfg previous old record st =
     (let updated = old \<lparr> ev_superseded := True, ev_superseded_by := ev_id record \<rparr>;
          st1 = st \<lparr> evidence := om_insert previous updated (evidence st) \<rparr>;
          (seq, st2) = next_sequence st1;
          event = empty_event \<lparr> he_sequence := seq, he_kind := HE_EvidenceSuperseded,
            he_artifact := ev_subject record, he_artifact_revision := ev_subject_revision record,
            he_evidence := ev_id record, he_authority := authority_of st2,
            he_note := lit (''evidence generation '' @ counter_to_string (ev_generation record)
              @ '' replaced the previous record for this producer and class'') \<rparr>
      in push_event cfg event st2)"

definition store_evidence :: "EngineConfig \<Rightarrow> EvidenceSubmission \<Rightarrow> CoordinatorState
    \<Rightarrow> EvidenceRecord \<times> CoordinatorState" where
  "store_evidence cfg s st =
     (let (i, gen) = gen_next (evidence_generator st);
          st1 = st \<lparr> evidence_generator := gen \<rparr>;
          (seq, st2) = next_sequence st1;
          (record, st3) =
            (case previous_evidence s st of
               Some (previous, old) \<Rightarrow>
                 let r = new_evidence s i seq (counter_next (ev_generation old))
                 in (r, replace_evidence cfg previous old r st2)
             | None \<Rightarrow> (new_evidence s i seq (Counter 1), st2));
          stored = record \<lparr> ev_integrity_digest := compute_evidence_integrity record \<rparr>;
          st4 = st3 \<lparr> evidence := om_insert (ev_id stored) stored (evidence st3) \<rparr>;
          event = empty_event \<lparr> he_sequence := seq, he_kind := HE_EvidenceSubmitted,
            he_artifact := ev_subject stored, he_artifact_revision := ev_subject_revision stored,
            he_evidence := ev_id stored, he_authority := authority_of st4,
            he_note := lit (evidence_type_to_string (ev_type stored) @ '' ''
              @ evidence_result_to_string (ev_result stored) @ '' generation ''
              @ counter_to_string (ev_generation stored)) \<rparr>
      in (stored, push_event cfg event st4))"

definition submit_evidence :: "EvidenceSubmission \<Rightarrow> engine \<Rightarrow> EvidenceRecord Result \<times> engine" where
  "submit_evidence s e =
     (let validation = submission_validate s; st = state e; cfg = config e in
      if status_failed validation then (Inl validation, e)
      else if \<not> admission_open e
      then (Inl (fail EC_ShuttingDown ''the coordinator is not admitting new work''), e)
      else case find_revision st (es_subject s) (es_subject_revision s) of
        None \<Rightarrow>
          (Inl (make_status EC_ArtifactNotFound
             ''evidence references an artifact revision this coordinator does not hold''
             (id_to_string (es_subject s))), e)
      | Some subject \<Rightarrow>
          if ar_digest subject \<noteq> es_subject_digest s
          then (Inl (make_status EC_DigestMismatch
                  ''evidence subject digest does not match the registered artifact revision''
                  (id_to_string (es_subject s))), e)
          else if previous_evidence s st = None \<and> length (evidence st) \<ge> max_evidence_records cfg
          then (Inl (fail EC_AdmissionRejected ''evidence store is at its configured bound''), e)
          else if previous_evidence s st = None
               \<and> evidence_per_revision s st \<ge> max_evidence_per_artifact_revision cfg
          then (Inl (fail EC_AdmissionRejected
                  ''artifact revision has reached its configured evidence bound''), e)
          else case store_evidence cfg s st of
            (stored, st') \<Rightarrow> (Inr stored, notify_change ((touch e) \<lparr> state := st' \<rparr>)))"

section \<open>Inspection\<close>

record ArtifactView =
  av_artifact :: ArtifactRecord
  av_evidence_count :: nat
  av_promotion_record_count :: nat
  av_has_active_reservation :: bool

definition inspect_artifact :: "engine \<Rightarrow> ArtifactId \<Rightarrow> ArtifactView option" where
  "inspect_artifact e i =
     (case find_current (state e) i of
        None \<Rightarrow> None
      | Some r \<Rightarrow> Some \<lparr> av_artifact = r,
          av_evidence_count = length (filter (\<lambda>(k, v). ev_subject v = i \<and> ev_subject_revision v = ar_revision r)
            (evidence (state e))),
          av_promotion_record_count = length (filter (\<lambda>(k, v). pr_artifact v = i) (records (state e))),
          av_has_active_reservation = om_count (pending (state e)) i \<rparr>)"

definition inspect_revision :: "engine \<Rightarrow> ArtifactId \<Rightarrow> ArtifactRevision \<Rightarrow> ArtifactRecord option" where
  "inspect_revision e i revision = find_revision (state e) i revision"

definition inspect_evidence :: "engine \<Rightarrow> EvidenceId \<Rightarrow> EvidenceRecord option" where
  "inspect_evidence e i = om_find (evidence (state e)) i"

definition inspect_decision :: "engine \<Rightarrow> PromotionDecisionId \<Rightarrow> PromotionDecision option" where
  "inspect_decision e i = om_find (decisions (state e)) i"

definition inspect_plan :: "engine \<Rightarrow> PromotionPlanId \<Rightarrow> PromotionPlan option" where
  "inspect_plan e i = om_find (plans (state e)) i"

definition promotion_history :: "engine \<Rightarrow> ArtifactId \<Rightarrow> PromotionRecord list" where
  "promotion_history e i =
     sort_by (\<lambda>lhs rhs. pr_sequence lhs < pr_sequence rhs)
       (filter (\<lambda>r. pr_artifact r = i) (map snd (records (state e))))"

definition artifact_history :: "engine \<Rightarrow> ArtifactId \<Rightarrow> nat \<Rightarrow> HistoryEvent list" where
  "artifact_history e i limit =
     (let out = sort_by (\<lambda>lhs rhs. he_sequence lhs < he_sequence rhs)
                  (filter (\<lambda>ev. he_artifact ev = i) (map snd (history (state e))))
      in if length out > limit then drop (length out - limit) out else out)"

definition evidence_for :: "engine \<Rightarrow> ArtifactId \<Rightarrow> ArtifactRevision \<Rightarrow> EvidenceRecord list" where
  "evidence_for e i revision =
     sort_by (\<lambda>lhs rhs. ev_created_sequence lhs < ev_created_sequence rhs)
       (filter (\<lambda>r. ev_subject r = i \<and> ev_subject_revision r = revision) (map snd (evidence (state e))))"

definition pending_transition :: "engine \<Rightarrow> ArtifactId \<Rightarrow> PendingTransition option" where
  "pending_transition e i = om_find (pending (state e)) i"

definition count_pending_transitions :: "engine \<Rightarrow> nat" where
  "count_pending_transitions e = length (pending (state e))"

definition count_artifacts :: "engine \<Rightarrow> nat" where
  "count_artifacts e = length (artifacts (state e))"

definition count_evidence :: "engine \<Rightarrow> nat" where
  "count_evidence e = length (evidence (state e))"

section \<open>Snapshot and installation\<close>

definition snapshot :: "engine \<Rightarrow> CoordinatorState" where
  "snapshot e =
     (let st = state e;
          copy = empty_state
            \<lparr> coordinator := coordinator st, epoch := epoch st, commit_sequence := commit_sequence st,
              decision_sequence := decision_sequence st, artifact_generation := artifact_generation st,
              compatibility_generation := compatibility_generation st,
              compatibility_profile := compatibility_profile st, artifacts := artifacts st,
              evidence := evidence st, plans := plans st, decisions := decisions st,
              records := records st, idempotency := idempotency st, history := history st,
              vetoes := vetoes st \<rparr>
      in (set_active_policy (active_policy_body st) copy)
           \<lparr> revision_generator := revision_generator st, evidence_generator := evidence_generator st,
             plan_generator := plan_generator st, decision_generator := decision_generator st,
             transition_generator := transition_generator st,
             reservation_generator := reservation_generator st,
             instance_generator := instance_generator st,
             provenance_generator := provenance_generator st \<rparr>)"

definition install_state :: "CoordinatorState \<Rightarrow> engine \<Rightarrow> Status \<times> engine" where
  "install_state st0 e =
     (let st = st0 \<lparr> pending := [] \<rparr>; consistency = verify_consistency st in
      if status_failed consistency then (consistency, e)
      else (success, (touch e) \<lparr> state := st \<rparr>))"

section \<open>The invariant check\<close>

abbreviation violation :: "string \<Rightarrow> string \<Rightarrow> Status" where
  "violation message subject \<equiv> make_status EC_InvariantViolation message subject"

definition check_authority_chain :: "ArtifactId \<times> ArtifactRecord list \<Rightarrow> Status" where
  "check_authority_chain entry =
     (case entry of (i, revisions) \<Rightarrow>
        if revisions = [] then violation ''artifact identity has an empty revision chain'' []
        else if \<not> list_all artifact_valid revisions
        then violation ''artifact record is malformed'' (id_to_string i)
        else if length (filter currently_authoritative revisions) > 1
        then violation ''artifact identity has more than one currently promoted revision'' (id_to_string i)
        else success)"

definition check_reservation :: "CoordinatorState \<Rightarrow> ArtifactId \<times> PendingTransition \<Rightarrow> Status" where
  "check_reservation st entry =
     (case entry of (i, p) \<Rightarrow>
        case find_revision st (pt_artifact p) (pt_artifact_revision p) of
          None \<Rightarrow> violation ''reservation references an unknown artifact revision'' (id_to_string i)
        | Some r \<Rightarrow>
            if ar_stage_generation r \<noteq> pt_stage_generation p
            then violation ''reservation is bound to a stage generation that no longer exists'' (id_to_string i)
            else if ar_stage r \<noteq> pt_from p
            then violation ''reservation source stage does not match artifact state'' (id_to_string i)
            else success)"

definition promotion_recorded :: "CoordinatorState \<Rightarrow> ArtifactRecord \<Rightarrow> bool" where
  "promotion_recorded st r \<longleftrightarrow>
     list_ex (\<lambda>(t, p). pr_artifact_revision p = ar_revision r \<and> pr_to p = St_Promoted \<and> pr_artifact p = ar_id r)
       (records st)"

definition check_promoted_records :: "CoordinatorState \<Rightarrow> ArtifactId \<times> ArtifactRecord list \<Rightarrow> Status" where
  "check_promoted_records st entry =
     (case entry of (i, revisions) \<Rightarrow>
        if list_ex (\<lambda>r. ar_promoted r \<and> \<not> promotion_recorded st r) revisions
        then violation ''promoted artifact has no committed promotion record'' (id_to_string i)
        else success)"

definition check_evidence_binding :: "CoordinatorState \<Rightarrow> EvidenceId \<times> EvidenceRecord \<Rightarrow> Status" where
  "check_evidence_binding st entry =
     (case entry of (i, ev) \<Rightarrow>
        if (case find_revision st (ev_subject ev) (ev_subject_revision ev) of
              None \<Rightarrow> True | Some subject \<Rightarrow> ar_digest subject \<noteq> ev_subject_digest ev)
        then violation ''evidence is not bound to its artifact revision'' (id_to_string i)
        else if compute_evidence_integrity ev \<noteq> ev_integrity_digest ev
        then violation ''evidence integrity digest does not match its content'' (id_to_string i)
        else success)"

definition check_current :: "ArtifactId \<times> ArtifactRecord list \<Rightarrow> Status" where
  "check_current entry =
     (case entry of (i, revisions) \<Rightarrow>
        let current = last revisions in
        if qr_active (ar_quarantine current) \<and> ar_stage current = St_Promoted
        then violation ''artifact is simultaneously quarantined and promoted'' (id_to_string i)
        else if rv_active (ar_revocation current) \<and> currently_authoritative current
        then violation ''artifact is simultaneously revoked and authoritative'' (id_to_string i)
        else success)"

definition check_promotion_record :: "CoordinatorState \<Rightarrow> TransitionId \<times> PromotionRecord \<Rightarrow> Status" where
  "check_promotion_record st entry =
     (case entry of (t, r) \<Rightarrow>
        if find_revision st (pr_artifact r) (pr_artifact_revision r) = None
        then violation ''promotion record references an unknown artifact revision'' (id_to_string t)
        else if pr_to r = St_Promoted \<and> \<not> om_count (decisions st) (pr_decision r)
        then violation ''promotion record references an unknown decision'' (id_to_string t)
        else success)"

definition state_invariants :: "CoordinatorState \<Rightarrow> Status" where
  "state_invariants st =
     check_all (\<lambda>s. s)
       [check_all check_authority_chain (artifacts st),
        check_all (check_reservation st) (pending st),
        check_all (check_promoted_records st) (artifacts st),
        check_all (check_evidence_binding st) (evidence st),
        check_all check_current (artifacts st),
        check_all (check_promotion_record st) (records st)]"

definition check_invariants :: "engine \<Rightarrow> Status" where
  "check_invariants e = state_invariants (state e)"

end
