(* ===== verification/Promotion.thy ===== *)
theory Promotion
  imports Engine
begin

text \<open>
  Transactional promotion (\<open>src/engine/promotion.cpp\<close>, \<open>src/engine/explain.cpp\<close>):
  evaluation issues a plan and a reservation, commit revalidates the plan and performs the
  transition, promote composes the two, explain re-derives a decision without changing anything.

  A decision the program updates through a reference into the decision map is updated in the map
  here as well; a lookup by \<open>operator[]\<close> inserts a default decision when there is none.
\<close>

section \<open>Results\<close>

text \<open>A plan or record that the program flags with \<open>has_plan\<close> or \<open>has_record\<close> is an option.\<close>

record EvaluationResult =
  er_decision :: PromotionDecision
  er_plan :: "PromotionPlan option"

record CommitResult =
  cr_outcome :: PromotionOutcome
  cr_decision :: PromotionDecision
  cr_record :: "PromotionRecord option"

section \<open>Evaluation\<close>

definition make_base_decision :: "CoordinatorState \<Rightarrow> PromotionRequest \<Rightarrow> PromotionDecision" where
  "make_base_decision st req = empty_decision
     \<lparr> de_request := rq_request req, de_attempt := rq_attempt req, de_artifact := rq_artifact req,
       de_artifact_revision := rq_expected_revision req, de_artifact_digest := rq_expected_digest req,
       de_to := rq_requested_stage req, de_policy := active_policy st,
       de_policy_generation := active_policy_generation st,
       de_policy_digest := active_policy_digest st, de_authority := authority_of st \<rparr>"

definition request_is_well_formed :: "PromotionRequest \<Rightarrow> bool" where
  "request_is_well_formed req \<longleftrightarrow>
     id_valid (rq_artifact req) \<and> id_valid (rq_expected_revision req)
     \<and> digest_valid (rq_expected_digest req) \<and> rq_requested_stage req \<noteq> St_Invalid
     \<and> is_valid_stage_value (stage_value (rq_requested_stage req)) \<and> id_valid (rq_request req)
     \<and> id_valid (rq_attempt req) \<and> authority_valid (rq_authority req)"

definition stage_is_reachable :: "PromotionPolicy \<Rightarrow> ArtifactKind \<Rightarrow> Stage \<Rightarrow> Stage \<Rightarrow> bool" where
  "stage_is_reachable policy kind from to \<longleftrightarrow>
     has_edge (po_graph policy) from to \<or> find_rule policy kind from to \<noteq> None"

text \<open>The decision identity and sequence are taken first in every branch that decides.\<close>

definition open_decision :: "PromotionRequest \<Rightarrow> CoordinatorState \<Rightarrow> PromotionDecision \<times> CoordinatorState" where
  "open_decision req st =
     (let base = make_base_decision st req;
          (i, gen) = gen_next (decision_generator st);
          st1 = st \<lparr> decision_generator := gen \<rparr>;
          (seq, st2) = next_decision_sequence st1
      in (base \<lparr> de_id := i, de_sequence := seq \<rparr>, st2))"

definition store_decision :: "PromotionDecision \<Rightarrow> CoordinatorState \<Rightarrow> CoordinatorState" where
  "store_decision d st = st \<lparr> decisions := om_insert (de_id d) d (decisions st) \<rparr>"

definition add_reason :: "Reason \<Rightarrow> PromotionDecision \<Rightarrow> PromotionDecision" where
  "add_reason r d = d \<lparr> de_reasons := de_reasons d @ [r] \<rparr>"

definition evaluate_unregistered :: "PromotionRequest \<Rightarrow> CoordinatorState \<Rightarrow> PromotionDecision \<times> CoordinatorState" where
  "evaluate_unregistered req st =
     (let (d0, st1) = open_decision req st;
          d = add_reason (make_reason EC_ArtifactNotFound ''the requested artifact revision is not registered''
                (id_to_string (rq_artifact req)))
              (d0 \<lparr> de_outcome := PO_ArtifactNotFound \<rparr>)
      in (d, store_decision d st1))"

definition evaluate_digest_mismatch ::
  "PromotionRequest \<Rightarrow> ArtifactRecord \<Rightarrow> CoordinatorState \<Rightarrow> PromotionDecision \<times> CoordinatorState" where
  "evaluate_digest_mismatch req art st =
     (let (d0, st1) = open_decision req st;
          d = add_reason (make_reason EC_DigestMismatch
                ''the caller's expected digest does not match the registered artifact revision''
                (digest_to_string (rq_expected_digest req)))
              (d0 \<lparr> de_outcome := PO_DigestMismatch, de_artifact_generation := ar_generation art,
                    de_artifact_kind := ar_kind art, de_from := ar_stage art \<rparr>)
      in (d, store_decision d st1))"

definition make_plan :: "EngineConfig \<Rightarrow> u64 \<Rightarrow> PromotionRequest \<Rightarrow> ArtifactRecord \<Rightarrow> PromotionDecision
    \<Rightarrow> nat \<Rightarrow> CoordinatorState \<Rightarrow> PromotionPlan \<times> CoordinatorState" where
  "make_plan cfg now req art d entry_count st =
     (let (i, gen) = gen_next (plan_generator st);
          st1 = st \<lparr> plan_generator := gen \<rparr>;
          (seq, st2) = next_sequence st1
      in (\<lparr> pl_id = i, pl_request = rq_request req, pl_attempt = rq_attempt req,
            pl_decision = de_id d, pl_artifact = ar_id art, pl_artifact_revision = ar_revision art,
            pl_artifact_generation = ar_generation art, pl_artifact_digest = ar_digest art,
            pl_artifact_kind = ar_kind art, pl_from = ar_stage art, pl_to = rq_requested_stage req,
            pl_stage_generation = ar_stage_generation art, pl_policy = active_policy st2,
            pl_policy_generation = active_policy_generation st2,
            pl_policy_digest = active_policy_digest st2,
            pl_lifecycle_digest = graph_digest (po_graph (active_policy_body st2)),
            pl_authority = authority_of st2,
            pl_evidence_snapshot_digest = de_evidence_snapshot_digest d,
            pl_evidence_entry_count = entry_count,
            pl_compatibility_profile = compatibility_profile st2,
            pl_compatibility_generation = compatibility_generation st2,
            pl_artifact_sequence = ar_last_sequence art, pl_created_sequence = seq,
            pl_decision_sequence = Counter (counter_value (de_sequence d)),
            pl_has_expiry = (plan_ttl_millis cfg > 0),
            pl_expires_unix_millis = now + plan_ttl_millis cfg \<rparr>, st2))"

definition make_reservation :: "u64 \<Rightarrow> PromotionRequest \<Rightarrow> ArtifactRecord \<Rightarrow> PromotionPlan
    \<Rightarrow> CoordinatorState \<Rightarrow> PendingTransition \<times> CoordinatorState" where
  "make_reservation now req art plan st =
     (let (i, gen) = gen_next (reservation_generator st)
      in (\<lparr> pt_id = i, pt_artifact = ar_id art, pt_artifact_revision = ar_revision art,
            pt_artifact_generation = ar_generation art,
            pt_stage_generation = ar_stage_generation art, pt_from = pl_from plan,
            pt_to = pl_to plan, pt_plan = pl_id plan, pt_request = rq_request req,
            pt_attempt = rq_attempt req, pt_authority = pl_authority plan,
            pt_created_sequence = pl_created_sequence plan, pt_created_unix_millis = now \<rparr>,
          st \<lparr> reservation_generator := gen \<rparr>))"

definition issue_plan :: "EngineConfig \<Rightarrow> u64 \<Rightarrow> PromotionRequest \<Rightarrow> ArtifactRecord \<Rightarrow> PromotionDecision
    \<Rightarrow> nat \<Rightarrow> CoordinatorState \<Rightarrow> PromotionDecision \<times> PromotionPlan option \<times> CoordinatorState" where
  "issue_plan cfg now req art d entry_count st =
     (let st1 = st \<lparr> plans := (if length (plans st) \<ge> max_plans_retained cfg
                              then om_erase_begin (plans st) else plans st) \<rparr>;
          (plan, st2) = make_plan cfg now req art d entry_count st1;
          (reservation, st3) = make_reservation now req art plan st2
      in if length (pending st3) < max_pending_promotions cfg \<or> om_count (pending st3) (ar_id art)
         then (d \<lparr> de_plan := pl_id plan \<rparr>, Some plan,
               st3 \<lparr> pending := om_insert (ar_id art) reservation (pending st3),
                     plans := om_insert (pl_id plan) plan (plans st3) \<rparr>)
         else (add_reason (make_reason EC_AdmissionRejected
                 ''the coordinator has reached its configured bound of concurrent promotions''
                 (id_to_string (ar_id art)))
               (d \<lparr> de_outcome := PO_AdmissionRejected \<rparr>), None, st3))"

text \<open>The branches of an evaluation whose artifact and digest are known.\<close>

definition reservation_conflict :: "PromotionRequest \<Rightarrow> CoordinatorState \<Rightarrow> bool" where
  "reservation_conflict req st \<longleftrightarrow>
     (case om_find (pending st) (rq_artifact req) of
        None \<Rightarrow> False
      | Some p \<Rightarrow> \<not> (pt_request p = rq_request req \<and> pt_attempt p = rq_attempt req))"

definition decide :: "EngineConfig \<Rightarrow> u64 \<Rightarrow> PromotionRequest \<Rightarrow> ArtifactRecord \<Rightarrow> PromotionDecision
    \<Rightarrow> CoordinatorState \<Rightarrow> PromotionDecision \<times> PromotionPlan option \<times> CoordinatorState" where
  "decide cfg now req art d st =
     (if ar_stage art = rq_requested_stage req then
        let current = currently_authoritative art in
        (add_reason (make_reason (if current then EC_Ok else EC_TransitionIllegal)
            (if current
             then ''the artifact is already promoted at the requested stage under current authority''
             else ''the artifact already occupies the requested stage but is not currently authoritative'')
            (stage_to_string (ar_stage art)))
           (d \<lparr> de_outcome := (if current then PO_AlreadyPromoted else PO_TransitionIllegal),
                de_authoritative := current \<rparr>), None, st)
      else if \<not> stage_is_reachable (active_policy_body st) (ar_kind art) (ar_stage art) (rq_requested_stage req)
      then
        (add_reason (make_reason EC_TransitionIllegal
            ''the active lifecycle graph does not permit this transition''
            (stage_to_string (ar_stage art) @ ''->'' @ stage_to_string (rq_requested_stage req)))
           (d \<lparr> de_outcome := PO_TransitionIllegal \<rparr>), None, st)
      else if reservation_conflict req st
      then
        (add_reason (make_reason EC_ReservationHeld
            ''another promotion attempt holds the reservation on this artifact''
            (id_to_string (rq_artifact req)))
           (d \<lparr> de_outcome := PO_Conflict \<rparr>), None, st)
      else
        case evaluate_gates cfg st req now d of
          (outcome, d1, entries) \<Rightarrow>
            let d2 = d1 \<lparr> de_outcome := go_outcome outcome \<rparr> in
            if \<not> go_failed outcome then issue_plan cfg now req art d2 (length entries) st
            else (d2, None, st))"

definition evaluation_event ::
  "PromotionRequest \<Rightarrow> ArtifactRecord \<Rightarrow> PromotionDecision \<Rightarrow> CommitSequence \<Rightarrow> HistoryEvent" where
  "evaluation_event req art d seq = empty_event
     \<lparr> he_sequence := seq,
       he_kind := (if is_success_outcome (de_outcome d) then HE_PromotionEvaluated else HE_PromotionRejected),
       he_artifact := ar_id art, he_artifact_revision := ar_revision art, he_decision := de_id d,
       he_outcome := de_outcome d, he_from := ar_stage art, he_to := rq_requested_stage req,
       he_authority := de_authority d,
       he_note := lit (''decision '' @ promotion_outcome_to_string (de_outcome d)) \<rparr>"

definition evaluate_registered :: "EngineConfig \<Rightarrow> u64 \<Rightarrow> PromotionRequest \<Rightarrow> ArtifactRecord
    \<Rightarrow> CoordinatorState \<Rightarrow> EvaluationResult \<times> CoordinatorState" where
  "evaluate_registered cfg now req art st =
     (let (d0, st1) = open_decision req st;
          d1 = d0 \<lparr> de_artifact_generation := ar_generation art, de_artifact_kind := ar_kind art,
                    de_from := ar_stage art, de_decided_unix_millis := Some now \<rparr>;
          (d, plan, st2) = decide cfg now req art d1 st1;
          st3 = store_decision d st2;
          idem = \<lparr> ir_request = rq_request req, ir_attempt = rq_attempt req, ir_decision = de_id d,
                   ir_outcome = de_outcome d, ir_plan = de_plan d,
                   ir_request_digest = compute_request_digest req,
                   ir_created_sequence = Counter (counter_value (de_sequence d)) \<rparr>;
          st4 = st3 \<lparr> idempotency := om_insert (rq_request req) idem (idempotency st3) \<rparr>;
          (seq, st5) = next_sequence st4
      in (\<lparr> er_decision = d, er_plan = plan \<rparr>, push_event cfg (evaluation_event req art d seq) st5))"

text \<open>The decision an earlier use of the request identity produced.\<close>

definition replayed_decision :: "PromotionRequest \<Rightarrow> CoordinatorState \<Rightarrow> PromotionDecision option" where
  "replayed_decision req st =
     (case om_find (idempotency st) (rq_request req) of
        None \<Rightarrow> None
      | Some r \<Rightarrow> om_find (decisions st) (ir_decision r))"

definition request_reused :: "PromotionRequest \<Rightarrow> CoordinatorState \<Rightarrow> bool" where
  "request_reused req st \<longleftrightarrow>
     (case om_find (idempotency st) (rq_request req) of
        None \<Rightarrow> False
      | Some r \<Rightarrow> ir_request_digest r \<noteq> compute_request_digest req)"

definition evaluate :: "u64 \<Rightarrow> PromotionRequest \<Rightarrow> engine \<Rightarrow> EvaluationResult Result \<times> engine" where
  "evaluate now req e =
     (let st = state e; cfg = config e in
      if \<not> admission_open e
      then (Inl (fail EC_ShuttingDown ''the coordinator is not admitting new work''), e)
      else if \<not> request_is_well_formed req
      then (Inl (fail EC_InvalidArgument ''promotion request is not well formed''), e)
      else if request_reused req st
      then (Inl (fail EC_Conflict
             ''this request identity was already used for different request content''), e)
      else case replayed_decision req st of
        Some d \<Rightarrow> (Inr \<lparr> er_decision = d, er_plan = None \<rparr>, e)
      | None \<Rightarrow>
          (case find_revision st (rq_artifact req) (rq_expected_revision req) of
             None \<Rightarrow>
               (case evaluate_unregistered req st of
                  (d, st') \<Rightarrow> (Inr \<lparr> er_decision = d, er_plan = None \<rparr>,
                               notify_change ((touch e) \<lparr> state := st' \<rparr>)))
           | Some art \<Rightarrow>
               if ar_digest art \<noteq> rq_expected_digest req then
                 (case evaluate_digest_mismatch req art st of
                    (d, st') \<Rightarrow> (Inr \<lparr> er_decision = d, er_plan = None \<rparr>,
                                 notify_change ((touch e) \<lparr> state := st' \<rparr>)))
               else
                 (case evaluate_registered cfg now req art st of
                    (r, st') \<Rightarrow> (Inr r, notify_change ((touch e) \<lparr> state := st' \<rparr>)))))"

section \<open>Commit\<close>

text \<open>\<open>state_.decisions[id]\<close>: the decision, default constructed when there is none.\<close>

definition decision_at :: "PromotionDecisionId \<Rightarrow> CoordinatorState \<Rightarrow> PromotionDecision" where
  "decision_at i st = (case om_find (decisions st) i of None \<Rightarrow> empty_decision | Some d \<Rightarrow> d)"

definition put_decision :: "PromotionDecisionId \<Rightarrow> PromotionDecision \<Rightarrow> CoordinatorState \<Rightarrow> CoordinatorState" where
  "put_decision i d st = st \<lparr> decisions := om_insert i d (decisions st) \<rparr>"

definition erase_pending :: "ArtifactId \<Rightarrow> CoordinatorState \<Rightarrow> CoordinatorState" where
  "erase_pending i st = st \<lparr> pending := om_erase i (pending st) \<rparr>"

definition plan_request :: "PromotionPlan \<Rightarrow> PromotionRequest" where
  "plan_request plan = \<lparr> rq_artifact = pl_artifact plan,
     rq_expected_revision = pl_artifact_revision plan, rq_expected_digest = pl_artifact_digest plan,
     rq_requested_stage = pl_to plan, rq_request = pl_request plan, rq_attempt = pl_attempt plan,
     rq_authority = pl_authority plan, rq_requester = null_producer \<rparr>"

definition policy_changed :: "PromotionPlan \<Rightarrow> CoordinatorState \<Rightarrow> bool" where
  "policy_changed plan st \<longleftrightarrow>
     po_policy_digest (active_policy_body st) \<noteq> pl_policy_digest plan
     \<or> active_policy_generation st \<noteq> pl_policy_generation plan"

definition lifecycle_changed :: "PromotionPlan \<Rightarrow> CoordinatorState \<Rightarrow> bool" where
  "lifecycle_changed plan st \<longleftrightarrow>
     graph_digest (po_graph (active_policy_body st)) \<noteq> pl_lifecycle_digest plan"

definition apply_transition :: "PromotionPlan \<Rightarrow> AuthorityId \<Rightarrow> CommitSequence \<Rightarrow> ArtifactRecord \<Rightarrow> ArtifactRecord" where
  "apply_transition plan authority seq r =
     (let moved = r \<lparr> ar_stage := pl_to plan, ar_stage_generation := counter_next (ar_stage_generation r),
                      ar_last_sequence := seq \<rparr>
      in if pl_to plan = St_Promoted
         then moved \<lparr> ar_promoted := True, ar_promotion_decision := pl_decision plan,
                      ar_promotion_authority := authority, ar_promotion_sequence := seq \<rparr>
         else moved)"

definition commit_record ::
  "PromotionPlan \<Rightarrow> Stage \<Rightarrow> TransitionId \<Rightarrow> CommitSequence \<Rightarrow> u64 \<Rightarrow> PromotionRecord" where
  "commit_record plan from t seq now = \<lparr>
     pr_transition = t, pr_artifact = pl_artifact plan,
     pr_artifact_revision = pl_artifact_revision plan, pr_artifact_digest = pl_artifact_digest plan,
     pr_from = from, pr_to = pl_to plan, pr_decision = pl_decision plan, pr_plan = pl_id plan,
     pr_request = pl_request plan, pr_attempt = pl_attempt plan, pr_policy = pl_policy plan,
     pr_policy_generation = pl_policy_generation plan, pr_authority = pl_authority plan,
     pr_evidence_snapshot_digest = pl_evidence_snapshot_digest plan, pr_sequence = seq,
     pr_committed_unix_millis = now,
     pr_note = lit (''committed '' @ stage_to_string from @ '' -> '' @ stage_to_string (pl_to plan)) \<rparr>"

definition commit_event :: "PromotionPlan \<Rightarrow> PromotionRecord \<Rightarrow> HistoryEvent" where
  "commit_event plan r = empty_event
     \<lparr> he_sequence := pr_sequence r,
       he_kind := (if pl_to plan = St_Promoted then HE_PromotionCommitted else HE_PromotionEvaluated),
       he_artifact := pr_artifact r, he_artifact_revision := pr_artifact_revision r,
       he_decision := pr_decision r, he_outcome := PO_PromotionCommitted, he_from := pr_from r,
       he_to := pl_to plan, he_authority := pr_authority r, he_note := pr_note r \<rparr>"

text \<open>The durable part of a commit, after every check has passed.\<close>

definition perform_commit :: "EngineConfig \<Rightarrow> u64 \<Rightarrow> PromotionPlan \<Rightarrow> Stage \<Rightarrow> PromotionDecision
    \<Rightarrow> CoordinatorState \<Rightarrow> CommitResult \<times> CoordinatorState" where
  "perform_commit cfg now plan from d0 st =
     (let (seq, st1) = next_sequence st;
          st2 = update_revision (pl_artifact plan) (pl_artifact_revision plan)
                  (apply_transition plan (state_authority_id st1) seq) st1;
          (t, gen) = gen_next (transition_generator st2);
          st3 = st2 \<lparr> transition_generator := gen \<rparr>;
          record = commit_record plan from t seq now;
          st4 = st3 \<lparr> records := om_retain (max_records_retained cfg) t record (records st3) \<rparr>;
          d = d0 \<lparr> de_outcome := PO_PromotionCommitted, de_authoritative := (pl_to plan = St_Promoted),
                   de_decided_unix_millis := Some now \<rparr>;
          st5 = st4 \<lparr> decisions := (if length (decisions st4) \<ge> max_decisions_retained cfg
                                      \<and> \<not> om_count (decisions st4) (pl_decision plan)
                                   then om_erase_begin (decisions st4) else decisions st4) \<rparr>;
          st6 = put_decision (pl_decision plan) d st5;
          st7 = st6 \<lparr> idempotency := om_update (pl_request plan)
                  (\<lambda>r. r \<lparr> ir_outcome := PO_PromotionCommitted, ir_decision := pl_decision plan \<rparr>)
                  (idempotency st6) \<rparr>;
          st8 = erase_pending (pl_artifact plan) st7
      in (\<lparr> cr_outcome = PO_PromotionCommitted, cr_decision = d, cr_record = Some record \<rparr>,
          push_event cfg (commit_event plan record) st8))"

text \<open>
  The checks of a commit on the state.  The flags of the result say whether \<open>persist_epoch_\<close> is
  advanced and whether the transition was committed.
\<close>

definition commit_rejected ::
  "PromotionPlan \<Rightarrow> PromotionOutcome \<Rightarrow> PromotionDecision \<Rightarrow> CoordinatorState
    \<Rightarrow> CommitResult \<times> bool \<times> bool \<times> CoordinatorState" where
  "commit_rejected plan outcome d st =
     (\<lparr> cr_outcome = outcome, cr_decision = d, cr_record = None \<rparr>, True, False,
      put_decision (pl_decision plan) d st)"

definition commit_reserved :: "EngineConfig \<Rightarrow> u64 \<Rightarrow> PromotionPlan \<Rightarrow> ArtifactRecord \<Rightarrow> PromotionDecision
    \<Rightarrow> CoordinatorState \<Rightarrow> CommitResult \<times> bool \<times> bool \<times> CoordinatorState" where
  "commit_reserved cfg now plan art d0 st =
     (case evaluate_gates cfg st (plan_request plan) now d0 of
        (outcome, d, entries) \<Rightarrow>
          let current_snapshot = compute_snapshot_digest (ar_id art) (ar_revision art) (ar_digest art) entries in
          if current_snapshot \<noteq> pl_evidence_snapshot_digest plan then
            commit_rejected plan PO_Invalid
              (add_reason (make_reason EC_EvidenceMismatch
                  ''the evidence set changed after the plan was issued and the plan must be revalidated''
                  (id_to_string (pl_id plan)))
                (d \<lparr> de_outcome := PO_RevalidationRequired \<rparr>))
              (erase_pending (pl_artifact plan) st)
          else if go_failed outcome then
            commit_rejected plan (go_outcome outcome)
              (d \<lparr> de_outcome := go_outcome outcome, de_decided_unix_millis := Some now \<rparr>)
              (erase_pending (pl_artifact plan) st)
          else if ar_stage art = pl_to plan then
            commit_rejected plan PO_AlreadyPromoted
              (d \<lparr> de_outcome := PO_AlreadyPromoted, de_authoritative := currently_authoritative art \<rparr>)
              (erase_pending (pl_artifact plan) st)
          else
            case perform_commit cfg now plan (ar_stage art) d (put_decision (pl_decision plan) d st) of
              (r, st') \<Rightarrow> (r, True, True, st'))"

definition commit_plan :: "EngineConfig \<Rightarrow> u64 \<Rightarrow> PromotionPlan \<Rightarrow> CoordinatorState
    \<Rightarrow> CommitResult \<times> bool \<times> bool \<times> CoordinatorState" where
  "commit_plan cfg now plan st =
     (let d = decision_at (pl_decision plan) st in
      if policy_changed plan st \<or> lifecycle_changed plan st then
        (\<lparr> cr_outcome = PO_Conflict, cr_decision = empty_decision, cr_record = None \<rparr>, False, False,
         erase_pending (pl_artifact plan)
           (put_decision (pl_decision plan)
             (add_reason (make_reason EC_PolicyGenerationStale
                 (if policy_changed plan st
                  then ''the governing policy changed after this plan was derived; the plan must be re-derived under the current policy before it can commit''
                  else ''the lifecycle graph changed after this plan was derived; the plan must be re-derived under the current policy before it can commit'')
                 (id_to_string (pl_id plan)))
               (d \<lparr> de_outcome := PO_Conflict \<rparr>))
             st))
      else
        let st1 = put_decision (pl_decision plan) d st in
        case find_revision st1 (pl_artifact plan) (pl_artifact_revision plan) of
          None \<Rightarrow>
            (\<lparr> cr_outcome = PO_ArtifactNotFound, cr_decision = d, cr_record = None \<rparr>, False, False, st1)
        | Some art \<Rightarrow>
            if pl_has_expiry plan \<and> now > pl_expires_unix_millis plan then
              commit_rejected plan PO_RevalidationRequired
                (add_reason (make_reason EC_PlanExpired
                    ''the promotion plan expired before it was committed'' (id_to_string (pl_id plan)))
                  (d \<lparr> de_outcome := PO_RevalidationRequired \<rparr>))
                (erase_pending (pl_artifact plan) st1)
            else if (case om_find (pending st1) (pl_artifact plan) of
                       None \<Rightarrow> True | Some p \<Rightarrow> pt_plan p \<noteq> pl_id plan) then
              commit_rejected plan PO_Conflict
                (add_reason (make_reason EC_ReservationLost
                    ''the reservation for this transition is no longer held'' (id_to_string (pl_id plan)))
                  (d \<lparr> de_outcome := PO_Conflict \<rparr>))
                st1
            else commit_reserved cfg now plan art d st1)"

text \<open>After a committed transition the listener is called before success is returned; the
  \<open>notify_change\<close> that follows then finds nothing to do.\<close>

definition acknowledge :: "engine \<Rightarrow> engine" where
  "acknowledge e =
     (let target = persist_epoch e;
          e1 = (if listener e
                then let called = e \<lparr> notified := notified e @ [state e] \<rparr>
                     in called \<lparr> persist_clean_epoch :=
                          (if target > persist_clean_epoch called then target else persist_clean_epoch called) \<rparr>
                else e)
      in notify_change e1)"

definition commit :: "u64 \<Rightarrow> PromotionPlan \<Rightarrow> engine \<Rightarrow> CommitResult Result \<times> engine" where
  "commit now plan e =
     (let st = state e; cfg = config e in
      if \<not> admission_open e
      then (Inl (fail EC_ShuttingDown ''the coordinator is not admitting new work''), e)
      else if \<not> plan_valid plan
      then (Inl (fail EC_InvalidArgument ''promotion plan is not well formed''), e)
      else case om_find (plans st) (pl_id plan) of
        None \<Rightarrow>
          (Inl (make_status EC_PlanNotFound ''the plan was never issued by this coordinator''
             (id_to_string (pl_id plan))), e)
      | Some stored \<Rightarrow>
          if stored \<noteq> plan
          then (Inl (make_status EC_InvariantViolation
                  ''the submitted plan does not match the plan this coordinator issued''
                  (id_to_string (pl_id plan))), e)
          else
            case commit_plan cfg now plan st of
              (r, touched, committed, st') \<Rightarrow>
                let e1 = (if touched then touch e else e) \<lparr> state := st' \<rparr>
                in (Inr r, if committed then acknowledge e1 else e1))"

definition promote :: "u64 \<Rightarrow> u64 \<Rightarrow> PromotionRequest \<Rightarrow> engine \<Rightarrow> CommitResult Result \<times> engine" where
  "promote now1 now2 req e =
     (case evaluate now1 req e of
        (Inl st, e1) \<Rightarrow> (Inl st, e1)
      | (Inr r, e1) \<Rightarrow>
          (case er_plan r of
             None \<Rightarrow> (Inr \<lparr> cr_outcome = de_outcome (er_decision r), cr_decision = er_decision r,
                             cr_record = None \<rparr>, e1)
           | Some plan \<Rightarrow> commit now2 plan e1))"

section \<open>Explanation\<close>

definition explained_stage :: "PromotionPolicy \<Rightarrow> ArtifactRecord \<Rightarrow> Stage \<Rightarrow> Stage" where
  "explained_stage policy art destination =
     (if find_rule policy (ar_kind art) (ar_stage art) destination = None then
        (case find (\<lambda>candidate. ru_from candidate = ar_stage art
                \<and> \<not> (ru_has_kind_scope candidate \<and> ru_kind_scope candidate \<noteq> ar_kind art)
                \<and> has_edge (po_graph policy) (ru_from candidate) (ru_to candidate)) (po_rules policy) of
           Some candidate \<Rightarrow> ru_to candidate
         | None \<Rightarrow> destination)
      else destination)"

definition explain :: "u64 \<Rightarrow> u64 \<Rightarrow> engine \<Rightarrow> ArtifactId \<Rightarrow> Stage \<Rightarrow> PromotionDecision option" where
  "explain now1 now2 e i destination =
     (let st = state e in
      case find_current st i of
        None \<Rightarrow> None
      | Some art \<Rightarrow>
          if destination = St_Invalid \<or> \<not> is_valid_stage_value (stage_value destination) then None
          else
            let d0 = empty_decision
                  \<lparr> de_artifact := i, de_artifact_revision := ar_revision art,
                    de_artifact_generation := ar_generation art, de_artifact_digest := ar_digest art,
                    de_artifact_kind := ar_kind art, de_from := ar_stage art, de_to := destination,
                    de_policy := active_policy st, de_policy_generation := active_policy_generation st,
                    de_policy_digest := active_policy_digest st, de_authority := authority_of st \<rparr>;
                req = \<lparr> rq_artifact = i, rq_expected_revision = ar_revision art,
                  rq_expected_digest = ar_digest art,
                  rq_requested_stage = explained_stage (active_policy_body st) art destination,
                  rq_request = null_id, rq_attempt = null_id, rq_authority = de_authority d0,
                  rq_requester = null_producer \<rparr>
            in case evaluate_gates (config e) st req now1 d0 of
                 (outcome, d1, entries) \<Rightarrow>
                   let d2 = d1 \<lparr> de_outcome := go_outcome outcome, de_to := destination,
                                 de_decided_unix_millis := Some now2 \<rparr>
                   in Some (if ar_stage art = destination \<and> currently_authoritative art
                            then d2 \<lparr> de_outcome := PO_AlreadyPromoted, de_authoritative := True \<rparr>
                            else d2))"

end
