(* ===== verification/Trust.thy ===== *)
theory Trust
  imports Promotion
begin

text \<open>
  Trust mutations (\<open>src/engine/trust.cpp\<close>): quarantine and its governed release, revocation,
  supersession, retirement, evidence revocation, vetoes, the compatibility generation and rollback
  eligibility.  The fields of \<open>TrustMutation\<close> that an operation leaves default constructed are
  \<open>None\<close>.
\<close>

section \<open>Helpers\<close>

definition bounded :: "string \<Rightarrow> nat \<Rightarrow> string" where
  "bounded text limit = (if length text \<le> limit then text else take limit text)"

definition append_history :: "EngineConfig \<Rightarrow> HistoryEventKind \<Rightarrow> ArtifactRecord \<Rightarrow> Stage \<Rightarrow> Stage
    \<Rightarrow> string \<Rightarrow> CoordinatorState \<Rightarrow> CoordinatorState" where
  "append_history cfg kind art from to note st =
     (let (seq, st1) = next_sequence st
      in push_event cfg (empty_event \<lparr> he_sequence := seq, he_kind := kind, he_artifact := ar_id art,
           he_artifact_revision := ar_revision art, he_from := from, he_to := to,
           he_authority := authority_of st1, he_note := note \<rparr>) st1)"

record TrustMutation =
  tm_outcome :: PromotionOutcome
  tm_artifact :: "ArtifactRecord option"
  tm_record :: "PromotionRecord option"
  tm_reasons :: "Reason list"

definition mutation :: "PromotionOutcome \<Rightarrow> ArtifactRecord \<Rightarrow> PromotionRecord option \<Rightarrow> Reason list \<Rightarrow> TrustMutation" where
  "mutation outcome art record reasons =
     \<lparr> tm_outcome = outcome, tm_artifact = Some art, tm_record = record, tm_reasons = reasons \<rparr>"

abbreviation shutting_down :: Status where
  "shutting_down \<equiv> fail EC_ShuttingDown ''the coordinator is not admitting new work''"

abbreviation not_registered :: "ArtifactId \<Rightarrow> Status" where
  "not_registered i \<equiv> make_status EC_ArtifactNotFound ''artifact identity is not registered'' (id_to_string i)"

definition foreign_authority :: "CoordinatorAuthority \<Rightarrow> CoordinatorState \<Rightarrow> bool" where
  "foreign_authority authority st \<longleftrightarrow>
     authority_valid authority \<and> ca_coordinator authority \<noteq> coordinator st"

text \<open>The record of a mutation that no plan or request drives.\<close>

definition trust_record :: "CoordinatorState \<Rightarrow> ArtifactRecord \<Rightarrow> Stage \<Rightarrow> PromotionDecisionId \<Rightarrow> TransitionId
    \<Rightarrow> u64 \<Rightarrow> string \<Rightarrow> PromotionRecord" where
  "trust_record st art from decision t now note = \<lparr>
     pr_transition = t, pr_artifact = ar_id art, pr_artifact_revision = ar_revision art,
     pr_artifact_digest = ar_digest art, pr_from = from, pr_to = ar_stage art,
     pr_decision = decision, pr_plan = null_id, pr_request = null_id, pr_attempt = null_id,
     pr_policy = active_policy st, pr_policy_generation = active_policy_generation st,
     pr_authority = authority_of st, pr_evidence_snapshot_digest = ar_digest art,
     pr_sequence = ar_last_sequence art, pr_committed_unix_millis = now, pr_note = note \<rparr>"

definition next_transition :: "CoordinatorState \<Rightarrow> TransitionId \<times> CoordinatorState" where
  "next_transition st =
     (let (t, gen) = gen_next (transition_generator st) in (t, st \<lparr> transition_generator := gen \<rparr>))"

definition put_record :: "EngineConfig \<Rightarrow> PromotionRecord \<Rightarrow> CoordinatorState \<Rightarrow> CoordinatorState" where
  "put_record cfg r st =
     st \<lparr> records := om_retain (max_records_retained cfg) (pr_transition r) r (records st) \<rparr>"

definition finish :: "engine \<Rightarrow> CoordinatorState \<Rightarrow> engine" where
  "finish e st = notify_change ((touch e) \<lparr> state := st \<rparr>)"

section \<open>Quarantine\<close>

definition apply_quarantine :: "string \<Rightarrow> string \<Rightarrow> AuthorityId \<Rightarrow> CommitSequence \<Rightarrow> PolicyGeneration
    \<Rightarrow> ArtifactRecord \<Rightarrow> ArtifactRecord" where
  "apply_quarantine reason_class detail authority seq generation r =
     r \<lparr> ar_quarantine := \<lparr> qr_active = True, qr_reason_class = reason_class,
           qr_detail = bounded detail kMaxTextLength, qr_authority = authority, qr_sequence = seq,
           qr_policy_generation = generation \<rparr>,
         ar_last_sequence := seq, ar_stage := St_Quarantined,
         ar_stage_generation := counter_next (ar_stage_generation r) \<rparr>"

definition quarantine :: "ArtifactId \<Rightarrow> string \<Rightarrow> string \<Rightarrow> CoordinatorAuthority \<Rightarrow> engine
    \<Rightarrow> TrustMutation Result \<times> engine" where
  "quarantine i reason_class detail authority e =
     (let st = state e; cfg = config e in
      if \<not> is_valid_name reason_class
      then (Inl (fail EC_InvalidName ''quarantine reason class is empty, too long, or malformed''), e)
      else if foreign_authority authority st
      then (Inl (fail EC_StaleCoordinatorEpoch ''quarantine authority names a different coordinator''), e)
      else if \<not> admission_open e then (Inl shutting_down, e)
      else case find_current st i of
        None \<Rightarrow> (Inl (not_registered i), e)
      | Some art \<Rightarrow>
          let from = ar_stage art in
          if qr_active (ar_quarantine art)
          then (Inr (mutation PO_Quarantined art None
                  [make_reason EC_ArtifactQuarantined ''artifact is already quarantined'' []]), e)
          else if ar_stage art = St_Revoked \<or> ar_stage art = St_Retired
          then (Inr (mutation PO_Revoked art None
                  [make_reason EC_ArtifactRevoked ''a revoked or retired artifact cannot be quarantined'' []]), e)
          else if \<not> has_edge (po_graph (active_policy_body st)) from St_Quarantined
          then (Inl (make_status EC_TransitionIllegal ''the active lifecycle graph forbids this quarantine''
                  (stage_to_string from)), e)
          else
            let (seq, st1) = next_sequence st;
                f = apply_quarantine reason_class detail (state_authority_id st1) seq
                      (active_policy_generation st1);
                st2 = erase_pending i (update_current i f st1);
                st3 = append_history cfg HE_Quarantined (f art) from St_Quarantined
                        (lit (''quarantine: '' @ reason_class)) st2
            in (Inr (mutation PO_Quarantined (f art) None
                   [make_reason EC_ArtifactQuarantined ''artifact quarantined'' []]), finish e st3))"

definition release_request :: "ArtifactId \<Rightarrow> ArtifactRecord \<Rightarrow> PromotionRequestId \<Rightarrow> PromotionAttemptId
    \<Rightarrow> CoordinatorState \<Rightarrow> PromotionRequest" where
  "release_request i art r a st = \<lparr> rq_artifact = i, rq_expected_revision = ar_revision art,
     rq_expected_digest = ar_digest art, rq_requested_stage = St_Candidate, rq_request = r,
     rq_attempt = a, rq_authority = authority_of st, rq_requester = null_producer \<rparr>"

definition apply_release :: "CommitSequence \<Rightarrow> ArtifactRecord \<Rightarrow> ArtifactRecord" where
  "apply_release seq r =
     r \<lparr> ar_quarantine := (ar_quarantine r) \<lparr> qr_active := False \<rparr>, ar_stage := St_Candidate,
         ar_stage_generation := counter_next (ar_stage_generation r), ar_last_sequence := seq \<rparr>"

text \<open>The decision of a release: identities, gate evaluation, snapshot, store.\<close>

definition decide_release :: "EngineConfig \<Rightarrow> u64 \<Rightarrow> ArtifactId \<Rightarrow> ArtifactRecord \<Rightarrow> CoordinatorState
    \<Rightarrow> GateOutcome \<times> PromotionRequest \<times> PromotionDecision \<times> CoordinatorState" where
  "decide_release cfg now i art st =
     (let (r, st1) = next_internal_request st;
          (a, st2) = next_internal_attempt st1;
          req = release_request i art r a st2;
          (d0, st3) = open_decision req st2;
          d1 = d0 \<lparr> de_artifact_generation := ar_generation art, de_artifact_kind := ar_kind art,
                    de_from := ar_stage art \<rparr>;
          (outcome, d2, entries) = evaluate_gates cfg st3 req now d1;
          d = d2 \<lparr> de_outcome := go_outcome outcome, de_decided_unix_millis := Some now,
                   de_evidence_snapshot_digest :=
                     compute_snapshot_digest (ar_id art) (ar_revision art) (ar_digest art) entries \<rparr>
      in (outcome, req, d, store_decision d st3))"

definition release_quarantine :: "u64 \<Rightarrow> u64 \<Rightarrow> ArtifactId \<Rightarrow> CoordinatorAuthority \<Rightarrow> engine
    \<Rightarrow> TrustMutation Result \<times> engine" where
  "release_quarantine now1 now2 i authority e =
     (let st = state e; cfg = config e in
      if \<not> admission_open e then (Inl shutting_down, e)
      else case find_current st i of
        None \<Rightarrow> (Inl (not_registered i), e)
      | Some art \<Rightarrow>
          if \<not> qr_active (ar_quarantine art)
          then (Inr (mutation PO_PromotionIneligible art None
                  [make_reason EC_InvalidArgument ''artifact is not quarantined'' []]), e)
          else if foreign_authority authority st
          then (Inl (fail EC_StaleCoordinatorEpoch ''release authority names a different coordinator''), e)
          else
            let (outcome, req, d, st1) = decide_release cfg now1 i art st in
            if go_failed outcome
            then (Inr (mutation (de_outcome d) art None (de_reasons d)), finish e st1)
            else
              let from = ar_stage art;
                  (seq, st2) = next_sequence st1;
                  st3 = update_current i (apply_release seq) st2;
                  (t, st4) = next_transition st3;
                  note = lit ''quarantine released; artifact returned to CANDIDATE for full re-evaluation'';
                  record = (trust_record st4 (apply_release seq art) from (de_id d) t now2 note)
                    \<lparr> pr_request := rq_request req, pr_attempt := rq_attempt req,
                      pr_authority := rq_authority req,
                      pr_evidence_snapshot_digest := de_evidence_snapshot_digest d \<rparr>;
                  st5 = append_history cfg HE_QuarantineReleased (apply_release seq art) from St_Candidate
                          note (put_record cfg record st4)
              in (Inr (mutation PO_PromotionCommitted (apply_release seq art) (Some record) []),
                  finish e st5))"

section \<open>Revocation\<close>

definition apply_revocation :: "PromotionDecisionId \<Rightarrow> string \<Rightarrow> string \<Rightarrow> AuthorityId \<Rightarrow> CommitSequence
    \<Rightarrow> PolicyGeneration \<Rightarrow> EvidenceId \<Rightarrow> ArtifactRecord \<Rightarrow> ArtifactRecord" where
  "apply_revocation target reason_class detail authority seq generation cause r =
     r \<lparr> ar_revocation := \<lparr> rv_active = True, rv_decision = target, rv_reason_class = reason_class,
           rv_detail = bounded detail kMaxTextLength, rv_authority = authority, rv_sequence = seq,
           rv_policy_generation = generation, rv_cause = cause \<rparr>,
         ar_last_sequence := seq, ar_promoted := False, ar_stage := St_Revoked,
         ar_stage_generation := counter_next (ar_stage_generation r) \<rparr>"

definition revoke :: "u64 \<Rightarrow> ArtifactId \<Rightarrow> PromotionDecisionId \<Rightarrow> string \<Rightarrow> string \<Rightarrow> CoordinatorAuthority
    \<Rightarrow> EvidenceId \<Rightarrow> engine \<Rightarrow> TrustMutation Result \<times> engine" where
  "revoke now i decision reason_class detail authority cause e =
     (let st = state e; cfg = config e in
      if \<not> is_valid_name reason_class
      then (Inl (fail EC_InvalidName ''revocation reason class is empty, too long, or malformed''), e)
      else if \<not> admission_open e then (Inl shutting_down, e)
      else case find_current st i of
        None \<Rightarrow> (Inl (not_registered i), e)
      | Some art \<Rightarrow>
          if rv_active (ar_revocation art)
          then (Inr (mutation PO_Revoked art None
                  [make_reason EC_ArtifactRevoked ''artifact authority is already revoked'' []]), e)
          else if foreign_authority authority st
          then (Inl (fail EC_StaleCoordinatorEpoch ''revocation authority names a different coordinator''), e)
          else if id_invalid decision \<and> (\<not> ar_promoted art \<or> id_invalid (ar_promotion_decision art))
          then (Inr (mutation PO_Revoked art None
                  [make_reason EC_ArtifactRevoked
                     ''artifact holds no promotion authority to revoke and no decision was named'' []]), e)
          else
            let target = (if id_invalid decision then ar_promotion_decision art else decision) in
            if \<not> om_count (decisions st) target
            then (Inl (make_status EC_DecisionNotFound
                    ''the named promotion decision is not held by this coordinator'' (id_to_string target)), e)
            else if id_valid cause \<and> \<not> om_count (evidence st) cause
            then (Inl (make_status EC_EvidenceNotFound
                    ''the named revocation cause evidence is not held'' (id_to_string cause)), e)
            else
              let (seq, st1) = next_sequence st;
                  f = apply_revocation target reason_class detail (state_authority_id st1) seq
                        (active_policy_generation st1) cause;
                  (t, st2) = next_transition (erase_pending i (update_current i f st1));
                  note = lit (''revocation: '' @ reason_class);
                  record = trust_record st2 (f art) (ar_stage art) target t now note;
                  st3 = append_history cfg HE_Revoked (f art) (ar_stage art) St_Revoked note
                          (put_record cfg record st2)
              in (Inr (mutation PO_Revoked (f art) (Some record) []), finish e st3))"

section \<open>Supersession and retirement\<close>

definition apply_supersession :: "ArtifactId \<Rightarrow> ArtifactRevision \<Rightarrow> string \<Rightarrow> AuthorityId \<Rightarrow> CommitSequence
    \<Rightarrow> ArtifactRecord \<Rightarrow> ArtifactRecord" where
  "apply_supersession successor revision reason authority seq r =
     (let marked = r \<lparr> ar_supersession := \<lparr> sp_active = True, sp_successor = successor,
              sp_successor_revision = revision, sp_reason = bounded reason kMaxTextLength,
              sp_authority = authority, sp_sequence = seq \<rparr>,
            ar_last_sequence := seq \<rparr>;
          moved = (if ar_stage r \<noteq> St_Revoked \<and> ar_stage r \<noteq> St_Retired
                   then marked \<lparr> ar_stage := St_Superseded,
                                 ar_stage_generation := counter_next (ar_stage_generation r) \<rparr>
                   else marked)
      in moved \<lparr> ar_promoted := False \<rparr>)"

definition supersede :: "u64 \<Rightarrow> ArtifactId \<Rightarrow> ArtifactId \<Rightarrow> string \<Rightarrow> CoordinatorAuthority \<Rightarrow> engine
    \<Rightarrow> TrustMutation Result \<times> engine" where
  "supersede now i successor reason authority e =
     (let st = state e; cfg = config e in
      if \<not> admission_open e then (Inl shutting_down, e)
      else if id_invalid successor
      then (Inl (fail EC_InvalidIdentity ''superseding artifact identity is the invalid sentinel''), e)
      else if successor = i
      then (Inl (fail EC_InvalidArgument ''an artifact cannot supersede itself''), e)
      else case find_current st i of
        None \<Rightarrow> (Inl (not_registered i), e)
      | Some art \<Rightarrow>
        (case find_current st successor of
           None \<Rightarrow> (Inl (make_status EC_ArtifactNotFound ''the superseding artifact is not registered''
                     (id_to_string successor)), e)
         | Some successor_record \<Rightarrow>
             if foreign_authority authority st
             then (Inl (fail EC_StaleCoordinatorEpoch ''supersession authority names a different coordinator''), e)
             else if sp_active (ar_supersession art)
             then (Inr (mutation PO_Superseded art None
                     [make_reason EC_ArtifactSuperseded ''artifact is already superseded'' []]), e)
             else if ar_stage art = St_Revoked \<or> ar_stage art = St_Retired
             then (Inr (mutation PO_Superseded art None
                     [make_reason EC_ArtifactSuperseded ''a revoked or retired artifact cannot be superseded'' []]), e)
             else if \<not> has_edge (po_graph (active_policy_body st)) (ar_stage art) St_Superseded
             then (Inl (make_status EC_TransitionIllegal
                     ''the active lifecycle graph forbids superseding an artifact in this stage''
                     (stage_to_string (ar_stage art))), e)
             else
               let (seq, st1) = next_sequence st;
                   f = apply_supersession successor (ar_revision successor_record) reason
                         (state_authority_id st1) seq;
                   (t, st2) = next_transition (erase_pending i (update_current i f st1));
                   note = lit (''superseded by '' @ id_to_string successor);
                   record = trust_record st2 (f art) (ar_stage art) (ar_promotion_decision art) t now note;
                   st3 = append_history cfg HE_Superseded (f art) (ar_stage art) (ar_stage (f art)) note
                           (put_record cfg record st2)
               in (Inr (mutation PO_Superseded (f art) (Some record) []), finish e st3)))"

definition apply_retirement :: "CommitSequence \<Rightarrow> ArtifactRecord \<Rightarrow> ArtifactRecord" where
  "apply_retirement seq r =
     r \<lparr> ar_promoted := False, ar_stage := St_Retired,
         ar_stage_generation := counter_next (ar_stage_generation r), ar_last_sequence := seq \<rparr>"

definition retire :: "u64 \<Rightarrow> ArtifactId \<Rightarrow> CoordinatorAuthority \<Rightarrow> engine \<Rightarrow> TrustMutation Result \<times> engine" where
  "retire now i authority e =
     (let st = state e; cfg = config e in
      if \<not> admission_open e then (Inl shutting_down, e)
      else case find_current st i of
        None \<Rightarrow> (Inl (not_registered i), e)
      | Some art \<Rightarrow>
          if foreign_authority authority st
          then (Inl (fail EC_StaleCoordinatorEpoch ''retirement authority names a different coordinator''), e)
          else if ar_stage art = St_Retired
          then (Inr (mutation PO_PromotionIneligible art None
                  [make_reason EC_InvalidArgument ''artifact is already retired'' []]), e)
          else if \<not> has_edge (po_graph (active_policy_body st)) (ar_stage art) St_Retired
          then (Inl (make_status EC_TransitionIllegal ''the active lifecycle graph forbids retirement''
                  (stage_to_string (ar_stage art))), e)
          else
            let (seq, st1) = next_sequence st;
                f = apply_retirement seq;
                (t, st2) = next_transition (erase_pending i (update_current i f st1));
                record = trust_record st2 (f art) (ar_stage art) (ar_promotion_decision art) t now (lit ''retired'');
                st3 = append_history cfg HE_Retired (f art) (ar_stage art) St_Retired (lit ''retired'')
                        (put_record cfg record st2)
            in (Inr (mutation PO_PromotionCommitted (f art) (Some record) []), finish e st3))"

section \<open>Evidence revocation\<close>

definition revoked_evidence :: "string \<Rightarrow> AuthorityId \<Rightarrow> CommitSequence \<Rightarrow> EvidenceRecord \<Rightarrow> EvidenceRecord" where
  "revoked_evidence reason authority seq r =
     (let marked = r \<lparr> ev_revoked := True, ev_revocation_reason := bounded reason kMaxTextLength,
            ev_revocation_authority := authority, ev_revocation_sequence := seq \<rparr>
      in marked \<lparr> ev_integrity_digest := compute_evidence_integrity marked \<rparr>)"

definition fence_pending :: "EvidenceRecord \<Rightarrow> CoordinatorState \<Rightarrow> CoordinatorState" where
  "fence_pending r st =
     (let fenced = map fst (filter (\<lambda>(i, p). pt_artifact p = ev_subject r
                     \<and> pt_artifact_revision p = ev_subject_revision r) (pending st))
      in st \<lparr> pending := foldl (\<lambda>m i. om_erase i m) (pending st) fenced \<rparr>)"

definition revoke_evidence :: "EvidenceId \<Rightarrow> string \<Rightarrow> CoordinatorAuthority \<Rightarrow> engine
    \<Rightarrow> TrustMutation Result \<times> engine" where
  "revoke_evidence i reason authority e =
     (let st = state e; cfg = config e in
      if \<not> admission_open e then (Inl shutting_down, e)
      else case om_find (evidence st) i of
        None \<Rightarrow> (Inl (make_status EC_EvidenceNotFound ''evidence identity is not registered'' (id_to_string i)), e)
      | Some r \<Rightarrow>
          if foreign_authority authority st
          then (Inl (fail EC_StaleCoordinatorEpoch ''revocation authority names a different coordinator''), e)
          else if ev_revoked r
          then (Inr \<lparr> tm_outcome = PO_EvidenceRevoked, tm_artifact = None, tm_record = None,
                  tm_reasons = [make_reason EC_EvidenceRevoked ''evidence is already revoked'' []] \<rparr>, e)
          else
            let (seq, st1) = next_sequence st;
                r' = revoked_evidence reason (state_authority_id st1) seq r;
                st2 = fence_pending r' (st1 \<lparr> evidence := om_insert i r' (evidence st1) \<rparr>);
                event = empty_event \<lparr> he_sequence := seq, he_kind := HE_EvidenceRevoked,
                  he_artifact := ev_subject r', he_artifact_revision := ev_subject_revision r',
                  he_evidence := ev_id r', he_authority := authority_of st2,
                  he_note := lit (''evidence revoked: '' @ ev_revocation_reason r') \<rparr>
            in (Inr \<lparr> tm_outcome = PO_EvidenceRevoked, tm_artifact = None, tm_record = None,
                  tm_reasons = [make_reason EC_EvidenceRevoked ''evidence revoked'' []] \<rparr>,
                finish e (push_event cfg event st2)))"

section \<open>Vetoes and compatibility\<close>

definition veto_at :: "ArtifactId \<Rightarrow> CoordinatorState \<Rightarrow> VetoState" where
  "veto_at i st = (case om_find (vetoes st) i of None \<Rightarrow> no_veto | Some v \<Rightarrow> v)"

definition set_security_veto :: "ArtifactId \<Rightarrow> bool \<Rightarrow> string \<Rightarrow> engine \<Rightarrow> Status \<times> engine" where
  "set_security_veto i active reason e =
     (let st = state e in
      if id_invalid i
      then (fail EC_InvalidIdentity ''security veto references an invalid artifact identity'', e)
      else (success, finish e (st \<lparr> vetoes := om_insert i
              ((veto_at i st) \<lparr> vs_security_veto := active,
                 vs_security_reason := bounded reason kMaxTextLength \<rparr>) (vetoes st) \<rparr>)))"

definition set_dependency_veto :: "ArtifactId \<Rightarrow> bool \<Rightarrow> string \<Rightarrow> engine \<Rightarrow> Status \<times> engine" where
  "set_dependency_veto i active reason e =
     (let st = state e in
      if id_invalid i
      then (fail EC_InvalidIdentity ''dependency veto references an invalid artifact identity'', e)
      else (success, finish e (st \<lparr> vetoes := om_insert i
              ((veto_at i st) \<lparr> vs_dependency_veto := active,
                 vs_dependency_reason := bounded reason kMaxTextLength \<rparr>) (vetoes st) \<rparr>)))"

definition set_compatibility_generation ::
  "CompatibilityGeneration \<Rightarrow> engine \<Rightarrow> CompatibilityGeneration Result \<times> engine" where
  "set_compatibility_generation generation e =
     (let st = state e in
      if \<not> counter_valid generation
      then (Inl (fail EC_InvalidCount ''compatibility generation must be non-zero''), e)
      else if \<not> generation > compatibility_generation st
      then (Inl (fail EC_Conflict ''compatibility generation must advance''), e)
      else (Inr generation,
            finish e (st \<lparr> compatibility_generation := generation, pending := [] \<rparr>)))"

section \<open>Rollback eligibility\<close>

record RollbackEligibility =
  rb_eligible :: bool
  rb_outcome :: PromotionOutcome
  rb_blocking_gates :: "string list"

definition rollback_render :: "RollbackEligibility \<Rightarrow> string" where
  "rollback_render r =
     ''rollback_eligible='' @ (if rb_eligible r then ''true'' else ''false'')
     @ '' outcome='' @ promotion_outcome_to_string (rb_outcome r)
     @ concat (map (\<lambda>g. newline @ ''  blocked_by='' @ g) (rb_blocking_gates r))"

definition evaluate_rollback_eligibility :: "engine \<Rightarrow> ArtifactId \<Rightarrow> RollbackEligibility" where
  "evaluate_rollback_eligibility e i =
     (let st = state e in
      case find_current st i of
        None \<Rightarrow> \<lparr> rb_eligible = False, rb_outcome = PO_ArtifactNotFound,
          rb_blocking_gates = [lit ''artifact is not registered''] \<rparr>
      | Some art \<Rightarrow>
          let has_promotion_record = list_ex (\<lambda>(t, r). pr_artifact r = i
                \<and> pr_artifact_revision r = ar_revision art \<and> pr_to r = St_Promoted) (records st);
              policy_allows_rollback =
                (case find_rule (active_policy_body st) (ar_kind art) St_Approved St_Promoted of
                   None \<Rightarrow> False | Some rule \<Rightarrow> ru_allow_rollback_eligibility rule);
              blocking =
                (if policy_allows_rollback then []
                 else [lit ''policy does not permit rollback eligibility for this artifact class''])
                @ (if has_promotion_record then [] else [lit ''the current revision has never been promoted''])
                @ (if rv_active (ar_revocation art) then [lit ''artifact authority was revoked''] else [])
                @ (if qr_active (ar_quarantine art) then [lit ''artifact is quarantined''] else [])
                @ (if ar_stage art = St_Retired then [lit ''artifact is retired''] else [])
          in \<lparr> rb_eligible = (blocking = []),
               rb_outcome = (if blocking = [] then PO_PromotionEligible else PO_PromotionIneligible),
               rb_blocking_gates = blocking \<rparr>)"

end
