(* ===== verification/Commit.thy ===== *)
theory Commit
  imports Trust
begin

text \<open>
  What evaluation and commit guarantee: evaluation never moves an artifact, a commit moves exactly
  the revision its plan names and only when every authority the plan was derived from still holds,
  and a rejected commit moves nothing.
\<close>

section \<open>Frame lemmas\<close>

lemma notify_change_simps [simp]:
  "state (notify_change e) = state e" "config (notify_change e) = config e"
  "admission_open (notify_change e) = admission_open e"
  by (simp_all add: notify_change_def Let_def)

lemma acknowledge_simps [simp]:
  "state (acknowledge e) = state e" "config (acknowledge e) = config e"
  "admission_open (acknowledge e) = admission_open e"
  by (simp_all add: acknowledge_def Let_def)

lemma touch_simps [simp]:
  "state (touch e) = state e" "config (touch e) = config e" "admission_open (touch e) = admission_open e"
  by (simp_all add: touch_def)

lemma finish_simps [simp]:
  "state (finish e st) = st" "config (finish e st) = config e" "admission_open (finish e st) = admission_open e"
  by (simp_all add: finish_def)

text \<open>What each state-passing helper leaves alone.\<close>

lemma next_sequence_simps [simp]:
  "fst (next_sequence st) = counter_next (commit_sequence st)"
  "snd (next_sequence st) = st \<lparr> commit_sequence := counter_next (commit_sequence st) \<rparr>"
  by (simp_all add: next_sequence_def Let_def)

lemma next_sequence_eq:
  "next_sequence st = (counter_next (commit_sequence st), st \<lparr> commit_sequence := counter_next (commit_sequence st) \<rparr>)"
  by (simp add: next_sequence_def Let_def)

lemma next_decision_sequence_eq:
  "next_decision_sequence st
   = (counter_next (decision_sequence st), st \<lparr> decision_sequence := counter_next (decision_sequence st) \<rparr>)"
  by (simp add: next_decision_sequence_def Let_def)

lemma push_event_simps [simp]:
  "artifacts (push_event cfg ev st) = artifacts st" "evidence (push_event cfg ev st) = evidence st"
  "plans (push_event cfg ev st) = plans st" "decisions (push_event cfg ev st) = decisions st"
  "records (push_event cfg ev st) = records st" "idempotency (push_event cfg ev st) = idempotency st"
  "pending (push_event cfg ev st) = pending st" "vetoes (push_event cfg ev st) = vetoes st"
  "commit_sequence (push_event cfg ev st) = commit_sequence st"
  "active_policy_body (push_event cfg ev st) = active_policy_body st"
  "active_policy (push_event cfg ev st) = active_policy st"
  "active_policy_generation (push_event cfg ev st) = active_policy_generation st"
  "active_policy_digest (push_event cfg ev st) = active_policy_digest st"
  "epoch (push_event cfg ev st) = epoch st" "coordinator (push_event cfg ev st) = coordinator st"
  "compatibility_generation (push_event cfg ev st) = compatibility_generation st"
  by (simp_all add: push_event_def)

lemma push_event_unbounded_simps [simp]:
  "artifacts (push_event_unbounded ev st) = artifacts st" "evidence (push_event_unbounded ev st) = evidence st"
  "plans (push_event_unbounded ev st) = plans st" "decisions (push_event_unbounded ev st) = decisions st"
  "records (push_event_unbounded ev st) = records st"
  "idempotency (push_event_unbounded ev st) = idempotency st"
  "pending (push_event_unbounded ev st) = pending st" "vetoes (push_event_unbounded ev st) = vetoes st"
  "commit_sequence (push_event_unbounded ev st) = commit_sequence st"
  "active_policy_body (push_event_unbounded ev st) = active_policy_body st"
  "active_policy (push_event_unbounded ev st) = active_policy st"
  "active_policy_generation (push_event_unbounded ev st) = active_policy_generation st"
  "active_policy_digest (push_event_unbounded ev st) = active_policy_digest st"
  "epoch (push_event_unbounded ev st) = epoch st" "coordinator (push_event_unbounded ev st) = coordinator st"
  "compatibility_generation (push_event_unbounded ev st) = compatibility_generation st"
  by (simp_all add: push_event_unbounded_def)

lemma put_decision_simps [simp]:
  "artifacts (put_decision i d st) = artifacts st" "evidence (put_decision i d st) = evidence st"
  "plans (put_decision i d st) = plans st" "records (put_decision i d st) = records st"
  "decisions (put_decision i d st) = om_insert i d (decisions st)"
  "pending (put_decision i d st) = pending st" "vetoes (put_decision i d st) = vetoes st"
  "idempotency (put_decision i d st) = idempotency st" "history (put_decision i d st) = history st"
  "commit_sequence (put_decision i d st) = commit_sequence st"
  "active_policy_body (put_decision i d st) = active_policy_body st"
  "active_policy_generation (put_decision i d st) = active_policy_generation st"
  "find_revision (put_decision i d st) = find_revision st"
  "find_current (put_decision i d st) = find_current st"
  by (simp_all add: put_decision_def find_revision_def find_current_def fun_eq_iff)

lemma erase_pending_simps [simp]:
  "artifacts (erase_pending i st) = artifacts st" "evidence (erase_pending i st) = evidence st"
  "plans (erase_pending i st) = plans st" "records (erase_pending i st) = records st"
  "decisions (erase_pending i st) = decisions st"
  "pending (erase_pending i st) = om_erase i (pending st)" "vetoes (erase_pending i st) = vetoes st"
  "idempotency (erase_pending i st) = idempotency st" "history (erase_pending i st) = history st"
  "commit_sequence (erase_pending i st) = commit_sequence st"
  "active_policy_body (erase_pending i st) = active_policy_body st"
  by (simp_all add: erase_pending_def)

lemma store_decision_simps [simp]:
  "artifacts (store_decision d st) = artifacts st" "evidence (store_decision d st) = evidence st"
  "plans (store_decision d st) = plans st" "records (store_decision d st) = records st"
  "decisions (store_decision d st) = om_insert (de_id d) d (decisions st)"
  "pending (store_decision d st) = pending st" "vetoes (store_decision d st) = vetoes st"
  "idempotency (store_decision d st) = idempotency st" "history (store_decision d st) = history st"
  "commit_sequence (store_decision d st) = commit_sequence st"
  "active_policy_body (store_decision d st) = active_policy_body st"
  by (simp_all add: store_decision_def)

lemma find_revision_cong: "artifacts st = artifacts st' \<Longrightarrow> find_revision st = find_revision st'"
  by (simp add: find_revision_def fun_eq_iff)

lemma find_current_cong: "artifacts st = artifacts st' \<Longrightarrow> find_current st = find_current st'"
  by (simp add: find_current_def fun_eq_iff)

section \<open>Evaluation moves nothing\<close>

definition lifecycle :: "CoordinatorState \<Rightarrow> (ArtifactId, ArtifactRecord list) omap
    \<times> (EvidenceId, EvidenceRecord) omap \<times> (TransitionId, PromotionRecord) omap
    \<times> (ArtifactId, VetoState) omap \<times> PromotionPolicy" where
  "lifecycle st = (artifacts st, evidence st, records st, vetoes st, active_policy_body st)"

lemma open_decision_lifecycle: "open_decision req st = (d, st') \<Longrightarrow> lifecycle st' = lifecycle st \<and> pending st' = pending st"
  by (auto simp: open_decision_def next_decision_sequence_eq Let_def lifecycle_def split: prod.splits)

lemma issue_plan_lifecycle: "issue_plan cfg now req art d n st = (d', p, st') \<Longrightarrow> lifecycle st' = lifecycle st"
  by (auto simp: issue_plan_def make_plan_def make_reservation_def next_sequence_eq Let_def lifecycle_def
      split: prod.splits if_splits)

lemma decide_lifecycle: "decide cfg now req art d st = (d', p, st') \<Longrightarrow> lifecycle st' = lifecycle st"
  by (auto simp: decide_def Let_def dest: issue_plan_lifecycle split: if_splits prod.splits)

lemma evaluate_registered_lifecycle:
  assumes "evaluate_registered cfg now req art st = (r, st')"
  shows "lifecycle st' = lifecycle st"
proof -
  obtain d0 st1 where open1: "open_decision req st = (d0, st1)" by (cases "open_decision req st") auto
  let ?d1 = "d0 \<lparr> de_artifact_generation := ar_generation art, de_artifact_kind := ar_kind art,
                 de_from := ar_stage art, de_decided_unix_millis := Some now \<rparr>"
  obtain d p st2 where dec: "decide cfg now req art ?d1 st1 = (d, p, st2)"
    by (cases "decide cfg now req art ?d1 st1") auto
  have "lifecycle st' = lifecycle st2"
    using assms open1 dec by (auto simp: evaluate_registered_def next_sequence_eq Let_def lifecycle_def)
  with open_decision_lifecycle [OF open1] decide_lifecycle [OF dec] show ?thesis by simp
qed

lemma evaluate_lifecycle:
  assumes "evaluate now req e = (r, e')"
  shows "lifecycle (state e') = lifecycle (state e)"
  using assms
  by (auto simp: evaluate_def Let_def evaluate_unregistered_def evaluate_digest_mismatch_def
      lifecycle_def [of "store_decision d st" for d st] simp flip: lifecycle_def
      dest: evaluate_registered_lifecycle open_decision_lifecycle
      split: if_splits option.splits prod.splits)

section \<open>When a commit moves the artifact\<close>

definition reservation_held :: "PromotionPlan \<Rightarrow> CoordinatorState \<Rightarrow> bool" where
  "reservation_held plan st \<longleftrightarrow>
     (\<exists>p. om_find (pending st) (pl_artifact plan) = Some p \<and> pt_plan p = pl_id plan)"

definition plan_expired :: "u64 \<Rightarrow> PromotionPlan \<Rightarrow> bool" where
  "plan_expired now plan \<longleftrightarrow> pl_has_expiry plan \<and> now > pl_expires_unix_millis plan"

text \<open>The evidence snapshot a commit recomputes for the plan's revision.\<close>

definition current_snapshot :: "CoordinatorState \<Rightarrow> ArtifactRecord \<Rightarrow> Digest" where
  "current_snapshot st art =
     compute_snapshot_digest (ar_id art) (ar_revision art) (ar_digest art) (snapshot_entries (gathered st art))"

definition commit_authorised :: "EngineConfig \<Rightarrow> u64 \<Rightarrow> PromotionPlan \<Rightarrow> CoordinatorState \<Rightarrow> bool" where
  "commit_authorised cfg now plan st \<longleftrightarrow>
     \<not> policy_changed plan st \<and> \<not> lifecycle_changed plan st \<and> \<not> plan_expired now plan
     \<and> reservation_held plan st
     \<and> (\<exists>art rule. find_revision st (pl_artifact plan) (pl_artifact_revision plan) = Some art
          \<and> find_rule (active_policy_body st) (ar_kind art) (ar_stage art) (pl_to plan) = Some rule
          \<and> all_gates_pass cfg st (plan_request plan) now
              (de_policy_generation (decision_at (pl_decision plan) st)) art rule
          \<and> current_snapshot st art = pl_evidence_snapshot_digest plan
          \<and> ar_stage art \<noteq> pl_to plan)"

lemma outcome_for_requirement_not_committed: "outcome_for_requirement code \<noteq> PO_PromotionCommitted"
  by (simp add: outcome_for_requirement_def)

lemma gate_loop_not_committed:
  assumes "go_outcome result \<noteq> PO_PromotionCommitted"
  shows "go_outcome (fst (gate_loop cfg st req now art evs gates first result d)) \<noteq> PO_PromotionCommitted"
  using assms
proof (induction cfg st req now art evs gates first result d rule: gate_loop.induct)
  case (2 cfg st req now art evs gate gates first result d)
  show ?case
  proof (cases "eval_gate cfg st req now (de_policy_generation d) art evs gate")
    case (Inr v)
    obtain code detail r where v: "v = (code, detail, r)" by (cases v) auto
    show ?thesis
      using 2 Inr v by (cases "code = EC_Ok") (auto simp: outcome_for_requirement_not_committed)
  qed simp
qed simp

lemma evaluate_gates_not_committed:
  "go_outcome (fst (evaluate_gates cfg st req now d)) \<noteq> PO_PromotionCommitted"
proof (cases st req rule: evaluate_gates_cases)
  case governed
  then show ?thesis by (simp add: evaluate_gates_rule gate_loop_not_committed initial_outcome_def)
qed (simp_all add: evaluate_gates_def Let_def)

text \<open>The gates read the registry, the evidence, the vetoes, the reservations and the current
  authorities, and nothing else of the state.\<close>

definition same_authorities :: "CoordinatorState \<Rightarrow> CoordinatorState \<Rightarrow> bool" where
  "same_authorities st st' \<longleftrightarrow>
     artifacts st = artifacts st' \<and> evidence st = evidence st' \<and> vetoes st = vetoes st'
     \<and> pending st = pending st' \<and> compatibility_generation st = compatibility_generation st'
     \<and> active_policy_generation st = active_policy_generation st'
     \<and> active_policy_body st = active_policy_body st' \<and> coordinator st = coordinator st'
     \<and> epoch st = epoch st'"

lemma dependency_gate_cong:
  "artifacts st = artifacts st' \<Longrightarrow> dependency_gate st ds = dependency_gate st' ds"
  by (induction ds) (simp_all add: dependency_matches_def Let_def)

lemma eval_gate_cong:
  assumes "same_authorities st st'"
  shows "eval_gate cfg st req now formed art evs gate = eval_gate cfg st' req now formed art evs gate"
proof -
  have "dependency_gate st ds = dependency_gate st' ds" for ds
    using assms by (intro dependency_gate_cong) (simp add: same_authorities_def)
  moreover have "compatibility_gate st g = compatibility_gate st' g" for g
    using assms unfolding same_authorities_def compatibility_gate_def by (simp only: cong del: lit_opaque)
  moreover have "policy_generation_gate st req formed = policy_generation_gate st' req formed"
    using assms unfolding same_authorities_def policy_generation_gate_def by (simp only: cong del: lit_opaque)
  moreover have "coordinator_epoch_gate st req = coordinator_epoch_gate st' req"
    using assms unfolding same_authorities_def coordinator_epoch_gate_def by (simp only: cong del: lit_opaque)
  moreover have "no_conflict_gate st req art = no_conflict_gate st' req art"
    using assms by (simp add: same_authorities_def no_conflict_gate_def)
  ultimately show ?thesis
    using assms by (simp add: eval_gate_def same_authorities_def split: GateKind.split)
qed

lemma gate_loop_cong:
  assumes "same_authorities st st'"
  shows "gate_loop cfg st req now art evs gates first result d = gate_loop cfg st' req now art evs gates first result d"
  using eval_gate_cong [OF assms]
  by (induction gates arbitrary: first result d) (auto split: sum.splits)

lemma evaluate_gates_cong:
  assumes "same_authorities st st'"
  shows "evaluate_gates cfg st req now d = evaluate_gates cfg st' req now d"
proof -
  have "find_revision st = find_revision st'"
    using assms by (intro find_revision_cong) (simp add: same_authorities_def)
  moreover have "gathered st art = gathered st' art" for art
    using assms by (simp add: gather_evidence_def same_authorities_def)
  ultimately show ?thesis
    using assms gate_loop_cong [OF assms]
    by (simp add: evaluate_gates_def same_authorities_def Let_def split: option.split)
qed

lemma all_gates_pass_put [simp]:
  "all_gates_pass cfg (put_decision i d st) = all_gates_pass cfg st"
proof -
  have "same_authorities (put_decision i d st) st"
    by (simp add: same_authorities_def put_decision_def)
  from eval_gate_cong [OF this] show ?thesis
    by (intro ext) (simp add: all_gates_pass_def gate_passes_def gather_evidence_def)
qed

lemma evaluate_gates_put_decision [simp]:
  "evaluate_gates cfg (put_decision i d st) = evaluate_gates cfg st"
  by (intro ext evaluate_gates_cong) (simp add: same_authorities_def put_decision_def)

lemma perform_commit_result:
  "fst (perform_commit cfg now plan from d st) =
     \<lparr> cr_outcome = PO_PromotionCommitted,
       cr_decision = d \<lparr> de_outcome := PO_PromotionCommitted, de_authoritative := (pl_to plan = St_Promoted),
                         de_decided_unix_millis := Some now \<rparr>,
       cr_record = Some (commit_record plan from (fst (gen_next (transition_generator st)))
                           (counter_next (commit_sequence st)) now) \<rparr>"
  by (simp add: perform_commit_def next_sequence_eq Let_def update_revision_def split: prod.split)

lemma commit_reserved_committed:
  assumes "find_revision st (pl_artifact plan) (pl_artifact_revision plan) = Some art"
  shows "cr_outcome (fst (commit_reserved cfg now plan art d st)) = PO_PromotionCommitted \<longleftrightarrow>
    (\<exists>rule. find_rule (active_policy_body st) (ar_kind art) (ar_stage art) (pl_to plan) = Some rule
       \<and> all_gates_pass cfg st (plan_request plan) now (de_policy_generation d) art rule
       \<and> current_snapshot st art = pl_evidence_snapshot_digest plan \<and> ar_stage art \<noteq> pl_to plan)"
proof -
  obtain out d' es where eg: "evaluate_gates cfg st (plan_request plan) now d = (out, d', es)"
    by (cases "evaluate_gates cfg st (plan_request plan) now d") auto
  have elig: "go_failed out \<longleftrightarrow> \<not> (\<exists>rule. find_rule (active_policy_body st) (ar_kind art) (ar_stage art) (pl_to plan) = Some rule
       \<and> all_gates_pass cfg st (plan_request plan) now (de_policy_generation d) art rule)"
    using evaluate_gates_eligible [of cfg st "plan_request plan" now d]
      evaluate_gates_failed [of cfg st "plan_request plan" now d] eg assms
    by (simp add: plan_request_def)
  have entries: "es = snapshot_entries (gathered st art)" if "\<not> go_failed out"
    using that elig eg assms
    by (auto simp: evaluate_gates_rule plan_request_def)
  have "go_outcome out \<noteq> PO_PromotionCommitted"
    using evaluate_gates_not_committed [of cfg st "plan_request plan" now d] eg by simp
  with eg elig entries show ?thesis
    by (auto simp: commit_reserved_def commit_rejected_def current_snapshot_def perform_commit_result
        case_prod_beta)
qed

lemma commit_plan_committed:
  "cr_outcome (fst (commit_plan cfg now plan st)) = PO_PromotionCommitted \<longleftrightarrow> commit_authorised cfg now plan st"
proof (cases "find_revision st (pl_artifact plan) (pl_artifact_revision plan)")
  case None
  then show ?thesis by (simp add: commit_plan_def commit_authorised_def Let_def)
next
  case (Some art)
  let ?d = "decision_at (pl_decision plan) st"
  have "cr_outcome (fst (commit_reserved cfg now plan art ?d (put_decision (pl_decision plan) ?d st))) = PO_PromotionCommitted
     \<longleftrightarrow> cr_outcome (fst (commit_reserved cfg now plan art ?d st)) = PO_PromotionCommitted"
    using Some by (simp add: commit_reserved_committed all_gates_pass_put current_snapshot_def gather_evidence_def)
  with Some show ?thesis
    by (auto simp: commit_plan_def commit_authorised_def Let_def commit_rejected_def plan_expired_def
        reservation_held_def commit_reserved_committed split: option.splits)
qed

section \<open>What a commit does\<close>

lemma apply_transition_simps [simp]:
  "ar_revision (apply_transition plan authority seq r) = ar_revision r"
  "ar_id (apply_transition plan authority seq r) = ar_id r"
  "ar_digest (apply_transition plan authority seq r) = ar_digest r"
  "ar_stage (apply_transition plan authority seq r) = pl_to plan"
  "ar_stage_generation (apply_transition plan authority seq r) = counter_next (ar_stage_generation r)"
  by (simp_all add: apply_transition_def Let_def)

lemma perform_commit_state:
  assumes "perform_commit cfg now plan from d st = (r, st')"
  shows "artifacts st' = artifacts (update_revision (pl_artifact plan) (pl_artifact_revision plan)
           (apply_transition plan (state_authority_id st) (counter_next (commit_sequence st))) st)"
    and "cr_record r = Some record \<Longrightarrow> om_find (records st') (pr_transition record) = Some record"
    and "pending st' = om_erase (pl_artifact plan) (pending st)"
    and "om_find (decisions st') (pl_decision plan) = Some (cr_decision r)"
    and "evidence st' = evidence st" "vetoes st' = vetoes st" "plans st' = plans st"
    and "active_policy_body st' = active_policy_body st"
    and "commit_sequence st' = counter_next (commit_sequence st)"
  using assms
  by (auto simp: perform_commit_def next_sequence_eq Let_def update_revision_def state_authority_id_def
      commit_record_def om.retain_find_same split: prod.splits)

lemma commit_reserved_rejected:
  assumes "commit_reserved cfg now plan art d0 st = (r, touched, False, st')"
  shows "cr_outcome r \<noteq> PO_PromotionCommitted \<and> cr_record r = None
    \<and> st' = put_decision (pl_decision plan) (cr_decision r) (erase_pending (pl_artifact plan) st)"
proof -
  obtain out d es where eg: "evaluate_gates cfg st (plan_request plan) now d0 = (out, d, es)"
    by (cases "evaluate_gates cfg st (plan_request plan) now d0") auto
  have "go_outcome out \<noteq> PO_PromotionCommitted"
    using evaluate_gates_not_committed [of cfg st "plan_request plan" now d0] eg by simp
  with assms eg show ?thesis
    by (auto simp: commit_reserved_def commit_rejected_def split: prod.splits if_splits)
qed

lemma commit_reserved_performed:
  assumes "commit_reserved cfg now plan art d0 st = (r, touched, True, st')"
  shows "\<exists>d. perform_commit cfg now plan (ar_stage art) d (put_decision (pl_decision plan) d st) = (r, st')"
  using assms by (auto simp: commit_reserved_def commit_rejected_def split: prod.splits if_splits)

text \<open>A commit that does not succeed leaves the registry, the evidence and the records alone.\<close>

lemma commit_plan_rejected_frame:
  assumes "commit_plan cfg now plan st = (r, touched, False, st')"
  shows "lifecycle st' = lifecycle st \<and> cr_record r = None \<and> cr_outcome r \<noteq> PO_PromotionCommitted"
proof -
  have "lifecycle st' = lifecycle st \<and> cr_record r = None \<and> cr_outcome r \<noteq> PO_PromotionCommitted"
    if "commit_reserved cfg now plan art d (put_decision i d' st) = (r, touched, False, st')" for art d i d'
    using commit_reserved_rejected [OF that] by (simp add: lifecycle_def)
  with assms show ?thesis
    by (auto simp: commit_plan_def commit_rejected_def lifecycle_def Let_def split: if_splits option.splits)
qed

lemma commit_plan_performed:
  assumes "commit_plan cfg now plan st = (r, touched, True, st')"
  obtains art d where "find_revision st (pl_artifact plan) (pl_artifact_revision plan) = Some art"
    "perform_commit cfg now plan (ar_stage art) d (put_decision (pl_decision plan) d
       (put_decision (pl_decision plan) (decision_at (pl_decision plan) st) st)) = (r, st')"
  using assms commit_reserved_performed
  by (fastforce simp: commit_plan_def commit_rejected_def Let_def split: if_splits option.splits)

lemma commit_plan_flag:
  assumes "commit_plan cfg now plan st = (r, touched, flag, st')"
  shows "flag \<longleftrightarrow> cr_outcome r = PO_PromotionCommitted"
proof (cases flag)
  case True
  with assms have "commit_plan cfg now plan st = (r, touched, True, st')" by simp
  moreover have "cr_outcome s = PO_PromotionCommitted" if "perform_commit cfg now plan f d st1 = (s, st2)" for f d st1 st2 s
    using that perform_commit_result [of cfg now plan f d st1] by simp
  ultimately show ?thesis
    using True by (elim commit_plan_performed) simp
next
  case False
  with commit_plan_rejected_frame [of cfg now plan st r touched st'] assms show ?thesis by simp
qed

lemma commit_cases:
  assumes "commit now plan e = (Inr r, e')"
  obtains touched flag where "commit_plan (config e) now plan (state e) = (r, touched, flag, state e')"
    "admission_open e" "plan_valid plan" "om_find (plans (state e)) (pl_id plan) = Some plan"
    "config e' = config e" "admission_open e' = admission_open e"
proof -
  obtain r' touched flag st' where cp: "commit_plan (config e) now plan (state e) = (r', touched, flag, st')"
    by (cases "commit_plan (config e) now plan (state e)") auto
  from assms cp that show ?thesis
    by (auto simp: commit_def Let_def split: if_splits option.splits)
qed

lemma commit_error_unchanged: "commit now plan e = (Inl s, e') \<Longrightarrow> e' = e"
  by (auto simp: commit_def Let_def split: if_splits option.splits prod.splits)

lemma commit_state_eq:
  assumes "admission_open e" "plan_valid plan" "om_find (plans (state e)) (pl_id plan) = Some plan"
  shows "\<exists>e'. commit now plan e = (Inr (fst (commit_plan (config e) now plan (state e))), e')"
  using assms by (auto simp: commit_def Let_def case_prod_beta)

end
