(* ===== verification/Sha256_Bits.thy ===== *)
theory Sha256_Bits
  imports Sha256
begin

text \<open>
  A second implementation of the hash on explicit bit lists, least significant bit first, proved
  equal to the word-level one of the program.  It serves as the code equation of \<open>sha256\<close>, so
  digests of concrete inputs evaluate inside the logic; the published test vectors at the end are
  evaluated that way.
\<close>

section \<open>Bit-list operations\<close>

type_synonym bits = "bool list"

fun parity3 :: "bool \<Rightarrow> bool \<Rightarrow> bool \<Rightarrow> bool" where
  "parity3 True True c = c"
| "parity3 False False c = c"
| "parity3 True False c = (\<not> c)"
| "parity3 False True c = (\<not> c)"

fun majority3 :: "bool \<Rightarrow> bool \<Rightarrow> bool \<Rightarrow> bool" where
  "majority3 True True c = True"
| "majority3 False False c = False"
| "majority3 True False c = c"
| "majority3 False True c = c"

fun choose3 :: "bool \<Rightarrow> bool \<Rightarrow> bool \<Rightarrow> bool" where
  "choose3 True b c = b"
| "choose3 False b c = c"

fun bits3 :: "(bool \<Rightarrow> bool \<Rightarrow> bool \<Rightarrow> bool) \<Rightarrow> bits \<Rightarrow> bits \<Rightarrow> bits \<Rightarrow> bits" where
  "bits3 f (a # as) (b # bs) (c # cs) = f a b c # bits3 f as bs cs"
| "bits3 f _ _ _ = []"

fun add_carry :: "bool \<Rightarrow> bits \<Rightarrow> bits \<Rightarrow> bits" where
  "add_carry c (a # as) (b # bs) = parity3 a b c # add_carry (majority3 a b c) as bs"
| "add_carry c _ _ = []"

abbreviation add_bits :: "bits \<Rightarrow> bits \<Rightarrow> bits" where
  "add_bits \<equiv> add_carry False"

fun rot_acc :: "nat \<Rightarrow> bits \<Rightarrow> bits \<Rightarrow> bits" where
  "rot_acc (Suc n) (b # bs) acc = rot_acc n bs (b # acc)"
| "rot_acc _ bs acc = bs @ rev acc"

abbreviation rot_bits :: "bits \<Rightarrow> nat \<Rightarrow> bits" where
  "rot_bits bs n \<equiv> rot_acc n bs []"

definition shift_bits :: "bits \<Rightarrow> nat \<Rightarrow> bits" where
  "shift_bits bs n = drop n bs @ replicate n False"

definition word_of_bits :: "bits \<Rightarrow> 'a::len word" where
  "word_of_bits bs = horner_sum of_bool 2 bs"

definition bits_of_byte :: "u8 \<Rightarrow> bits" where
  "bits_of_byte b = map (bit b) [0..<8]"

section \<open>The bit-level hash\<close>

fun words_of_block :: "bytes \<Rightarrow> bits list" where
  "words_of_block (a # b # c # d # bs) =
     (bits_of_byte d @ bits_of_byte c @ bits_of_byte b @ bits_of_byte a) # words_of_block bs"
| "words_of_block _ = []"

fun window_bits :: "bits list \<Rightarrow> bits" where
  "window_bits [w0, w1, w2, w3, w4, w5, w6, w7, w8, w9, w10, w11, w12, w13, w14, w15] =
     add_bits (add_bits (add_bits w0
        (bits3 parity3 (rot_bits w1 7) (rot_bits w1 18) (shift_bits w1 3))) w9)
        (bits3 parity3 (rot_bits w14 17) (rot_bits w14 19) (shift_bits w14 10))"
| "window_bits _ = []"

fun expand_bits :: "nat \<Rightarrow> bits list \<Rightarrow> bits list" where
  "expand_bits (Suc n) (w # ws) = w # expand_bits n (ws @ [window_bits (w # ws)])"
| "expand_bits _ ws = ws"

type_synonym working_bits = "bits \<times> bits \<times> bits \<times> bits \<times> bits \<times> bits \<times> bits \<times> bits"

fun round_bits :: "working_bits \<Rightarrow> bits \<times> bits \<Rightarrow> working_bits" where
  "round_bits (a, b, c, d, e, f, g, h) (k, w) =
     (let temp1 = add_bits (add_bits (add_bits (add_bits h
                    (bits3 parity3 (rot_bits e 6) (rot_bits e 11) (rot_bits e 25)))
                    (bits3 choose3 e f g)) k) w;
          temp2 = add_bits (bits3 parity3 (rot_bits a 2) (rot_bits a 13) (rot_bits a 22))
                    (bits3 majority3 a b c)
      in (add_bits temp1 temp2, a, b, c, add_bits d temp1, e, f, g))"

definition bits_of_word :: "u32 \<Rightarrow> bits" where
  "bits_of_word w = map (bit w) [0..<32]"

definition round_constant_bits :: "bits list" where
  "round_constant_bits = map bits_of_word kRoundConstants"

definition initial_bits :: working_bits where
  "initial_bits =
     (case sha_state sha_reset of (a, b, c, d, e, f, g, h) \<Rightarrow>
        (bits_of_word a, bits_of_word b, bits_of_word c, bits_of_word d,
         bits_of_word e, bits_of_word f, bits_of_word g, bits_of_word h))"

definition compress_bits :: "bits list \<Rightarrow> working_bits \<Rightarrow> bytes \<Rightarrow> working_bits" where
  "compress_bits constants st block =
     (case (st, foldl round_bits st (zip constants (expand_bits 48 (words_of_block block)))) of
        ((s0, s1, s2, s3, s4, s5, s6, s7), (a, b, c, d, e, f, g, h)) \<Rightarrow>
          (add_bits s0 a, add_bits s1 b, add_bits s2 c, add_bits s3 d,
           add_bits s4 e, add_bits s5 f, add_bits s6 g, add_bits s7 h))"

fun blocks_bits :: "bits list \<Rightarrow> nat \<Rightarrow> working_bits \<Rightarrow> bytes \<Rightarrow> working_bits" where
  "blocks_bits constants 0 st data = st"
| "blocks_bits constants (Suc n) st data =
     blocks_bits constants n (compress_bits constants st (take 64 data)) (drop 64 data)"

fun bytes_of_bits :: "bits \<Rightarrow> bytes" where
  "bytes_of_bits bs =
     [word_of_bits (take 8 (drop 24 bs)), word_of_bits (take 8 (drop 16 bs)),
      word_of_bits (take 8 (drop 8 bs)), word_of_bits (take 8 bs)]"

definition sha256_bits :: "bytes \<Rightarrow> Digest" where
  "sha256_bits data =
     (let padded = sha_padded data in
      case blocks_bits round_constant_bits (length padded div 64) initial_bits padded of
        (a, b, c, d, e, f, g, h) \<Rightarrow>
          Digest (concat (map bytes_of_bits [a, b, c, d, e, f, g, h])))"

section \<open>Correspondence of the operations\<close>

lemma bit_word_of_bits:
  "bit (word_of_bits bs :: 'a::len word) n \<longleftrightarrow> n < LENGTH('a) \<and> n < length bs \<and> bs ! n"
  by (simp add: word_of_bits_def bit_horner_sum_bit_word_iff)

lemma length_bits3 [simp]: "length (bits3 f a b c) = min (length a) (min (length b) (length c))"
  by (induction f a b c rule: bits3.induct) auto

lemma nth_bits3:
  "n < length a \<Longrightarrow> n < length b \<Longrightarrow> n < length c \<Longrightarrow>
     bits3 f a b c ! n = f (a ! n) (b ! n) (c ! n)"
  by (induction f a b c arbitrary: n rule: bits3.induct) (auto simp: nth_Cons')

lemma parity3_iff: "parity3 a b c \<longleftrightarrow> (a \<noteq> (b \<noteq> c))"
  by (cases a; cases b) auto

lemma majority3_iff: "majority3 a b c \<longleftrightarrow> (a \<and> b) \<noteq> ((a \<and> c) \<noteq> (b \<and> c))"
  by (cases a; cases b) auto

lemma choose3_iff: "choose3 a b c \<longleftrightarrow> (a \<and> b) \<noteq> (\<not> a \<and> c)"
  by (cases a) auto

lemma length_rot_acc [simp]: "length (rot_acc n bs acc) = length bs + length acc"
  by (induction n bs acc rule: rot_acc.induct) auto

lemma rot_acc_eq: "n \<le> length bs \<Longrightarrow> rot_acc n bs acc = drop n bs @ rev acc @ take n bs"
  by (induction n bs acc rule: rot_acc.induct) auto

lemma word_of_bits_xor3:
  assumes "length a = 32" "length b = 32" "length c = 32"
  shows "word_of_bits (bits3 parity3 a b c) = (word_of_bits a XOR word_of_bits b XOR word_of_bits c :: u32)"
  by (rule bit_word_eqI) (auto simp: bit_word_of_bits bit_simps nth_bits3 parity3_iff assms)

lemma word_of_bits_majority:
  assumes "length a = 32" "length b = 32" "length c = 32"
  shows "(word_of_bits (bits3 majority3 a b c) :: u32)
    = (word_of_bits a AND word_of_bits b) XOR (word_of_bits a AND word_of_bits c)
      XOR (word_of_bits b AND word_of_bits c)"
  by (rule bit_word_eqI) (auto simp: bit_word_of_bits bit_simps nth_bits3 majority3_iff assms)

lemma word_of_bits_choose:
  assumes "length a = 32" "length b = 32" "length c = 32"
  shows "(word_of_bits (bits3 choose3 a b c) :: u32)
    = (word_of_bits a AND word_of_bits b) XOR (NOT (word_of_bits a) AND word_of_bits c)"
  by (rule bit_word_eqI) (auto simp: bit_word_of_bits bit_simps nth_bits3 choose3_iff assms)

lemma word_of_bits_rot:
  assumes "length bs = 32" "n \<le> 32"
  shows "(word_of_bits (rot_bits bs n) :: u32) = rotr (word_of_bits bs) n"
  unfolding rotr_def using assms
  by (intro bit_word_eqI) (auto simp: bit_word_of_bits bit_simps rot_acc_eq nth_append add.commute)

lemma word_of_bits_shift:
  assumes "length bs = 32" "n \<le> 32"
  shows "(word_of_bits (shift_bits bs n) :: u32) = drop_bit n (word_of_bits bs)"
  using assms
  by (intro bit_word_eqI) (auto simp: bit_word_of_bits bit_simps shift_bits_def nth_append add.commute)

lemma length_shift_bits [simp]: "n \<le> length bs \<Longrightarrow> length (shift_bits bs n) = length bs"
  by (simp add: shift_bits_def)

lemma length_add_carry [simp]: "length (add_carry c a b) = min (length a) (length b)"
  by (induction c a b rule: add_carry.induct) auto

lemma add_carry_sum:
  assumes "length a = length b"
  shows "\<exists>q. horner_sum of_bool 2 a + horner_sum of_bool 2 b + of_bool c
     = horner_sum of_bool 2 (add_carry c a b) + 2 ^ length a * (q :: nat)"
  using assms
proof (induction c a b rule: add_carry.induct)
  case (1 c a as b bs)
  then obtain q :: nat where q: "horner_sum of_bool 2 as + horner_sum of_bool 2 bs + of_bool (majority3 a b c)
      = horner_sum of_bool 2 (add_carry (majority3 a b c) as bs) + 2 ^ length as * q"
    by auto
  have "of_bool a + of_bool b + of_bool c
      = of_bool (parity3 a b c) + 2 * (of_bool (majority3 a b c) :: nat)"
    by (cases a; cases b; cases c) simp_all
  with q show ?case
    by (intro exI [of _ q]) (simp add: algebra_simps)
qed auto

lemma word_of_bits_add:
  assumes "length a = 32" "length b = 32"
  shows "(word_of_bits (add_bits a b) :: u32) = word_of_bits a + word_of_bits b"
proof -
  have nat: "(word_of_bits bs :: u32) = of_nat (horner_sum of_bool 2 bs)" for bs
    by (induction bs) (simp_all add: word_of_bits_def)
  obtain q where "horner_sum of_bool 2 a + horner_sum of_bool 2 b
      = horner_sum of_bool 2 (add_bits a b) + 2 ^ 32 * (q :: nat)"
    using add_carry_sum [of a b False] assms by auto
  then have "(of_nat (horner_sum of_bool 2 a + horner_sum of_bool 2 b) :: u32)
      = of_nat (horner_sum of_bool 2 (add_bits a b) + 2 ^ 32 * q)"
    by simp
  moreover have "(of_nat (2 ^ 32 * q) :: u32) = 0"
  proof -
    have "(2 :: u32) ^ 32 = 0" by simp
    then show ?thesis by (simp only: of_nat_mult of_nat_power of_nat_numeral mult_zero_left)
  qed
  ultimately show ?thesis by (simp add: nat)
qed

section \<open>Correspondence of the hash\<close>

lemma length_16_E:
  assumes "length ws = 16"
  obtains w0 w1 w2 w3 w4 w5 w6 w7 w8 w9 w10 w11 w12 w13 w14 w15
  where "ws = [w0, w1, w2, w3, w4, w5, w6, w7, w8, w9, w10, w11, w12, w13, w14, w15]"
  using assms by (auto simp: length_Suc_conv eval_nat_numeral)

lemma length_window_bits:
  assumes "length ws = 16" "\<forall>w \<in> set ws. length w = 32"
  shows "length (window_bits ws) = 32"
  using assms by (elim length_16_E) simp

lemma length_bits_of_byte [simp]: "length (bits_of_byte b) = 8"
  by (simp add: bits_of_byte_def)

lemma nth_bits_of_byte: "n < 8 \<Longrightarrow> bits_of_byte b ! n = bit b n"
  by (simp add: bits_of_byte_def)

lemma word_of_block_bits:
  "(word_of_bits (bits_of_byte d @ bits_of_byte c @ bits_of_byte b @ bits_of_byte a) :: u32)
   = push_bit 24 (ucast a) OR push_bit 16 (ucast b) OR push_bit 8 (ucast c) OR ucast d"
  by (rule bit_word_eqI)
    (auto simp: bit_word_of_bits bit_simps nth_append nth_bits_of_byte not_less
      dest: bit_imp_le_length)

lemma be_words_bits: "be_words block = map word_of_bits (words_of_block block)"
  by (induction block rule: be_words.induct) (simp_all only: be_words.simps words_of_block.simps
      list.map word_of_block_bits)

lemma words_of_block_ok: "w \<in> set (words_of_block block) \<Longrightarrow> length w = 32"
  by (induction block rule: words_of_block.induct) auto

lemma length_words_of_block: "length (words_of_block block) = length block div 4"
  by (induction block rule: words_of_block.induct) auto

lemma schedule_step_window:
  assumes "length ws = 16" and "\<forall>w \<in> set ws. length w = 32"
  shows "schedule_step (pre @ map word_of_bits ws) = pre @ map word_of_bits (ws @ [window_bits ws])"
proof -
  obtain w0 w1 w2 w3 w4 w5 w6 w7 w8 w9 w10 w11 w12 w13 w14 w15 where
    ws: "ws = [w0, w1, w2, w3, w4, w5, w6, w7, w8, w9, w10, w11, w12, w13, w14, w15]"
    using assms(1) by (rule length_16_E)
  have "\<forall>w \<in> set ws. length w = 32" by (rule assms(2))
  then show ?thesis
    unfolding ws
    by (simp add: schedule_step_def Let_def nth_append word_of_bits_add word_of_bits_xor3
        word_of_bits_rot word_of_bits_shift)
qed

lemma schedule_expand:
  assumes "length ws = 16" and "\<forall>w \<in> set ws. length w = 32"
  shows "(schedule_step ^^ n) (pre @ map word_of_bits ws) = pre @ map word_of_bits (expand_bits n ws)
    \<and> (\<forall>w \<in> set (expand_bits n ws). length w = 32)"
  using assms
proof (induction n arbitrary: pre ws)
  case (Suc n)
  obtain w vs where ws: "ws = w # vs" using Suc.prems(1) by (cases ws) auto
  let ?next = "vs @ [window_bits ws]"
  have "length ?next = 16" and "\<forall>w \<in> set ?next. length w = 32"
    using Suc.prems ws length_window_bits [OF Suc.prems] by auto
  note ih = Suc.IH [OF this, of "pre @ [word_of_bits w]"]
  have "(schedule_step ^^ Suc n) (pre @ map word_of_bits ws)
      = (schedule_step ^^ n) (pre @ map word_of_bits (ws @ [window_bits ws]))"
    by (simp only: funpow_Suc_right comp_def schedule_step_window [OF Suc.prems])
  also have "\<dots> = (schedule_step ^^ n) ((pre @ [word_of_bits w]) @ map word_of_bits ?next)"
    by (simp add: ws)
  finally show ?case
    using ih Suc.prems(2) by (simp add: ws)
qed simp

definition working_of_bits :: "working_bits \<Rightarrow> working" where
  "working_of_bits st =
     (case st of (a, b, c, d, e, f, g, h) \<Rightarrow>
        (word_of_bits a, word_of_bits b, word_of_bits c, word_of_bits d,
         word_of_bits e, word_of_bits f, word_of_bits g, word_of_bits h))"

definition working_ok :: "working_bits \<Rightarrow> bool" where
  "working_ok st \<longleftrightarrow>
     (case st of (a, b, c, d, e, f, g, h) \<Rightarrow> \<forall>w \<in> set [a, b, c, d, e, f, g, h]. length w = 32)"

lemma round_bits_correct:
  assumes "working_ok st" "length k = 32" "length w = 32"
  shows "working_of_bits (round_bits st (k, w))
      = round_step (working_of_bits st) (word_of_bits k, word_of_bits w)"
    and "working_ok (round_bits st (k, w))"
proof -
  obtain a b c d e f g h where st: "st = (a, b, c, d, e, f, g, h)" by (cases st) auto
  show "working_of_bits (round_bits st (k, w))
      = round_step (working_of_bits st) (word_of_bits k, word_of_bits w)"
    using assms unfolding st
    by (simp add: working_of_bits_def working_ok_def Let_def word_of_bits_add word_of_bits_xor3
        word_of_bits_rot word_of_bits_majority word_of_bits_choose)
  show "working_ok (round_bits st (k, w))"
    using assms unfolding st by (simp add: working_ok_def Let_def)
qed

lemma rounds_bits_correct:
  assumes "working_ok st" "\<forall>k \<in> set ks. length k = 32" "\<forall>w \<in> set ws. length w = 32"
  shows "working_of_bits (foldl round_bits st (zip ks ws))
      = foldl round_step (working_of_bits st) (zip (map word_of_bits ks) (map word_of_bits ws))
    \<and> working_ok (foldl round_bits st (zip ks ws))"
  using assms
proof (induction ks arbitrary: ws st)
  case (Cons k ks)
  then show ?case
    by (cases ws) (auto simp: round_bits_correct simp del: round_bits.simps round_step.simps)
qed simp

lemma bits_of_word_correct [simp]: "word_of_bits (bits_of_word w) = w" "length (bits_of_word w) = 32"
proof -
  show "word_of_bits (bits_of_word w) = w"
    by (rule bit_word_eqI) (simp add: bit_word_of_bits bits_of_word_def)
qed (simp add: bits_of_word_def)

lemma round_constants_correct:
  "map word_of_bits round_constant_bits = kRoundConstants"
  "\<forall>k \<in> set round_constant_bits. length k = 32"
  by (simp_all add: round_constant_bits_def comp_def)

lemma initial_bits_correct:
  "working_of_bits initial_bits = sha_state sha_reset" "working_ok initial_bits"
  by (simp_all add: initial_bits_def sha_reset_def working_of_bits_def working_ok_def)

lemma compress_bits_correct:
  assumes "working_ok st" "length block = 64"
  shows "working_of_bits (compress_bits round_constant_bits st block) = compress (working_of_bits st) block"
    and "working_ok (compress_bits round_constant_bits st block)"
proof -
  let ?ws = "words_of_block block"
  have "length ?ws = 16" and "\<forall>w \<in> set ?ws. length w = 32"
    using assms(2) by (simp_all add: length_words_of_block words_of_block_ok)
  from schedule_expand [OF this, of 48 "[]"]
  have sched: "schedule block = map word_of_bits (expand_bits 48 ?ws)"
    and ok: "\<forall>w \<in> set (expand_bits 48 ?ws). length w = 32"
    by (simp_all add: schedule_def be_words_bits)
  let ?r = "foldl round_bits st (zip round_constant_bits (expand_bits 48 ?ws))"
  have r: "working_of_bits ?r = foldl round_step (working_of_bits st) (zip kRoundConstants (schedule block))"
    and r_ok: "working_ok ?r"
    using rounds_bits_correct [OF assms(1) round_constants_correct(2) ok]
    by (simp_all add: round_constants_correct sched)
  obtain s0 s1 s2 s3 s4 s5 s6 s7 where st: "st = (s0, s1, s2, s3, s4, s5, s6, s7)"
    by (cases st) auto
  obtain a b c d e f g h where rr: "?r = (a, b, c, d, e, f, g, h)" by (cases ?r) auto
  show "working_of_bits (compress_bits round_constant_bits st block) = compress (working_of_bits st) block"
    using assms(1) r_ok unfolding compress_bits_def compress_def r [symmetric] rr
    by (simp add: st working_of_bits_def working_ok_def word_of_bits_add)
  show "working_ok (compress_bits round_constant_bits st block)"
    using assms(1) r_ok unfolding compress_bits_def rr by (simp add: st working_ok_def)
qed

lemma blocks_bits_correct:
  assumes "working_ok st" "length data = 64 * n"
  shows "working_of_bits (blocks_bits round_constant_bits n st data)
      = fst (absorb (working_of_bits st) data)
    \<and> working_ok (blocks_bits round_constant_bits n st data)"
  using assms
proof (induction n arbitrary: st data)
  case 0
  then show ?case by (simp add: absorb_short)
next
  case (Suc n)
  then have "length (take 64 data) = 64" by simp
  with Suc show ?case
    by (subst absorb.simps) (simp add: compress_bits_correct)
qed

lemma length_sha_padded: "length (sha_padded data) mod 64 = 0"
proof -
  define r where "r = length data mod 64"
  have len: "length (sha_padded data) = length data + (1 + (119 - r) mod 64 + 8)"
    by (simp add: sha_padded_def r_def)
  have "(r + (1 + (119 - r) mod 64 + 8)) mod 64 = 0"
  proof (cases "r < 56")
    case True
    then have "119 - r = 64 + (55 - r)" by simp
    then have "(119 - r) mod 64 = 55 - r" by (simp only: mod_add_self1) simp
    with True show ?thesis by simp
  next
    case False
    moreover have "r < 64" by (simp add: r_def)
    ultimately have "(119 - r) mod 64 = 119 - r" by simp
    with \<open>r < 64\<close> show ?thesis by simp
  qed
  then show ?thesis unfolding len r_def by (simp only: mod_add_left_eq)
qed

lemma bytes_of_bits_correct:
  assumes "length bs = 32"
  shows "bytes_of_bits bs = be_bytes32 (word_of_bits bs)"
proof -
  have "(word_of_bits (take 8 (drop n bs)) :: u8) = ucast (drop_bit n (word_of_bits bs :: u32))"
    if "n \<le> 24" for n
    using assms that by (intro bit_word_eqI) (auto simp: bit_word_of_bits bit_simps)
  from this [of 0] this [of 8] this [of 16] this [of 24] show ?thesis
    by (simp add: ucast_and_255)
qed

theorem sha256_bits_correct [code]: "sha256 data = sha256_bits data"
proof -
  let ?p = "sha_padded data"
  let ?b = "blocks_bits round_constant_bits (length ?p div 64) initial_bits ?p"
  have "length ?p = 64 * (length ?p div 64)" using length_sha_padded [of data] by auto
  from blocks_bits_correct [OF initial_bits_correct(2) this]
  have st: "working_of_bits ?b = fst (absorb (sha_state sha_reset) ?p)" and ok: "working_ok ?b"
    by (simp_all add: initial_bits_correct)
  obtain a b c d e f g h where bb: "?b = (a, b, c, d, e, f, g, h)" by (cases ?b) auto
  have "sha256 data = from_raw (output_bytes (working_of_bits ?b))"
    by (simp only: sha256_padded st)
  also have "\<dots> = Digest (output_bytes (working_of_bits ?b))"
    by (simp add: from_raw_def length_output_bytes kSha256DigestSize_def)
  also have "\<dots> = sha256_bits data"
    using ok unfolding sha256_bits_def Let_def bb
    by (simp add: working_of_bits_def working_ok_def output_bytes_def bytes_of_bits_correct
        del: be_bytes32.simps bytes_of_bits.simps)
  finally show ?thesis .
qed

section \<open>Published test vectors\<close>

lemma sha256_abc:
  "digest_to_string (sha256 (string_bytes ''abc''))
   = ''ba7816bf8f01cfea414140de5dae2223b00361a396177a9cb410ff61f20015ad''"
  by code_simp

text \<open>
  Hashing a message in any number of pieces gives the digest of the whole message.
\<close>

theorem sha256_streaming:
  "sha_finish (fold (\<lambda>piece s. sha_update s piece) pieces sha_reset) = sha256 (concat pieces)"
proof -
  have "sha_update sha_reset [] = sha_reset"
    using sha_update_absorb [OF sha_wf_reset, of "[]"] by (simp add: absorb.simps sha_reset_def)
  moreover have "fold (\<lambda>piece s. sha_update s piece) pieces (sha_update sha_reset start) = sha_update sha_reset (start @ concat pieces)"
    for start by (induction pieces arbitrary: start) (simp_all add: sha_update_append sha_wf_reset)
  from this [of "[]"] show ?thesis using calculation by (simp add: sha256_def)
qed

end
