(* ===== verification/Scenario.thy ===== *)
theory Scenario
  imports Commit Sha256_Bits
begin

text \<open>
  A small coordinator on which the properties are exercised: one approved library with one passing
  build record, a rule from \<open>APPROVED\<close> to \<open>PROMOTED\<close>, and the plan and the reservation an
  evaluation at time 1000 issues.
\<close>

definition demo_digest :: Digest where
  "demo_digest = Digest (replicate 32 7)"

definition demo_authority :: CoordinatorAuthority where
  "demo_authority = \<lparr> ca_coordinator = Identity 9 1, ca_epoch = Counter 3 \<rparr>"

definition demo_producer :: ProducerIncarnation where
  "demo_producer = \<lparr> pi_worker = Identity 5 1, pi_boot = Identity 5 2 \<rparr>"

definition demo_artifact :: ArtifactRecord where
  "demo_artifact = \<lparr> ar_id = Identity 1 1, ar_revision = Identity 2 1, ar_generation = Counter 1,
     ar_kind = AK_Library, ar_digest = demo_digest, ar_size_bytes = 64, ar_name = ''libdemo'',
     ar_producer = demo_producer, ar_created_sequence = Counter 1, ar_created_unix_millis = 500,
     ar_provenance = [], ar_dependencies = [], ar_stage = St_Approved, ar_stage_generation = Counter 4,
     ar_promoted = False, ar_promotion_decision = null_id, ar_promotion_authority = null_id,
     ar_promotion_sequence = Counter 0, ar_last_sequence = Counter 1, ar_quarantine = no_quarantine,
     ar_revocation = no_revocation, ar_supersession = no_supersession \<rparr>"

definition demo_evidence :: EvidenceRecord where
  "demo_evidence = \<lparr> ev_id = Identity 3 1, ev_type = ET_BuildPass, ev_generation = Counter 1,
     ev_custom_type = [], ev_subject = Identity 1 1, ev_subject_digest = demo_digest,
     ev_subject_revision = Identity 2 1, ev_producer = demo_producer, ev_result = ER_Pass,
     ev_confidence_milli = 1000, ev_measurement = [], ev_detail = [], ev_payload_digest = demo_digest,
     ev_integrity_digest = demo_digest, ev_provenance = null_id, ev_created_sequence = Counter 2,
     ev_produced_unix_millis = 900, ev_has_validity_window = False, ev_valid_from_unix_millis = 0,
     ev_valid_until_unix_millis = 0, ev_environment = [], ev_revoked = False,
     ev_revocation_reason = [], ev_revocation_authority = null_id, ev_revocation_sequence = Counter 0,
     ev_superseded = False, ev_superseded_by = null_id \<rparr>"

definition demo_gates :: "Gate list" where
  "demo_gates =
     [empty_gate \<lparr> gt_kind := GK_ArtifactNotQuarantined, gt_label := ''not-quarantined'' \<rparr>,
      empty_gate \<lparr> gt_kind := GK_EvidenceRequired, gt_evidence_type := ET_BuildPass, gt_label := ''build'' \<rparr>,
      empty_gate \<lparr> gt_kind := GK_EvidenceFreshness, gt_evidence_type := ET_BuildPass,
        gt_max_age_millis := 5000, gt_label := ''fresh'' \<rparr>,
      empty_gate \<lparr> gt_kind := GK_SecurityVetoClear, gt_label := ''veto'' \<rparr>,
      empty_gate \<lparr> gt_kind := GK_CoordinatorEpochCurrent, gt_label := ''epoch'' \<rparr>]"

definition demo_rule :: PolicyRule where
  "demo_rule = empty_rule \<lparr> ru_from := St_Approved, ru_to := St_Promoted, ru_requirements := demo_gates \<rparr>"

definition demo_policy :: PromotionPolicy where
  "demo_policy = empty_policy \<lparr> po_id := Identity 6 1, po_generation := Counter 2,
     po_graph := LifecycleGraph [Edge St_Approved St_Promoted, Edge St_Approved St_Quarantined],
     po_rules := [demo_rule], po_policy_digest := demo_digest \<rparr>"

text \<open>The state before the evaluation.\<close>

definition demo_state :: CoordinatorState where
  "demo_state = (set_active_policy demo_policy empty_state)
     \<lparr> coordinator := Identity 9 1, epoch := Counter 3, commit_sequence := Counter 2,
       artifacts := [(Identity 1 1, [demo_artifact])], evidence := [(Identity 3 1, demo_evidence)],
       plan_generator := gen_new 21, decision_generator := gen_new 22,
       reservation_generator := gen_new 23, transition_generator := gen_new 24 \<rparr>"

definition demo_engine :: engine where
  "demo_engine = \<lparr> config = config_defaults, state = demo_state, admission_open = True,
     persist_epoch = 0, persist_clean_epoch = 0, listener = False, notified = [] \<rparr>"

definition demo_request :: PromotionRequest where
  "demo_request = \<lparr> rq_artifact = Identity 1 1, rq_expected_revision = Identity 2 1,
     rq_expected_digest = demo_digest, rq_requested_stage = St_Promoted, rq_request = Identity 7 1,
     rq_attempt = Identity 8 1, rq_authority = demo_authority, rq_requester = demo_producer \<rparr>"

lemma demo_digest_valid: "digest_valid demo_digest"
  by code_simp

lemma demo_state_fields:
  "decisions demo_state = []" "idempotency demo_state = []" "vetoes demo_state = []"
  "records demo_state = []" "pending demo_state = []"
  by (simp_all add: demo_state_def empty_state_def set_active_policy_def)

lemmas demo_defs = demo_digest_def demo_authority_def demo_producer_def demo_artifact_def
  demo_evidence_def demo_gates_def demo_rule_def demo_policy_def demo_state_def demo_engine_def
  demo_request_def

lemma demo_lookup:
  "find_revision demo_state (Identity 1 1) (Identity 2 1) = Some demo_artifact"
  "find_rule demo_policy AK_Library St_Approved St_Promoted = Some demo_rule"
  "gathered demo_state demo_artifact = [demo_evidence]"
  by (simp_all add: demo_defs find_revision_def find_rule_def rule_matches_def gather_evidence_def sort_by_def
      empty_rule_def set_active_policy_def empty_state_def)

lemma demo_gates_pass:
  assumes "vetoes st = []" "coordinator st = Identity 9 1" "epoch st = Counter 3"
    "evidence st = [(Identity 3 1, demo_evidence)]" "rq_authority req = demo_authority" "now = 1000 \<or> now = 2000"
  shows "all_gates_pass config_defaults st req now formed demo_artifact demo_rule"
proof -
  have ev: "gathered st demo_artifact = [demo_evidence]"
    using assms by (simp add: gather_evidence_def demo_defs sort_by_def)
  have sel: "select_evidence_for_gate [demo_evidence] g demo_digest (Identity 2 1) = (EC_Ok, [], Some demo_evidence)"
    if "gt_evidence_type g = ET_BuildPass" for g
    using that by (simp add: select_evidence_for_gate_def select_step_def empty_selection_def gate_targets_def
        keep_newest_def demo_evidence_def)
  have res: "resolve_gate_evidence [demo_evidence] demo_artifact g = (EC_Ok, [], Some demo_evidence)"
    if "gt_evidence_type g = ET_BuildPass" for g
    using that sel [OF that]
    by (simp add: resolve_gate_evidence_def is_valid_evidence_type_def demo_artifact_def)
      (simp add: demo_evidence_def)
  have fresh: "freshness_code config_defaults now g demo_evidence = None" if "gt_max_age_millis g = 5000" for g
    using that assms(6) by (auto simp: freshness_code_def config_defaults_def demo_evidence_def Let_def)
  show ?thesis
    unfolding all_gates_pass_def ev
    using assms res fresh
    by (simp add: demo_rule_def demo_gates_def gate_passes_def eval_gate_def empty_gate_def satisfied_def
        not_quarantined_gate_def security_veto_gate_def coordinator_epoch_gate_def evidence_gate_def)
      (simp add: demo_defs no_quarantine_def)
qed

lemma demo_graph_digest: "digest_valid (graph_digest (po_graph demo_policy))"
  by code_simp

lemma demo_snapshot_digest: "digest_valid (current_snapshot demo_state demo_artifact)"
  by code_simp

definition demo_plan :: PromotionPlan where
  "demo_plan = \<lparr> pl_id = Identity 21 1, pl_request = Identity 7 1, pl_attempt = Identity 8 1,
     pl_decision = Identity 22 1, pl_artifact = Identity 1 1, pl_artifact_revision = Identity 2 1,
     pl_artifact_generation = Counter 1, pl_artifact_digest = demo_digest,
     pl_artifact_kind = AK_Library, pl_from = St_Approved, pl_to = St_Promoted,
     pl_stage_generation = Counter 4, pl_policy = Identity 6 1, pl_policy_generation = Counter 2,
     pl_policy_digest = demo_digest, pl_lifecycle_digest = graph_digest (po_graph demo_policy),
     pl_authority = demo_authority,
     pl_evidence_snapshot_digest = current_snapshot demo_state demo_artifact,
     pl_evidence_entry_count = 1, pl_compatibility_profile = null_id,
     pl_compatibility_generation = Counter 1, pl_artifact_sequence = Counter 1,
     pl_created_sequence = Counter 3, pl_decision_sequence = Counter 1, pl_has_expiry = True,
     pl_expires_unix_millis = 61000 \<rparr>"

definition demo_reservation :: PendingTransition where
  "demo_reservation = \<lparr> pt_id = Identity 23 1, pt_artifact = Identity 1 1,
     pt_artifact_revision = Identity 2 1, pt_artifact_generation = Counter 1,
     pt_stage_generation = Counter 4, pt_from = St_Approved, pt_to = St_Promoted,
     pt_plan = Identity 21 1, pt_request = Identity 7 1, pt_attempt = Identity 8 1,
     pt_authority = demo_authority, pt_created_sequence = Counter 3, pt_created_unix_millis = 1000 \<rparr>"

text \<open>The engine after the evaluation.\<close>

definition demo_reserved :: engine where
  "demo_reserved = snd (evaluate 1000 demo_request demo_engine)"

lemma demo_issue:
  assumes "lifecycle st = lifecycle demo_state" "pending st = []" "plans st = []"
    "plan_generator st = gen_new 21" "reservation_generator st = gen_new 23"
    "commit_sequence st = Counter 2" "active_policy st = Identity 6 1"
    "active_policy_generation st = Counter 2" "active_policy_digest st = demo_digest"
    "coordinator st = Identity 9 1" "epoch st = Counter 3" "compatibility_profile st = null_id"
    "compatibility_generation st = Counter 1" "de_id d = Identity 22 1" "de_sequence d = Counter 1"
    "de_evidence_snapshot_digest d = current_snapshot demo_state demo_artifact"
  shows "issue_plan config_defaults 1000 demo_request demo_artifact d 1 st = (d \<lparr> de_plan := Identity 21 1 \<rparr>, Some demo_plan,
    st \<lparr> commit_sequence := Counter 3, plan_generator := IdentityGenerator 21 1,
      reservation_generator := IdentityGenerator 23 1,
      pending := [(Identity 1 1, demo_reservation)], plans := [(Identity 21 1, demo_plan)] \<rparr>)"
  using assms
  by (simp add: issue_plan_def make_plan_def make_reservation_def next_sequence_eq Let_def lifecycle_def
      gen_next_def gen_new_def demo_plan_def demo_reservation_def authority_of_def config_defaults_def
      counter_next_def demo_state_def demo_request_def demo_artifact_def demo_authority_def
      set_active_policy_def empty_state_def)

lemma demo_open:
  "open_decision demo_request demo_state =
     ((make_base_decision demo_state demo_request) \<lparr> de_id := Identity 22 1, de_sequence := Counter 1 \<rparr>,
      demo_state \<lparr> decision_generator := IdentityGenerator 22 1, decision_sequence := Counter 1 \<rparr>)"
  by (simp add: open_decision_def next_decision_sequence_eq gen_next_def gen_new_def demo_state_def
      counter_next_def empty_state_def set_active_policy_def Let_def)

lemma demo_decide:
  fixes d :: PromotionDecision
  assumes "de_id d = Identity 22 1" "de_sequence d = Counter 1"
  defines "st \<equiv> demo_state \<lparr> decision_generator := IdentityGenerator 22 1, decision_sequence := Counter 1 \<rparr>"
  shows "\<exists>d'. decide config_defaults 1000 demo_request demo_artifact d st = (d', Some demo_plan,
    st \<lparr> commit_sequence := Counter 3, plan_generator := IdentityGenerator 21 1,
      reservation_generator := IdentityGenerator 23 1,
      pending := [(Identity 1 1, demo_reservation)], plans := [(Identity 21 1, demo_plan)] \<rparr>)
    \<and> de_id d' = Identity 22 1"
proof -
  have fr: "find_revision st (rq_artifact demo_request) (rq_expected_revision demo_request) = Some demo_artifact"
    using demo_lookup(1) by (simp add: st_def find_revision_def demo_request_def)
  have ru: "find_rule (active_policy_body st) (ar_kind demo_artifact) (ar_stage demo_artifact)
      (rq_requested_stage demo_request) = Some demo_rule"
    using demo_lookup(2) by (simp add: st_def demo_state_def set_active_policy_def demo_artifact_def demo_request_def)
  have gathered: "gathered st demo_artifact = [demo_evidence]"
    using demo_lookup(3) by (simp add: st_def gather_evidence_def)
  have pass: "all_gates_pass config_defaults st demo_request 1000 (de_policy_generation d) demo_artifact demo_rule"
    by (intro demo_gates_pass) (simp_all add: st_def demo_state_def demo_request_def empty_state_def set_active_policy_def)
  obtain out d1 where run: "run_gates config_defaults st demo_request 1000 d demo_artifact demo_rule = (out, d1)"
    by fastforce
  with pass run_gates_failed [where cfg = config_defaults and st = st and req = demo_request and now = 1000
        and d = d and art = demo_artifact and rule = demo_rule]
  have ok: "\<not> go_failed out" by simp
  have bind: "same_binding (bind_snapshot demo_artifact (snapshot_entries [demo_evidence]) (bind_artifact demo_artifact demo_request d)) d1"
    using gate_loop_binding [where cfg = config_defaults and st = st and req = demo_request and now = 1000
        and art = demo_artifact and evs = "gathered st demo_artifact" and gates = "ru_requirements demo_rule"
        and first = True and result = initial_outcome] run gathered by (metis snd_conv)
  have ids: "de_id d1 = Identity 22 1" "de_sequence d1 = Counter 1"
      "de_evidence_snapshot_digest d1 = current_snapshot demo_state demo_artifact"
    using same_bindingD [OF bind] assms(1,2)
    by (simp_all add: bind_snapshot_def bind_artifact_def current_snapshot_def demo_lookup)
  have entries: "length (snapshot_entries [demo_evidence]) = 1"
    by (simp add: snapshot_entries_def demo_evidence_def)
  have iss: "issue_plan config_defaults 1000 demo_request demo_artifact (d1 \<lparr> de_outcome := go_outcome out \<rparr>) 1 st
      = ((d1 \<lparr> de_outcome := go_outcome out \<rparr>) \<lparr> de_plan := Identity 21 1 \<rparr>, Some demo_plan,
         st \<lparr> commit_sequence := Counter 3, plan_generator := IdentityGenerator 21 1,
           reservation_generator := IdentityGenerator 23 1,
           pending := [(Identity 1 1, demo_reservation)], plans := [(Identity 21 1, demo_plan)] \<rparr>)"
    by (rule demo_issue) (simp_all add: ids st_def lifecycle_def demo_state_def set_active_policy_def
        empty_state_def demo_policy_def empty_policy_def)
  have guards: "ar_stage demo_artifact \<noteq> rq_requested_stage demo_request"
      "stage_is_reachable (active_policy_body st) (ar_kind demo_artifact) (ar_stage demo_artifact) (rq_requested_stage demo_request)"
      "\<not> reservation_conflict demo_request st"
    using ru by (simp_all add: stage_is_reachable_def reservation_conflict_def st_def demo_state_def
        demo_artifact_def demo_request_def set_active_policy_def empty_state_def)
  have "decide config_defaults 1000 demo_request demo_artifact d st
      = issue_plan config_defaults 1000 demo_request demo_artifact (d1 \<lparr> de_outcome := go_outcome out \<rparr>) 1 st"
    unfolding decide_def using guards evaluate_gates_rule [OF fr ru, of config_defaults 1000 d] run ok entries gathered
    by simp
  with iss ids show ?thesis by simp
qed

lemma demo_evaluate_registered:
  "\<exists>d i h. evaluate_registered config_defaults 1000 demo_request demo_artifact demo_state
     = (\<lparr> er_decision = d, er_plan = Some demo_plan \<rparr>,
        demo_state \<lparr> decision_generator := IdentityGenerator 22 1, decision_sequence := Counter 1,
          plan_generator := IdentityGenerator 21 1, reservation_generator := IdentityGenerator 23 1,
          pending := [(Identity 1 1, demo_reservation)], plans := [(Identity 21 1, demo_plan)],
          decisions := [(Identity 22 1, d)], idempotency := i, commit_sequence := Counter 4, history := h \<rparr>)
     \<and> de_id d = Identity 22 1"
proof -
  let ?d = "((make_base_decision demo_state demo_request) \<lparr> de_id := Identity 22 1, de_sequence := Counter 1 \<rparr>)
    \<lparr> de_artifact_generation := ar_generation demo_artifact, de_artifact_kind := ar_kind demo_artifact,
      de_from := ar_stage demo_artifact, de_decided_unix_millis := Some 1000 \<rparr>"
  have "de_id ?d = Identity 22 1" "de_sequence ?d = Counter 1" by simp_all
  from demo_decide [OF this] show ?thesis
    by (auto simp: evaluate_registered_def demo_open Let_def next_sequence_eq store_decision_def
        push_event_def counter_next_def demo_state_fields)
      (rule exI, rule exI, rule refl)
qed

lemma demo_evaluate:
  "\<exists>d i h. evaluate 1000 demo_request demo_engine = (Inr \<lparr> er_decision = d, er_plan = Some demo_plan \<rparr>,
     demo_engine \<lparr> persist_epoch := 1,
       state := demo_state \<lparr> decision_generator := IdentityGenerator 22 1, decision_sequence := Counter 1,
          plan_generator := IdentityGenerator 21 1, reservation_generator := IdentityGenerator 23 1,
          pending := [(Identity 1 1, demo_reservation)], plans := [(Identity 21 1, demo_plan)],
          decisions := [(Identity 22 1, d)], idempotency := i, commit_sequence := Counter 4, history := h \<rparr> \<rparr>)
     \<and> de_id d = Identity 22 1"
proof -
  have fields: "state demo_engine = demo_state" "config demo_engine = config_defaults" "admission_open demo_engine"
      "idempotency demo_state = []"
    by (simp_all add: demo_engine_def demo_state_def empty_state_def set_active_policy_def)
  have req: "request_is_well_formed demo_request" "rq_artifact demo_request = Identity 1 1"
      "rq_expected_revision demo_request = Identity 2 1" "rq_expected_digest demo_request = ar_digest demo_artifact"
    by (simp_all add: request_is_well_formed_def demo_request_def id_valid_def demo_digest_valid
        is_valid_stage_value_def kStageMin_def kStageMax_def authority_valid_def demo_authority_def
        counter_valid_def demo_artifact_def)
  have first: "\<not> request_reused demo_request demo_state" "replayed_decision demo_request demo_state = None"
    by (simp_all add: request_reused_def replayed_decision_def fields)
  obtain d i h where er: "evaluate_registered config_defaults 1000 demo_request demo_artifact demo_state
     = (\<lparr> er_decision = d, er_plan = Some demo_plan \<rparr>,
        demo_state \<lparr> decision_generator := IdentityGenerator 22 1, decision_sequence := Counter 1,
          plan_generator := IdentityGenerator 21 1, reservation_generator := IdentityGenerator 23 1,
          pending := [(Identity 1 1, demo_reservation)], plans := [(Identity 21 1, demo_plan)],
          decisions := [(Identity 22 1, d)], idempotency := i, commit_sequence := Counter 4, history := h \<rparr>)" "de_id d = Identity 22 1"
    using demo_evaluate_registered by blast
  have notified: "notify_change ((touch demo_engine) \<lparr> state := st \<rparr>) = demo_engine \<lparr> persist_epoch := 1, state := st \<rparr>" for st
    by (simp add: notify_change_def touch_def demo_engine_def)
  show ?thesis
    unfolding evaluate_def fields Let_def
    using er fields req first demo_lookup(1) notified by auto
qed

lemma demo_reserved_simps:
  "config demo_reserved = config_defaults" "admission_open demo_reserved"
  "artifacts (state demo_reserved) = artifacts demo_state" "evidence (state demo_reserved) = evidence demo_state"
  "vetoes (state demo_reserved) = []" "records (state demo_reserved) = []"
  "pending (state demo_reserved) = [(Identity 1 1, demo_reservation)]"
  "plans (state demo_reserved) = [(Identity 21 1, demo_plan)]"
  "active_policy_body (state demo_reserved) = demo_policy"
  "active_policy_generation (state demo_reserved) = Counter 2"
  "coordinator (state demo_reserved) = Identity 9 1" "epoch (state demo_reserved) = Counter 3"
  "commit_sequence (state demo_reserved) = Counter 4" "listener demo_reserved = False"
  using demo_evaluate
  by (auto simp: demo_reserved_def demo_engine_def demo_state_def set_active_policy_def empty_state_def
      demo_policy_def)

lemma demo_authorised: "commit_authorised config_defaults 2000 demo_plan (state demo_reserved)"
proof -
  let ?st = "state demo_reserved"
  have "find_revision ?st (Identity 1 1) (Identity 2 1) = Some demo_artifact"
    using demo_lookup(1) by (simp add: find_revision_def demo_reserved_simps)
  moreover have "all_gates_pass config_defaults ?st (plan_request demo_plan) 2000 formed demo_artifact demo_rule" for formed
    by (intro demo_gates_pass) (simp_all add: demo_reserved_simps plan_request_def demo_plan_def demo_state_def)
  moreover have "current_snapshot ?st demo_artifact = current_snapshot demo_state demo_artifact"
    by (simp add: current_snapshot_def gather_evidence_def demo_reserved_simps)
  moreover have "find_rule demo_policy (ar_kind demo_artifact) (ar_stage demo_artifact) St_Promoted = Some demo_rule"
    using demo_lookup(2) by (simp add: demo_artifact_def)
  ultimately show ?thesis
    unfolding commit_authorised_def
    by (simp add: policy_changed_def lifecycle_changed_def plan_expired_def reservation_held_def
        demo_reserved_simps demo_plan_def)
      (simp add: demo_reservation_def demo_policy_def demo_artifact_def)
qed

lemma demo_plan_valid: "plan_valid demo_plan"
  using demo_graph_digest demo_snapshot_digest
  by (simp add: plan_valid_def demo_plan_def id_valid_def counter_valid_def demo_digest_valid
      authority_valid_def demo_authority_def)

lemma demo_plan_stored: "om_find (plans (state demo_reserved)) (pl_id demo_plan) = Some demo_plan"
  by (simp add: demo_reserved_simps demo_plan_def)

lemma demo_commit:
  obtains r e' where "commit 2000 demo_plan demo_reserved = (Inr r, e')" "cr_outcome r = PO_PromotionCommitted"
  using commit_state_eq [of demo_reserved demo_plan 2000] demo_plan_valid demo_authorised demo_plan_stored
    commit_plan_committed [of config_defaults 2000 demo_plan "state demo_reserved"]
  by (auto simp: demo_reserved_simps)

end
