(* ===== verification/Promotion_Safety.thy ===== *)
theory Promotion_Safety
  imports Scenario
begin

text \<open>
  The guarantees of transactional promotion: what an eligible decision rests on, when a commit
  succeeds and what it changes, what a refused operation leaves alone, idempotent replay, and the
  fencing of plans by restarts, policy publication, quarantine and evidence revocation.
\<close>

section \<open>Eligibility\<close>

text \<open>
  C10: Gate evaluation finds a request eligible exactly when the named revision is registered, a rule
  of the active policy governs the transition, and every mandatory gate of the rule passes.
\<close>

theorem eligible_iff_gates_pass:
  "go_outcome (fst (evaluate_gates cfg st req now d)) = PO_PromotionEligible \<longleftrightarrow>
     (\<exists>art rule. find_revision st (rq_artifact req) (rq_expected_revision req) = Some art
        \<and> find_rule (active_policy_body st) (ar_kind art) (ar_stage art) (rq_requested_stage req) = Some rule
        \<and> list_all (gate_passes cfg st req now (de_policy_generation d) art
               (gather_evidence st (ar_id art) (ar_revision art))) (ru_requirements rule))"
  by (simp add: evaluate_gates_eligible all_gates_pass_def list_all_iff)

lemma find_revision_sound:
  "find_revision st i v = Some art \<Longrightarrow> ar_revision art = v"
  by (auto simp: find_revision_def find_Some_iff split: option.splits)

text \<open>The gates that need an evidence record of their class, and the record that backs one: the newest live record of
  the class for exactly this revision and digest, which passed.\<close>

definition needs_evidence :: "Gate \<Rightarrow> bool" where
  "needs_evidence g \<longleftrightarrow>
     gt_kind g \<in> {GK_EvidenceRequired, GK_EvidenceFreshness, GK_EnvironmentBinding, GK_ApprovalRequired}"

definition backs :: "ArtifactRecord \<Rightarrow> EvidenceRecord list \<Rightarrow> Gate \<Rightarrow> EvidenceRecord \<Rightarrow> bool" where
  "backs art evs g ev \<longleftrightarrow>
     ev \<in> set evs \<and> applicable g (ar_digest art) (ar_revision art) ev \<and> ev_result ev = ER_Pass
     \<and> list_all (\<lambda>other. applicable g (ar_digest art) (ar_revision art) other
          \<longrightarrow> ev_created_sequence other \<le> ev_created_sequence ev) evs"

lemma resolved_backs:
  assumes "resolve_gate_evidence evs art g = (EC_Ok, detail, r)"
  obtains ev where "r = Some ev" "backs art evs g ev"
  using resolve_ok [OF assms] by (auto simp: backs_def list_all_iff)

lemma evidence_gate_backed:
  assumes "evidence_gate cfg now evs art g = (EC_Ok, detail, r)"
  obtains ev where "backs art evs g ev"
    "gt_kind g = GK_EvidenceFreshness \<longrightarrow> freshness_code cfg now g ev = None"
    "ev_has_validity_window ev \<longrightarrow> ev_valid_from_unix_millis ev \<le> now \<and> now \<le> ev_valid_until_unix_millis ev"
proof -
  obtain code d r' where res: "resolve_gate_evidence evs art g = (code, d, r')"
    by (cases "resolve_gate_evidence evs art g") auto
  with assms have "code = EC_Ok" by (auto simp: evidence_gate_def split: if_splits)
  with res obtain ev where ev: "r' = Some ev" "backs art evs g ev" using resolved_backs by metis
  moreover have "freshness_code cfg now g ev \<noteq> Some (EC_Ok, t)" for t by (simp add: freshness_code_def Let_def)
  ultimately show ?thesis
    using assms res \<open>code = EC_Ok\<close> that
    by (auto simp: evidence_gate_def not_less split: if_splits option.splits)
qed

text \<open>What the kind of the gate asks of the record beyond that.\<close>

definition suits :: "EngineConfig \<Rightarrow> u64 \<Rightarrow> Gate \<Rightarrow> EvidenceRecord \<Rightarrow> bool" where
  "suits cfg now g ev \<longleftrightarrow>
     (gt_kind g = GK_EvidenceFreshness \<longrightarrow> freshness_code cfg now g ev = None)
     \<and> (gt_kind g \<in> {GK_EvidenceRequired, GK_EvidenceFreshness} \<and> ev_has_validity_window ev \<longrightarrow>
          ev_valid_from_unix_millis ev \<le> now \<and> now \<le> ev_valid_until_unix_millis ev)
     \<and> (gt_kind g = GK_EnvironmentBinding \<longrightarrow> ev_environment ev = gt_required_environment g)"

lemma passed_gate_backed:
  assumes "gate_passes cfg st req now formed art evs g" "needs_evidence g"
  obtains ev where "backs art evs g ev" "suits cfg now g ev"
proof -
  obtain code d r where res: "resolve_gate_evidence evs art g = (code, d, r)"
    by (cases "resolve_gate_evidence evs art g") auto
  consider (plain) detail r' where "gt_kind g \<in> {GK_EvidenceRequired, GK_EvidenceFreshness}"
      "evidence_gate cfg now evs art g = (EC_Ok, detail, r')"
    | (environment) detail r' where "gt_kind g = GK_EnvironmentBinding" "environment_gate evs art g = (EC_Ok, detail, r')"
    | (approval) detail r' where "gt_kind g = GK_ApprovalRequired" "approval_gate evs art g = (EC_Ok, detail, r')"
    using assms by (auto simp: gate_passes_def needs_evidence_def eval_gate_def)
  then show ?thesis
  proof cases
    case plain
    from plain(2) obtain ev where "backs art evs g ev"
      "gt_kind g = GK_EvidenceFreshness \<longrightarrow> freshness_code cfg now g ev = None"
      "ev_has_validity_window ev \<longrightarrow> ev_valid_from_unix_millis ev \<le> now \<and> now \<le> ev_valid_until_unix_millis ev"
      by (rule evidence_gate_backed)
    with plain(1) that show ?thesis by (auto simp: suits_def)
  next
    case environment
    with res have "code = EC_Ok" by (auto simp: environment_gate_def split: if_splits)
    with res obtain ev where "r = Some ev" "backs art evs g ev" using resolved_backs by metis
    with environment res \<open>code = EC_Ok\<close> that show ?thesis by (auto simp: environment_gate_def suits_def split: if_splits)
  next
    case approval
    with res have "code = EC_Ok" by (auto simp: approval_gate_def split: if_splits)
    with res obtain ev where "r = Some ev" "backs art evs g ev" using resolved_backs by metis
    with approval that show ?thesis by (auto simp: suits_def)
  qed
qed

text \<open>
  C5: When a request is eligible, every gate of the governing rule that needs evidence (required evidence, freshness,
  environment binding, approval) is backed by a stored record of the gate's class that names exactly this artifact,
  revision and content digest, is the newest such record that is neither revoked nor superseded, and passed.  For required
  evidence and freshness the instant lies in the record's validity window, for freshness its age is accepted, for an
  environment binding it comes from the required environment.  An integrity gate passes only when every live record of
  the revision carries its computed digest.
\<close>

theorem eligible_has_exact_evidence:
  assumes "go_outcome (fst (evaluate_gates cfg st req now d)) = PO_PromotionEligible"
    and "find_revision st (rq_artifact req) (rq_expected_revision req) = Some art"
    and "find_rule (active_policy_body st) (ar_kind art) (ar_stage art) (rq_requested_stage req) = Some rule"
    and "g \<in> set (ru_requirements rule)"
  shows "(needs_evidence g \<longrightarrow> (\<exists>ev \<in> snd ` set (evidence st).
      gate_targets (gt_evidence_type g) (gt_custom_evidence_type g) ev
      \<and> ev_subject ev = ar_id art \<and> ev_subject_revision ev = rq_expected_revision req
      \<and> ev_subject_digest ev = ar_digest art \<and> ev_result ev = ER_Pass
      \<and> \<not> ev_revoked ev \<and> \<not> ev_superseded ev
      \<and> backs art (gather_evidence st (ar_id art) (ar_revision art)) g ev \<and> suits cfg now g ev))
    \<and> (gt_kind g = GK_EvidenceIntegrity \<longrightarrow>
         list_all (\<lambda>ev. ev_revoked ev \<or> ev_superseded ev \<or> compute_evidence_integrity ev = ev_integrity_digest ev)
           (gather_evidence st (ar_id art) (ar_revision art)))"
proof -
  let ?evs = "gather_evidence st (ar_id art) (ar_revision art)"
  from assms have pass: "gate_passes cfg st req now (de_policy_generation d) art ?evs g"
    by (simp add: evaluate_gates_eligible all_gates_pass_def)
  have "\<exists>ev. ev \<in> snd ` set (evidence st) \<and> ev_subject ev = ar_id art \<and> ev_subject_revision ev = rq_expected_revision req
      \<and> applicable g (ar_digest art) (ar_revision art) ev \<and> ev_result ev = ER_Pass \<and> backs art ?evs g ev \<and> suits cfg now g ev"
    if need: "needs_evidence g"
  proof -
    from pass need obtain ev where ev: "backs art ?evs g ev" "suits cfg now g ev" by (rule passed_gate_backed)
    then show ?thesis
      using find_revision_sound [OF assms(2)] by (intro exI [of _ ev]) (simp add: backs_def set_gather_evidence)
  qed
  moreover have "list_all (\<lambda>ev. ev_revoked ev \<or> ev_superseded ev \<or> compute_evidence_integrity ev = ev_integrity_digest ev) ?evs"
    if "gt_kind g = GK_EvidenceIntegrity"
    using pass that
    by (auto simp: gate_passes_def eval_gate_def evidence_integrity_gate_def list_all_iff find_None_iff split: option.splits)
  ultimately show ?thesis by (auto simp: applicable_def)
qed

theorem eligible_has_exact_evidence_witness:
  "\<exists>ev \<in> snd ` set (evidence demo_state). ev_type ev = ET_BuildPass \<and> ev_result ev = ER_Pass \<and> \<not> ev_revoked ev
     \<and> freshness_code config_defaults 1000 (demo_gates ! 2) ev = None"
proof -
  have "find_revision demo_state (rq_artifact demo_request) (rq_expected_revision demo_request) = Some demo_artifact"
    using demo_lookup(1) by (simp add: demo_request_def)
  moreover have "find_rule (active_policy_body demo_state) (ar_kind demo_artifact) (ar_stage demo_artifact)
      (rq_requested_stage demo_request) = Some demo_rule"
    using demo_lookup(2) by (simp add: demo_state_def set_active_policy_def demo_artifact_def demo_request_def)
  moreover have "all_gates_pass config_defaults demo_state demo_request 1000 formed demo_artifact demo_rule" for formed
    by (intro demo_gates_pass) (simp_all add: demo_state_def demo_request_def empty_state_def set_active_policy_def)
  ultimately have "go_outcome (fst (evaluate_gates config_defaults demo_state demo_request 1000 empty_decision)) = PO_PromotionEligible"
    unfolding evaluate_gates_eligible by blast
  from eligible_has_exact_evidence [OF this
      \<open>find_revision demo_state _ _ = _\<close> \<open>find_rule (active_policy_body demo_state) _ _ _ = _\<close>,
      of "demo_gates ! 2"]
  have "\<exists>ev \<in> snd ` set (evidence demo_state). gate_targets (gt_evidence_type (demo_gates ! 2)) (gt_custom_evidence_type (demo_gates ! 2)) ev
      \<and> ev_result ev = ER_Pass \<and> \<not> ev_revoked ev \<and> suits config_defaults 1000 (demo_gates ! 2) ev"
    by (auto simp: demo_rule_def demo_gates_def needs_evidence_def)
  then obtain ev where ev: "ev \<in> snd ` set (evidence demo_state)" "ev_result ev = ER_Pass" "\<not> ev_revoked ev"
    "gate_targets (gt_evidence_type (demo_gates ! 2)) (gt_custom_evidence_type (demo_gates ! 2)) ev"
    "suits config_defaults 1000 (demo_gates ! 2) ev" by blast
  moreover have "gt_kind (demo_gates ! 2) = GK_EvidenceFreshness" "gt_evidence_type (demo_gates ! 2) = ET_BuildPass"
    by (simp_all add: demo_gates_def)
  ultimately show ?thesis
    by (intro bexI [of _ ev]) (simp_all add: gate_targets_def suits_def split: if_splits)
qed

section \<open>Commit\<close>

text \<open>
  C1: A commit reports a committed transition exactly when the coordinator admits work, the plan is
  well formed and is the stored plan of that identity in every field, and at the moment of the commit
  the policy body, its generation and the lifecycle graph are those the plan was derived under, the
  plan has not expired, its reservation is still held, every gate of the governing rule passes again,
  the evidence snapshot is unchanged, and the artifact is not already at the destination.  The stage generation of the
  artifact is not among these conditions: only that of the stored plan is compared.
\<close>

theorem commit_succeeds_iff:
  "(\<exists>r e'. commit now plan e = (Inr r, e') \<and> cr_outcome r = PO_PromotionCommitted) \<longleftrightarrow>
     admission_open e \<and> plan_valid plan \<and> om_find (plans (state e)) (pl_id plan) = Some plan
     \<and> commit_authorised (config e) now plan (state e)"
proof
  assume "\<exists>r e'. commit now plan e = (Inr r, e') \<and> cr_outcome r = PO_PromotionCommitted"
  then obtain r e' where c: "commit now plan e = (Inr r, e')" and out: "cr_outcome r = PO_PromotionCommitted"
    by blast
  obtain touched flag where "commit_plan (config e) now plan (state e) = (r, touched, flag, state e')"
    "admission_open e" "plan_valid plan" "om_find (plans (state e)) (pl_id plan) = Some plan"
    by (rule commit_cases [OF c])
  with out commit_plan_committed [of "config e" now plan "state e"]
  show "admission_open e \<and> plan_valid plan \<and> om_find (plans (state e)) (pl_id plan) = Some plan
     \<and> commit_authorised (config e) now plan (state e)" by simp
next
  assume "admission_open e \<and> plan_valid plan \<and> om_find (plans (state e)) (pl_id plan) = Some plan
     \<and> commit_authorised (config e) now plan (state e)"
  with commit_state_eq [of e plan now] commit_plan_committed [of "config e" now plan "state e"]
  show "\<exists>r e'. commit now plan e = (Inr r, e') \<and> cr_outcome r = PO_PromotionCommitted" by auto
qed

lemma commit_committed_state:
  assumes "commit now plan e = (Inr r, e')" and "cr_outcome r = PO_PromotionCommitted"
  obtains art d where "find_revision (state e) (pl_artifact plan) (pl_artifact_revision plan) = Some art"
    "perform_commit (config e) now plan (ar_stage art) d (put_decision (pl_decision plan) d
       (put_decision (pl_decision plan) (decision_at (pl_decision plan) (state e)) (state e))) = (r, state e')"
proof -
  obtain touched flag where cp: "commit_plan (config e) now plan (state e) = (r, touched, flag, state e')"
    by (rule commit_cases [OF assms(1)])
  with commit_plan_flag [OF cp] assms(2)
  have "commit_plan (config e) now plan (state e) = (r, touched, True, state e')" by simp
  then show ?thesis by (rule commit_plan_performed) (rule that)
qed

lemma perform_commit_record:
  assumes "perform_commit cfg now plan from d st = (r, st')"
  shows "\<exists>t seq. cr_record r = Some (commit_record plan from t seq now)"
    and "de_outcome (cr_decision r) = PO_PromotionCommitted"
proof -
  have "r = fst (perform_commit cfg now plan from d st)" using assms by simp
  then show "\<exists>t seq. cr_record r = Some (commit_record plan from t seq now)"
    and "de_outcome (cr_decision r) = PO_PromotionCommitted"
    by (simp_all add: perform_commit_result) blast
qed

text \<open>Everything a performed commit writes.\<close>

lemma perform_commit_writes:
  assumes "perform_commit cfg now plan from d st = (r, st')" and "om_count (decisions st) (pl_decision plan)"
  shows "\<exists>record. cr_record r = Some record
      \<and> records st' = om_retain (max_records_retained cfg) (pr_transition record) record (records st)
      \<and> history st' = om_retain (max_history_events cfg) (pr_sequence record) (commit_event plan record) (history st)"
    and "decisions st' = om_insert (pl_decision plan) (cr_decision r) (decisions st)"
    and "idempotency st' = om_update (pl_request plan)
      (\<lambda>i. i \<lparr> ir_outcome := PO_PromotionCommitted, ir_decision := pl_decision plan \<rparr>) (idempotency st)"
    and "st' = st \<lparr> commit_sequence := counter_next (commit_sequence st),
      transition_generator := snd (gen_next (transition_generator st)), artifacts := artifacts st', records := records st',
      decisions := decisions st', idempotency := idempotency st', history := history st', pending := pending st' \<rparr>"
  using assms
  by (auto simp: perform_commit_def next_sequence_eq Let_def update_revision_def push_event_def put_decision_def
      erase_pending_def commit_record_def commit_event_def split: prod.splits)

lemma om_insert_twice: "om_insert k v (om_insert k w m) = om_insert k v m"
  by (induction k w m rule: om_insert.induct) auto


lemma demo_pending_ok: "om_ok (pending (state demo_reserved))"
  by (simp add: demo_reserved_simps om_ok_def)


text \<open>
  C11: A commit either commits or moves nothing: when it returns an error or any other outcome, the
  registry, the evidence, the promotion records, the vetoes and the policy are what they were.
\<close>

theorem commit_refused_moves_nothing:
  "(\<exists>r. fst (commit now plan e) = Inr r \<and> cr_outcome r = PO_PromotionCommitted \<and> cr_record r \<noteq> None)
   \<or> (artifacts (state (snd (commit now plan e))) = artifacts (state e)
      \<and> evidence (state (snd (commit now plan e))) = evidence (state e)
      \<and> records (state (snd (commit now plan e))) = records (state e)
      \<and> vetoes (state (snd (commit now plan e))) = vetoes (state e)
      \<and> active_policy_body (state (snd (commit now plan e))) = active_policy_body (state e))"
proof (cases "commit now plan e")
  case (Pair res e')
  show ?thesis
  proof (cases res)
    case (Inl s)
    with Pair commit_error_unchanged [of now plan e s e'] show ?thesis by simp
  next
    case (Inr r)
    with Pair have c: "commit now plan e = (Inr r, e')" by simp
    obtain touched flag where cp: "commit_plan (config e) now plan (state e) = (r, touched, flag, state e')"
      by (rule commit_cases [OF c])
    show ?thesis
    proof (cases flag)
      case True
      with cp have "commit_plan (config e) now plan (state e) = (r, touched, True, state e')" by simp
      then have "cr_record r \<noteq> None"
        by (rule commit_plan_performed) (auto dest: perform_commit_record(1))
      with commit_plan_flag [OF cp] True Pair Inr show ?thesis by auto
    next
      case False
      with commit_plan_rejected_frame [of "config e" now plan "state e" r touched "state e'"] cp Pair
      show ?thesis by (simp add: lifecycle_def)
    qed
  qed
qed

text \<open>
  Evaluating a request never moves anything: whatever the request and the verdict, the registry,
  the evidence, the promotion records, the vetoes and the policy are unchanged.
\<close>

theorem evaluate_moves_nothing:
  "lifecycle (state (snd (evaluate now req e))) = lifecycle (state e)"
  by (rule evaluate_lifecycle [OF surjective_pairing])

section \<open>Idempotent replay\<close>

lemma evaluate_registered_replay:
  assumes "evaluate_registered cfg now req art st = (r, st')"
  shows "\<not> request_reused req st' \<and> replayed_decision req st' = Some (er_decision r)"
proof -
  obtain d0 st1 where open1: "open_decision req st = (d0, st1)" by (cases "open_decision req st") auto
  let ?d1 = "d0 \<lparr> de_artifact_generation := ar_generation art, de_artifact_kind := ar_kind art,
                 de_from := ar_stage art, de_decided_unix_millis := Some now \<rparr>"
  obtain d p st2 where dec: "decide cfg now req art ?d1 st1 = (d, p, st2)"
    by (cases "decide cfg now req art ?d1 st1") auto
  from assms open1 dec show ?thesis
    by (auto simp: evaluate_registered_def next_sequence_eq Let_def request_reused_def replayed_decision_def)
qed

lemma evaluate_unrecorded:
  assumes "evaluate now req e = (Inr r, e')" and "om_find (idempotency (state e)) (rq_request req) = None"
    and "\<nexists>art. find_revision (state e) (rq_artifact req) (rq_expected_revision req) = Some art
           \<and> ar_digest art = rq_expected_digest req"
  shows "er_plan r = None" and "de_id (er_decision r) = fst (gen_next (decision_generator (state e)))"
    and "om_find (decisions (state e')) (de_id (er_decision r)) = Some (er_decision r)"
    and "idempotency (state e') = idempotency (state e)" and "artifacts (state e') = artifacts (state e)"
    and "admission_open e" and "request_is_well_formed req" and "admission_open e'"
proof -
  from assms have ok: "admission_open e" "request_is_well_formed req"
    by (auto simp: evaluate_def Let_def split: if_splits)
  have d: "de_id (er_decision r) = de_id (fst (open_decision req (state e)))" "er_plan r = None"
    and e': "e' = notify_change ((touch e) \<lparr> state := store_decision (er_decision r) (snd (open_decision req (state e))) \<rparr>)"
    using assms ok
    by (auto simp: evaluate_def Let_def request_reused_def replayed_decision_def evaluate_unregistered_def
        evaluate_digest_mismatch_def add_reason_def case_prod_beta split: if_splits option.splits)
  show "er_plan r = None" "de_id (er_decision r) = fst (gen_next (decision_generator (state e)))"
    "om_find (decisions (state e')) (de_id (er_decision r)) = Some (er_decision r)"
    "idempotency (state e') = idempotency (state e)" "artifacts (state e') = artifacts (state e)"
    "admission_open e" "request_is_well_formed req" "admission_open e'"
    using d ok
    by (simp_all add: e' open_decision_def next_decision_sequence_def store_decision_def notify_change_def touch_def
        Let_def case_prod_beta)
qed

lemma evaluate_again:
  assumes "admission_open e" and "request_is_well_formed req" and "om_find (idempotency (state e)) (rq_request req) = None"
  shows "\<exists>r e'. evaluate now req e = (Inr r, e')"
  using assms by (auto simp: evaluate_def Let_def replayed_decision_def request_reused_def case_prod_beta split: option.splits)

text \<open>
  C18: Let a request with an identity not used before be evaluated and produce a decision.  When it names a registered
  revision with the digest of that revision, the request is recorded: evaluating it again, at any time, returns the same
  decision, issues no second plan and leaves the coordinator exactly as it was.  Otherwise the request is not recorded:
  no plan is issued, and evaluating it again decides anew, under the next decision identity.
\<close>

theorem evaluate_replay:
  assumes "evaluate now req e = (Inr r, e')"
    and "om_find (idempotency (state e)) (rq_request req) = None"
  shows "if \<exists>art. find_revision (state e) (rq_artifact req) (rq_expected_revision req) = Some art
            \<and> ar_digest art = rq_expected_digest req
    then evaluate now' req e' = (Inr \<lparr> er_decision = er_decision r, er_plan = None \<rparr>, e')
    else er_plan r = None \<and> idempotency (state e') = idempotency (state e)
      \<and> (\<exists>d e''. evaluate now' req e' = (Inr \<lparr> er_decision = d, er_plan = None \<rparr>, e'')
           \<and> de_id d = fst (gen_next (decision_generator (state e'))) \<and> om_find (decisions (state e'')) (de_id d) = Some d)"
proof (cases "\<exists>art. find_revision (state e) (rq_artifact req) (rq_expected_revision req) = Some art
            \<and> ar_digest art = rq_expected_digest req")
  case True
  then obtain art where art: "find_revision (state e) (rq_artifact req) (rq_expected_revision req) = Some art"
    "ar_digest art = rq_expected_digest req" by blast
  obtain r' st' where er: "evaluate_registered (config e) now req art (state e) = (r', st')"
    by (cases "evaluate_registered (config e) now req art (state e)") auto
  with assms art have "admission_open e" "request_is_well_formed req" "r' = r"
    "state e' = st'" "admission_open e' = admission_open e"
    by (auto simp: evaluate_def replayed_decision_def Let_def split: if_splits)
  with evaluate_registered_replay [OF er] True show ?thesis
    by (simp add: evaluate_def Let_def)
next
  case False
  note first = evaluate_unrecorded [OF assms False]
  have again: "om_find (idempotency (state e')) (rq_request req) = None"
    "\<nexists>art. find_revision (state e') (rq_artifact req) (rq_expected_revision req) = Some art
       \<and> ar_digest art = rq_expected_digest req"
    using False assms(2) first(4) find_revision_cong [OF first(5)] by simp_all
  obtain r2 e2 where ev: "evaluate now' req e' = (Inr r2, e2)"
    using evaluate_again [OF first(8,7) again(1)] by blast
  note second = evaluate_unrecorded [OF ev again]
  then have "r2 = \<lparr> er_decision = er_decision r2, er_plan = None \<rparr>" by (cases r2) simp
  with ev second first(1,4) False show ?thesis by (metis (no_types))
qed

theorem evaluate_replay_witness:
  "\<exists>r. evaluate 1000 demo_request demo_engine = (Inr r, demo_reserved) \<and> er_plan r = Some demo_plan
     \<and> om_find (idempotency (state demo_engine)) (rq_request demo_request) = None
     \<and> evaluate 5000 demo_request demo_reserved = (Inr \<lparr> er_decision = er_decision r, er_plan = None \<rparr>, demo_reserved)"
proof -
  obtain r where ev: "evaluate 1000 demo_request demo_engine = (Inr r, demo_reserved)" "er_plan r = Some demo_plan"
    using demo_evaluate by (auto simp: demo_reserved_def)
  have "state demo_engine = demo_state" by (simp add: demo_engine_def)
  then have found: "find_revision (state demo_engine) (rq_artifact demo_request) (rq_expected_revision demo_request) = Some demo_artifact"
    and unused: "om_find (idempotency (state demo_engine)) (rq_request demo_request) = None"
    using demo_lookup(1) by (simp_all add: demo_request_def demo_state_fields)
  moreover have "ar_digest demo_artifact = rq_expected_digest demo_request"
    by (simp add: demo_artifact_def demo_request_def)
  ultimately have "evaluate 5000 demo_request demo_reserved = (Inr \<lparr> er_decision = er_decision r, er_plan = None \<rparr>, demo_reserved)"
    using evaluate_replay [OF ev(1) unused, of 5000] by simp
  with ev unused show ?thesis by blast
qed

end
