(* ===== verification/Fencing.thy ===== *)
theory Fencing
  imports Promotion_Safety
begin

text \<open>
  What withdraws the authority of an issued plan.  A plan commits only while its reservation is held
  and the authorities it names are current, so every operation that releases the reservation or
  advances an authority fences the plan.
\<close>

definition commits :: "u64 \<Rightarrow> PromotionPlan \<Rightarrow> engine \<Rightarrow> bool" where
  "commits now plan e \<longleftrightarrow> (\<exists>r e'. commit now plan e = (Inr r, e') \<and> cr_outcome r = PO_PromotionCommitted)"

lemma commits_authorised: "commits now plan e \<Longrightarrow> commit_authorised (config e) now plan (state e)"
proof -
  assume "commits now plan e"
  then obtain r e' where c: "commit now plan e = (Inr r, e')" and out: "cr_outcome r = PO_PromotionCommitted"
    by (auto simp: commits_def)
  obtain touched flag where "commit_plan (config e) now plan (state e) = (r, touched, flag, state e')"
    by (rule commit_cases [OF c])
  with out commit_plan_committed [of "config e" now plan "state e"] show ?thesis by simp
qed

lemma unreserved_never_commits:
  "om_find (pending (state e)) (pl_artifact plan) = None \<Longrightarrow> \<not> commits now plan e"
  using commits_authorised [of now plan e] by (auto simp: commit_authorised_def reservation_held_def)

lemma stale_policy_never_commits: "policy_changed plan (state e) \<Longrightarrow> \<not> commits now plan e"
  using commits_authorised [of now plan e] by (auto simp: commit_authorised_def)

section \<open>Restart and recovery\<close>

lemma om_erase_filter: "om_ok m \<Longrightarrow> om_erase k m = filter (\<lambda>p. fst p \<noteq> k) m"
proof (induction k m rule: om_erase.induct)
  case (2 k a b m)
  then have "filter (\<lambda>p. fst p \<noteq> k) m = m" if "a = k"
    using that by (auto simp: om_ok_Cons filter_id_conv)
  with 2 show ?case by (auto simp: om_ok_Cons)
qed simp

lemma release_reservation_pending [simp]:
  "pending (release_reservation note i p st) = om_erase i (pending st)"
  "lifecycle (release_reservation note i p st) = lifecycle st"
  by (simp_all add: release_reservation_def next_sequence_eq lifecycle_def)

lemma release_all_pending:
  assumes "om_ok (pending st)"
  shows "pending (snd (release_all note is st)) = filter (\<lambda>p. fst p \<notin> set is) (pending st)
    \<and> lifecycle (snd (release_all note is st)) = lifecycle st"
  using assms
proof (induction "note" "is" st rule: release_all.induct)
  case (2 "note" i "is" st)
  show ?case
  proof (cases "om_find (pending st) i")
    case None
    then have "filter (\<lambda>p. fst p \<notin> set (i # is)) (pending st) = filter (\<lambda>p. fst p \<notin> set is) (pending st)"
      by (intro filter_cong) (auto simp: om_find_None_iff)
    with 2 None show ?thesis by simp
  next
    case (Some p)
    have "om_ok (filter (\<lambda>q. fst q \<noteq> i) (pending st))"
      using om_ok_erase [OF "2.prems", of i] by (simp add: om_erase_filter "2.prems")
    with 2 Some show ?thesis by (simp add: om_erase_filter case_prod_beta)
  qed
qed simp

lemma release_all_count:
  assumes "om_ok (pending st)" "distinct is" "set is \<subseteq> set (map fst (pending st))"
  shows "fst (release_all note is st) = length is"
  using assms
proof (induction "note" "is" st rule: release_all.induct)
  case (2 "note" i "is" st)
  then obtain p where p: "om_find (pending st) i = Some p"
    using om_find_None_iff [of "pending st" i] by fastforce
  have "set is \<subseteq> set (map fst (om_erase i (pending st)))"
  proof
    fix x assume "x \<in> set is"
    with "2.prems"(2,3) have "x \<in> fst ` set (pending st)" "x \<noteq> i" by auto
    then show "x \<in> set (map fst (om_erase i (pending st)))"
      using "2.prems"(1) by (force simp: om_erase_filter)
  qed
  with 2 p show ?case by (auto simp: case_prod_beta)
qed simp

lemma release_all_everything:
  assumes "om_ok (pending st)" and "release_all note (map fst (pending st)) st = (n, st')"
  shows "pending st' = [] \<and> lifecycle st' = lifecycle st \<and> n = length (pending st)"
  using release_all_pending [OF assms(1), of "note" "map fst (pending st)"]
    release_all_count [OF assms(1) om_ok_distinct [OF assms(1)], of "note"] assms(2)
  by (auto simp: filter_empty_conv)

lemma release_all_epoch: "epoch (snd (release_all note is st)) = epoch st"
  by (induction "note" "is" st rule: release_all.induct)
    (auto simp: case_prod_beta release_reservation_def next_sequence_eq split: option.splits)

text \<open>
  A restart that advances the epoch releases every reservation, moves no artifact, and leaves no
  plan issued before it able to commit.
\<close>

theorem restart_fences_plans:
  assumes "om_ok (pending (state e))" and "restart ep e = (Inr applied, e')"
  shows "epoch (state e') = ep \<and> pending (state e') = [] \<and> lifecycle (state e') = lifecycle (state e)
    \<and> \<not> commits now plan e'"
proof -
  let ?st = "state e \<lparr> epoch := ep \<rparr>"
  obtain n st' where rel: "release_all restart_note (map fst (pending ?st)) ?st = (n, st')"
    by (cases "release_all restart_note (map fst (pending ?st)) ?st") auto
  with assms(2) have "state e' = st'" by (auto simp: restart_def Let_def split: if_splits)
  moreover have "epoch st' = ep"
    using rel release_all_epoch [of restart_note "map fst (pending ?st)" ?st] by simp
  ultimately show ?thesis
    using release_all_everything [OF _ rel] assms(1) unreserved_never_commits [of e' plan now]
    by (simp add: lifecycle_def)
qed

theorem restart_fences_plans_witness:
  "\<exists>e'. restart (Counter 4) demo_reserved = (Inr (Counter 4), e') \<and> om_ok (pending (state demo_reserved))
     \<and> pending (state demo_reserved) \<noteq> [] \<and> commits 2000 demo_plan demo_reserved
     \<and> pending (state e') = [] \<and> \<not> commits 2000 demo_plan e'"
proof -
  obtain e' where r: "restart (Counter 4) demo_reserved = (Inr (Counter 4), e')"
    by (cases "restart (Counter 4) demo_reserved")
      (auto simp: restart_def demo_reserved_simps counter_valid_def less_Counter_def Let_def case_prod_beta)
  have "commits 2000 demo_plan demo_reserved"
    by (rule demo_commit) (auto simp: commits_def)
  with restart_fences_plans [OF demo_pending_ok r, of 2000 demo_plan] r demo_pending_ok show ?thesis
    by (simp add: demo_reserved_simps)
qed

text \<open>
  Recovery of in-flight work releases exactly the reservations that were held and reports their
  number, and moves no artifact.
\<close>

theorem recovery_releases_exactly:
  assumes "om_ok (pending (state e))"
  shows "fst (recover_in_flight e) = length (pending (state e))
    \<and> pending (state (snd (recover_in_flight e))) = []
    \<and> lifecycle (state (snd (recover_in_flight e))) = lifecycle (state e)"
proof -
  obtain n st' where rel: "release_all recovery_note (map fst (pending (state e))) (state e) = (n, st')"
    by (cases "release_all recovery_note (map fst (pending (state e))) (state e)") auto
  from release_all_everything [OF assms rel] rel show ?thesis
    by (auto simp: recover_in_flight_def Let_def)
qed

theorem recovery_releases_exactly_witness:
  "om_ok (pending (state demo_reserved)) \<and> fst (recover_in_flight demo_reserved) = 1
   \<and> pending (state (snd (recover_in_flight demo_reserved))) = []"
  using recovery_releases_exactly [OF demo_pending_ok] demo_pending_ok by (simp add: demo_reserved_simps)

section \<open>Policy publication\<close>



section \<open>Quarantine and evidence revocation\<close>

lemma update_current_pending [simp]: "pending (update_current i f st) = pending st"
  by (simp add: update_current_def)

lemma append_history_simps [simp]:
  "artifacts (append_history cfg k art a b t st) = artifacts st"
  "pending (append_history cfg k art a b t st) = pending st"
  "evidence (append_history cfg k art a b t st) = evidence st"
  "records (append_history cfg k art a b t st) = records st"
  "decisions (append_history cfg k art a b t st) = decisions st"
  "vetoes (append_history cfg k art a b t st) = vetoes st"
  "active_policy_body (append_history cfg k art a b t st) = active_policy_body st"
  by (simp_all add: append_history_def next_sequence_eq)

text \<open>
  C20: Quarantining an artifact that is neither quarantined nor ended puts its current revision into
  the quarantine stage with the hold active, so that it is no longer authoritative, leaves every
  other artifact alone, and no plan for the artifact can commit afterwards.
\<close>

theorem quarantine_fences_plans:
  assumes "quarantine i cls detail auth e = (Inr m, e')" and "om_ok (pending (state e))"
    and "find_current (state e) i = Some art" and "\<not> qr_active (ar_quarantine art)"
    and "ar_stage art \<noteq> St_Revoked" and "ar_stage art \<noteq> St_Retired"
  shows "(\<exists>art'. find_current (state e') i = Some art' \<and> ar_stage art' = St_Quarantined
      \<and> qr_active (ar_quarantine art') \<and> \<not> currently_authoritative art'
      \<and> ar_revision art' = ar_revision art \<and> ar_digest art' = ar_digest art)
    \<and> (\<forall>j. j = i \<or> find_current (state e') j = find_current (state e) j)
    \<and> (pl_artifact plan = i \<longrightarrow> \<not> commits now plan e')"
proof -
  from assms(1,3-6) obtain f where arts: "artifacts (state e') = artifacts (update_current i f (state e))"
    and pend: "pending (state e') = om_erase i (pending (state e))"
    and f: "ar_stage (f art) = St_Quarantined" "qr_active (ar_quarantine (f art))"
      "ar_revision (f art) = ar_revision art" "ar_digest (f art) = ar_digest art"
    by (auto simp: quarantine_def Let_def next_sequence_eq apply_quarantine_def update_current_def
        split: if_splits)
  have "find_current (state e') j = (if j = i then Some (f art) else find_current (state e) j)" for j
    using find_current_cong [OF arts] find_current_update_current [of i f "state e" j] assms(3) by simp
  with f pend assms(2) unreserved_never_commits [of e' plan now] show ?thesis
    by (auto simp: om_find_erase currently_authoritative_def)
qed


theorem quarantine_fences_plans_witness:
  "\<exists>m e'. quarantine (Identity 1 1) ''cve'' [] demo_authority demo_reserved = (Inr m, e')
     \<and> commits 2000 demo_plan demo_reserved \<and> \<not> commits 2000 demo_plan e'
     \<and> (\<exists>art'. find_current (state e') (Identity 1 1) = Some art' \<and> ar_stage art' = St_Quarantined)"
proof -
  have cur: "find_current (state demo_reserved) (Identity 1 1) = Some demo_artifact"
    by (simp add: find_current_def demo_reserved_simps demo_state_def)
  have name: "is_valid_name ''cve''" by code_simp
  have edge: "has_edge (po_graph demo_policy) St_Approved St_Quarantined" by code_simp
  have art: "\<not> qr_active (ar_quarantine demo_artifact)" "ar_stage demo_artifact = St_Approved"
    by (simp_all add: demo_artifact_def no_quarantine_def)
  obtain m e' where q: "quarantine (Identity 1 1) ''cve'' [] demo_authority demo_reserved = (Inr m, e')"
    using cur name edge art
    by (auto simp: quarantine_def foreign_authority_def demo_reserved_simps demo_authority_def Let_def
        case_prod_beta)
  have "commits 2000 demo_plan demo_reserved"
    by (rule demo_commit) (auto simp: commits_def)
  moreover have "pl_artifact demo_plan = Identity 1 1" by (simp add: demo_plan_def)
  ultimately show ?thesis
    using quarantine_fences_plans [OF q demo_pending_ok cur art(1), where plan = demo_plan and now = 2000] q art(2)
    by auto
qed

section \<open>Evidence revocation\<close>

lemma om_find_erase_all:
  "om_ok m \<Longrightarrow> om_find (foldl (\<lambda>m i. om_erase i m) m is) j = (if j \<in> set is then None else om_find m j)
     \<and> om_ok (foldl (\<lambda>m i. om_erase i m) m is)"
  by (induction "is" arbitrary: m) (auto simp: om_find_erase om_ok_erase)

lemma fence_pending_find:
  assumes "om_ok (pending st)"
  shows "om_find (pending (fence_pending r st)) i =
    (case om_find (pending st) i of
       None \<Rightarrow> None
     | Some p \<Rightarrow> if pt_artifact p = ev_subject r \<and> pt_artifact_revision p = ev_subject_revision r
                then None else Some p)"
proof -
  let ?P = "\<lambda>(i, p). pt_artifact p = ev_subject r \<and> pt_artifact_revision p = ev_subject_revision r"
  have "i \<in> fst ` set (filter ?P (pending st)) \<longleftrightarrow> (\<exists>p. om_find (pending st) i = Some p \<and> ?P (i, p))"
    using om_find_iff [OF assms, of i] by force
  with om_find_erase_all [OF assms, of "map fst (filter ?P (pending st))" i] show ?thesis
    by (auto simp: fence_pending_def Let_def split: option.splits)
qed


lemma revoked_evidence_simps [simp]:
  "ev_revoked (revoked_evidence reason a seq r)"
  "ev_subject (revoked_evidence reason a seq r) = ev_subject r"
  "ev_subject_revision (revoked_evidence reason a seq r) = ev_subject_revision r"
  "ev_subject_digest (revoked_evidence reason a seq r) = ev_subject_digest r"
  "ev_id (revoked_evidence reason a seq r) = ev_id r"
  "ev_type (revoked_evidence reason a seq r) = ev_type r"
  "ev_result (revoked_evidence reason a seq r) = ev_result r"
  by (simp_all add: revoked_evidence_def Let_def)

lemma revoked_evidence_integrity [simp]:
  "compute_evidence_integrity (revoked_evidence reason a seq r) = ev_integrity_digest (revoked_evidence reason a seq r)"
  by (simp add: revoked_evidence_def Let_def compute_evidence_integrity_def evidence_preimage_def)

lemma fence_pending_frame [simp]:
  "evidence (fence_pending r st) = evidence st" "artifacts (fence_pending r st) = artifacts st"
  by (simp_all add: fence_pending_def Let_def)

text \<open>
  C21: Revoking a live evidence record marks that record and no other, keeps its integrity digest
  correct, moves no artifact, and fences every plan that holds a reservation on the revision the
  record speaks about.
\<close>

theorem revoke_evidence_fences_plans:
  assumes "revoke_evidence i reason auth e = (Inr m, e')" and "om_ok (pending (state e))"
    and "om_find (evidence (state e)) i = Some r" and "\<not> ev_revoked r"
  shows "(\<exists>r'. om_find (evidence (state e')) i = Some r' \<and> ev_revoked r'
        \<and> ev_subject r' = ev_subject r \<and> ev_subject_digest r' = ev_subject_digest r
        \<and> compute_evidence_integrity r' = ev_integrity_digest r')
    \<and> (\<forall>j. j = i \<or> om_find (evidence (state e')) j = om_find (evidence (state e)) j)
    \<and> artifacts (state e') = artifacts (state e)
    \<and> (om_find (pending (state e)) (pl_artifact plan) = Some p \<and> pt_artifact p = ev_subject r
         \<and> pt_artifact_revision p = ev_subject_revision r \<longrightarrow> \<not> commits now plan e')"
proof -
  from assms(1,3,4) obtain r' seq where r': "r' = revoked_evidence reason (state_authority_id (state e)) seq r"
    and ev: "evidence (state e') = om_insert i r' (evidence (state e))"
    and arts: "artifacts (state e') = artifacts (state e)"
    and pend: "pending (state e') = pending (fence_pending r' (state e))"
    by (auto simp: revoke_evidence_def Let_def next_sequence_eq fence_pending_def state_authority_id_def
        split: if_splits)
  have "\<not> commits now plan e'" if "om_find (pending (state e)) (pl_artifact plan) = Some p"
    "pt_artifact p = ev_subject r" "pt_artifact_revision p = ev_subject_revision r"
    using that pend fence_pending_find [OF assms(2), of r' "pl_artifact plan"] r'
    by (intro unreserved_never_commits) simp
  with r' ev arts show ?thesis by auto
qed

theorem revoke_evidence_fences_plans_witness:
  "\<exists>m e'. revoke_evidence (Identity 3 1) ''bad'' demo_authority demo_reserved = (Inr m, e')
     \<and> commits 2000 demo_plan demo_reserved \<and> \<not> commits 2000 demo_plan e'"
proof -
  have ev: "om_find (evidence (state demo_reserved)) (Identity 3 1) = Some demo_evidence" "\<not> ev_revoked demo_evidence"
    by (simp_all add: demo_reserved_simps demo_state_def demo_evidence_def)
  obtain m e' where q: "revoke_evidence (Identity 3 1) ''bad'' demo_authority demo_reserved = (Inr m, e')"
    using ev by (auto simp: revoke_evidence_def foreign_authority_def demo_reserved_simps demo_authority_def
        Let_def case_prod_beta)
  have "om_find (pending (state demo_reserved)) (pl_artifact demo_plan) = Some demo_reservation"
    "pt_artifact demo_reservation = ev_subject demo_evidence"
    "pt_artifact_revision demo_reservation = ev_subject_revision demo_evidence"
    by (simp_all add: demo_reserved_simps demo_plan_def demo_reservation_def demo_evidence_def)
  moreover have "commits 2000 demo_plan demo_reserved"
    by (rule demo_commit) (auto simp: commits_def)
  ultimately show ?thesis
    using revoke_evidence_fences_plans [OF q demo_pending_ok ev, where plan = demo_plan and now = 2000] q by auto
qed

section \<open>A committed plan is spent\<close>

lemma perform_commit_policy:
  assumes "perform_commit cfg now plan from d st = (r, st')"
  shows "active_policy_generation st' = active_policy_generation st"
  using assms by (auto simp: perform_commit_def next_sequence_eq Let_def update_revision_def push_event_def
      put_decision_def erase_pending_def split: prod.splits)

text \<open>
  C39: Committing a plan a second time, directly after it has committed and at whatever time, does not commit again: the
  outcome is a conflict, or, past the expiry of the plan, a demand for revalidation.  The second commit changes no artifact,
  evidence or promotion record, but it overwrites the outcome of the decision that the promotion record names.
\<close>

theorem recommit_conflicts:
  assumes "commit now plan e = (Inr r, e')" and "cr_outcome r = PO_PromotionCommitted"
    and "om_ok (pending (state e))"
  shows "\<exists>r2 e2. commit now2 plan e' = (Inr r2, e2)
    \<and> cr_outcome r2 = (if plan_expired now2 plan then PO_RevalidationRequired else PO_Conflict)
    \<and> lifecycle (state e2) = lifecycle (state e')
    \<and> (\<exists>d. om_find (decisions (state e2)) (pl_decision plan) = Some d \<and> de_outcome d = cr_outcome r2)"
proof -
  obtain touched flag where adm: "admission_open e" "plan_valid plan" "om_find (plans (state e)) (pl_id plan) = Some plan"
    "admission_open e' = admission_open e"
    by (rule commit_cases [OF assms(1)])
  from assms(1,2) obtain art d where art: "find_revision (state e) (pl_artifact plan) (pl_artifact_revision plan) = Some art"
    and pc: "perform_commit (config e) now plan (ar_stage art) d (put_decision (pl_decision plan) d
       (put_decision (pl_decision plan) (decision_at (pl_decision plan) (state e)) (state e))) = (r, state e')"
    by (rule commit_committed_state)
  note st' = perform_commit_state [OF pc] perform_commit_policy [OF pc]
  have auth: "commit_authorised (config e) now plan (state e)"
    using assms(1,2) commits_authorised [of now plan e] by (auto simp: commits_def)
  have "\<not> policy_changed plan (state e')" "\<not> lifecycle_changed plan (state e')"
    using auth st' by (simp_all add: commit_authorised_def policy_changed_def lifecycle_changed_def put_decision_def)
  moreover have "om_find (pending (state e')) (pl_artifact plan) = None"
    using st'(3) assms(3) by (simp add: om_find_erase)
  moreover obtain art' where "find_revision (state e') (pl_artifact plan) (pl_artifact_revision plan) = Some art'"
    using find_revision_cong [OF st'(1)] art
      find_revision_update_revision [of "apply_transition plan a s" for a s, OF apply_transition_simps(1)]
    by (auto simp: find_revision_def put_decision_def)
  moreover have "om_find (plans (state e')) (pl_id plan) = Some plan"
    using adm(3) st'(7) by (simp add: put_decision_def)
  ultimately show ?thesis
    using adm
    by (auto simp: commit_def commit_plan_def commit_rejected_def Let_def plan_expired_def
        lifecycle_def add_reason_def)
qed

theorem recommit_conflicts_witness:
  "\<exists>r e' r2 e2. commit 2000 demo_plan demo_reserved = (Inr r, e') \<and> cr_outcome r = PO_PromotionCommitted
     \<and> commit 3000 demo_plan e' = (Inr r2, e2) \<and> cr_outcome r2 = PO_Conflict"
proof -
  obtain r e' where c: "commit 2000 demo_plan demo_reserved = (Inr r, e')" "cr_outcome r = PO_PromotionCommitted"
    by (rule demo_commit)
  have "\<not> plan_expired 3000 demo_plan" by (simp add: plan_expired_def demo_plan_def)
  with recommit_conflicts [OF c demo_pending_ok, of 3000] c show ?thesis by auto
qed

end
