(* ===== verification/Authority.thy ===== *)
theory Authority
  imports Fencing
begin

text \<open>
  Who may hold authority and how it ends: revocation, supersession, retirement, the governed release
  of a quarantine, vetoes and rollback eligibility (\<open>src/engine/trust.cpp\<close>).
\<close>

section \<open>Operations that end authority\<close>

text \<open>A current revision that a trust mutation rewrote and released.\<close>

definition withdrawn :: "ArtifactId \<Rightarrow> Stage \<Rightarrow> ArtifactRecord \<Rightarrow> engine \<Rightarrow> engine \<Rightarrow> bool" where
  "withdrawn i stage art e e' \<longleftrightarrow>
     (\<exists>art'. find_current (state e') i = Some art' \<and> ar_stage art' = stage \<and> \<not> ar_promoted art'
        \<and> \<not> currently_authoritative art' \<and> ar_revision art' = ar_revision art \<and> ar_digest art' = ar_digest art)
     \<and> (\<forall>j. j = i \<or> find_current (state e') j = find_current (state e) j)
     \<and> om_find (pending (state e')) i = None \<and> evidence (state e') = evidence (state e)"

lemma withdrawn_intro:
  assumes "artifacts (state e') = artifacts (update_current i f (state e))"
    and "pending (state e') = om_erase i (pending (state e))" and "evidence (state e') = evidence (state e)"
    and "om_ok (pending (state e))" and "find_current (state e) i = Some art"
    and "ar_stage (f art) = stage" "\<not> ar_promoted (f art)"
    and "ar_revision (f art) = ar_revision art" "ar_digest (f art) = ar_digest art"
  shows "withdrawn i stage art e e'"
proof -
  have "find_current (state e') j = (if j = i then Some (f art) else find_current (state e) j)" for j
    using find_current_cong [OF assms(1)] find_current_update_current [of i f "state e" j] assms(5) by simp
  with assms show ?thesis
    by (auto simp: withdrawn_def om_find_erase currently_authoritative_def)
qed

lemma withdrawn_never_commits:
  "withdrawn i stage art e e' \<Longrightarrow> pl_artifact plan = i \<Longrightarrow> \<not> commits now plan e'"
  by (intro unreserved_never_commits) (simp add: withdrawn_def)

lemma next_transition_simps [simp]:
  "artifacts (snd (next_transition st)) = artifacts st" "pending (snd (next_transition st)) = pending st"
  "evidence (snd (next_transition st)) = evidence st" "decisions (snd (next_transition st)) = decisions st"
  by (simp_all add: next_transition_def case_prod_beta)

lemma put_record_simps [simp]:
  "artifacts (put_record cfg r st) = artifacts st" "pending (put_record cfg r st) = pending st"
  "evidence (put_record cfg r st) = evidence st" "decisions (put_record cfg r st) = decisions st"
  "om_find (records (put_record cfg r st)) (pr_transition r) = Some r"
  by (simp_all add: put_record_def om.retain_find_same)

lemma artifacts_update_current [simp]:
  "artifacts (update_current i f (st \<lparr> commit_sequence := n \<rparr>)) = artifacts (update_current i f st)"
  "evidence (update_current i f st) = evidence st"
  by (simp_all add: update_current_def)

lemma mutation_simps [simp]:
  "tm_record (mutation out art rec rs) = rec" "tm_outcome (mutation out art rec rs) = out"
  by (simp_all add: mutation_def)

lemmas trust_operation = Let_def next_sequence_eq case_prod_beta

text \<open>Two artifacts on a graph that lets an approved artifact be superseded and retired.\<close>

definition fleet_graph :: LifecycleGraph where
  "fleet_graph = LifecycleGraph [Edge St_Approved St_Superseded, Edge St_Approved St_Retired]"

definition fleet :: engine where
  "fleet = demo_engine \<lparr> state := demo_state
     \<lparr> active_policy_body := demo_policy \<lparr> po_graph := fleet_graph \<rparr>,
       artifacts := [(Identity 1 1, [demo_artifact]),
         (Identity 1 2, [demo_artifact \<lparr> ar_id := Identity 1 2, ar_revision := Identity 2 2 \<rparr>])],
       decisions := [(Identity 22 1, empty_decision)],
       pending := [(Identity 1 1, demo_reservation)] \<rparr> \<rparr>"

lemma fleet_simps:
  "admission_open fleet" "artifacts (state fleet) = [(Identity 1 1, [demo_artifact]),
     (Identity 1 2, [demo_artifact \<lparr> ar_id := Identity 1 2, ar_revision := Identity 2 2 \<rparr>])]"
  "decisions (state fleet) = [(Identity 22 1, empty_decision)]"
  "pending (state fleet) = [(Identity 1 1, demo_reservation)]"
  "coordinator (state fleet) = Identity 9 1" "epoch (state fleet) = Counter 3"
  "po_graph (active_policy_body (state fleet)) = fleet_graph"
  by (simp_all add: fleet_def demo_engine_def demo_state_def)

lemma fleet_current:
  "find_current (state fleet) (Identity 1 1) = Some demo_artifact"
  "find_current (state fleet) (Identity 1 2) = Some (demo_artifact \<lparr> ar_id := Identity 1 2, ar_revision := Identity 2 2 \<rparr>)"
  by (simp_all add: find_current_def fleet_simps)

lemma fleet_pending_ok: "om_ok (pending (state fleet))"
  by (simp add: fleet_simps om_ok_def)

lemma fleet_edges: "has_edge fleet_graph St_Approved St_Superseded" "has_edge fleet_graph St_Approved St_Retired"
  by code_simp+

lemma fleet_artifact:
  "ar_stage demo_artifact = St_Approved" "\<not> rv_active (ar_revocation demo_artifact)"
  "\<not> sp_active (ar_supersession demo_artifact)"
  by (simp_all add: demo_artifact_def no_revocation_def no_supersession_def)

lemmas fleet_run = fleet_simps fleet_current fleet_edges fleet_artifact foreign_authority_def demo_authority_def
  id_valid_def om_count_def null_id_def trust_operation


text \<open>
  C22: A revocation that takes effect, which it reports by a transition record, needs a promotion
  decision that this coordinator holds; it puts the current revision into the revoked stage, so that
  it is not authoritative and no longer eligible for rollback, records the decision and the cause,
  leaves every other artifact alone, and no plan for the artifact can commit afterwards.
\<close>

theorem revoke_ends_authority:
  assumes "revoke now i decision cls detail auth cause e = (Inr m, e')" and "tm_record m \<noteq> None"
    and "om_ok (pending (state e))"
  shows "\<exists>art target. find_current (state e) i = Some art
    \<and> target = (if id_invalid decision then ar_promotion_decision art else decision)
    \<and> om_count (decisions (state e)) target \<and> \<not> rv_active (ar_revocation art)
    \<and> withdrawn i St_Revoked art e e'
    \<and> (\<exists>art'. find_current (state e') i = Some art' \<and> rv_active (ar_revocation art')
         \<and> rv_decision (ar_revocation art') = target \<and> rv_cause (ar_revocation art') = cause)
    \<and> \<not> rb_eligible (evaluate_rollback_eligibility e' i)
    \<and> (pl_artifact plan = i \<longrightarrow> \<not> commits now' plan e')"
proof -
  from assms(1,2) obtain art target f where art: "find_current (state e) i = Some art"
    and target: "target = (if id_invalid decision then ar_promotion_decision art else decision)"
      "om_count (decisions (state e)) target" "\<not> rv_active (ar_revocation art)"
    and f: "f = apply_revocation target cls detail (state_authority_id (state e)) (counter_next (commit_sequence (state e)))
        (active_policy_generation (state e)) cause"
    and st': "artifacts (state e') = artifacts (update_current i f (state e))"
      "pending (state e') = om_erase i (pending (state e))" "evidence (state e') = evidence (state e)"
    by (auto simp: revoke_def trust_operation state_authority_id_def split: if_splits option.splits)
  have w: "withdrawn i St_Revoked art e e'"
    by (rule withdrawn_intro [OF st' assms(3) art]) (simp_all add: f apply_revocation_def)
  moreover have "find_current (state e') i = Some (f art)"
    using find_current_cong [OF st'(1)] find_current_update_current [of i f "state e" i] art by simp
  ultimately show ?thesis
    using art target withdrawn_never_commits [OF w, of plan now']
    by (auto simp: f apply_revocation_def evaluate_rollback_eligibility_def Let_def)
qed

theorem revoke_ends_authority_witness:
  "\<exists>m e'. revoke 2000 (Identity 1 1) (Identity 22 1) ''cve'' [] demo_authority null_id fleet = (Inr m, e')
     \<and> tm_record m \<noteq> None \<and> (\<exists>art. withdrawn (Identity 1 1) St_Revoked art fleet e') \<and> \<not> commits 2000 demo_plan e'"
proof -
  have "is_valid_name ''cve''" by code_simp
  then obtain m e' where r: "revoke 2000 (Identity 1 1) (Identity 22 1) ''cve'' [] demo_authority null_id fleet = (Inr m, e')"
    "tm_record m \<noteq> None"
    by (auto simp: revoke_def fleet_run)
  have "pl_artifact demo_plan = Identity 1 1" by (simp add: demo_plan_def)
  with revoke_ends_authority [OF r fleet_pending_ok, where plan = demo_plan and now' = 2000] r show ?thesis by auto
qed

text \<open>
  A supersession that takes effect names a registered successor other than the artifact itself
  along an edge of the active lifecycle graph; it withdraws the authority of the current revision,
  binds the successor's current revision, and leaves every other artifact, the successor included, as
  it was.
\<close>

theorem supersede_ends_authority:
  assumes "supersede now i successor reason auth e = (Inr m, e')" and "tm_record m \<noteq> None"
    and "om_ok (pending (state e))"
  shows "\<exists>art next. find_current (state e) i = Some art \<and> find_current (state e) successor = Some next
    \<and> successor \<noteq> i \<and> has_edge (po_graph (active_policy_body (state e))) (ar_stage art) St_Superseded
    \<and> withdrawn i St_Superseded art e e'
    \<and> (\<exists>art'. find_current (state e') i = Some art' \<and> sp_active (ar_supersession art')
         \<and> sp_successor (ar_supersession art') = successor
         \<and> sp_successor_revision (ar_supersession art') = ar_revision next)
    \<and> find_current (state e') successor = Some next
    \<and> (pl_artifact plan = i \<longrightarrow> \<not> commits now' plan e')"
proof -
  from assms(1,2) obtain art "next" f where art: "find_current (state e) i = Some art"
    "find_current (state e) successor = Some next" "successor \<noteq> i"
    "has_edge (po_graph (active_policy_body (state e))) (ar_stage art) St_Superseded"
    "ar_stage art \<noteq> St_Revoked" "ar_stage art \<noteq> St_Retired"
    and f: "f = apply_supersession successor (ar_revision next) reason (state_authority_id (state e))
        (counter_next (commit_sequence (state e)))"
    and st': "artifacts (state e') = artifacts (update_current i f (state e))"
      "pending (state e') = om_erase i (pending (state e))" "evidence (state e') = evidence (state e)"
    by (auto simp: supersede_def trust_operation state_authority_id_def split: if_splits option.splits)
  have w: "withdrawn i St_Superseded art e e'"
    by (rule withdrawn_intro [OF st' assms(3) art(1)])
      (use art(5,6) in \<open>simp_all add: f apply_supersession_def Let_def\<close>)
  moreover have "find_current (state e') i = Some (f art)"
    using find_current_cong [OF st'(1)] find_current_update_current [of i f "state e" i] art(1) by simp
  moreover have "find_current (state e') successor = Some next"
    using w art(2,3) by (auto simp: withdrawn_def)
  ultimately show ?thesis
    using art withdrawn_never_commits [OF w, of plan now'] by (auto simp: f apply_supersession_def Let_def)
qed

theorem supersede_ends_authority_witness:
  "\<exists>m e'. supersede 2000 (Identity 1 1) (Identity 1 2) ''newer'' demo_authority fleet = (Inr m, e')
     \<and> tm_record m \<noteq> None \<and> (\<exists>art. withdrawn (Identity 1 1) St_Superseded art fleet e')"
proof -
  obtain m e' where r: "supersede 2000 (Identity 1 1) (Identity 1 2) ''newer'' demo_authority fleet = (Inr m, e')"
    "tm_record m \<noteq> None"
    by (auto simp: supersede_def fleet_run)
  with supersede_ends_authority [OF r fleet_pending_ok] show ?thesis by blast
qed

text \<open>
  A retirement that takes effect follows an edge of the active lifecycle graph, withdraws the
  authority of the current revision, and leaves every other artifact alone; no plan for the artifact
  can commit afterwards.
\<close>

theorem retire_ends_authority:
  assumes "retire now i auth e = (Inr m, e')" and "tm_record m \<noteq> None" and "om_ok (pending (state e))"
  shows "\<exists>art. find_current (state e) i = Some art
    \<and> has_edge (po_graph (active_policy_body (state e))) (ar_stage art) St_Retired
    \<and> withdrawn i St_Retired art e e' \<and> (pl_artifact plan = i \<longrightarrow> \<not> commits now' plan e')"
proof -
  from assms(1,2) obtain art f where art: "find_current (state e) i = Some art"
    "has_edge (po_graph (active_policy_body (state e))) (ar_stage art) St_Retired"
    and f: "f = apply_retirement (counter_next (commit_sequence (state e)))"
    and st': "artifacts (state e') = artifacts (update_current i f (state e))"
      "pending (state e') = om_erase i (pending (state e))" "evidence (state e') = evidence (state e)"
    by (auto simp: retire_def trust_operation split: if_splits option.splits)
  have w: "withdrawn i St_Retired art e e'"
    by (rule withdrawn_intro [OF st' assms(3) art(1)]) (simp_all add: f apply_retirement_def)
  with art withdrawn_never_commits [OF w, of plan now'] show ?thesis by auto
qed

theorem retire_ends_authority_witness:
  "\<exists>m e'. retire 2000 (Identity 1 1) demo_authority fleet = (Inr m, e')
     \<and> tm_record m \<noteq> None \<and> (\<exists>art. withdrawn (Identity 1 1) St_Retired art fleet e')"
proof -
  obtain m e' where r: "retire 2000 (Identity 1 1) demo_authority fleet = (Inr m, e')" "tm_record m \<noteq> None"
    by (auto simp: retire_def fleet_run)
  with retire_ends_authority [OF r fleet_pending_ok] show ?thesis by blast
qed

section \<open>Governed release of a quarantine\<close>

lemma all_gates_pass_cong:
  assumes "same_authorities st st'"
  shows "all_gates_pass cfg st req now formed art rule = all_gates_pass cfg st' req now formed art rule"
  using eval_gate_cong [OF assms] assms
  by (simp add: all_gates_pass_def gate_passes_def gather_evidence_def same_authorities_def)

text \<open>The release passed the gates of the rule from the stage the revision is in to \<open>CANDIDATE\<close>.\<close>

definition release_permitted :: "EngineConfig \<Rightarrow> u64 \<Rightarrow> PromotionRequest \<Rightarrow> CoordinatorState \<Rightarrow> bool" where
  "release_permitted cfg now req st \<longleftrightarrow>
     (\<exists>art rule. find_revision st (rq_artifact req) (rq_expected_revision req) = Some art
        \<and> find_rule (active_policy_body st) (ar_kind art) (ar_stage art) St_Candidate = Some rule
        \<and> all_gates_pass cfg st req now (active_policy_generation st) art rule)"

lemma decide_release_outcome:
  assumes "decide_release cfg now i art st = (out, req, d, st')"
  shows "\<not> go_failed out \<longleftrightarrow> release_permitted cfg now req st"
    and "lifecycle st' = lifecycle st" "pending st' = pending st" "de_outcome d \<noteq> PO_PromotionCommitted"
    and "rq_artifact req = i" "rq_expected_revision req = ar_revision art" "rq_authority req = authority_of st"
proof -
  obtain r st1 where s1: "next_internal_request st = (r, st1)" by fastforce
  obtain a st2 where s2: "next_internal_attempt st1 = (a, st2)" by fastforce
  let ?req = "release_request i art r a st2"
  obtain d0 st3 where s3: "open_decision ?req st2 = (d0, st3)" by fastforce
  let ?d = "d0 \<lparr> de_artifact_generation := ar_generation art, de_artifact_kind := ar_kind art, de_from := ar_stage art \<rparr>"
  obtain o' d2 es where eg: "evaluate_gates cfg st3 ?req now ?d = (o', d2, es)"
    by (cases "evaluate_gates cfg st3 ?req now ?d") auto
  have same: "same_authorities st3 st" "lifecycle st3 = lifecycle st" "pending st3 = pending st"
    "de_policy_generation d0 = active_policy_generation st" "authority_of st2 = authority_of st"
    using s1 s2 s3
    by (auto simp: next_internal_request_def next_internal_attempt_def open_decision_def make_base_decision_def
        next_decision_sequence_eq same_authorities_def lifecycle_def authority_of_def Let_def split: prod.splits)
  from assms s1 s2 s3 eg have out: "out = o'" "req = ?req" "de_outcome d = go_outcome o'" "st' = store_decision d st3"
    by (auto simp: decide_release_def Let_def)
  have "\<not> go_failed o' \<longleftrightarrow> release_permitted cfg now ?req st"
    using evaluate_gates_eligible [of cfg st3 ?req now ?d] evaluate_gates_failed [of cfg st3 ?req now ?d] eg same(1,4)
      find_revision_cong [of st3 st] all_gates_pass_cong [OF same(1)]
    by (simp add: release_permitted_def release_request_def) (simp add: same_authorities_def)
  moreover have "go_outcome o' \<noteq> PO_PromotionCommitted"
    using evaluate_gates_not_committed [of cfg st3 ?req now ?d] eg by simp
  ultimately show "\<not> go_failed out \<longleftrightarrow> release_permitted cfg now req st"
    and "lifecycle st' = lifecycle st" "pending st' = pending st" "de_outcome d \<noteq> PO_PromotionCommitted"
    and "rq_artifact req = i" "rq_expected_revision req = ar_revision art" "rq_authority req = authority_of st"
    using out same by (simp_all add: lifecycle_def release_request_def)
qed

lemma lifecycle_fields:
  "lifecycle st = lifecycle st' \<Longrightarrow> artifacts st = artifacts st' \<and> evidence st = evidence st'
     \<and> records st = records st' \<and> vetoes st = vetoes st' \<and> active_policy_body st = active_policy_body st'"
  by (simp add: lifecycle_def)

text \<open>
  C23: A quarantine ends only through the policy: a release by the coordinator's own authority commits
  exactly when the artifact is held and every gate of the rule from its stage to the candidate stage
  passes, and the artifact then re-enters as a candidate with the hold cleared; in every other case
  the registry is unchanged.
\<close>

theorem release_is_governed:
  assumes "release_quarantine now1 now2 i auth e = (Inr m, e')" and "find_current (state e) i = Some art"
  shows "(tm_outcome m = PO_PromotionCommitted \<longleftrightarrow> qr_active (ar_quarantine art)
      \<and> release_permitted (config e) now1 (fst (snd (decide_release (config e) now1 i art (state e)))) (state e))
    \<and> (tm_outcome m = PO_PromotionCommitted \<longrightarrow>
        (\<exists>art'. find_current (state e') i = Some art' \<and> ar_stage art' = St_Candidate
           \<and> \<not> qr_active (ar_quarantine art') \<and> ar_revision art' = ar_revision art \<and> ar_digest art' = ar_digest art)
        \<and> (\<forall>j. j = i \<or> find_current (state e') j = find_current (state e) j))
    \<and> (tm_outcome m \<noteq> PO_PromotionCommitted \<longrightarrow> artifacts (state e') = artifacts (state e))"
proof -
  obtain out req d st1 where dr: "decide_release (config e) now1 i art (state e) = (out, req, d, st1)"
    by (cases "decide_release (config e) now1 i art (state e)") auto
  note permitted = decide_release_outcome(1) [OF dr] and uncommitted = decide_release_outcome(4) [OF dr]
  note frame = lifecycle_fields [OF decide_release_outcome(2) [OF dr]]
  show ?thesis
  proof (cases "qr_active (ar_quarantine art) \<and> \<not> go_failed out")
    case True
    with assms dr obtain seq where out: "tm_outcome m = PO_PromotionCommitted"
      and arts: "artifacts (state e') = artifacts (update_current i (apply_release seq) (state e))"
      by (auto simp: release_quarantine_def trust_operation update_current_def frame split: if_splits)
    have "find_current (state e') j = (if j = i then Some (apply_release seq art) else find_current (state e) j)" for j
      using find_current_cong [OF arts] find_current_update_current [of i "apply_release seq" "state e" j] assms(2) by simp
    with True out permitted dr show ?thesis by (auto simp: apply_release_def)
  next
    case False
    with assms dr uncommitted have "tm_outcome m \<noteq> PO_PromotionCommitted" "artifacts (state e') = artifacts (state e)"
      by (auto simp: release_quarantine_def trust_operation frame split: if_splits)
    with False permitted dr show ?thesis by auto
  qed
qed


definition release_rule :: PolicyRule where
  "release_rule = empty_rule \<lparr> ru_from := St_Quarantined, ru_to := St_Candidate,
     ru_requirements := [empty_gate \<lparr> gt_kind := GK_SecurityVetoClear, gt_label := ''veto'' \<rparr>] \<rparr>"

definition held_artifact :: ArtifactRecord where
  "held_artifact = demo_artifact \<lparr> ar_stage := St_Quarantined,
     ar_quarantine := no_quarantine \<lparr> qr_active := True \<rparr> \<rparr>"

definition held :: engine where
  "held = demo_engine \<lparr> state := demo_state
     \<lparr> active_policy_body := demo_policy \<lparr> po_rules := [release_rule] \<rparr>,
       artifacts := [(Identity 1 1, [held_artifact])] \<rparr> \<rparr>"

lemma held_simps:
  "admission_open held" "artifacts (state held) = [(Identity 1 1, [held_artifact])]"
  "active_policy_body (state held) = demo_policy \<lparr> po_rules := [release_rule] \<rparr>"
  "vetoes (state held) = []" "coordinator (state held) = Identity 9 1" "epoch (state held) = Counter 3"
  "ar_revision held_artifact = Identity 2 1" "ar_kind held_artifact = AK_Library"
  "ar_stage held_artifact = St_Quarantined" "qr_active (ar_quarantine held_artifact)"
  by (simp_all add: held_def demo_engine_def demo_state_fields held_artifact_def demo_artifact_def)
    (simp_all add: demo_state_def)

lemma held_permitted:
  assumes "rq_artifact req = Identity 1 1" "rq_expected_revision req = Identity 2 1"
  shows "release_permitted cfg now req (state held)"
proof -
  have "find_revision (state held) (Identity 1 1) (Identity 2 1) = Some held_artifact"
    by (simp add: find_revision_def held_simps)
  moreover have "find_rule (active_policy_body (state held)) AK_Library St_Quarantined St_Candidate = Some release_rule"
    by (simp add: held_simps find_rule_def rule_matches_def release_rule_def empty_rule_def)
  moreover have "all_gates_pass cfg (state held) req now formed held_artifact release_rule" for formed
    by (simp add: all_gates_pass_def release_rule_def gate_passes_def eval_gate_def held_simps security_veto_gate_def
        satisfied_def)
  ultimately show ?thesis using assms by (auto simp: release_permitted_def held_simps)
qed

theorem release_is_governed_witness:
  "\<exists>m e'. release_quarantine 2000 2001 (Identity 1 1) demo_authority held = (Inr m, e')
     \<and> tm_outcome m = PO_PromotionCommitted
     \<and> (\<exists>art'. find_current (state e') (Identity 1 1) = Some art' \<and> ar_stage art' = St_Candidate)"
proof -
  have cur: "find_current (state held) (Identity 1 1) = Some held_artifact"
    by (simp add: find_current_def held_simps)
  obtain out req d st1 where dr: "decide_release (config held) 2000 (Identity 1 1) held_artifact (state held) = (out, req, d, st1)"
    by (cases "decide_release (config held) 2000 (Identity 1 1) held_artifact (state held)") auto
  have perm: "release_permitted (config held) 2000 req (state held)"
    using decide_release_outcome(5,6) [OF dr] by (intro held_permitted) (simp_all add: held_simps)
  obtain m e' where r: "release_quarantine 2000 2001 (Identity 1 1) demo_authority held = (Inr m, e')"
    using cur dr decide_release_outcome(1) [OF dr] perm
    by (auto simp: release_quarantine_def held_simps foreign_authority_def demo_authority_def trust_operation)
  from release_is_governed [OF r cur] dr perm r held_simps(10) show ?thesis by auto
qed

section \<open>Vetoes\<close>

text \<open>
  Setting a security veto on an artifact blocks it: no request whose governing rule requires a
  clear security veto is eligible for a revision of that artifact, and no plan for such a revision
  commits, whatever the evidence.
\<close>

theorem security_veto_blocks:
  assumes "set_security_veto i True reason e = (s, e')" and "status_ok s"
    and "find_revision (state e) (rq_artifact req) (rq_expected_revision req) = Some art" and "ar_id art = i"
    and "find_rule (active_policy_body (state e)) (ar_kind art) (ar_stage art) (rq_requested_stage req) = Some rule"
    and "g \<in> set (ru_requirements rule)" and "gt_kind g = GK_SecurityVetoClear"
  shows "go_outcome (fst (evaluate_gates cfg (state e') req now d)) \<noteq> PO_PromotionEligible
    \<and> (pl_artifact plan = rq_artifact req \<and> pl_artifact_revision plan = rq_expected_revision req
         \<and> pl_to plan = rq_requested_stage req \<longrightarrow> \<not> commits now plan e')"
proof -
  from assms(1,2) obtain v where st': "state e' = (state e) \<lparr> vetoes := om_insert i v (vetoes (state e)) \<rparr>" "vs_security_veto v"
    by (auto simp: set_security_veto_def Let_def status_ok_def split: if_splits)
  have fr: "find_revision (state e') = find_revision (state e)"
    by (rule find_revision_cong) (simp add: st')
  have "\<not> gate_passes cfg' (state e') req' now formed art evs g" for cfg' req' formed evs
    using assms(4,7) st' by (simp add: gate_passes_def eval_gate_def security_veto_gate_def)
  then have no: "\<not> all_gates_pass cfg' (state e') req' now formed art rule" for cfg' req' formed
    using assms(6) unfolding all_gates_pass_def by blast
  have "\<not> commits now plan e'" if "pl_artifact plan = rq_artifact req"
    "pl_artifact_revision plan = rq_expected_revision req" "pl_to plan = rq_requested_stage req"
    using commits_authorised [of now plan e'] that no fr assms(3,5) st' by (auto simp: commit_authorised_def)
  with no fr assms(3,5) st' show ?thesis by (auto simp: evaluate_gates_eligible)
qed

theorem security_veto_blocks_witness:
  "\<exists>s e'. set_security_veto (Identity 1 1) True ''cve'' demo_reserved = (s, e') \<and> status_ok s
     \<and> commits 2000 demo_plan demo_reserved \<and> \<not> commits 2000 demo_plan e'"
proof -
  obtain s e' where v: "set_security_veto (Identity 1 1) True ''cve'' demo_reserved = (s, e')" "status_ok s"
    by (simp add: set_security_veto_def Let_def id_valid_def)
  have "find_revision (state demo_reserved) (rq_artifact demo_request) (rq_expected_revision demo_request) = Some demo_artifact"
    using demo_lookup(1) by (simp add: find_revision_def demo_reserved_simps demo_request_def)
  moreover have "ar_id demo_artifact = Identity 1 1" by (simp add: demo_artifact_def)
  moreover have "find_rule (active_policy_body (state demo_reserved)) (ar_kind demo_artifact) (ar_stage demo_artifact)
      (rq_requested_stage demo_request) = Some demo_rule"
    using demo_lookup(2) by (simp add: demo_reserved_simps demo_artifact_def demo_request_def)
  moreover have "demo_gates ! 3 \<in> set (ru_requirements demo_rule)" "gt_kind (demo_gates ! 3) = GK_SecurityVetoClear"
    by (simp_all add: demo_rule_def demo_gates_def)
  moreover have "commits 2000 demo_plan demo_reserved"
    by (rule demo_commit) (auto simp: commits_def)
  ultimately show ?thesis
    using security_veto_blocks [OF v, where req = demo_request and plan = demo_plan and now = 2000] v
    by (auto simp: demo_plan_def demo_request_def)
qed

end
