(* ===== verification/Explanation.thy ===== *)
theory Explanation
  imports Authority
begin

text \<open>
  What a decision says: the gate-by-gate explanation and the outcome of a failed evaluation
  (\<open>src/engine/evaluate.cpp\<close>), the explanation of a transition that is not evaluated
  (\<open>src/engine/explain.cpp\<close>), and exactly when a freshness gate passes.
\<close>

section \<open>The explanation of an evaluation\<close>

text \<open>A reference description: the verdicts of the gates, in the declared order.\<close>

definition verdict_line :: "Gate \<times> verdict \<Rightarrow> GateExplanation" where
  "verdict_line gv =
     (case gv of (g, code, detail, r) \<Rightarrow>
        if code = EC_Ok then explain_gate g GS_Satisfied EC_Ok []
        else explain_gate g (failure_status code) code detail)"

definition verdict_reason :: "Gate \<times> verdict \<Rightarrow> Reason list" where
  "verdict_reason gv =
     (case gv of (g, code, detail, r) \<Rightarrow> if code = EC_Ok then [] else [make_reason code detail (gt_label g)])"

definition first_failed_outcome :: "(Gate \<times> verdict) list \<Rightarrow> PromotionOutcome" where
  "first_failed_outcome gvs =
     (case find (\<lambda>(g, code, detail, r). code \<noteq> EC_Ok) gvs of
        None \<Rightarrow> PO_PromotionEligible
      | Some (g, code, detail, r) \<Rightarrow> outcome_for_requirement (gate_error_code (gt_kind g) code))"

text \<open>The answers of the gates the evaluation reaches: it stops at the first gate that names an unregistered dependency.\<close>

fun reached :: "(Gate \<times> (string + verdict)) list \<Rightarrow> (Gate \<times> (string + verdict)) list" where
  "reached [] = []"
| "reached ((g, Inl dependency) # rest) = [(g, Inl dependency)]"
| "reached ((g, Inr v) # rest) = (g, Inr v) # reached rest"

lemma reached_all: "list_all (\<lambda>(g, a). \<not> isl a) (reached xs) \<Longrightarrow> reached xs = xs"
  by (induction xs rule: reached.induct) auto

definition answer_line :: "Gate \<times> (string + verdict) \<Rightarrow> GateExplanation" where
  "answer_line ga =
     (case ga of
        (g, Inl dependency) \<Rightarrow> explain_gate g GS_Unknown EC_OrderingViolation
          (lit (''dependency '' @ [CHR 0x27] @ dependency @ [CHR 0x27] @ '' has never been registered''))
      | (g, Inr v) \<Rightarrow> verdict_line (g, v))"

definition answer_reason :: "Gate \<times> (string + verdict) \<Rightarrow> Reason list" where
  "answer_reason ga =
     (case ga of
        (g, Inl dependency) \<Rightarrow>
          [make_reason EC_OrderingViolation ''a declared dependency has never been registered'' dependency]
      | (g, Inr v) \<Rightarrow> verdict_reason (g, v))"

definition answers_outcome :: "(Gate \<times> (string + verdict)) list \<Rightarrow> PromotionOutcome" where
  "answers_outcome gas =
     (if list_all (\<lambda>(g, a). \<not> isl a) gas then first_failed_outcome (map (\<lambda>(g, a). (g, projr a)) gas)
      else PO_ProvenanceMissing)"

definition gate_answers :: "EngineConfig \<Rightarrow> CoordinatorState \<Rightarrow> PromotionRequest \<Rightarrow> u64 \<Rightarrow> PolicyGeneration
    \<Rightarrow> ArtifactRecord \<Rightarrow> EvidenceRecord list \<Rightarrow> Gate list \<Rightarrow> (Gate \<times> (string + verdict)) list" where
  "gate_answers cfg st req now formed art evs gates = map (\<lambda>g. (g, eval_gate cfg st req now formed art evs g)) gates"

lemma gate_loop_answers:
  assumes "first \<longleftrightarrow> \<not> go_failed result" and "formed = de_policy_generation d"
  shows "de_gates (snd (gate_loop cfg st req now art evs gates first result d)) =
      de_gates d @ map answer_line (reached (gate_answers cfg st req now formed art evs gates))
    \<and> de_reasons (snd (gate_loop cfg st req now art evs gates first result d)) =
      de_reasons d @ concat (map answer_reason (reached (gate_answers cfg st req now formed art evs gates)))
    \<and> go_outcome (fst (gate_loop cfg st req now art evs gates first result d)) =
      (if first \<or> \<not> list_all (\<lambda>(g, a). \<not> isl a) (reached (gate_answers cfg st req now formed art evs gates))
       then answers_outcome (reached (gate_answers cfg st req now formed art evs gates)) else go_outcome result)"
  using assms
proof (induction gates arbitrary: first result d)
  case Nil
  then show ?case by (simp add: gate_answers_def answers_outcome_def first_failed_outcome_def)
next
  case (Cons g gates)
  show ?case
  proof (cases "eval_gate cfg st req now (de_policy_generation d) art evs g")
    case (Inl dependency)
    with Cons.prems show ?thesis
      by (simp add: gate_answers_def answers_outcome_def answer_line_def answer_reason_def record_unregistered_def)
  next
    case (Inr v)
    obtain code detail r where v: "v = (code, detail, r)" by (cases v) auto
    show ?thesis
    proof (cases "code = EC_Ok")
      case True
      with Cons.prems Inr v Cons.IH [of first result "record_satisfied g d"] show ?thesis
        by (simp add: gate_answers_def answer_line_def answer_reason_def answers_outcome_def verdict_line_def
            verdict_reason_def first_failed_outcome_def) (simp add: record_satisfied_def)
    next
      case False
      let ?result = "if first then \<lparr> go_outcome = outcome_for_requirement (gate_error_code (gt_kind g) code),
        go_failed = True \<rparr> else result"
      have "de_gates (record_failure g v d) = de_gates d @ [answer_line (g, Inr v)]"
        "de_reasons (record_failure g v d) = de_reasons d @ answer_reason (g, Inr v)"
        using False v by (simp_all add: record_failure_def answer_line_def answer_reason_def verdict_line_def verdict_reason_def)
      with False Cons.prems Inr v Cons.IH [of False ?result "record_failure g v d"] show ?thesis
        by (auto simp: gate_answers_def answers_outcome_def first_failed_outcome_def record_failure_def)
    qed
  qed
qed

text \<open>
  C12: The explanation of an evaluation is complete and in order.  When the revision is registered and a rule governs the
  transition, the decision lists one entry per gate in the order the policy declares them, with the gate's status and
  code, and one reason per failed gate in that order, and the outcome is the one the first failed gate names, or
  eligibility when there is none.  The one exception is a gate that names a dependency which was never registered: the
  evaluation stops there, the entry and the reason for that gate are the last ones, and the outcome is missing provenance
  whatever failed before.
\<close>

theorem explanation_complete:
  assumes "find_revision st (rq_artifact req) (rq_expected_revision req) = Some art"
    and "find_rule (active_policy_body st) (ar_kind art) (ar_stage art) (rq_requested_stage req) = Some rule"
    and "gas = reached (gate_answers cfg st req now (de_policy_generation d) art
           (gather_evidence st (ar_id art) (ar_revision art)) (ru_requirements rule))"
  shows "de_gates (fst (snd (evaluate_gates cfg st req now d))) = de_gates d @ map answer_line gas
    \<and> de_reasons (fst (snd (evaluate_gates cfg st req now d))) = de_reasons d @ concat (map answer_reason gas)
    \<and> go_outcome (fst (evaluate_gates cfg st req now d)) = answers_outcome gas
    \<and> (list_all (\<lambda>(g, a). \<not> isl a) gas \<longrightarrow> map fst gas = ru_requirements rule)"
proof -
  let ?d = "bind_snapshot art (snapshot_entries (gathered st art)) (bind_artifact art req d)"
  have "de_gates ?d = de_gates d" "de_reasons ?d = de_reasons d" "de_policy_generation d = de_policy_generation ?d"
    by (simp_all add: bind_snapshot_def bind_artifact_def)
  moreover have "map fst gas = ru_requirements rule" if "list_all (\<lambda>(g, a). \<not> isl a) gas"
    using reached_all [OF that [unfolded assms(3)]] by (simp add: assms(3)) (simp add: gate_answers_def o_def)
  ultimately show ?thesis
    using gate_loop_answers [of True initial_outcome "de_policy_generation d" ?d cfg st req now art "gathered st art" "ru_requirements rule"]
      evaluate_gates_rule [OF assms(1,2), of cfg now d]
    by (simp add: initial_outcome_def assms(3))
qed

text \<open>The same request with the build record expired: the freshness gate fails, the rest pass.\<close>

lemma demo_resolve:
  assumes "gt_evidence_type g = ET_BuildPass"
  shows "resolve_gate_evidence [demo_evidence] demo_artifact g = (EC_Ok, [], Some demo_evidence)"
  using assms
  by (simp add: resolve_gate_evidence_def is_valid_evidence_type_def demo_artifact_def select_evidence_for_gate_def
      select_step_def empty_selection_def gate_targets_def keep_newest_def demo_evidence_def)

theorem explanation_complete_witness:
  "\<exists>msg. go_outcome (fst (evaluate_gates config_defaults demo_state demo_request 10000 empty_decision)) = PO_EvidenceStale
     \<and> de_reasons (fst (snd (evaluate_gates config_defaults demo_state demo_request 10000 empty_decision)))
         = [make_reason EC_EvidenceStale msg ''fresh'']"
proof -
  have fr: "find_revision demo_state (rq_artifact demo_request) (rq_expected_revision demo_request) = Some demo_artifact"
    using demo_lookup(1) by (simp add: demo_request_def)
  have ru: "find_rule (active_policy_body demo_state) (ar_kind demo_artifact) (ar_stage demo_artifact)
      (rq_requested_stage demo_request) = Some demo_rule"
    using demo_lookup(2) by (simp add: demo_state_def set_active_policy_def demo_artifact_def demo_request_def)
  obtain msg where fresh: "freshness_code config_defaults 10000 (demo_gates ! 2) demo_evidence = Some (EC_EvidenceStale, msg)"
    by (simp add: freshness_code_def config_defaults_def demo_evidence_def demo_gates_def Let_def)
  let ?gvs = "[(demo_gates ! 0, satisfied), (demo_gates ! 1, (EC_Ok, [], Some demo_evidence)),
    (demo_gates ! 2, (EC_EvidenceStale, msg, Some demo_evidence)), (demo_gates ! 3, satisfied), (demo_gates ! 4, satisfied)]"
  have gates: "ru_requirements demo_rule = map fst ?gvs"
    by (simp add: demo_rule_def demo_gates_def)
  have auth: "rq_authority demo_request = demo_authority" "vetoes demo_state = []"
    "coordinator demo_state = Identity 9 1" "epoch demo_state = Counter 3" "\<not> ev_has_validity_window demo_evidence"
    "\<not> qr_active (ar_quarantine demo_artifact)" "ar_stage demo_artifact = St_Approved"
    by (simp_all add: demo_defs set_active_policy_def empty_state_def no_quarantine_def)
  have kinds: "gt_kind (demo_gates ! 0) = GK_ArtifactNotQuarantined" "gt_kind (demo_gates ! 1) = GK_EvidenceRequired"
    "gt_kind (demo_gates ! 2) = GK_EvidenceFreshness" "gt_kind (demo_gates ! 3) = GK_SecurityVetoClear"
    "gt_kind (demo_gates ! 4) = GK_CoordinatorEpochCurrent" "gt_label (demo_gates ! 2) = ''fresh''"
    "gt_evidence_type (demo_gates ! 1) = ET_BuildPass" "gt_evidence_type (demo_gates ! 2) = ET_BuildPass"
    by (simp_all add: demo_gates_def)
  have answers: "gate_answers config_defaults demo_state demo_request 10000 (de_policy_generation empty_decision) demo_artifact
      (gathered demo_state demo_artifact) (ru_requirements demo_rule) = map (\<lambda>(g, v). (g, Inr v)) ?gvs"
    unfolding gate_answers_def gates demo_lookup(3)
    using fresh auth kinds demo_resolve
    by (simp add: eval_gate_def evidence_gate_def not_quarantined_gate_def security_veto_gate_def
        coordinator_epoch_gate_def satisfied_def) (simp add: demo_authority_def)
  from explanation_complete [OF fr ru refl, of config_defaults 10000 empty_decision, unfolded answers] kinds show ?thesis
    by (intro exI [of _ msg])
      (simp add: answer_reason_def answers_outcome_def verdict_reason_def first_failed_outcome_def satisfied_def
        gate_error_code_def outcome_for_requirement_def empty_decision_def)
qed

section \<open>Explaining without evaluating\<close>

lemma explain_governed:
  assumes "find_current (state e) i = Some art" and "find_revision (state e) i (ar_revision art) = Some art"
    and "destination \<noteq> St_Invalid" and "is_valid_stage_value (stage_value destination)"
    and "\<not> (ar_stage art = destination \<and> currently_authoritative art)"
    and "explained_stage (active_policy_body (state e)) art destination = to"
    and "find_rule (active_policy_body (state e)) (ar_kind art) (ar_stage art) to = Some rule"
  shows "\<exists>d req. explain now1 now2 e i destination = Some d \<and> de_to d = destination
    \<and> rq_authority req = authority_of (state e)
    \<and> (de_outcome d = PO_PromotionEligible \<longleftrightarrow>
         all_gates_pass (config e) (state e) req now1 (active_policy_generation (state e)) art rule)"
proof -
  let ?req = "\<lparr> rq_artifact = i, rq_expected_revision = ar_revision art, rq_expected_digest = ar_digest art,
    rq_requested_stage = to, rq_request = null_id, rq_attempt = null_id, rq_authority = authority_of (state e),
    rq_requester = null_producer \<rparr>"
  let ?d = "empty_decision \<lparr> de_artifact := i, de_artifact_revision := ar_revision art,
    de_artifact_generation := ar_generation art, de_artifact_digest := ar_digest art, de_artifact_kind := ar_kind art,
    de_from := ar_stage art, de_to := destination, de_policy := active_policy (state e),
    de_policy_generation := active_policy_generation (state e), de_policy_digest := active_policy_digest (state e),
    de_authority := authority_of (state e) \<rparr>"
  obtain out d1 es where eg: "evaluate_gates (config e) (state e) ?req now1 ?d = (out, d1, es)"
    by (cases "evaluate_gates (config e) (state e) ?req now1 ?d") auto
  have "explain now1 now2 e i destination = Some (d1 \<lparr> de_outcome := go_outcome out, de_to := destination,
      de_decided_unix_millis := Some now2 \<rparr>)"
    using assms eg by (auto simp: explain_def Let_def)
  moreover have "go_outcome out = PO_PromotionEligible \<longleftrightarrow>
      all_gates_pass (config e) (state e) ?req now1 (active_policy_generation (state e)) art rule"
    using evaluate_gates_eligible [of "config e" "state e" ?req now1 ?d] eg assms(2,7) by simp
  ultimately show ?thesis by (intro exI [of _ ?req] exI) auto
qed

text \<open>
  Explaining a transition that the lifecycle forbids can answer that it is eligible: on the demo
  coordinator the move from the approved to the qualified stage has neither an edge nor a rule, an
  evaluation of it ends as an illegal transition, and its explanation reports the outcome of the
  transition to the promoted stage instead.
\<close>

theorem explain_reports_eligible_for_illegal:
  "\<not> stage_is_reachable (active_policy_body (state demo_engine)) AK_Library St_Approved St_Qualified
   \<and> (\<exists>d. explain 1000 1000 demo_engine (Identity 1 1) St_Qualified = Some d
        \<and> de_to d = St_Qualified \<and> de_outcome d = PO_PromotionEligible)
   \<and> (\<exists>d p st. decide config_defaults 1000 (demo_request \<lparr> rq_requested_stage := St_Qualified \<rparr>) demo_artifact
        empty_decision demo_state = (d, p, st) \<and> de_outcome d = PO_TransitionIllegal \<and> p = None)"
proof -
  let ?st = "state demo_engine"
  have body: "active_policy_body ?st = demo_policy" "?st = demo_state" "active_policy_body demo_state = demo_policy"
    by (simp_all add: demo_engine_def demo_state_def set_active_policy_def)
  have art: "ar_kind demo_artifact = AK_Library" "ar_stage demo_artifact = St_Approved"
    "ar_revision demo_artifact = Identity 2 1"
    by (simp_all add: demo_artifact_def)
  have none: "find_rule demo_policy AK_Library St_Approved St_Qualified = None"
    by (simp add: demo_policy_def demo_rule_def find_rule_def rule_matches_def empty_rule_def)
  have noedge: "\<not> has_edge (po_graph demo_policy) St_Approved St_Qualified" by code_simp
  have edge: "has_edge (po_graph demo_policy) St_Approved St_Promoted" by code_simp
  have stage: "explained_stage demo_policy demo_artifact St_Qualified = St_Promoted"
    using none edge art by (simp add: explained_stage_def demo_policy_def demo_rule_def empty_rule_def)
  have lookups: "find_current ?st (Identity 1 1) = Some demo_artifact"
    "find_revision ?st (Identity 1 1) (ar_revision demo_artifact) = Some demo_artifact"
    using demo_lookup(1) body art by (simp_all add: find_current_def demo_state_def)
  obtain d req where ex: "explain 1000 1000 demo_engine (Identity 1 1) St_Qualified = Some d" "de_to d = St_Qualified"
    "rq_authority req = authority_of ?st"
    "de_outcome d = PO_PromotionEligible \<longleftrightarrow>
       all_gates_pass (config demo_engine) ?st req 1000 (active_policy_generation ?st) demo_artifact demo_rule"
    using explain_governed [OF lookups, of St_Qualified St_Promoted demo_rule 1000 1000] stage body art demo_lookup(2)
    by (auto simp: is_valid_stage_value_def kStageMin_def kStageMax_def)
  have "all_gates_pass config_defaults ?st req 1000 formed demo_artifact demo_rule" for formed
    using ex(3) by (intro demo_gates_pass)
      (simp_all add: body demo_state_def authority_of_def demo_authority_def set_active_policy_def empty_state_def)
  then have "de_outcome d = PO_PromotionEligible" using ex(4) by (simp add: demo_engine_def)
  moreover have "\<not> stage_is_reachable demo_policy AK_Library St_Approved St_Qualified"
    using none noedge by (simp add: stage_is_reachable_def)
  ultimately show ?thesis
    using ex body art by (simp add: decide_def demo_request_def add_reason_def Let_def)
qed

section \<open>Freshness\<close>

lemma freshness_code_iff:
  assumes "unat now + unat (future_skew_tolerance_millis cfg) < 2 ^ 64"
    and "unat (gt_max_age_millis gate) + unat (future_skew_tolerance_millis cfg) < 2 ^ 64"
  shows "freshness_code cfg now gate ev = None \<longleftrightarrow>
    ev_produced_unix_millis ev \<le> now \<and> unat now - unat (ev_produced_unix_millis ev) \<le> unat (gt_max_age_millis gate)"
proof -
  let ?p = "ev_produced_unix_millis ev" and ?s = "future_skew_tolerance_millis cfg" and ?m = "gt_max_age_millis gate"
  have sum: "unat (now + ?s) = unat now + unat ?s" using assms(1) by (simp add: unat_word_ariths)
  have none: "freshness_code cfg now gate ev = None \<longleftrightarrow> unat ?p \<le> unat now + unat ?s \<and> unat (now - ?p) \<le> unat ?m"
    by (simp add: freshness_code_def Let_def word_less_nat_alt sum not_less)
  show ?thesis
  proof (cases "?p \<le> now")
    case True
    then have "unat (now - ?p) = unat now - unat ?p" by (simp add: unat_sub)
    with True none show ?thesis by (auto simp: word_le_nat_alt)
  next
    case False
    have "unat ?p < 2 ^ 64" using unsigned_less [of ?p] by simp
    moreover have "unat (now - ?p) = 2 ^ 64 + unat now - unat ?p" using False by (simp add: unat_sub_if_size word_size word_le_nat_alt)
    ultimately show ?thesis using none False assms(2) by (auto simp: word_le_nat_alt)
  qed
qed

text \<open>
  C40: The tolerated clock skew never makes a freshness gate pass.  When the evaluation instant plus the tolerance and the
  gate's age limit plus the tolerance fit 64 bits, a freshness gate with a suitable record passes exactly when the record
  was produced no later than the evaluation instant, is no older than the limit, and is inside its validity window; a
  record produced after the evaluation instant is stale, whether it is within the tolerance or beyond it, because within
  the tolerance its age is an unsigned difference that wraps.
\<close>

theorem freshness_gate_iff:
  assumes "gt_kind gate = GK_EvidenceFreshness" and "resolve_gate_evidence evs art gate = (EC_Ok, detail, Some ev)"
    and "unat now + unat (future_skew_tolerance_millis cfg) < 2 ^ 64"
    and "unat (gt_max_age_millis gate) + unat (future_skew_tolerance_millis cfg) < 2 ^ 64"
  shows "(fst (evidence_gate cfg now evs art gate) = EC_Ok \<longleftrightarrow>
      ev_produced_unix_millis ev \<le> now \<and> unat now - unat (ev_produced_unix_millis ev) \<le> unat (gt_max_age_millis gate)
      \<and> (\<not> ev_has_validity_window ev \<or> ev_valid_from_unix_millis ev \<le> now \<and> now \<le> ev_valid_until_unix_millis ev))
    \<and> (fst (evidence_gate cfg now evs art gate) \<noteq> EC_Ok \<longrightarrow> fst (evidence_gate cfg now evs art gate) = EC_EvidenceStale)"
proof -
  have stale: "\<exists>msg. freshness_code cfg now gate ev = Some (EC_EvidenceStale, msg)" if "freshness_code cfg now gate ev \<noteq> None"
    using that by (auto simp: freshness_code_def Let_def split: if_splits)
  show ?thesis
    using freshness_code_iff [OF assms(3,4), of ev] stale assms(1,2)
    by (cases "freshness_code cfg now gate ev") (auto simp: evidence_gate_def not_less)
qed

theorem freshness_gate_iff_witness:
  "fst (evidence_gate config_defaults 899 [demo_evidence] demo_artifact (demo_gates ! 2)) = EC_EvidenceStale
     \<and> fst (evidence_gate config_defaults 900 [demo_evidence] demo_artifact (demo_gates ! 2)) = EC_Ok
     \<and> future_skew_tolerance_millis config_defaults = 5000 \<and> ev_produced_unix_millis demo_evidence = 900"
proof -
  have gate: "gt_kind (demo_gates ! 2) = GK_EvidenceFreshness" "gt_evidence_type (demo_gates ! 2) = ET_BuildPass"
    "gt_max_age_millis (demo_gates ! 2) = 5000" "future_skew_tolerance_millis config_defaults = 5000"
    "ev_produced_unix_millis demo_evidence = 900" "\<not> ev_has_validity_window demo_evidence"
    by (simp_all add: demo_gates_def config_defaults_def demo_evidence_def)
  show ?thesis
    using freshness_gate_iff [OF gate(1) demo_resolve [OF gate(2)], of 899 config_defaults]
      freshness_gate_iff [OF gate(1) demo_resolve [OF gate(2)], of 900 config_defaults] gate
    by simp
qed

end
