(* ===== verification/Codec.thy ===== *)
theory Codec
  imports Store
begin

text \<open>
  The wire form of the enumerations and of the small records (\<open>detail/codec.hpp\<close>, first part of
  \<open>src/persist/codec.cpp\<close>).  Every writer and reader is an interpretation of the \<open>codec\<close>
  interface, so a value is read back exactly and every accepted region is the encoding of its value.
  Locale \<open>byte_enum\<close> derives this once for all enumerations; locale \<open>roundtrip\<close> is the
  weaker contract of the records whose readers normalise what they read.
\<close>

section \<open>Interfaces\<close>

locale roundtrip =
  fixes encode :: "'a \<Rightarrow> bytes" and decode :: "'a reader" and ok :: "'a \<Rightarrow> bool"
  assumes read_back: "ok x \<Longrightarrow> decode (encode x @ rest) = Inr (x, rest)"
begin

lemma elements_read_back:
  "list_all ok xs \<Longrightarrow> read_elements decode (length xs) (concat (map encode xs) @ rest) = Inr (xs, rest)"
  by (induction xs) (simp_all add: read_back)

lemma list_read_back:
  assumes "list_fits limit ok xs"
  shows "read_list limit decode (write_list encode xs @ rest) = Inr (xs, rest)"
  using assms elements_read_back [of xs rest]
  by (simp add: read_list_def read_count_def write_list_def list_fits_def u32.decode_encode
      unat_of_nat_u32 del: of_nat_numeral)

lemma list_roundtrip: "roundtrip (write_list encode) (read_list limit decode) (list_fits limit ok)"
  by unfold_locales (rule list_read_back)

end

sublocale codec \<subseteq> roundtrip
  by unfold_locales (rule decode_encode)

lemma codecI:
  assumes "\<And>region x rest. decode region = Inr (x, rest) \<longleftrightarrow> ok x \<and> region = encode x @ rest"
  shows "codec encode decode ok"
  using assms by unfold_locales auto

lemma read_raw_iff: "read_raw n region = Inr (xs, rest) \<longleftrightarrow> length xs = n \<and> region = xs @ rest"
  by (auto simp: read_raw_def available_def split: if_splits)

lemma read_skip_iff: "read_skip n region = Inr (u, rest) \<longleftrightarrow> (\<exists>xs. length xs = n \<and> region = xs @ rest)"
  by (auto simp: read_skip_def available_def split: if_splits intro!: exI [of _ "take n region"])

lemma raw_append: "length xs = n \<Longrightarrow> read_raw n (xs @ rest) = Inr (xs, rest)"
  by (simp add: read_raw_iff)

section \<open>Enumerations\<close>

definition read_enum :: "'a list \<Rightarrow> (nat \<Rightarrow> bool) \<Rightarrow> Status \<Rightarrow> 'a reader" where
  "read_enum table valid malformed =
     read_bind read_u8 (\<lambda>raw.
       if \<not> valid (unat raw) then read_fail malformed else read_return (table ! unat raw))"

definition write_enum :: "('a \<Rightarrow> nat) \<Rightarrow> 'a \<Rightarrow> bytes" where
  "write_enum value x = write_u8 (of_nat (value x))"

locale byte_enum = enumeration +
  fixes "value" :: "'a \<Rightarrow> nat" and valid :: "nat \<Rightarrow> bool" and malformed :: Status
  assumes value_index: "value x = index_in table x"
    and table_small: "length table \<le> 256"
    and valid_listed: "valid n \<Longrightarrow> n < length table"
begin

lemma unat_value: "unat (of_nat (value x) :: u8) = value x"
  using index_less [of x] table_small by (simp add: unat_of_nat value_index)

lemma read_enum_iff:
  "read_enum table valid malformed region = Inr (x, rest) \<longleftrightarrow> valid (value x) \<and> region = write_enum value x @ rest"
proof -
  have at_value: "table ! value x = x" by (simp add: value_index nth_index)
  have "value (table ! unat raw) = unat raw" if "valid (unat raw)" for raw :: u8
    using index_nth [OF valid_listed [OF that]] by (simp add: value_index)
  then have "valid (unat raw) \<and> table ! unat raw = x \<longleftrightarrow> valid (value x) \<and> raw = of_nat (value x)" for raw :: u8
    using at_value by (auto simp: unat_value)
  moreover have "read_enum table valid malformed region = Inr (x, rest) \<longleftrightarrow>
      (\<exists>raw. (valid (unat raw) \<and> table ! unat raw = x) \<and> region = write_u8 raw @ rest)"
    by (auto simp: read_enum_def read_bind_eq_Inr u8.decode_iff split: if_splits)
  ultimately show ?thesis by (auto simp: write_enum_def)
qed

end

sublocale byte_enum \<subseteq> wire: codec "write_enum value" "read_enum table valid malformed" "\<lambda>x. valid (value x)"
  by (rule codecI) (rule read_enum_iff)


definition provenance_resolutions :: "ProvenanceResolution list" where
  "provenance_resolutions = [PR_Unknown, PR_Resolved, PR_Superseded, PR_Rejected]"

definition evidence_results :: "EvidenceResult list" where
  "evidence_results = [ER_Unknown, ER_Pass, ER_Fail, ER_Inconclusive, ER_NotApplicable]"

definition ordering_rules :: "OrderingRule list" where
  "ordering_rules = [ORule_None, ORule_LowerCommitSequence, ORule_HigherCommitSequence,
     ORule_LexicographicArtifactId, ORule_LexicographicDigest]"

definition gate_statuses :: "GateStatus list" where
  "gate_statuses = [GS_NotEvaluated, GS_Satisfied, GS_Failed, GS_Unknown, GS_NotApplicable]"

definition history_event_kinds :: "HistoryEventKind list" where
  "history_event_kinds = [HE_Invalid, HE_ArtifactRegistered, HE_ArtifactSupersededRegistration,
     HE_EvidenceSubmitted, HE_EvidenceSuperseded, HE_EvidenceRevoked, HE_PolicyPublished,
     HE_PromotionEvaluated, HE_PromotionCommitted, HE_PromotionRejected, HE_Quarantined,
     HE_QuarantineReleased, HE_Revoked, HE_Superseded, HE_Retired, HE_RecoveryNote]"

definition history_event_kind_value :: "HistoryEventKind \<Rightarrow> nat" where
  "history_event_kind_value k = index_in history_event_kinds k"

abbreviation "write_stage \<equiv> write_enum stage_value"
abbreviation "write_kind \<equiv> write_enum artifact_kind_value"
abbreviation "write_evidence_result \<equiv> write_enum evidence_result_value"
abbreviation "write_provenance_resolution \<equiv> write_enum provenance_resolution_value"
abbreviation "write_gate_kind \<equiv> write_enum gate_kind_value"
abbreviation "write_ordering_rule \<equiv> write_enum ordering_rule_value"
abbreviation "write_history_kind \<equiv> write_enum history_event_kind_value"
abbreviation "write_outcome \<equiv> write_enum promotion_outcome_value"
abbreviation "write_gate_status \<equiv> write_enum gate_status_value"

definition read_stage :: "Stage reader" where
  "read_stage = read_enum all_stages is_valid_stage_value
     (fail EC_InvalidStage ''encoded lifecycle stage is not a known stage'')"

definition read_kind :: "ArtifactKind reader" where
  "read_kind = read_enum artifact_kinds is_valid_artifact_kind
     (fail EC_InvalidEnum ''encoded artifact kind is not a known artifact class'')"

definition read_evidence_result :: "EvidenceResult reader" where
  "read_evidence_result = read_enum evidence_results is_valid_evidence_result
     (fail EC_InvalidEnum ''encoded evidence result is not a known result class'')"

definition read_provenance_resolution :: "ProvenanceResolution reader" where
  "read_provenance_resolution =
     read_enum provenance_resolutions (\<lambda>raw. \<not> raw > provenance_resolution_value PR_Rejected)
       (fail EC_InvalidEnum ''encoded provenance resolution is not a known value'')"

definition require_gate_kind :: "u8 \<Rightarrow> GateKind reader" where
  "require_gate_kind raw =
     (if \<not> is_valid_gate_kind (unat raw)
      then read_fail (fail EC_InvalidEnum ''encoded gate kind is not a known gate class'')
      else read_return (gate_kinds ! unat raw))"

definition read_gate_kind :: "GateKind reader" where
  "read_gate_kind = read_bind read_u8 require_gate_kind"

definition read_ordering_rule :: "OrderingRule reader" where
  "read_ordering_rule = read_enum ordering_rules is_valid_ordering_rule
     (fail EC_InvalidEnum ''encoded ordering rule is not a known rule'')"

definition read_history_kind :: "HistoryEventKind reader" where
  "read_history_kind =
     read_enum history_event_kinds (\<lambda>raw. \<not> raw > history_event_kind_value HE_RecoveryNote)
       (fail EC_InvalidEnum ''encoded history event kind is not a known kind'')"

definition read_outcome :: "PromotionOutcome reader" where
  "read_outcome = read_enum promotion_outcomes is_valid_promotion_outcome
     (fail EC_InvalidEnum ''encoded promotion outcome is not a known outcome'')"

definition read_gate_status :: "GateStatus reader" where
  "read_gate_status =
     read_enum gate_statuses (\<lambda>raw. \<not> raw > gate_status_value GS_NotApplicable)
       (fail EC_InvalidEnum ''encoded gate status is not a known status'')"

text \<open>A history event may carry no stage and no outcome; only there the zero value is accepted.\<close>

definition read_optional_stage :: "Stage reader" where
  "read_optional_stage = read_enum all_stages (\<lambda>raw. raw = 0 \<or> is_valid_stage_value raw)
     (fail EC_InvalidStage ''encoded lifecycle stage is not a known stage'')"

definition read_optional_outcome :: "PromotionOutcome reader" where
  "read_optional_outcome = read_enum promotion_outcomes (\<lambda>raw. \<not> (raw \<noteq> 0 \<and> \<not> is_valid_promotion_outcome raw))
     (fail EC_InvalidEnum ''encoded history outcome is not a known outcome'')"

definition write_evidence_type :: "EvidenceType \<Rightarrow> bytes" where
  "write_evidence_type t = write_u8 (et_raw t)"

definition read_evidence_type :: "EvidenceType reader" where
  "read_evidence_type =
     read_bind read_u8 (\<lambda>raw.
       if \<not> is_valid_evidence_type (unat raw)
       then read_fail (fail EC_InvalidEnum ''encoded evidence type is not a known evidence class'')
       else read_return (EvidenceType raw))"

definition write_error_code :: "ErrorCode \<Rightarrow> bytes" where
  "write_error_code code = store_u16 (of_nat (error_code_value code))"

definition read_error_code :: "ErrorCode reader" where
  "read_error_code =
     read_bind read_u16 (\<lambda>raw.
       if unat raw > error_code_value EC_InvariantViolation
       then read_fail (fail EC_InvalidEnum ''encoded error code is not a known code'')
       else read_return (error_codes ! unat raw))"


section \<open>Their contracts\<close>

text \<open>Each table lists the enumerators in the order of their values.\<close>

lemma enum_tables:
  "enumeration provenance_resolutions" "enumeration evidence_results" "enumeration ordering_rules"
  "enumeration gate_statuses" "enumeration history_event_kinds"
proof -
  have "x \<in> set provenance_resolutions" for x by (cases x) (simp_all add: provenance_resolutions_def)
  then show "enumeration provenance_resolutions" by unfold_locales (simp add: provenance_resolutions_def)
  have "x \<in> set evidence_results" for x by (cases x) (simp_all add: evidence_results_def)
  then show "enumeration evidence_results" by unfold_locales (simp add: evidence_results_def)
  have "x \<in> set ordering_rules" for x by (cases x) (simp_all add: ordering_rules_def)
  then show "enumeration ordering_rules" by unfold_locales (simp add: ordering_rules_def)
  have "x \<in> set gate_statuses" for x by (cases x) (simp_all add: gate_statuses_def)
  then show "enumeration gate_statuses" by unfold_locales (simp add: gate_statuses_def)
  have "x \<in> set history_event_kinds" for x by (cases x) (simp_all add: history_event_kinds_def)
  then show "enumeration history_event_kinds" by unfold_locales (simp add: history_event_kinds_def)
qed

lemma byte_enumI:
  assumes "enumeration table" "value = index_in table" "length table \<le> 256" "\<And>n. valid n \<Longrightarrow> n < length table"
  shows "byte_enum table value valid"
  using assms by (simp add: byte_enum_def byte_enum_axioms_def)

lemma value_tables:
  "provenance_resolution_value = index_in provenance_resolutions"
  "evidence_result_value = index_in evidence_results"
  "ordering_rule_value = index_in ordering_rules"
  "gate_status_value = index_in gate_statuses"
proof -
  have "provenance_resolution_value x = index_in provenance_resolutions x" for x
    by (cases x) (simp_all add: index_in_def provenance_resolutions_def)
  moreover have "evidence_result_value x = index_in evidence_results x" for x
    by (cases x) (simp_all add: index_in_def evidence_results_def)
  moreover have "ordering_rule_value x = index_in ordering_rules x" for x
    by (cases x) (simp_all add: index_in_def ordering_rules_def)
  moreover have "gate_status_value x = index_in gate_statuses x" for x
    by (cases x) (simp_all add: index_in_def gate_statuses_def)
  ultimately show "provenance_resolution_value = index_in provenance_resolutions"
    "evidence_result_value = index_in evidence_results" "ordering_rule_value = index_in ordering_rules"
    "gate_status_value = index_in gate_statuses"
    by auto
qed

lemma enum_codec:
  assumes "byte_enum table value valid" "read = read_enum table valid malformed" "\<And>x. valid (value x) \<longleftrightarrow> ok x"
  shows "codec (write_enum value) read ok"
  using byte_enum.read_enum_iff [OF assms(1)] assms(2,3) by (intro codecI) simp

lemma stage_valid_iff: "is_valid_stage_value (stage_value s) \<longleftrightarrow> s \<noteq> St_Invalid"
  by (cases s) (simp_all add: is_valid_stage_value_def kStageMin_def kStageMax_def)

lemma outcome_valid_iff: "is_valid_promotion_outcome (promotion_outcome_value x) \<longleftrightarrow> x \<noteq> PO_Invalid"
  by (cases x) (simp_all add: is_valid_promotion_outcome_def promotion_outcome_value_def index_in_def
      promotion_outcomes_def)

lemma gate_kind_valid_iff: "is_valid_gate_kind (gate_kind_value k) \<longleftrightarrow> k \<noteq> GK_Invalid"
  by (cases k) (simp_all add: is_valid_gate_kind_def gate_kind_value_def index_in_def gate_kinds_def)

lemma enum_values:
  "stage_value = index_in all_stages" "artifact_kind_value = index_in artifact_kinds"
  "gate_kind_value = index_in gate_kinds" "promotion_outcome_value = index_in promotion_outcomes"
  "history_event_kind_value = index_in history_event_kinds"
proof -
  have "stage_value x = index_in all_stages x" for x
    by (cases x) (simp_all add: index_in_def all_stages_def)
  then show "stage_value = index_in all_stages" by (rule ext)
qed (simp_all add: fun_eq_iff artifact_kind_value_def gate_kind_value_def promotion_outcome_value_def
  history_event_kind_value_def)

lemma history_kind_last: "history_event_kind_value HE_RecoveryNote = 15"
  by (simp add: history_event_kind_value_def index_in_def history_event_kinds_def)

lemma table_lengths:
  "length all_stages = 11" "length artifact_kinds = 12" "length gate_kinds = 19" "length promotion_outcomes = 30"
  "length history_event_kinds = 16" "length evidence_results = 5" "length provenance_resolutions = 4"
  "length ordering_rules = 5" "length gate_statuses = 5"
  by (simp_all add: all_stages_def artifact_kinds_def gate_kinds_def promotion_outcomes_def history_event_kinds_def
      evidence_results_def provenance_resolutions_def ordering_rules_def gate_statuses_def)

lemmas enum_ranges = table_lengths is_valid_stage_value_def kStageMax_def is_valid_artifact_kind_def
  is_valid_gate_kind_def is_valid_promotion_outcome_def is_valid_evidence_result_def is_valid_ordering_rule_def
  history_kind_last

interpretation stage_codec: codec write_stage read_stage "\<lambda>s. s \<noteq> St_Invalid"
  by (rule enum_codec [OF byte_enumI [OF stages.enumeration_axioms enum_values(1)] read_stage_def stage_valid_iff])
    (simp_all add: enum_ranges)

interpretation optional_stage: codec write_stage read_optional_stage any
proof (rule enum_codec [OF byte_enumI [OF stages.enumeration_axioms enum_values(1)] read_optional_stage_def])
  show "(stage_value x = 0 \<or> is_valid_stage_value (stage_value x)) \<longleftrightarrow> True" for x
    by (cases x) (simp_all add: is_valid_stage_value_def kStageMin_def kStageMax_def)
qed (auto simp: enum_ranges)

interpretation kind_codec: codec write_kind read_kind "\<lambda>k. k \<noteq> AK_Invalid"
  by (rule enum_codec [OF byte_enumI [OF kinds.enumeration_axioms enum_values(2)] read_kind_def valid_artifact_kind_iff])
    (simp_all add: enum_ranges)

interpretation gate_kind_codec: codec write_gate_kind read_gate_kind "\<lambda>k. k \<noteq> GK_Invalid"
proof -
  have "read_gate_kind = read_enum gate_kinds is_valid_gate_kind
      (fail EC_InvalidEnum ''encoded gate kind is not a known gate class'')"
    unfolding read_gate_kind_def read_enum_def require_gate_kind_def ..
  from enum_codec [OF byte_enumI [OF gate_kind.enumeration_axioms enum_values(3)] this gate_kind_valid_iff]
  show "codec write_gate_kind read_gate_kind (\<lambda>k. k \<noteq> GK_Invalid)" by (simp add: enum_ranges)
qed

interpretation outcome_codec: codec write_outcome read_outcome "\<lambda>x. x \<noteq> PO_Invalid"
  by (rule enum_codec [OF byte_enumI [OF outcomes.enumeration_axioms enum_values(4)] read_outcome_def outcome_valid_iff])
    (simp_all add: enum_ranges)

interpretation optional_outcome: codec write_outcome read_optional_outcome any
proof (rule enum_codec [OF byte_enumI [OF outcomes.enumeration_axioms enum_values(4)] read_optional_outcome_def])
  show "(\<not> (promotion_outcome_value x \<noteq> 0 \<and> \<not> is_valid_promotion_outcome (promotion_outcome_value x))) \<longleftrightarrow> True" for x
    using outcome_valid_iff [of x]
  proof (cases "x = PO_Invalid")
    case True
    then show ?thesis by (simp add: promotion_outcome_value_def index_in_def promotion_outcomes_def)
  qed simp
qed (auto simp: enum_ranges)

interpretation history_kind_codec: codec write_history_kind read_history_kind any
proof (rule enum_codec [OF byte_enumI [OF enum_tables(5) enum_values(5)] read_history_kind_def])
  show "(\<not> history_event_kind_value x > history_event_kind_value HE_RecoveryNote) \<longleftrightarrow> True" for x
    using enumeration.index_less [OF enum_tables(5), of x]
    by (simp add: history_kind_last table_lengths flip: enum_values(5))
qed (auto simp: enum_ranges)

interpretation evidence_result_codec: codec write_evidence_result read_evidence_result any
proof (rule enum_codec [OF byte_enumI [OF enum_tables(2) value_tables(2)] read_evidence_result_def])
  show "is_valid_evidence_result (evidence_result_value x) \<longleftrightarrow> True" for x
    by (cases x) (simp_all add: is_valid_evidence_result_def)
qed (auto simp: enum_ranges)

interpretation provenance_resolution_codec: codec write_provenance_resolution read_provenance_resolution any
proof (rule enum_codec [OF byte_enumI [OF enum_tables(1) value_tables(1)] read_provenance_resolution_def])
  show "(\<not> provenance_resolution_value x > provenance_resolution_value PR_Rejected) \<longleftrightarrow> True" for x
    by (cases x) simp_all
qed (auto simp: enum_ranges)

interpretation ordering_rule_codec: codec write_ordering_rule read_ordering_rule any
proof (rule enum_codec [OF byte_enumI [OF enum_tables(3) value_tables(3)] read_ordering_rule_def])
  show "is_valid_ordering_rule (ordering_rule_value x) \<longleftrightarrow> True" for x
    by (cases x) (simp_all add: is_valid_ordering_rule_def)
qed (auto simp: enum_ranges)

interpretation gate_status_codec: codec write_gate_status read_gate_status any
proof (rule enum_codec [OF byte_enumI [OF enum_tables(4) value_tables(4)] read_gate_status_def])
  show "(\<not> gate_status_value x > gate_status_value GS_NotApplicable) \<longleftrightarrow> True" for x
    by (cases x) simp_all
qed (auto simp: enum_ranges)

interpretation evidence_type_codec: codec write_evidence_type read_evidence_type "\<lambda>t. evidence_type_valid t"
  by (rule codecI)
    (auto simp: read_evidence_type_def write_evidence_type_def read_bind_eq_Inr u8.decode_iff split: if_splits)

lemma store_load_u16: "2 \<le> length region \<Longrightarrow> store_u16 (load_u16 region) = take 2 region"
proof -
  assume len: "2 \<le> length region"
  then obtain a b r where region: "region = a # b # r" by (cases region rule: load_u16.cases) auto
  note nth = store_load_le [of "[a, b]", where 'a = 16]
  show ?thesis
    using nth [of 0] nth [of 1] by (simp add: region store_u16_def ucast_and_255 del: load_u16.simps)
      (simp add: load_le.simps)
qed

interpretation u16: codec store_u16 read_u16 any
  by unfold_locales (auto simp: read_u16_def available_def load_u16_store store_load_u16 split: if_splits)

interpretation error_code_codec: codec write_error_code read_error_code any
proof (rule codecI)
  have len: "length error_codes = 73" "error_code_value EC_InvariantViolation = 72"
    by (simp_all add: error_codes_def error_code_value_def index_in_def)
  have val: "unat (of_nat (error_code_value x) :: u16) = error_code_value x" "error_codes ! error_code_value x = x"
    "\<not> error_code_value x > 72" for x
    using ec.index_less [of x] ec.nth_index [of x] by (simp_all add: error_code_value_def len unat_of_nat)
  have inv: "error_code_value (error_codes ! unat raw) = unat raw" if "\<not> unat raw > 72" for raw :: u16
    using that ec.index_nth [of "unat raw"] by (simp add: error_code_value_def len)
  have raw: "\<not> unat raw > 72 \<and> error_codes ! unat raw = x \<longleftrightarrow> raw = of_nat (error_code_value x)" for raw :: u16 and x
    using val [of x] inv [of raw] by auto
  have "read_error_code region = Inr (x, rest) \<longleftrightarrow>
      (\<exists>raw. (\<not> unat raw > 72 \<and> error_codes ! unat raw = x) \<and> region = store_u16 raw @ rest)" for region x rest
    by (auto simp: read_error_code_def read_bind_eq_Inr u16.decode_iff len split: if_splits)
  then show "read_error_code region = Inr (x, rest) \<longleftrightarrow> True \<and> region = write_error_code x @ rest" for region x rest
    by (simp add: raw write_error_code_def)
qed

end
