(* ===== verification/Record_Codec.thy ===== *)
theory Record_Codec
  imports Codec
begin

text \<open>
  The wire form of the governed records (\<open>src/persist/codec.cpp\<close>): artifacts, evidence,
  plans, promotion records, idempotency records, history events and vetoes.  A reader fails at the
  first malformed field; the record readers also re-check the record's own validity.
\<close>

lemma read_check_iff:
  "(if malformed then read_fail s else r) region = Inr y \<longleftrightarrow> \<not> malformed \<and> r region = Inr y"
  by simp

lemmas wire_iffs = read_bind_eq_Inr read_check_iff u8.decode_iff u16.decode_iff u32.decode_iff u64.decode_iff
  boolean.decode_iff identity.decode_iff counter.decode_iff digest.decode_iff text_codec.decode_iff
  stage_codec.decode_iff optional_stage.decode_iff kind_codec.decode_iff gate_kind_codec.decode_iff
  outcome_codec.decode_iff optional_outcome.decode_iff history_kind_codec.decode_iff
  evidence_result_codec.decode_iff provenance_resolution_codec.decode_iff ordering_rule_codec.decode_iff
  gate_status_codec.decode_iff evidence_type_codec.decode_iff error_code_codec.decode_iff

section \<open>Producers, provenance, compatibility, authority\<close>

definition write_producer :: "ProducerIncarnation \<Rightarrow> bytes" where
  "write_producer p =
     write_identity (pi_worker p) @ write_identity (pi_boot p)"

definition read_producer :: "ProducerIncarnation reader" where
  "read_producer =
     read_bind read_identity (\<lambda>worker0.
     read_bind read_identity (\<lambda>boot0.
     let value = \<lparr> pi_worker = worker0, pi_boot = boot0 \<rparr> in
     if \<not> producer_valid value
     then read_fail (fail EC_InvalidIdentity
            ''encoded producer incarnation has a boot identity without a worker identity'')
     else read_return value))"

definition producer_fits :: "ProducerIncarnation \<Rightarrow> bool" where
  "producer_fits p \<longleftrightarrow>
     producer_valid p"

interpretation producer_codec: codec write_producer read_producer producer_fits
proof (rule codecI)
  show "read_producer region = Inr (x, rest) \<longleftrightarrow> producer_fits x \<and> region = write_producer x @ rest" for region x rest
    by (cases x)
      (auto simp: read_producer_def write_producer_def producer_fits_def Let_def wire_iffs)
qed

definition write_provenance :: "nat \<Rightarrow> ProvenanceRecord \<Rightarrow> bytes" where
  "write_provenance limit p =
     write_identity (pv_reference p) @ write_text limit (pv_source p) @ write_text limit (pv_subject p)
     @ write_provenance_resolution (pv_resolution p)"

definition read_provenance :: "nat \<Rightarrow> ProvenanceRecord reader" where
  "read_provenance limit =
     read_bind read_identity (\<lambda>reference.
     read_bind (read_text limit) (\<lambda>source.
     read_bind (read_text limit) (\<lambda>subject.
     read_bind read_provenance_resolution (\<lambda>resolution.
     read_return \<lparr> pv_reference = reference, pv_source = source, pv_subject = subject,
       pv_resolution = resolution \<rparr>))))"

definition provenance_fits :: "nat \<Rightarrow> ProvenanceRecord \<Rightarrow> bool" where
  "provenance_fits limit p \<longleftrightarrow> text_fits limit (pv_source p) \<and> text_fits limit (pv_subject p)"

interpretation provenance_codec: codec "write_provenance limit" "read_provenance limit" "provenance_fits limit"
proof (rule codecI)
  show "read_provenance limit region = Inr (x, rest) \<longleftrightarrow> provenance_fits limit x \<and> region = write_provenance limit x @ rest"
    for region x rest
    by (cases x) (auto simp: read_provenance_def write_provenance_def provenance_fits_def wire_iffs)
qed

record CompatibilityDescriptor =
  cd_profile :: CompatibilityProfileId
  cd_generation :: CompatibilityGeneration

definition write_compatibility :: "CompatibilityDescriptor \<Rightarrow> bytes" where
  "write_compatibility c =
     write_identity (cd_profile c) @ write_counter (cd_generation c)"

definition read_compatibility :: "CompatibilityDescriptor reader" where
  "read_compatibility =
     read_bind read_identity (\<lambda>profile0.
     read_bind read_counter (\<lambda>generation0.
     read_return \<lparr> cd_profile = profile0, cd_generation = generation0 \<rparr>))"

interpretation compatibility_codec: codec write_compatibility read_compatibility any
proof (rule codecI)
  show "read_compatibility region = Inr (x, rest) \<longleftrightarrow> any x \<and> region = write_compatibility x @ rest" for region x rest
    by (cases x)
      (auto simp: read_compatibility_def write_compatibility_def Let_def wire_iffs)
qed
definition write_authority :: "CoordinatorAuthority \<Rightarrow> bytes" where
  "write_authority a =
     write_identity (ca_coordinator a) @ write_counter (ca_epoch a)"

definition read_authority :: "CoordinatorAuthority reader" where
  "read_authority =
     read_bind read_identity (\<lambda>coordinator0.
     read_bind read_counter (\<lambda>epoch0.
     read_return \<lparr> ca_coordinator = coordinator0, ca_epoch = epoch0 \<rparr>))"

interpretation authority_codec: codec write_authority read_authority any
proof (rule codecI)
  show "read_authority region = Inr (x, rest) \<longleftrightarrow> any x \<and> region = write_authority x @ rest" for region x rest
    by (cases x)
      (auto simp: read_authority_def write_authority_def Let_def wire_iffs)
qed

lemmas part_iffs = producer_codec.decode_iff provenance_codec.decode_iff authority_codec.decode_iff
  compatibility_codec.decode_iff

section \<open>Artifacts\<close>

text \<open>The three trailing groups of fields of an artifact record.\<close>

definition write_quarantine :: "QuarantineRecord \<Rightarrow> bytes" where
  "write_quarantine q =
     write_boolean (qr_active q) @ write_text kMaxNameLength (qr_reason_class q)
     @ write_text kMaxTextLength (qr_detail q) @ write_identity (qr_authority q)
     @ write_counter (qr_sequence q) @ write_counter (qr_policy_generation q)"

definition read_quarantine :: "QuarantineRecord reader" where
  "read_quarantine =
     read_bind read_boolean (\<lambda>active0.
     read_bind (read_text kMaxNameLength) (\<lambda>reason_class0.
     read_bind (read_text kMaxTextLength) (\<lambda>detail0.
     read_bind read_identity (\<lambda>authority0.
     read_bind read_counter (\<lambda>sequence0.
     read_bind read_counter (\<lambda>policy_generation0.
     read_return \<lparr> qr_active = active0, qr_reason_class = reason_class0, qr_detail = detail0,
        qr_authority = authority0, qr_sequence = sequence0,
        qr_policy_generation = policy_generation0 \<rparr>))))))"

definition quarantine_fits :: "QuarantineRecord \<Rightarrow> bool" where
  "quarantine_fits q \<longleftrightarrow>
     text_fits kMaxNameLength (qr_reason_class q) \<and> text_fits kMaxTextLength (qr_detail q)"

interpretation quarantine_codec: codec write_quarantine read_quarantine quarantine_fits
proof (rule codecI)
  show "read_quarantine region = Inr (x, rest) \<longleftrightarrow> quarantine_fits x \<and> region = write_quarantine x @ rest" for region x rest
    by (cases x)
      (auto simp: read_quarantine_def write_quarantine_def quarantine_fits_def Let_def wire_iffs)
qed

definition write_revocation :: "RevocationRecord \<Rightarrow> bytes" where
  "write_revocation v =
     write_boolean (rv_active v) @ write_identity (rv_decision v)
     @ write_text kMaxNameLength (rv_reason_class v) @ write_text kMaxTextLength (rv_detail v)
     @ write_identity (rv_authority v) @ write_counter (rv_sequence v)
     @ write_counter (rv_policy_generation v) @ write_identity (rv_cause v)"

definition read_revocation :: "RevocationRecord reader" where
  "read_revocation =
     read_bind read_boolean (\<lambda>active0.
     read_bind read_identity (\<lambda>decision0.
     read_bind (read_text kMaxNameLength) (\<lambda>reason_class0.
     read_bind (read_text kMaxTextLength) (\<lambda>detail0.
     read_bind read_identity (\<lambda>authority0.
     read_bind read_counter (\<lambda>sequence0.
     read_bind read_counter (\<lambda>policy_generation0.
     read_bind read_identity (\<lambda>cause0.
     read_return \<lparr> rv_active = active0, rv_decision = decision0, rv_reason_class = reason_class0,
        rv_detail = detail0, rv_authority = authority0, rv_sequence = sequence0,
        rv_policy_generation = policy_generation0, rv_cause = cause0 \<rparr>))))))))"

definition revocation_fits :: "RevocationRecord \<Rightarrow> bool" where
  "revocation_fits v \<longleftrightarrow>
     text_fits kMaxNameLength (rv_reason_class v) \<and> text_fits kMaxTextLength (rv_detail v)"

interpretation revocation_codec: codec write_revocation read_revocation revocation_fits
proof (rule codecI)
  show "read_revocation region = Inr (x, rest) \<longleftrightarrow> revocation_fits x \<and> region = write_revocation x @ rest" for region x rest
    by (cases x)
      (auto simp: read_revocation_def write_revocation_def revocation_fits_def Let_def wire_iffs)
qed

definition write_supersession :: "SupersessionRecord \<Rightarrow> bytes" where
  "write_supersession s =
     write_boolean (sp_active s) @ write_identity (sp_successor s)
     @ write_identity (sp_successor_revision s) @ write_text kMaxTextLength (sp_reason s)
     @ write_identity (sp_authority s) @ write_counter (sp_sequence s)"

definition read_supersession :: "SupersessionRecord reader" where
  "read_supersession =
     read_bind read_boolean (\<lambda>active0.
     read_bind read_identity (\<lambda>successor0.
     read_bind read_identity (\<lambda>successor_revision0.
     read_bind (read_text kMaxTextLength) (\<lambda>reason0.
     read_bind read_identity (\<lambda>authority0.
     read_bind read_counter (\<lambda>sequence0.
     read_return \<lparr> sp_active = active0, sp_successor = successor0,
        sp_successor_revision = successor_revision0, sp_reason = reason0,
        sp_authority = authority0, sp_sequence = sequence0 \<rparr>))))))"

definition supersession_fits :: "SupersessionRecord \<Rightarrow> bool" where
  "supersession_fits s \<longleftrightarrow>
     text_fits kMaxTextLength (sp_reason s)"

interpretation supersession_codec: codec write_supersession read_supersession supersession_fits
proof (rule codecI)
  show "read_supersession region = Inr (x, rest) \<longleftrightarrow> supersession_fits x \<and> region = write_supersession x @ rest" for region x rest
    by (cases x)
      (auto simp: read_supersession_def write_supersession_def supersession_fits_def Let_def wire_iffs)
qed

definition kMaxProvenance :: nat where "kMaxProvenance = 64"

lemmas list_iffs = codec.decode_iff [OF provenance_codec.list_codec] codec.decode_iff [OF text_codec.list_codec]

definition write_artifact :: "ArtifactRecord \<Rightarrow> bytes" where
  "write_artifact r =
     write_identity (ar_id r) @ write_identity (ar_revision r) @ write_counter (ar_generation r)
     @ write_kind (ar_kind r) @ write_digest (ar_digest r) @ store_u64 (ar_size_bytes r)
     @ write_text kMaxNameLength (ar_name r) @ write_producer (ar_producer r)
     @ write_counter (ar_created_sequence r) @ store_u64 (ar_created_unix_millis r)
     @ write_list (write_provenance kMaxReferenceLength) (ar_provenance r)
     @ write_list (write_text kMaxNameLength) (ar_dependencies r) @ write_stage (ar_stage r)
     @ write_counter (ar_stage_generation r) @ write_boolean (ar_promoted r)
     @ write_identity (ar_promotion_decision r) @ write_identity (ar_promotion_authority r)
     @ write_counter (ar_promotion_sequence r) @ write_counter (ar_last_sequence r)
     @ write_quarantine (ar_quarantine r) @ write_revocation (ar_revocation r)
     @ write_supersession (ar_supersession r)"

definition read_artifact :: "ArtifactRecord reader" where
  "read_artifact =
     read_bind read_identity (\<lambda>id0.
     read_bind read_identity (\<lambda>revision0.
     read_bind read_counter (\<lambda>generation0.
     read_bind read_kind (\<lambda>kind0.
     read_bind read_digest (\<lambda>digest0.
     read_bind read_u64 (\<lambda>size_bytes0.
     read_bind (read_text kMaxNameLength) (\<lambda>name0.
     read_bind read_producer (\<lambda>producer0.
     read_bind read_counter (\<lambda>created_sequence0.
     read_bind read_u64 (\<lambda>created_unix_millis0.
     read_bind (read_list kMaxProvenance (read_provenance kMaxReferenceLength)) (\<lambda>provenance0.
     read_bind (read_list kMaxDependencies (read_text kMaxNameLength)) (\<lambda>dependencies0.
     read_bind read_stage (\<lambda>stage0.
     read_bind read_counter (\<lambda>stage_generation0.
     read_bind read_boolean (\<lambda>promoted0.
     read_bind read_identity (\<lambda>promotion_decision0.
     read_bind read_identity (\<lambda>promotion_authority0.
     read_bind read_counter (\<lambda>promotion_sequence0.
     read_bind read_counter (\<lambda>last_sequence0.
     read_bind read_quarantine (\<lambda>quarantine0.
     read_bind read_revocation (\<lambda>revocation0.
     read_bind read_supersession (\<lambda>supersession0.
     let value = \<lparr> ar_id = id0, ar_revision = revision0, ar_generation = generation0, ar_kind = kind0,
        ar_digest = digest0, ar_size_bytes = size_bytes0, ar_name = name0, ar_producer = producer0,
        ar_created_sequence = created_sequence0, ar_created_unix_millis = created_unix_millis0,
        ar_provenance = provenance0, ar_dependencies = dependencies0, ar_stage = stage0,
        ar_stage_generation = stage_generation0, ar_promoted = promoted0,
        ar_promotion_decision = promotion_decision0, ar_promotion_authority = promotion_authority0,
        ar_promotion_sequence = promotion_sequence0, ar_last_sequence = last_sequence0,
        ar_quarantine = quarantine0, ar_revocation = revocation0, ar_supersession = supersession0 \<rparr> in
     if \<not> artifact_valid value
     then read_fail (fail EC_PersistenceCorrupt ''decoded artifact record fails its own validity rules'')
     else read_return value))))))))))))))))))))))"

definition artifact_fits :: "ArtifactRecord \<Rightarrow> bool" where
  "artifact_fits r \<longleftrightarrow>
     artifact_valid r \<and> ar_kind r \<noteq> AK_Invalid \<and> digest_sized (ar_digest r)
     \<and> text_fits kMaxNameLength (ar_name r) \<and> producer_fits (ar_producer r)
     \<and> list_fits kMaxProvenance (provenance_fits kMaxReferenceLength) (ar_provenance r)
     \<and> list_fits kMaxDependencies (text_fits kMaxNameLength) (ar_dependencies r)
     \<and> ar_stage r \<noteq> St_Invalid \<and> quarantine_fits (ar_quarantine r)
     \<and> revocation_fits (ar_revocation r) \<and> supersession_fits (ar_supersession r)"

interpretation artifact_codec: codec write_artifact read_artifact artifact_fits
proof (rule codecI)
  show "read_artifact region = Inr (x, rest) \<longleftrightarrow> artifact_fits x \<and> region = write_artifact x @ rest" for region x rest
    by (cases x)
      (auto simp: read_artifact_def write_artifact_def artifact_fits_def Let_def wire_iffs part_iffs list_iffs quarantine_codec.decode_iff revocation_codec.decode_iff
        supersession_codec.decode_iff)
qed

section \<open>Evidence\<close>

definition evidence_intact :: "EvidenceRecord \<Rightarrow> bool" where
  "evidence_intact r \<longleftrightarrow> compute_evidence_integrity r = ev_integrity_digest r"

definition write_evidence :: "EvidenceRecord \<Rightarrow> bytes" where
  "write_evidence r =
     write_identity (ev_id r) @ write_evidence_type (ev_type r)
     @ write_text kMaxNameLength (ev_custom_type r) @ write_counter (ev_generation r)
     @ write_identity (ev_subject r) @ write_digest (ev_subject_digest r)
     @ write_identity (ev_subject_revision r) @ write_producer (ev_producer r)
     @ write_evidence_result (ev_result r) @ store_u32 (ev_confidence_milli r)
     @ write_text kMaxTextLength (ev_measurement r) @ write_text kMaxTextLength (ev_detail r)
     @ write_digest (ev_payload_digest r) @ write_digest (ev_integrity_digest r)
     @ write_identity (ev_provenance r) @ write_counter (ev_created_sequence r)
     @ store_u64 (ev_produced_unix_millis r) @ write_boolean (ev_has_validity_window r)
     @ store_u64 (ev_valid_from_unix_millis r) @ store_u64 (ev_valid_until_unix_millis r)
     @ write_text kMaxTextLength (ev_environment r) @ write_boolean (ev_revoked r)
     @ write_text kMaxTextLength (ev_revocation_reason r)
     @ write_identity (ev_revocation_authority r) @ write_counter (ev_revocation_sequence r)
     @ write_boolean (ev_superseded r) @ write_identity (ev_superseded_by r)"

definition read_evidence :: "EvidenceRecord reader" where
  "read_evidence =
     read_bind read_identity (\<lambda>id0.
     read_bind read_evidence_type (\<lambda>type0.
     read_bind (read_text kMaxNameLength) (\<lambda>custom_type0.
     read_bind read_counter (\<lambda>generation0.
     read_bind read_identity (\<lambda>subject0.
     read_bind read_digest (\<lambda>subject_digest0.
     read_bind read_identity (\<lambda>subject_revision0.
     read_bind read_producer (\<lambda>producer0.
     read_bind read_evidence_result (\<lambda>result0.
     read_bind read_u32 (\<lambda>confidence_milli0.
     read_bind (read_text kMaxTextLength) (\<lambda>measurement0.
     read_bind (read_text kMaxTextLength) (\<lambda>detail0.
     read_bind read_digest (\<lambda>payload_digest0.
     read_bind read_digest (\<lambda>integrity_digest0.
     read_bind read_identity (\<lambda>provenance0.
     read_bind read_counter (\<lambda>created_sequence0.
     read_bind read_u64 (\<lambda>produced_unix_millis0.
     read_bind read_boolean (\<lambda>has_validity_window0.
     read_bind read_u64 (\<lambda>valid_from_unix_millis0.
     read_bind read_u64 (\<lambda>valid_until_unix_millis0.
     read_bind (read_text kMaxTextLength) (\<lambda>environment0.
     read_bind read_boolean (\<lambda>revoked0.
     read_bind (read_text kMaxTextLength) (\<lambda>revocation_reason0.
     read_bind read_identity (\<lambda>revocation_authority0.
     read_bind read_counter (\<lambda>revocation_sequence0.
     read_bind read_boolean (\<lambda>superseded0.
     read_bind read_identity (\<lambda>superseded_by0.
     let value = \<lparr> ev_id = id0, ev_type = type0, ev_generation = generation0, ev_custom_type = custom_type0,
        ev_subject = subject0, ev_subject_digest = subject_digest0,
        ev_subject_revision = subject_revision0, ev_producer = producer0, ev_result = result0,
        ev_confidence_milli = confidence_milli0, ev_measurement = measurement0,
        ev_detail = detail0, ev_payload_digest = payload_digest0,
        ev_integrity_digest = integrity_digest0, ev_provenance = provenance0,
        ev_created_sequence = created_sequence0, ev_produced_unix_millis = produced_unix_millis0,
        ev_has_validity_window = has_validity_window0,
        ev_valid_from_unix_millis = valid_from_unix_millis0,
        ev_valid_until_unix_millis = valid_until_unix_millis0, ev_environment = environment0,
        ev_revoked = revoked0, ev_revocation_reason = revocation_reason0,
        ev_revocation_authority = revocation_authority0,
        ev_revocation_sequence = revocation_sequence0, ev_superseded = superseded0,
        ev_superseded_by = superseded_by0 \<rparr> in
     if \<not> evidence_valid value
     then read_fail (fail EC_PersistenceCorrupt ''decoded evidence record fails its own validity rules'')
     else if \<not> evidence_intact value
     then read_fail (fail EC_PersistenceCorrupt ''decoded evidence record fails its integrity check'')
     else read_return value)))))))))))))))))))))))))))"

definition evidence_record_fits :: "EvidenceRecord \<Rightarrow> bool" where
  "evidence_record_fits r \<longleftrightarrow>
     evidence_valid r \<and> evidence_intact r \<and> evidence_type_valid (ev_type r)
     \<and> text_fits kMaxNameLength (ev_custom_type r) \<and> digest_sized (ev_subject_digest r)
     \<and> producer_fits (ev_producer r) \<and> text_fits kMaxTextLength (ev_measurement r)
     \<and> text_fits kMaxTextLength (ev_detail r) \<and> digest_sized (ev_payload_digest r)
     \<and> digest_sized (ev_integrity_digest r)
     \<and> text_fits kMaxTextLength (ev_environment r)
     \<and> text_fits kMaxTextLength (ev_revocation_reason r)"

interpretation evidence_codec: codec write_evidence read_evidence evidence_record_fits
proof (rule codecI)
  show "read_evidence region = Inr (x, rest) \<longleftrightarrow> evidence_record_fits x \<and> region = write_evidence x @ rest" for region x rest
    by (cases x)
      (auto simp: read_evidence_def write_evidence_def evidence_record_fits_def Let_def wire_iffs part_iffs)
qed

section \<open>Promotion records, idempotency, history, vetoes\<close>

definition write_promotion_record :: "PromotionRecord \<Rightarrow> bytes" where
  "write_promotion_record r =
     write_identity (pr_transition r) @ write_identity (pr_artifact r)
     @ write_identity (pr_artifact_revision r) @ write_digest (pr_artifact_digest r)
     @ write_stage (pr_from r) @ write_stage (pr_to r) @ write_identity (pr_decision r)
     @ write_identity (pr_plan r) @ write_identity (pr_request r) @ write_identity (pr_attempt r)
     @ write_identity (pr_policy r) @ write_counter (pr_policy_generation r)
     @ write_authority (pr_authority r) @ write_digest (pr_evidence_snapshot_digest r)
     @ write_counter (pr_sequence r) @ store_u64 (pr_committed_unix_millis r)
     @ write_text kMaxTextLength (pr_note r)"

definition read_promotion_record :: "PromotionRecord reader" where
  "read_promotion_record =
     read_bind read_identity (\<lambda>transition0.
     read_bind read_identity (\<lambda>artifact0.
     read_bind read_identity (\<lambda>artifact_revision0.
     read_bind read_digest (\<lambda>artifact_digest0.
     read_bind read_stage (\<lambda>from0.
     read_bind read_stage (\<lambda>to0.
     read_bind read_identity (\<lambda>decision0.
     read_bind read_identity (\<lambda>plan0.
     read_bind read_identity (\<lambda>request0.
     read_bind read_identity (\<lambda>attempt0.
     read_bind read_identity (\<lambda>policy0.
     read_bind read_counter (\<lambda>policy_generation0.
     read_bind read_authority (\<lambda>authority0.
     read_bind read_digest (\<lambda>evidence_snapshot_digest0.
     read_bind read_counter (\<lambda>sequence0.
     read_bind read_u64 (\<lambda>committed_unix_millis0.
     read_bind (read_text kMaxTextLength) (\<lambda>note0.
     read_return \<lparr> pr_transition = transition0, pr_artifact = artifact0,
        pr_artifact_revision = artifact_revision0, pr_artifact_digest = artifact_digest0,
        pr_from = from0, pr_to = to0, pr_decision = decision0, pr_plan = plan0,
        pr_request = request0, pr_attempt = attempt0, pr_policy = policy0,
        pr_policy_generation = policy_generation0, pr_authority = authority0,
        pr_evidence_snapshot_digest = evidence_snapshot_digest0, pr_sequence = sequence0,
        pr_committed_unix_millis = committed_unix_millis0, pr_note = note0 \<rparr>)))))))))))))))))"

definition promotion_record_fits :: "PromotionRecord \<Rightarrow> bool" where
  "promotion_record_fits r \<longleftrightarrow>
     digest_sized (pr_artifact_digest r) \<and> pr_from r \<noteq> St_Invalid
     \<and> pr_to r \<noteq> St_Invalid \<and> digest_sized (pr_evidence_snapshot_digest r)
     \<and> text_fits kMaxTextLength (pr_note r)"

interpretation promotion_record_codec: codec write_promotion_record read_promotion_record promotion_record_fits
proof (rule codecI)
  show "read_promotion_record region = Inr (x, rest) \<longleftrightarrow> promotion_record_fits x \<and> region = write_promotion_record x @ rest" for region x rest
    by (cases x)
      (auto simp: read_promotion_record_def write_promotion_record_def promotion_record_fits_def Let_def wire_iffs part_iffs)
qed

definition write_idempotency :: "IdempotencyRecord \<Rightarrow> bytes" where
  "write_idempotency r =
     write_identity (ir_request r) @ write_identity (ir_attempt r)
     @ write_identity (ir_decision r) @ write_outcome (ir_outcome r) @ write_identity (ir_plan r)
     @ write_digest (ir_request_digest r) @ write_counter (ir_created_sequence r)"

definition read_idempotency :: "IdempotencyRecord reader" where
  "read_idempotency =
     read_bind read_identity (\<lambda>request0.
     read_bind read_identity (\<lambda>attempt0.
     read_bind read_identity (\<lambda>decision0.
     read_bind read_outcome (\<lambda>outcome0.
     read_bind read_identity (\<lambda>plan0.
     read_bind read_digest (\<lambda>request_digest0.
     read_bind read_counter (\<lambda>created_sequence0.
     read_return \<lparr> ir_request = request0, ir_attempt = attempt0, ir_decision = decision0,
        ir_outcome = outcome0, ir_plan = plan0, ir_request_digest = request_digest0,
        ir_created_sequence = created_sequence0 \<rparr>)))))))"

definition idempotency_fits :: "IdempotencyRecord \<Rightarrow> bool" where
  "idempotency_fits r \<longleftrightarrow>
     ir_outcome r \<noteq> PO_Invalid \<and> digest_sized (ir_request_digest r)"

interpretation idempotency_codec: codec write_idempotency read_idempotency idempotency_fits
proof (rule codecI)
  show "read_idempotency region = Inr (x, rest) \<longleftrightarrow> idempotency_fits x \<and> region = write_idempotency x @ rest" for region x rest
    by (cases x)
      (auto simp: read_idempotency_def write_idempotency_def idempotency_fits_def Let_def wire_iffs)
qed

definition write_history_event :: "HistoryEvent \<Rightarrow> bytes" where
  "write_history_event e =
     write_counter (he_sequence e) @ write_history_kind (he_kind e)
     @ write_identity (he_artifact e) @ write_identity (he_artifact_revision e)
     @ write_identity (he_evidence e) @ write_identity (he_decision e)
     @ write_outcome (he_outcome e) @ write_stage (he_from e) @ write_stage (he_to e)
     @ write_authority (he_authority e) @ write_text kMaxTextLength (he_note e)"

definition read_history_event :: "HistoryEvent reader" where
  "read_history_event =
     read_bind read_counter (\<lambda>sequence0.
     read_bind read_history_kind (\<lambda>kind0.
     read_bind read_identity (\<lambda>artifact0.
     read_bind read_identity (\<lambda>artifact_revision0.
     read_bind read_identity (\<lambda>evidence0.
     read_bind read_identity (\<lambda>decision0.
     read_bind read_optional_outcome (\<lambda>outcome0.
     read_bind read_optional_stage (\<lambda>from0.
     read_bind read_optional_stage (\<lambda>to0.
     read_bind read_authority (\<lambda>authority0.
     read_bind (read_text kMaxTextLength) (\<lambda>note0.
     read_return \<lparr> he_sequence = sequence0, he_kind = kind0, he_artifact = artifact0,
        he_artifact_revision = artifact_revision0, he_evidence = evidence0,
        he_decision = decision0, he_outcome = outcome0, he_from = from0, he_to = to0,
        he_authority = authority0, he_note = note0 \<rparr>)))))))))))"

definition history_event_fits :: "HistoryEvent \<Rightarrow> bool" where
  "history_event_fits e \<longleftrightarrow>
     text_fits kMaxTextLength (he_note e)"

interpretation history_event_codec: codec write_history_event read_history_event history_event_fits
proof (rule codecI)
  show "read_history_event region = Inr (x, rest) \<longleftrightarrow> history_event_fits x \<and> region = write_history_event x @ rest" for region x rest
    by (cases x)
      (auto simp: read_history_event_def write_history_event_def history_event_fits_def Let_def wire_iffs part_iffs)
qed

definition write_veto :: "VetoState \<Rightarrow> bytes" where
  "write_veto v =
     write_boolean (vs_security_veto v) @ write_text kMaxTextLength (vs_security_reason v)
     @ write_boolean (vs_dependency_veto v) @ write_text kMaxTextLength (vs_dependency_reason v)"

definition read_veto :: "VetoState reader" where
  "read_veto =
     read_bind read_boolean (\<lambda>security_veto0.
     read_bind (read_text kMaxTextLength) (\<lambda>security_reason0.
     read_bind read_boolean (\<lambda>dependency_veto0.
     read_bind (read_text kMaxTextLength) (\<lambda>dependency_reason0.
     read_return \<lparr> vs_security_veto = security_veto0, vs_security_reason = security_reason0,
        vs_dependency_veto = dependency_veto0, vs_dependency_reason = dependency_reason0 \<rparr>))))"

definition veto_fits :: "VetoState \<Rightarrow> bool" where
  "veto_fits v \<longleftrightarrow>
     text_fits kMaxTextLength (vs_security_reason v)
     \<and> text_fits kMaxTextLength (vs_dependency_reason v)"

interpretation veto_codec: codec write_veto read_veto veto_fits
proof (rule codecI)
  show "read_veto region = Inr (x, rest) \<longleftrightarrow> veto_fits x \<and> region = write_veto x @ rest" for region x rest
    by (cases x)
      (auto simp: read_veto_def write_veto_def veto_fits_def Let_def wire_iffs)
qed

section \<open>Plans\<close>

text \<open>A \<open>std::size_t\<close> travels as 32 bits.\<close>

definition write_size :: "nat \<Rightarrow> bytes" where
  "write_size n = store_u32 (of_nat n)"

definition read_size :: "nat reader" where
  "read_size = read_bind read_u32 (\<lambda>n. read_return (unat n))"

interpretation size_codec: codec write_size read_size "\<lambda>n. n < 2 ^ 32"
proof (rule codecI)
  have "w = of_nat (unat w)" "unat w < 2 ^ 32" for w :: u32
    using unat_u32_bound [of w] by simp_all
  then have "(\<exists>w :: u32. region = store_u32 w @ rest \<and> x = unat w) \<longleftrightarrow> x < 2 ^ 32 \<and> region = store_u32 (of_nat x) @ rest"
    for region x and rest :: bytes
    using unat_of_nat_u32 [of x] by metis
  moreover have "read_size region = Inr (x, rest) \<longleftrightarrow> (\<exists>w. region = store_u32 w @ rest \<and> x = unat w)" for region x rest
    by (auto simp: read_size_def wire_iffs)
  ultimately show "read_size region = Inr (x, rest) \<longleftrightarrow> x < 2 ^ 32 \<and> region = write_size x @ rest" for region x rest
    by (simp only: write_size_def)
qed

definition write_plan :: "PromotionPlan \<Rightarrow> bytes" where
  "write_plan p =
     write_identity (pl_id p) @ write_identity (pl_request p) @ write_identity (pl_attempt p)
     @ write_identity (pl_decision p) @ write_identity (pl_artifact p)
     @ write_identity (pl_artifact_revision p) @ write_counter (pl_artifact_generation p)
     @ write_digest (pl_artifact_digest p) @ write_kind (pl_artifact_kind p)
     @ write_stage (pl_from p) @ write_stage (pl_to p) @ write_counter (pl_stage_generation p)
     @ write_identity (pl_policy p) @ write_counter (pl_policy_generation p)
     @ write_digest (pl_policy_digest p) @ write_digest (pl_lifecycle_digest p)
     @ write_authority (pl_authority p) @ write_digest (pl_evidence_snapshot_digest p)
     @ write_size (pl_evidence_entry_count p) @ write_identity (pl_compatibility_profile p)
     @ write_counter (pl_compatibility_generation p) @ write_counter (pl_artifact_sequence p)
     @ write_counter (pl_created_sequence p) @ write_counter (pl_decision_sequence p)
     @ write_boolean (pl_has_expiry p) @ store_u64 (pl_expires_unix_millis p)"

definition read_plan :: "PromotionPlan reader" where
  "read_plan =
     read_bind read_identity (\<lambda>id0.
     read_bind read_identity (\<lambda>request0.
     read_bind read_identity (\<lambda>attempt0.
     read_bind read_identity (\<lambda>decision0.
     read_bind read_identity (\<lambda>artifact0.
     read_bind read_identity (\<lambda>artifact_revision0.
     read_bind read_counter (\<lambda>artifact_generation0.
     read_bind read_digest (\<lambda>artifact_digest0.
     read_bind read_kind (\<lambda>artifact_kind0.
     read_bind read_stage (\<lambda>from0.
     read_bind read_stage (\<lambda>to0.
     read_bind read_counter (\<lambda>stage_generation0.
     read_bind read_identity (\<lambda>policy0.
     read_bind read_counter (\<lambda>policy_generation0.
     read_bind read_digest (\<lambda>policy_digest0.
     read_bind read_digest (\<lambda>lifecycle_digest0.
     read_bind read_authority (\<lambda>authority0.
     read_bind read_digest (\<lambda>evidence_snapshot_digest0.
     read_bind read_size (\<lambda>evidence_entry_count0.
     read_bind read_identity (\<lambda>compatibility_profile0.
     read_bind read_counter (\<lambda>compatibility_generation0.
     read_bind read_counter (\<lambda>artifact_sequence0.
     read_bind read_counter (\<lambda>created_sequence0.
     read_bind read_counter (\<lambda>decision_sequence0.
     read_bind read_boolean (\<lambda>has_expiry0.
     read_bind read_u64 (\<lambda>expires_unix_millis0.
     let value = \<lparr> pl_id = id0, pl_request = request0, pl_attempt = attempt0, pl_decision = decision0,
        pl_artifact = artifact0, pl_artifact_revision = artifact_revision0,
        pl_artifact_generation = artifact_generation0, pl_artifact_digest = artifact_digest0,
        pl_artifact_kind = artifact_kind0, pl_from = from0, pl_to = to0,
        pl_stage_generation = stage_generation0, pl_policy = policy0,
        pl_policy_generation = policy_generation0, pl_policy_digest = policy_digest0,
        pl_lifecycle_digest = lifecycle_digest0, pl_authority = authority0,
        pl_evidence_snapshot_digest = evidence_snapshot_digest0,
        pl_evidence_entry_count = evidence_entry_count0,
        pl_compatibility_profile = compatibility_profile0,
        pl_compatibility_generation = compatibility_generation0,
        pl_artifact_sequence = artifact_sequence0, pl_created_sequence = created_sequence0,
        pl_decision_sequence = decision_sequence0, pl_has_expiry = has_expiry0,
        pl_expires_unix_millis = expires_unix_millis0 \<rparr> in
     if \<not> plan_valid value
     then read_fail (fail EC_PersistenceCorrupt ''decoded promotion plan fails its own validity rules'')
     else read_return value))))))))))))))))))))))))))"

definition plan_fits :: "PromotionPlan \<Rightarrow> bool" where
  "plan_fits p \<longleftrightarrow>
     plan_valid p \<and> digest_sized (pl_artifact_digest p)
     \<and> pl_artifact_kind p \<noteq> AK_Invalid \<and> pl_from p \<noteq> St_Invalid
     \<and> pl_to p \<noteq> St_Invalid \<and> digest_sized (pl_policy_digest p)
     \<and> digest_sized (pl_lifecycle_digest p)
     \<and> digest_sized (pl_evidence_snapshot_digest p) \<and> pl_evidence_entry_count p < 2 ^ 32"

interpretation plan_codec: codec write_plan read_plan plan_fits
proof (rule codecI)
  show "read_plan region = Inr (x, rest) \<longleftrightarrow> plan_fits x \<and> region = write_plan x @ rest" for region x rest
    by (cases x)
      (auto simp: read_plan_def write_plan_def plan_fits_def Let_def wire_iffs part_iffs size_codec.decode_iff)
qed

end
