(* ===== verification/Policy_Codec.thy ===== *)
theory Policy_Codec
  imports Record_Codec Stage_Graph
begin

text \<open>
  The wire form of policies and decisions (\<open>src/persist/codec.cpp\<close>).  The reader of a lifecycle
  graph inserts the edges one by one and then canonicalises, so it accepts more regions than the writer
  produces; the reader of a reason cuts the text at a NUL character, and the reader of a decision drops
  the time of an undecided one.  These three satisfy the round-trip contract only.
\<close>

section \<open>Gates\<close>

definition write_gate :: "Gate \<Rightarrow> bytes" where
  "write_gate g =
     write_gate_kind (gt_kind g)
     @ write_u8 (if gt_evidence_type g \<noteq> ET_Invalid then et_raw (gt_evidence_type g) else 0)
     @ write_text kMaxNameLength (gt_custom_evidence_type g) @ store_u64 (gt_max_age_millis g)
     @ write_counter (gt_required_compatibility_generation g)
     @ write_text kMaxTextLength (gt_required_environment g)
     @ write_identity (gt_required_provenance g) @ write_text kMaxNameLength (gt_label g)"

definition read_optional_evidence_type :: "EvidenceType reader" where
  "read_optional_evidence_type =
     read_bind read_u8 (\<lambda>raw.
       if raw = 0 then read_return ET_Invalid
       else if \<not> is_valid_evidence_type (unat raw)
       then read_fail (fail EC_InvalidEnum ''encoded evidence type is not a known evidence class'')
       else read_return (EvidenceType raw))"

definition read_gate :: "Gate reader" where
  "read_gate =
     read_bind read_gate_kind (\<lambda>kind.
     read_bind read_optional_evidence_type (\<lambda>evidence_type.
     read_bind (read_text kMaxNameLength) (\<lambda>custom.
     read_bind read_u64 (\<lambda>max_age.
     read_bind read_counter (\<lambda>compatibility.
     read_bind (read_text kMaxTextLength) (\<lambda>environment.
     read_bind read_identity (\<lambda>provenance.
     read_bind (read_text kMaxNameLength) (\<lambda>label.
     let gate = \<lparr> gt_kind = kind, gt_evidence_type = evidence_type, gt_custom_evidence_type = custom,
           gt_max_age_millis = max_age, gt_required_compatibility_generation = compatibility,
           gt_required_environment = environment, gt_required_provenance = provenance,
           gt_label = label \<rparr> in
     if status_failed (gate_validate gate)
     then read_fail (fail EC_PersistenceCorrupt
            (''decoded policy gate is not valid: '' @ status_render (gate_validate gate)))
     else read_return gate))))))))"

definition gate_fits :: "Gate \<Rightarrow> bool" where
  "gate_fits g \<longleftrightarrow>
     status_ok (gate_validate g) \<and> gt_kind g \<noteq> GK_Invalid
     \<and> (gt_evidence_type g = ET_Invalid \<or> evidence_type_valid (gt_evidence_type g))
     \<and> text_fits kMaxNameLength (gt_custom_evidence_type g)
     \<and> text_fits kMaxTextLength (gt_required_environment g) \<and> text_fits kMaxNameLength (gt_label g)"

abbreviation write_optional_evidence_type :: "EvidenceType \<Rightarrow> bytes" where
  "write_optional_evidence_type t \<equiv> write_u8 (if t \<noteq> ET_Invalid then et_raw t else 0)"

interpretation optional_evidence_type: codec write_optional_evidence_type read_optional_evidence_type
    "\<lambda>t. t = ET_Invalid \<or> evidence_type_valid t"
proof (rule codecI)
  show "read_optional_evidence_type region = Inr (x, rest) \<longleftrightarrow>
      (x = ET_Invalid \<or> evidence_type_valid x) \<and> region = write_optional_evidence_type x @ rest" for region x rest
    by (cases x) (auto simp: read_optional_evidence_type_def wire_iffs is_valid_evidence_type_def split: if_splits)
qed

interpretation gate_codec: codec write_gate read_gate gate_fits
proof (rule codecI)
  show "read_gate region = Inr (x, rest) \<longleftrightarrow> gate_fits x \<and> region = write_gate x @ rest" for region x rest
    unfolding write_gate_def
    by (cases x) (auto simp: read_gate_def gate_fits_def status_failed_iff Let_def wire_iffs
        optional_evidence_type.decode_iff simp del: if_split)
qed

section \<open>Rules\<close>

definition kMaxRuleGates :: nat where "kMaxRuleGates = 32"
definition kMaxRulePreferences :: nat where "kMaxRulePreferences = 32"

definition write_rule :: "PolicyRule \<Rightarrow> bytes" where
  "write_rule r =
     write_boolean (ru_has_kind_scope r)
     @ write_kind (if ru_has_kind_scope r then ru_kind_scope r else AK_Invalid)
     @ write_stage (ru_from r) @ write_stage (ru_to r) @ write_ordering_rule (ru_ordering r)
     @ write_boolean (ru_allow_idempotent_replay r) @ write_boolean (ru_allow_rollback_eligibility r)
     @ write_boolean (ru_supersedes_previous r)
     @ store_u32 (of_nat (length (ru_requirements r))) @ store_u32 (of_nat (length (ru_preferences r)))
     @ concat (map write_gate (ru_requirements r)) @ concat (map write_gate_kind (ru_preferences r))"

text \<open>The zero class is accepted exactly when the scope flag is off.\<close>

definition read_scope :: "bool \<Rightarrow> ArtifactKind reader" where
  "read_scope has_scope =
     read_bind read_u8 (\<lambda>raw.
       if raw = 0 then
         (if has_scope
          then read_fail (fail EC_PersistenceCorrupt
                 ''policy rule claims an artifact class scope but carries the empty sentinel'')
          else read_return AK_Invalid)
       else if \<not> is_valid_artifact_kind (unat raw)
       then read_fail (fail EC_InvalidEnum ''encoded artifact kind is not a known artifact class'')
       else if \<not> has_scope
       then read_fail (fail EC_PersistenceCorrupt
              ''policy rule carries an artifact class without a scope flag'')
       else read_return (artifact_kinds ! unat raw))"

definition read_rule :: "PolicyRule reader" where
  "read_rule =
     read_bind read_boolean (\<lambda>has_scope.
     read_bind (read_scope has_scope) (\<lambda>scope.
     read_bind read_stage (\<lambda>from.
     read_bind read_stage (\<lambda>to.
     read_bind read_ordering_rule (\<lambda>ordering.
     read_bind read_boolean (\<lambda>idempotent.
     read_bind read_boolean (\<lambda>rollback.
     read_bind read_boolean (\<lambda>supersedes.
     read_bind (read_count kMaxRuleGates) (\<lambda>requirement_count.
     read_bind (read_count kMaxRulePreferences) (\<lambda>preference_count.
     read_bind (read_elements read_gate requirement_count) (\<lambda>requirements.
     read_bind (read_elements read_gate_kind preference_count) (\<lambda>preferences.
     read_return \<lparr> ru_has_kind_scope = has_scope, ru_kind_scope = scope, ru_from = from, ru_to = to,
       ru_requirements = requirements, ru_preferences = preferences, ru_ordering = ordering,
       ru_allow_idempotent_replay = idempotent, ru_allow_rollback_eligibility = rollback,
       ru_supersedes_previous = supersedes \<rparr>))))))))))))"

definition scope_fits :: "bool \<Rightarrow> ArtifactKind \<Rightarrow> bool" where
  "scope_fits has_scope kind \<longleftrightarrow> (has_scope \<longleftrightarrow> kind \<noteq> AK_Invalid)"

definition rule_fits :: "PolicyRule \<Rightarrow> bool" where
  "rule_fits r \<longleftrightarrow>
     scope_fits (ru_has_kind_scope r) (ru_kind_scope r) \<and> ru_from r \<noteq> St_Invalid \<and> ru_to r \<noteq> St_Invalid
     \<and> list_fits kMaxRuleGates gate_fits (ru_requirements r)
     \<and> list_fits kMaxRulePreferences (\<lambda>k. k \<noteq> GK_Invalid) (ru_preferences r)"

interpretation scope_codec: codec "write_enum artifact_kind_value" "read_scope has_scope" "scope_fits has_scope"
  for has_scope
proof (rule codecI)
  fix region x rest
  have zero: "artifact_kind_value AK_Invalid = 0" "artifact_kinds ! 0 = AK_Invalid"
    by (simp_all add: artifact_kind_value_def index_in_def artifact_kinds_def)
  have "read_scope has_scope region = Inr (x, rest) \<longleftrightarrow>
      (if has_scope then read_kind region = Inr (x, rest) else x = AK_Invalid \<and> region = write_u8 0 @ rest)"
    by (auto simp: read_scope_def read_kind_def read_enum_def wire_iffs is_valid_artifact_kind_def zero
        unat_eq_0 split: if_splits)
  then show "read_scope has_scope region = Inr (x, rest) \<longleftrightarrow> scope_fits has_scope x \<and> region = write_kind x @ rest"
    by (auto simp: kind_codec.decode_iff scope_fits_def write_enum_def zero)
qed

interpretation count_codec: codec write_size "read_count limit" "\<lambda>n. n \<le> limit \<and> n < 2 ^ 32" for limit
proof (rule codecI)
  fix region n rest
  have "read_count limit region = Inr (n, rest) \<longleftrightarrow> n \<le> limit \<and> read_size region = Inr (n, rest)"
    by (auto simp: read_count_def read_size_def wire_iffs)
  then show "read_count limit region = Inr (n, rest) \<longleftrightarrow> (n \<le> limit \<and> n < 2 ^ 32) \<and> region = write_size n @ rest"
    by (simp only: size_codec.decode_iff conj_assoc)
qed

interpretation rule_codec: codec write_rule read_rule rule_fits
proof (rule codecI)
  show "read_rule region = Inr (x, rest) \<longleftrightarrow> rule_fits x \<and> region = write_rule x @ rest" for region x rest
  proof (cases x)
    case (fields has kind src dst reqs prefs ordering idem roll sup)
    have "write_kind (if has then kind else AK_Invalid) = write_kind kind" if "scope_fits has kind"
      using that by (auto simp: scope_fits_def)
    then show ?thesis
      by (auto simp: fields read_rule_def write_rule_def rule_fits_def list_fits_def wire_iffs scope_codec.decode_iff
          count_codec.decode_iff gate_codec.elements_iff gate_kind_codec.elements_iff write_size_def)
  qed
qed

section \<open>Lifecycle graphs\<close>

definition kMaxGraphEdges :: nat where "kMaxGraphEdges = 64"

definition write_edge :: "Edge \<Rightarrow> bytes" where
  "write_edge e = write_stage (edge_from e) @ write_stage (edge_to e)"

definition write_lifecycle_graph :: "LifecycleGraph \<Rightarrow> bytes" where
  "write_lifecycle_graph g = write_list write_edge (edges g)"

fun read_edges :: "nat \<Rightarrow> LifecycleGraph \<Rightarrow> LifecycleGraph reader" where
  "read_edges 0 graph = read_return graph"
| "read_edges (Suc n) graph =
     read_bind read_stage (\<lambda>from.
     read_bind read_stage (\<lambda>to.
     if from = St_Invalid \<or> to = St_Invalid
     then read_fail (fail EC_InvalidStage ''encoded lifecycle graph contains the INVALID stage'')
     else case add_edge graph from to of
         (added, graph') \<Rightarrow>
           if \<not> added
           then read_fail (fail EC_InvalidTransition
                  ''encoded lifecycle graph contains a duplicate or self-referential edge'')
           else read_edges n graph'))"

definition read_lifecycle_graph :: "LifecycleGraph reader" where
  "read_lifecycle_graph =
     read_bind (read_count kMaxGraphEdges) (\<lambda>n.
     read_bind (read_edges n (LifecycleGraph [])) (\<lambda>graph.
     read_return (canonicalize graph)))"

definition edge_fits :: "Edge \<Rightarrow> bool" where
  "edge_fits e \<longleftrightarrow> edge_from e \<noteq> St_Invalid \<and> edge_to e \<noteq> St_Invalid \<and> edge_from e \<noteq> edge_to e"

definition graph_fits :: "LifecycleGraph \<Rightarrow> bool" where
  "graph_fits g \<longleftrightarrow> is_canonical g \<and> length (edges g) \<le> kMaxGraphEdges \<and> list_all edge_fits (edges g)"

lemma read_edges_back:
  assumes "distinct (acc @ es)" "length (acc @ es) \<le> kMaxEdges" "list_all edge_fits es"
  shows "read_edges (length es) (LifecycleGraph acc) (concat (map write_edge es) @ rest)
    = Inr (LifecycleGraph (acc @ es), rest)"
  using assms
proof (induction es arbitrary: acc)
  case (Cons e es)
  have new: "\<not> list_ex (\<lambda>x. edge_from x = edge_from e \<and> edge_to x = edge_to e) acc"
    using Cons.prems(1) Edge.expand by (auto simp: list_ex_iff)
  have "add_edge (LifecycleGraph acc) (edge_from e) (edge_to e) = (True, LifecycleGraph (acc @ [e]))"
    using Cons.prems(2,3) new by (simp add: add_edge_def edge_fits_def)
  with Cons.prems Cons.IH [of "acc @ [e]"] show ?case
    by (simp add: write_edge_def edge_fits_def stage_codec.decode_encode)
qed simp

lemma canonicalize_idem: "is_canonical g \<Longrightarrow> canonicalize g = g"
  by (cases g) (simp add: is_canonical_def canonicalize_def sorted_sort_id distinct_adj_altdef remdups_adj_distinct)

interpretation graph_roundtrip: roundtrip write_lifecycle_graph read_lifecycle_graph graph_fits
proof
  fix g rest
  assume fits: "graph_fits g"
  then have "distinct (edges g)" "length (edges g) \<le> 64" "list_all edge_fits (edges g)" "canonicalize g = g"
    using canonical_sorted_distinct [of g]
    by (auto simp: graph_fits_def kMaxGraphEdges_def canonicalize_idem strict_sorted_iff)
  then show "read_lifecycle_graph (write_lifecycle_graph g @ rest) = Inr (g, rest)"
    using read_edges_back [of "[]" "edges g" rest]
    by (simp add: read_lifecycle_graph_def write_lifecycle_graph_def write_list_def kMaxEdges_def kMaxGraphEdges_def
        count_codec.decode_encode [unfolded write_size_def])
qed

section \<open>Policies\<close>

definition kMaxPolicyRules :: nat where "kMaxPolicyRules = 64"

definition write_policy :: "PromotionPolicy \<Rightarrow> bytes" where
  "write_policy p =
     write_identity (po_id p) @ write_counter (po_generation p) @ write_text kMaxNameLength (po_name p)
     @ write_text kMaxTextLength (po_description p) @ write_stage (po_entry_stage p)
     @ write_lifecycle_graph (po_graph p) @ write_digest (po_policy_digest p)
     @ write_list write_rule (po_rules p)"

definition read_policy :: "PromotionPolicy reader" where
  "read_policy =
     read_bind read_identity (\<lambda>i.
     read_bind read_counter (\<lambda>generation.
     read_bind (read_text kMaxNameLength) (\<lambda>name.
     read_bind (read_text kMaxTextLength) (\<lambda>description.
     read_bind read_stage (\<lambda>entry.
     read_bind read_lifecycle_graph (\<lambda>graph.
     read_bind read_digest (\<lambda>digest.
     read_bind (read_list kMaxPolicyRules read_rule) (\<lambda>rules.
     read_return \<lparr> po_id = i, po_generation = generation, po_name = name, po_description = description,
       po_graph = graph, po_entry_stage = entry, po_rules = rules, po_policy_digest = digest \<rparr>))))))))"

definition policy_fits :: "PromotionPolicy \<Rightarrow> bool" where
  "policy_fits p \<longleftrightarrow>
     text_fits kMaxNameLength (po_name p) \<and> text_fits kMaxTextLength (po_description p)
     \<and> po_entry_stage p \<noteq> St_Invalid \<and> graph_fits (po_graph p) \<and> digest_sized (po_policy_digest p)
     \<and> list_fits kMaxPolicyRules rule_fits (po_rules p)"

interpretation policy_roundtrip: roundtrip write_policy read_policy policy_fits
proof
  show "read_policy (write_policy p @ rest) = Inr (p, rest)" if "policy_fits p" for p rest
    using that by (simp add: read_policy_def write_policy_def policy_fits_def identity.decode_encode
        counter.decode_encode text_codec.decode_encode stage_codec.decode_encode graph_roundtrip.read_back
        digest.decode_encode rule_codec.list_read_back)
qed

section \<open>Decisions\<close>

definition kMaxDecisionGates :: nat where "kMaxDecisionGates = 64"
definition kMaxDecisionReasons :: nat where "kMaxDecisionReasons = 64"
definition kMaxDecisionFindings :: nat where "kMaxDecisionFindings = 64"


definition write_gate_explanation :: "GateExplanation \<Rightarrow> bytes" where
  "write_gate_explanation g =
     write_gate_kind (ge_kind g) @ write_text kMaxNameLength (ge_label g)
     @ write_gate_status (ge_status g) @ write_error_code (ge_code g)
     @ write_text kMaxTextLength (ge_detail g)"

definition read_gate_explanation :: "GateExplanation reader" where
  "read_gate_explanation =
     read_bind read_gate_kind (\<lambda>kind0.
     read_bind (read_text kMaxNameLength) (\<lambda>label0.
     read_bind read_gate_status (\<lambda>status0.
     read_bind read_error_code (\<lambda>code0.
     read_bind (read_text kMaxTextLength) (\<lambda>detail0.
     read_return \<lparr> ge_kind = kind0, ge_label = label0, ge_status = status0, ge_code = code0,
        ge_detail = detail0 \<rparr>)))))"

definition gate_explanation_fits :: "GateExplanation \<Rightarrow> bool" where
  "gate_explanation_fits g \<longleftrightarrow>
     ge_kind g \<noteq> GK_Invalid \<and> text_fits kMaxNameLength (ge_label g)
     \<and> text_fits kMaxTextLength (ge_detail g)"

interpretation gate_explanation_codec: codec write_gate_explanation read_gate_explanation gate_explanation_fits
proof (rule codecI)
  show "read_gate_explanation region = Inr (x, rest) \<longleftrightarrow> gate_explanation_fits x \<and> region = write_gate_explanation x @ rest" for region x rest
    by (cases x)
      (auto simp: read_gate_explanation_def write_gate_explanation_def gate_explanation_fits_def Let_def wire_iffs)
qed

definition write_finding :: "EvidenceFinding \<Rightarrow> bytes" where
  "write_finding f =
     write_identity (ef_id f) @ write_evidence_type (ef_type f)
     @ write_text kMaxNameLength (ef_custom_type f) @ write_counter (ef_generation f)
     @ write_evidence_result (ef_result f) @ write_digest (ef_subject_digest f)
     @ write_identity (ef_subject_revision f) @ write_error_code (ef_code f)
     @ write_text kMaxTextLength (ef_detail f)"

definition read_finding :: "EvidenceFinding reader" where
  "read_finding =
     read_bind read_identity (\<lambda>id0.
     read_bind read_evidence_type (\<lambda>type0.
     read_bind (read_text kMaxNameLength) (\<lambda>custom_type0.
     read_bind read_counter (\<lambda>generation0.
     read_bind read_evidence_result (\<lambda>result0.
     read_bind read_digest (\<lambda>subject_digest0.
     read_bind read_identity (\<lambda>subject_revision0.
     read_bind read_error_code (\<lambda>code0.
     read_bind (read_text kMaxTextLength) (\<lambda>detail0.
     read_return \<lparr> ef_id = id0, ef_type = type0, ef_custom_type = custom_type0, ef_generation = generation0,
        ef_result = result0, ef_subject_digest = subject_digest0,
        ef_subject_revision = subject_revision0, ef_code = code0, ef_detail = detail0 \<rparr>)))))))))"

definition finding_fits :: "EvidenceFinding \<Rightarrow> bool" where
  "finding_fits f \<longleftrightarrow>
     evidence_type_valid (ef_type f) \<and> text_fits kMaxNameLength (ef_custom_type f)
     \<and> digest_sized (ef_subject_digest f) \<and> text_fits kMaxTextLength (ef_detail f)"

interpretation finding_codec: codec write_finding read_finding finding_fits
proof (rule codecI)
  show "read_finding region = Inr (x, rest) \<longleftrightarrow> finding_fits x \<and> region = write_finding x @ rest" for region x rest
    by (cases x)
      (auto simp: read_finding_def write_finding_def finding_fits_def Let_def wire_iffs)
qed

definition write_reason :: "Reason \<Rightarrow> bytes" where
  "write_reason r =
     write_error_code (reason_code r) @ write_text kMaxTextLength (reason_text r)
     @ write_text kMaxReferenceLength (reason_subject r)"

definition read_reason :: "Reason reader" where
  "read_reason =
     read_bind read_error_code (\<lambda>code.
     read_bind (read_text kCapacity) (\<lambda>message.
     read_bind (read_text kMaxReferenceLength) (\<lambda>subject.
     read_return (Reason code (static_string_c message) subject))))"

definition reason_fits :: "Reason \<Rightarrow> bool" where
  "reason_fits r \<longleftrightarrow>
     text_fits kCapacity (reason_text r) \<and> char_of (0 :: nat) \<notin> set (reason_text r)
     \<and> text_fits kMaxReferenceLength (reason_subject r)"

interpretation reason_roundtrip: roundtrip write_reason read_reason reason_fits
proof
  fix r rest
  assume fits: "reason_fits r"
  then have len: "length (reason_text r) < kMaxTextLength" "length (reason_text r) \<le> kCapacity"
    by (simp_all add: reason_fits_def text_fits_def kCapacity_def kMaxTextLength_def)
  have cut: "takeWhile (\<lambda>c. c \<noteq> char_of (0 :: nat)) (reason_text r) = reason_text r"
    using fits by (auto simp: reason_fits_def takeWhile_eq_all_conv)
  have "static_string_c (reason_text r) = reason_text r"
    unfolding static_string_c_def cut using len by simp
  moreover have "write_text kMaxTextLength (reason_text r) = write_text kCapacity (reason_text r)"
    using len by (auto simp: write_text_def Let_def)
  ultimately show "read_reason (write_reason r @ rest) = Inr (r, rest)"
    using fits by (simp add: read_reason_def write_reason_def reason_fits_def error_code_codec.decode_encode
        text_codec.decode_encode)
qed

text \<open>The flag and the value of the optional decision time.\<close>

definition write_decided :: "u64 option \<Rightarrow> bytes" where
  "write_decided t = write_boolean (t \<noteq> None) @ store_u64 (case t of None \<Rightarrow> 0 | Some v \<Rightarrow> v)"

definition read_decided :: "u64 option reader" where
  "read_decided =
     read_bind read_boolean (\<lambda>has_decided.
     read_bind read_u64 (\<lambda>decided.
     read_return (if has_decided then Some decided else None)))"

lemma read_decided_back: "read_decided (write_decided t @ rest) = Inr (t, rest)"
  by (cases t) 
    (simp_all add: read_decided_def write_decided_def read_bind_def boolean.decode_encode
      u64.decode_encode)

definition write_decision :: "PromotionDecision \<Rightarrow> bytes" where
  "write_decision d =
     write_identity (de_id d) @ write_identity (de_request d) @ write_identity (de_attempt d)
     @ write_identity (de_artifact d) @ write_identity (de_artifact_revision d)
     @ write_counter (de_artifact_generation d) @ write_digest (de_artifact_digest d)
     @ write_kind (de_artifact_kind d) @ write_stage (de_from d) @ write_stage (de_to d)
     @ write_outcome (de_outcome d) @ write_identity (de_policy d)
     @ write_counter (de_policy_generation d) @ write_digest (de_policy_digest d)
     @ write_authority (de_authority d) @ write_counter (de_sequence d)
     @ write_digest (de_evidence_snapshot_digest d) @ write_identity (de_plan d)
     @ write_boolean (de_authoritative d) @ write_decided (de_decided_unix_millis d)
     @ write_list write_gate_explanation (de_gates d) @ write_list write_finding (de_findings d)
     @ write_list write_reason (de_reasons d)"

definition read_decision :: "PromotionDecision reader" where
  "read_decision =
     read_bind read_identity (\<lambda>id0.
     read_bind read_identity (\<lambda>request0.
     read_bind read_identity (\<lambda>attempt0.
     read_bind read_identity (\<lambda>artifact0.
     read_bind read_identity (\<lambda>artifact_revision0.
     read_bind read_counter (\<lambda>artifact_generation0.
     read_bind read_digest (\<lambda>artifact_digest0.
     read_bind read_kind (\<lambda>artifact_kind0.
     read_bind read_stage (\<lambda>from0.
     read_bind read_stage (\<lambda>to0.
     read_bind read_outcome (\<lambda>outcome0.
     read_bind read_identity (\<lambda>policy0.
     read_bind read_counter (\<lambda>policy_generation0.
     read_bind read_digest (\<lambda>policy_digest0.
     read_bind read_authority (\<lambda>authority0.
     read_bind read_counter (\<lambda>sequence0.
     read_bind read_digest (\<lambda>evidence_snapshot_digest0.
     read_bind read_identity (\<lambda>plan0.
     read_bind read_boolean (\<lambda>authoritative0.
     read_bind read_decided (\<lambda>decided_unix_millis0.
     read_bind (read_list kMaxDecisionGates read_gate_explanation) (\<lambda>gates0.
     read_bind (read_list kMaxDecisionFindings read_finding) (\<lambda>findings0.
     read_bind (read_list kMaxDecisionReasons read_reason) (\<lambda>reasons0.
     read_return \<lparr> de_id = id0, de_request = request0, de_attempt = attempt0, de_artifact = artifact0,
        de_artifact_revision = artifact_revision0, de_artifact_generation = artifact_generation0,
        de_artifact_digest = artifact_digest0, de_artifact_kind = artifact_kind0, de_from = from0,
        de_to = to0, de_outcome = outcome0, de_policy = policy0,
        de_policy_generation = policy_generation0, de_policy_digest = policy_digest0,
        de_authority = authority0, de_sequence = sequence0,
        de_evidence_snapshot_digest = evidence_snapshot_digest0, de_gates = gates0,
        de_findings = findings0, de_reasons = reasons0, de_plan = plan0,
        de_authoritative = authoritative0, de_decided_unix_millis = decided_unix_millis0 \<rparr>)))))))))))))))))))))))"

definition decision_fits :: "PromotionDecision \<Rightarrow> bool" where
  "decision_fits d \<longleftrightarrow>
     digest_sized (de_artifact_digest d) \<and> de_artifact_kind d \<noteq> AK_Invalid
     \<and> de_from d \<noteq> St_Invalid \<and> de_to d \<noteq> St_Invalid
     \<and> de_outcome d \<noteq> PO_Invalid \<and> digest_sized (de_policy_digest d)
     \<and> digest_sized (de_evidence_snapshot_digest d)
     \<and> list_fits kMaxDecisionGates gate_explanation_fits (de_gates d)
     \<and> list_fits kMaxDecisionFindings finding_fits (de_findings d)
     \<and> list_fits kMaxDecisionReasons reason_fits (de_reasons d)"

interpretation decision_roundtrip: roundtrip write_decision read_decision decision_fits
proof
  show "read_decision (write_decision d @ rest) = Inr (d, rest)" if "decision_fits d" for d rest
    using that
    by (simp add: read_decision_def write_decision_def decision_fits_def identity.decode_encode counter.decode_encode
        digest.decode_encode kind_codec.decode_encode stage_codec.decode_encode outcome_codec.decode_encode
        authority_codec.decode_encode boolean.decode_encode read_decided_back gate_explanation_codec.list_read_back
        finding_codec.list_read_back reason_roundtrip.list_read_back)
qed

end
