(* ===== verification/Snapshot.thy ===== *)
theory Snapshot
  imports Policy_Codec
begin

text \<open>
  The durable snapshot (\<open>persistence.hpp\<close>, \<open>src/persist/snapshot.cpp\<close>): a container with
  magic, version, payload length and a SHA-256 footer around eleven sections.  \<open>encode_snapshot\<close>
  and \<open>decode_snapshot\<close> are \<open>StatePersistence::encode\<close> and \<open>decode\<close>; the loops
  of the decoder are \<open>read_times\<close>, and locale \<open>map_loop\<close> is the contract of the loops that
  restore a map.  The results: a state within the bounds is restored exactly (reservations apart), and
  whatever the decoder accepts is well formed.  \<open>load\<close> and \<open>save\<close> add file access only.
\<close>

section \<open>The format\<close>

definition kMaxSnapshotBytes :: nat where "kMaxSnapshotBytes = 256 * 1024 * 1024"
definition kFormatVersion :: u16 where "kFormatVersion = 1"
definition kMaxSections :: nat where "kMaxSections = 32"

definition kMagic :: bytes where
  "kMagic = string_bytes ''APSTATE'' @ [0]"

definition kHeaderSize :: nat where "kHeaderSize = 8 + 2 + 2 + 8"
definition kFooterSize :: nat where "kFooterSize = kSha256DigestSize"

datatype Section =
    Sec_Header | Sec_Artifacts | Sec_Evidence | Sec_Plans | Sec_Decisions | Sec_Records
  | Sec_Idempotency | Sec_History | Sec_Vetoes | Sec_Policy | Sec_Generators

definition snapshot_section_kinds :: "Section list" where
  "snapshot_section_kinds = [Sec_Header, Sec_Artifacts, Sec_Evidence, Sec_Plans, Sec_Decisions, Sec_Records,
     Sec_Idempotency, Sec_History, Sec_Vetoes, Sec_Policy, Sec_Generators]"

definition section_value :: "Section \<Rightarrow> u16" where
  "section_value s = of_nat (index_in snapshot_section_kinds s + 1)"

definition is_known_section :: "u16 \<Rightarrow> bool" where
  "is_known_section raw \<longleftrightarrow> raw \<ge> section_value Sec_Header \<and> raw \<le> section_value Sec_Generators"

text \<open>\<open>static_cast<Section>\<close> of a known value.\<close>

definition section_of :: "u16 \<Rightarrow> Section" where
  "section_of raw = snapshot_section_kinds ! (unat raw - 1)"

section \<open>Encoding\<close>

definition write_section :: "Section \<Rightarrow> bytes \<Rightarrow> bytes \<Rightarrow> bytes" where
  "write_section kind body writer = section_writer writer (section_value kind) body"

definition write_generator :: "'tag IdentityGenerator \<Rightarrow> bytes" where
  "write_generator g = store_u64 (gen_salt g) @ store_u64 (gen_counter g)"

definition write_header :: "CoordinatorState \<Rightarrow> bytes" where
  "write_header st =
     write_identity (coordinator st) @ write_counter (epoch st) @ write_counter (commit_sequence st)
     @ write_counter (decision_sequence st) @ write_counter (artifact_generation st)
     @ write_counter (compatibility_generation st) @ write_identity (compatibility_profile st)
     @ write_identity (active_policy st) @ write_counter (active_policy_generation st)
     @ write_digest (active_policy_digest st)"

definition write_chain :: "ArtifactId \<Rightarrow> ArtifactRecord list \<Rightarrow> bytes" where
  "write_chain i revisions = write_identity i @ write_list write_artifact revisions"

definition write_veto_entry :: "ArtifactId \<Rightarrow> VetoState \<Rightarrow> bytes" where
  "write_veto_entry i veto = write_identity i @ write_veto veto"

definition write_map :: "('k \<Rightarrow> 'v \<Rightarrow> bytes) \<Rightarrow> ('k, 'v) omap \<Rightarrow> bytes" where
  "write_map write_entry m = write_list (\<lambda>(k, v). write_entry k v) m"

definition write_generators :: "CoordinatorState \<Rightarrow> bytes" where
  "write_generators st =
     write_generator (revision_generator st) @ write_generator (evidence_generator st)
     @ write_generator (plan_generator st) @ write_generator (decision_generator st)
     @ write_generator (transition_generator st) @ write_generator (reservation_generator st)
     @ write_generator (instance_generator st) @ write_generator (provenance_generator st)
     @ write_generator (internal_request_generator st) @ write_generator (internal_attempt_generator st)"

definition snapshot_sections :: "CoordinatorState \<Rightarrow> (Section \<times> bytes) list" where
  "snapshot_sections st =
     [(Sec_Header, write_header st),
      (Sec_Policy, write_policy (active_policy_body st)),
      (Sec_Artifacts, write_map write_chain (artifacts st)),
      (Sec_Evidence, write_map (\<lambda>_. write_evidence) (evidence st)),
      (Sec_Plans, write_map (\<lambda>_. write_plan) (plans st)),
      (Sec_Decisions, write_map (\<lambda>_. write_decision) (decisions st)),
      (Sec_Records, write_map (\<lambda>_. write_promotion_record) (records st)),
      (Sec_Idempotency, write_map (\<lambda>_. write_idempotency) (idempotency st)),
      (Sec_History, write_map (\<lambda>_. write_history_event) (history st)),
      (Sec_Vetoes, write_map write_veto_entry (vetoes st)),
      (Sec_Generators, write_generators st)]"

definition encode_payload :: "CoordinatorState \<Rightarrow> bytes" where
  "encode_payload st = fold (\<lambda>(kind, body). write_section kind body) (snapshot_sections st) []"

text \<open>Header, payload and footer digest.\<close>

definition seal_snapshot :: "bytes \<Rightarrow> bytes" where
  "seal_snapshot payload =
     (let file = kMagic @ store_u16 kFormatVersion @ store_u16 0 @ store_u64 (of_nat (length payload)) @ payload
      in file @ write_digest (sha256 file))"

definition encode_snapshot :: "CoordinatorState \<Rightarrow> bytes" where
  "encode_snapshot st = seal_snapshot (encode_payload st)"

section \<open>Decoding the sections\<close>

text \<open>\<open>for (index = 0; index < n; ++index)\<close> around a body that reads and updates.\<close>

fun read_times :: "('s \<Rightarrow> 's reader) \<Rightarrow> nat \<Rightarrow> 's \<Rightarrow> 's reader" where
  "read_times step 0 s = read_return s"
| "read_times step (Suc n) s = read_bind (step s) (read_times step n)"

text \<open>\<open>std::map::emplace\<close> keeps the entry that is already there.\<close>

definition om_emplace :: "'k::linorder \<Rightarrow> 'v \<Rightarrow> ('k, 'v) omap \<Rightarrow> ('k, 'v) omap" where
  "om_emplace k v m = (if om_count m k then m else om_insert k v m)"

definition read_map :: "nat \<Rightarrow> (('k, 'v) omap \<Rightarrow> ('k, 'v) omap reader) \<Rightarrow> ('k, 'v) omap \<Rightarrow> ('k, 'v) omap reader" where
  "read_map limit step m = read_bind (read_count limit) (\<lambda>n. read_times step n m)"

definition read_header :: "CoordinatorState \<Rightarrow> CoordinatorState reader" where
  "read_header st =
     read_bind read_identity (\<lambda>coordinator0.
     read_bind read_counter (\<lambda>epoch0.
     read_bind read_counter (\<lambda>commit0.
     read_bind read_counter (\<lambda>decision_sequence0.
     read_bind read_counter (\<lambda>artifact_generation0.
     read_bind read_counter (\<lambda>compatibility0.
     read_bind read_identity (\<lambda>profile0.
     read_bind read_identity (\<lambda>policy0.
     read_bind read_counter (\<lambda>policy_generation0.
     read_bind read_digest (\<lambda>policy_digest0.
     read_return (st \<lparr> coordinator := coordinator0, epoch := epoch0, commit_sequence := commit0,
       decision_sequence := decision_sequence0, artifact_generation := artifact_generation0,
       compatibility_generation := compatibility0, compatibility_profile := profile0,
       active_policy := policy0, active_policy_generation := policy_generation0,
       active_policy_digest := policy_digest0 \<rparr>)))))))))))"

definition read_revision :: "ArtifactId \<Rightarrow> ArtifactRecord list \<Rightarrow> ArtifactRecord list reader" where
  "read_revision i chain =
     read_bind read_artifact (\<lambda>record.
       if ar_id record \<noteq> i
       then read_fail (corrupt ''artifact revision record does not match its chain identity'')
       else read_return (chain @ [record]))"

definition read_chain ::
  "(ArtifactId, ArtifactRecord list) omap \<Rightarrow> (ArtifactId, ArtifactRecord list) omap reader" where
  "read_chain m =
     read_bind read_identity (\<lambda>i.
       if om_count m i then read_fail (corrupt ''snapshot contains a duplicate artifact identity'')
       else
         read_bind (read_count 1024) (\<lambda>n.
         read_bind (read_times (read_revision i) n []) (\<lambda>chain.
           if chain = [] then read_fail (corrupt ''snapshot contains an empty artifact chain'')
           else read_return (om_emplace i chain m))))"

definition read_new_evidence ::
  "(EvidenceId, EvidenceRecord) omap \<Rightarrow> (EvidenceId, EvidenceRecord) omap reader" where
  "read_new_evidence m =
     read_bind read_evidence (\<lambda>record.
       if om_count m (ev_id record) then read_fail (corrupt ''snapshot contains duplicate evidence identity'')
       else read_return (om_emplace (ev_id record) record m))"

definition read_entry :: "'v reader \<Rightarrow> ('v \<Rightarrow> 'k::linorder) \<Rightarrow> ('k, 'v) omap \<Rightarrow> ('k, 'v) omap reader" where
  "read_entry read_record key m = read_bind read_record (\<lambda>record. read_return (om_emplace (key record) record m))"

definition read_veto_entry :: "(ArtifactId, VetoState) omap \<Rightarrow> (ArtifactId, VetoState) omap reader" where
  "read_veto_entry m =
     read_bind read_identity (\<lambda>i.
     read_bind read_veto (\<lambda>veto. read_return (om_emplace i veto m)))"

definition read_salt_counter :: "(u64 \<times> u64) reader" where
  "read_salt_counter =
     read_bind read_u64 (\<lambda>salt. read_bind read_u64 (\<lambda>counter. read_return (salt, counter)))"

definition resume :: "u64 \<times> u64 \<Rightarrow> 'tag IdentityGenerator" where
  "resume saved = resume_after (fst saved) (snd saved)"

definition read_generators :: "CoordinatorState \<Rightarrow> CoordinatorState reader" where
  "read_generators st =
     read_bind (read_elements read_salt_counter 10) (\<lambda>saved.
     read_return (st \<lparr> revision_generator := resume (saved ! 0), evidence_generator := resume (saved ! 1),
       plan_generator := resume (saved ! 2), decision_generator := resume (saved ! 3),
       transition_generator := resume (saved ! 4), reservation_generator := resume (saved ! 5),
       instance_generator := resume (saved ! 6), provenance_generator := resume (saved ! 7),
       internal_request_generator := resume (saved ! 8), internal_attempt_generator := resume (saved ! 9) \<rparr>))"

fun read_section_body :: "Section \<Rightarrow> CoordinatorState \<Rightarrow> CoordinatorState reader" where
  "read_section_body Sec_Header st = read_header st"
| "read_section_body Sec_Policy st =
     read_bind read_policy (\<lambda>policy. read_return (set_active_policy policy st))"
| "read_section_body Sec_Artifacts st =
     read_bind (read_map 1000000 read_chain (artifacts st)) (\<lambda>m. read_return (st \<lparr> artifacts := m \<rparr>))"
| "read_section_body Sec_Evidence st =
     read_bind (read_map 10000000 read_new_evidence (evidence st)) (\<lambda>m. read_return (st \<lparr> evidence := m \<rparr>))"
| "read_section_body Sec_Plans st =
     read_bind (read_map 10000000 (read_entry read_plan pl_id) (plans st))
       (\<lambda>m. read_return (st \<lparr> plans := m \<rparr>))"
| "read_section_body Sec_Decisions st =
     read_bind (read_map 10000000 (read_entry read_decision de_id) (decisions st))
       (\<lambda>m. read_return (st \<lparr> decisions := m \<rparr>))"
| "read_section_body Sec_Records st =
     read_bind (read_map 10000000 (read_entry read_promotion_record pr_transition) (records st))
       (\<lambda>m. read_return (st \<lparr> records := m \<rparr>))"
| "read_section_body Sec_Idempotency st =
     read_bind (read_map 10000000 (read_entry read_idempotency ir_request) (idempotency st))
       (\<lambda>m. read_return (st \<lparr> idempotency := m \<rparr>))"
| "read_section_body Sec_History st =
     read_bind (read_map 10000000 (read_entry read_history_event he_sequence) (history st))
       (\<lambda>m. read_return (st \<lparr> history := m \<rparr>))"
| "read_section_body Sec_Vetoes st =
     read_bind (read_map 1000000 read_veto_entry (vetoes st)) (\<lambda>m. read_return (st \<lparr> vetoes := m \<rparr>))"
| "read_section_body Sec_Generators st = read_generators st"

fun section_name :: "Section \<Rightarrow> string" where
  "section_name Sec_Header = ''header''"
| "section_name Sec_Policy = ''policy''"
| "section_name Sec_Artifacts = ''artifact''"
| "section_name Sec_Evidence = ''evidence''"
| "section_name Sec_Plans = ''plan''"
| "section_name Sec_Decisions = ''decision''"
| "section_name Sec_Records = ''promotion record''"
| "section_name Sec_Idempotency = ''idempotency''"
| "section_name Sec_History = ''history''"
| "section_name Sec_Vetoes = ''veto''"
| "section_name Sec_Generators = ''generator''"

text \<open>One turn of the section loop; the flags \<open>has_header\<close>, \<open>has_policy\<close>, \<dots> are the list of
  the sections read so far.\<close>

type_synonym decoding = "Section list \<times> CoordinatorState"

definition read_section_of :: "Section \<Rightarrow> bytes \<Rightarrow> decoding \<Rightarrow> Status + decoding" where
  "read_section_of kind body dec =
     (case dec of (seen, st) \<Rightarrow>
        if kind \<in> set seen
        then Inl (corrupt (''snapshot contains a duplicate '' @ section_name kind @ '' section''))
        else
          case read_section_body kind st body of
            Inl e \<Rightarrow> Inl e
          | Inr (st', trailing) \<Rightarrow>
              if status_failed (require_finished trailing)
              then Inl (corrupt ''snapshot section contains trailing bytes after its declared content'')
              else Inr (kind # seen, st'))"

definition read_section :: "decoding \<Rightarrow> decoding reader" where
  "read_section dec =
     read_bind read_u16 (\<lambda>raw.
       if \<not> is_known_section raw
       then read_fail (fail EC_PersistenceFormatError ''snapshot contains an unknown section kind'')
       else
         read_bind (read_sub_region kMaxSnapshotBytes) (\<lambda>body.
           case read_section_of (section_of raw) body dec of
             Inl e \<Rightarrow> read_fail e
           | Inr dec' \<Rightarrow> read_return dec'))"

fun read_sections :: "nat \<Rightarrow> decoding \<Rightarrow> bytes \<Rightarrow> Status + decoding" where
  "read_sections 0 dec region =
     (if region = [] then Inr dec
      else Inl (corrupt ''snapshot declares more sections than the format allows''))"
| "read_sections (Suc budget) dec region =
     (if region = [] then Inr dec
      else case read_section dec region of
             Inl e \<Rightarrow> Inl e
           | Inr (dec', rest) \<Rightarrow> read_sections budget dec' rest)"

section \<open>Decoding the container\<close>

definition read_container :: "nat \<Rightarrow> bytes reader" where
  "read_container file_size =
     read_bind (read_raw (length kMagic)) (\<lambda>_.
     read_bind read_u16 (\<lambda>version.
       if version \<noteq> kFormatVersion
       then read_fail (fail EC_PersistenceVersionUnsupported
              (''state file format version '' @ digits_of_nat (unat version) @ '' is not supported by this build''))
       else
     read_bind read_u16 (\<lambda>reserved.
       if reserved \<noteq> 0 then read_fail (fail EC_PersistenceFormatError ''reserved header field is not zero'')
       else
     read_bind read_u64 (\<lambda>payload_length.
       let expected_total = of_nat kHeaderSize + payload_length + of_nat kFooterSize in
       if payload_length > of_nat kMaxSnapshotBytes
       then read_fail (corrupt ''declared snapshot payload exceeds the supported bound'')
       else if unat expected_total \<noteq> file_size
       then read_fail (corrupt
         ''declared snapshot length does not match the file size; the file is truncated or has trailing bytes'')
       else
     read_bind (read_raw (unat payload_length)) (\<lambda>payload.
     read_bind (read_skip kFooterSize) (\<lambda>_.
     read_return payload))))))"

text \<open>The generators are advanced past every identity the restored records contain.\<close>

definition observe :: "'a Identity \<Rightarrow> 'tag IdentityGenerator \<Rightarrow> 'tag IdentityGenerator" where
  "observe i g = observe_existing (high i) (low i) g"

definition advance_generators :: "CoordinatorState \<Rightarrow> CoordinatorState" where
  "advance_generators st =
     st \<lparr> revision_generator :=
            fold (\<lambda>(_, revisions). fold (\<lambda>record. observe (ar_revision record)) revisions) (artifacts st)
              (revision_generator st),
          evidence_generator := fold (\<lambda>(i, _). observe i) (evidence st) (evidence_generator st),
          plan_generator := fold (\<lambda>(i, _). observe i) (plans st) (plan_generator st),
          decision_generator := fold (\<lambda>(i, _). observe i) (decisions st) (decision_generator st),
          transition_generator := fold (\<lambda>(i, _). observe i) (records st) (transition_generator st),
          internal_request_generator :=
            fold (\<lambda>(i, _). observe i) (idempotency st) (internal_request_generator st) \<rparr>"

definition finish_decode :: "decoding \<Rightarrow> Status + CoordinatorState" where
  "finish_decode dec =
     (case dec of (seen, st) \<Rightarrow>
        if \<not> list_all (\<lambda>kind. kind \<in> set seen) snapshot_section_kinds
        then Inl (corrupt ''snapshot is missing one or more mandatory sections'')
        else if po_generation (active_policy_body st) \<noteq> active_policy_generation st
        then Inl (corrupt ''snapshot policy generation does not match the recorded active policy generation'')
        else if po_id (active_policy_body st) \<noteq> active_policy st
        then Inl (corrupt ''snapshot policy identity does not match the recorded active policy identity'')
        else if po_policy_digest (active_policy_body st) \<noteq> active_policy_digest st
        then Inl (corrupt ''snapshot policy digest does not match the recorded digest'')
        else Inr (advance_generators st))"

definition decode_payload :: "bytes \<Rightarrow> Status + CoordinatorState" where
  "decode_payload payload =
     (case read_sections kMaxSections ([], empty_state) payload of
        Inl e \<Rightarrow> Inl e
      | Inr dec \<Rightarrow> finish_decode dec)"

definition decode_snapshot :: "bytes \<Rightarrow> Status + CoordinatorState" where
  "decode_snapshot bytes =
     (if length bytes < kHeaderSize + kFooterSize
      then Inl (corrupt ''state file is smaller than the minimum snapshot size'')
      else if take (length kMagic) bytes \<noteq> kMagic
      then Inl (fail EC_PersistenceFormatError ''state file does not begin with the expected magic'')
      else if from_raw (drop (length bytes - kFooterSize) bytes) \<noteq> sha256 (take (length bytes - kFooterSize) bytes)
      then Inl (corrupt ''snapshot footer digest does not match the snapshot content'')
      else
        case read_container (length bytes) bytes of
          Inl e \<Rightarrow> Inl e
        | Inr (payload, rest) \<Rightarrow>
            if status_failed (require_finished rest) then Inl (require_finished rest)
            else decode_payload payload)"

section \<open>Restoring a map\<close>

lemma om_find_append_new: "om_ok (m @ (k, v) # es) \<Longrightarrow> om_find m k = None"
  by (auto simp: om_find_None_iff om_ok_def sorted_wrt_append)

lemma om_insert_append: "om_ok (m @ (k, v) # es) \<Longrightarrow> om_insert k v m = m @ [(k, v)]"
proof (induction m)
  case (Cons p m)
  moreover obtain a b where "p = (a, b)" by fastforce
  moreover have "\<not> k < a" "k \<noteq> a" "om_ok (m @ (k, v) # es)"
    using Cons.prems \<open>p = (a, b)\<close> by (auto simp: om_ok_def)
  ultimately show ?case by simp
qed simp

lemma set_om_insert_subset: "set (om_insert k v m) \<subseteq> insert (k, v) (set m)"
  by (induction m) (auto split: if_splits)

text \<open>The contract of a loop body that restores one entry: it reads back what was written, and whatever it
  accepts is at most one sound new entry.\<close>

locale map_loop =
  fixes step :: "('k::linorder, 'v) omap \<Rightarrow> ('k, 'v) omap reader" and write_entry :: "'k \<Rightarrow> 'v \<Rightarrow> bytes"
    and fits :: "'k \<Rightarrow> 'v \<Rightarrow> bool" and sound :: "'k \<Rightarrow> 'v \<Rightarrow> bool"
  assumes step_new: "om_find m k = None \<Longrightarrow> fits k v \<Longrightarrow> step m (write_entry k v @ rest) = Inr (om_insert k v m, rest)"
    and step_only: "step m region = Inr (m', rest) \<Longrightarrow> m' = m \<or> (\<exists>k v. sound k v \<and> m' = om_insert k v m)"
begin

lemma times_read_back:
  "om_ok (m @ es) \<Longrightarrow> \<forall>(k, v) \<in> set es. fits k v \<Longrightarrow>
     read_times step (length es) m (concat (map (\<lambda>(k, v). write_entry k v) es) @ rest) = Inr (m @ es, rest)"
proof (induction es arbitrary: m)
  case (Cons e es)
  obtain k v where e: "e = (k, v)" by fastforce
  have "step m (write_entry k v @ tail) = Inr (m @ [(k, v)], tail)" for tail
    using Cons.prems e by (simp add: step_new om_find_append_new om_insert_append)
  then show ?case using Cons.IH [of "m @ [(k, v)]"] Cons.prems e by simp
qed simp

lemma map_read_back:
  assumes "om_ok m" "length m \<le> limit" "length m < 2 ^ 32" "\<forall>(k, v) \<in> set m. fits k v"
  shows "read_map limit step [] (write_map write_entry m @ rest) = Inr (m, rest)"
  using times_read_back [of "[]" m rest] assms
  by (simp add: read_map_def write_map_def write_list_def read_count_def u32.decode_encode unat_of_nat_u32
      del: of_nat_numeral)

lemma times_fail:
  assumes bad: "\<And>m rest. step m (write_entry k v @ rest) = Inl err"
  shows "om_ok (m @ es @ es2) \<Longrightarrow> \<forall>(k, v) \<in> set es. fits k v \<Longrightarrow>
     read_times step (length es + Suc n) m (concat (map (\<lambda>(k, v). write_entry k v) es) @ write_entry k v @ rest) = Inl err"
proof (induction es arbitrary: m)
  case (Cons e es)
  obtain k' v' where e: "e = (k', v')" by fastforce
  have "step m (write_entry k' v' @ tail) = Inr (m @ [(k', v')], tail)" for tail
    using Cons.prems e by (simp add: step_new om_find_append_new om_insert_append)
  then show ?case using Cons.IH [of "m @ [(k', v')]"] Cons.prems e by simp
qed (simp add: bad)

lemma map_fail:
  assumes "\<And>m rest. step m (write_entry k v @ rest) = Inl err"
    and "om_ok (es @ (k, v) # es2)" "length (es @ (k, v) # es2) \<le> limit" "limit < 2 ^ 32" "\<forall>(k, v) \<in> set es. fits k v"
  shows "read_map limit step [] (write_map write_entry (es @ (k, v) # es2)) = Inl err"
proof -
  have "unat (of_nat (length (es @ (k, v) # es2)) :: u32) = length es + Suc (length es2)"
    using assms(3,4) by (subst unat_of_nat_u32) auto
  then show ?thesis
    using times_fail [OF assms(1), of "[]" es _ "length es2"] assms
    by (auto simp: read_map_def write_map_def write_list_def read_count_def u32.decode_encode)
qed

lemma times_sound:
  "read_times step n m region = Inr (m', rest) \<Longrightarrow> om_ok m \<Longrightarrow> \<forall>(k, v) \<in> set m. sound k v \<Longrightarrow>
     om_ok m' \<and> (\<forall>(k, v) \<in> set m'. sound k v)"
proof (induction n arbitrary: m region)
  case (Suc n)
  from Suc.prems(1) obtain m1 r1 where "step m region = Inr (m1, r1)" "read_times step n m1 r1 = Inr (m', rest)"
    by (auto simp: read_bind_eq_Inr)
  moreover from step_only [OF this(1)] have "om_ok m1 \<and> (\<forall>(k, v) \<in> set m1. sound k v)"
    using Suc.prems(2,3) by (auto dest!: set_om_insert_subset [THEN subsetD])
  ultimately show ?case using Suc.IH by blast
qed simp

lemma map_sound:
  "read_map limit step m region = Inr (m', rest) \<Longrightarrow> om_ok m \<and> (\<forall>(k, v) \<in> set m. sound k v) \<Longrightarrow>
     om_ok m' \<and> (\<forall>(k, v) \<in> set m'. sound k v)"
  using times_sound [of _ m] unfolding read_map_def read_bind_eq_Inr by blast

end


subsection \<open>The loops of the decoder\<close>

lemma om_emplace_new: "om_find m k = None \<Longrightarrow> om_emplace k v m = om_insert k v m"
  by (simp add: om_emplace_def om_count_def)

lemma om_emplace_cases: "om_emplace k v m = m \<or> om_emplace k v m = om_insert k v m"
  by (simp add: om_emplace_def)

lemma entry_loop:
  assumes "roundtrip write_record read_record fits"
  shows "map_loop (read_entry read_record key) (\<lambda>_. write_record) (\<lambda>k v. key v = k \<and> fits v) (\<lambda>k v. key v = k)"
proof
  show "read_entry read_record key m (write_record v @ rest) = Inr (om_insert k v m, rest)"
    if "om_find m k = None" "key v = k \<and> fits v" for m k v rest
    using that roundtrip.read_back [OF assms] by (simp add: read_entry_def om_emplace_new)
  show "m' = m \<or> (\<exists>k v. key v = k \<and> m' = om_insert k v m)"
    if "read_entry read_record key m region = Inr (m', rest)" for m region m' rest
    using that om_emplace_cases by (fastforce simp: read_entry_def read_bind_eq_Inr)
qed

lemma codec_loop:
  assumes "codec write_record read_record fits"
  shows "map_loop (read_entry read_record key) (\<lambda>_. write_record) (\<lambda>k v. key v = k \<and> fits v)
    (\<lambda>k v. key v = k \<and> fits v)"
proof
  show "read_entry read_record key m (write_record v @ rest) = Inr (om_insert k v m, rest)"
    if "om_find m k = None" "key v = k \<and> fits v" for m k v rest
    using that codec.decode_encode [OF assms] by (simp add: read_entry_def om_emplace_new)
  show "m' = m \<or> (\<exists>k v. (key v = k \<and> fits v) \<and> m' = om_insert k v m)"
    if "read_entry read_record key m region = Inr (m', rest)" for m region m' rest
    using that om_emplace_cases by (fastforce simp: read_entry_def read_bind_eq_Inr codec.decode_iff [OF assms])
qed

interpretation plan_loop: map_loop "read_entry read_plan pl_id" "\<lambda>_. write_plan"
    "\<lambda>k v. pl_id v = k \<and> plan_fits v" "\<lambda>k v. pl_id v = k \<and> plan_fits v"
  by (rule codec_loop) (rule plan_codec.codec_axioms)

interpretation decision_loop: map_loop "read_entry read_decision de_id" "\<lambda>_. write_decision"
    "\<lambda>k v. de_id v = k \<and> decision_fits v" "\<lambda>k v. de_id v = k"
  by (rule entry_loop) (rule decision_roundtrip.roundtrip_axioms)

interpretation record_loop: map_loop "read_entry read_promotion_record pr_transition" "\<lambda>_. write_promotion_record"
    "\<lambda>k v. pr_transition v = k \<and> promotion_record_fits v" "\<lambda>k v. pr_transition v = k \<and> promotion_record_fits v"
  by (rule codec_loop) (rule promotion_record_codec.codec_axioms)

interpretation idempotency_loop: map_loop "read_entry read_idempotency ir_request" "\<lambda>_. write_idempotency"
    "\<lambda>k v. ir_request v = k \<and> idempotency_fits v" "\<lambda>k v. ir_request v = k \<and> idempotency_fits v"
  by (rule codec_loop) (rule idempotency_codec.codec_axioms)

interpretation history_loop: map_loop "read_entry read_history_event he_sequence" "\<lambda>_. write_history_event"
    "\<lambda>k v. he_sequence v = k \<and> history_event_fits v" "\<lambda>k v. he_sequence v = k \<and> history_event_fits v"
  by (rule codec_loop) (rule history_event_codec.codec_axioms)

interpretation evidence_loop: map_loop read_new_evidence "\<lambda>_. write_evidence"
    "\<lambda>k v. ev_id v = k \<and> evidence_record_fits v" "\<lambda>k v. ev_id v = k \<and> evidence_record_fits v"
proof
  show "read_new_evidence m (write_evidence v @ rest) = Inr (om_insert k v m, rest)"
    if "om_find m k = None" "ev_id v = k \<and> evidence_record_fits v" for m k v rest
    using that by (auto simp: read_new_evidence_def evidence_codec.decode_encode om_emplace_new om_count_def)
  show "m' = m \<or> (\<exists>k v. (ev_id v = k \<and> evidence_record_fits v) \<and> m' = om_insert k v m)"
    if "read_new_evidence m region = Inr (m', rest)" for m region m' rest
    using that om_emplace_cases
    by (fastforce simp: read_new_evidence_def read_bind_eq_Inr evidence_codec.decode_iff split: if_splits)
qed

interpretation veto_loop: map_loop read_veto_entry write_veto_entry "\<lambda>_. veto_fits" "\<lambda>_. veto_fits"
proof
  show "read_veto_entry m (write_veto_entry k v @ rest) = Inr (om_insert k v m, rest)"
    if "om_find m k = None" "veto_fits v" for m k v rest
    using that by (simp add: read_veto_entry_def write_veto_entry_def identity.decode_encode veto_codec.decode_encode
        om_emplace_new)
  show "m' = m \<or> (\<exists>k v. veto_fits v \<and> m' = om_insert k v m)"
    if "read_veto_entry m region = Inr (m', rest)" for m region m' rest
    using that om_emplace_cases
    by (fastforce simp: read_veto_entry_def read_bind_eq_Inr veto_codec.decode_iff)
qed

definition chain_fits :: "ArtifactId \<Rightarrow> ArtifactRecord list \<Rightarrow> bool" where
  "chain_fits i revisions \<longleftrightarrow>
     revisions \<noteq> [] \<and> length revisions \<le> 1024 \<and> list_all (\<lambda>r. ar_id r = i \<and> artifact_fits r) revisions"

lemma read_revisions_back:
  "list_all (\<lambda>r. ar_id r = i \<and> artifact_fits r) rs \<Longrightarrow>
     read_times (read_revision i) (length rs) chain (concat (map write_artifact rs) @ rest) = Inr (chain @ rs, rest)"
  by (induction rs arbitrary: chain) (simp_all add: read_revision_def artifact_codec.decode_encode)

lemma read_revision_iff:
  "read_revision i chain region = Inr (chain', rest) \<longleftrightarrow>
     (\<exists>r. ar_id r = i \<and> artifact_fits r \<and> region = write_artifact r @ rest \<and> chain' = chain @ [r])"
  by (auto simp: read_revision_def read_bind_eq_Inr artifact_codec.decode_iff split: if_splits)

lemma read_revisions_only:
  "read_times (read_revision i) n chain region = Inr (chain', rest) \<Longrightarrow>
     length chain' = length chain + n \<and>
     (list_all (\<lambda>r. ar_id r = i \<and> artifact_fits r) chain \<longrightarrow> list_all (\<lambda>r. ar_id r = i \<and> artifact_fits r) chain')"
proof (induction n arbitrary: chain region)
  case (Suc n)
  then obtain r region' where "ar_id r = i" "artifact_fits r"
    and "read_times (read_revision i) n (chain @ [r]) region' = Inr (chain', rest)"
    by (auto simp: read_bind_eq_Inr read_revision_iff)
  with Suc.IH [OF this(3)] show ?case by simp
qed simp

interpretation chain_loop: map_loop read_chain write_chain chain_fits chain_fits
proof
  show "read_chain m (write_chain k v @ rest) = Inr (om_insert k v m, rest)"
    if "om_find m k = None" "chain_fits k v" for m k v rest
    using that read_revisions_back [of k v "[]" rest]
    by (simp add: read_chain_def write_chain_def write_list_def read_count_def chain_fits_def identity.decode_encode
        om_emplace_new om_count_def u32.decode_encode unat_of_nat_u32 del: of_nat_numeral)
  show "m' = m \<or> (\<exists>k v. chain_fits k v \<and> m' = om_insert k v m)"
    if "read_chain m region = Inr (m', rest)" for m region m' rest
  proof -
    from that obtain i n chain r1 where "read_times (read_revision i) n [] r1 = Inr (chain, rest)" "n \<le> 1024"
      and "chain \<noteq> []" "m' = om_emplace i chain m"
      by (auto simp: read_chain_def read_count_def read_bind_eq_Inr split: if_splits)
    moreover from read_revisions_only [OF this(1)] this(2,3) have "chain_fits i chain"
      by (simp add: chain_fits_def)
    ultimately show ?thesis using om_emplace_cases by metis
  qed
qed


section \<open>Round trip\<close>

subsection \<open>The sections\<close>

definition framed :: "Section \<times> bytes \<Rightarrow> bytes" where
  "framed sec = store_u16 (section_value (fst sec)) @ write_blob (snd sec)"

lemma encode_payload_framed: "encode_payload st = concat (map framed (snapshot_sections st))"
proof -
  have "fold (\<lambda>(kind, body). write_section kind body) secs w = w @ concat (map framed secs)" for secs w
    by (induction secs arbitrary: w) (auto simp: write_section_def section_writer_bytes framed_def)
  then show ?thesis by (simp add: encode_payload_def)
qed

lemma section_value_known: "is_known_section (section_value kind)"
  by (cases kind) (simp_all add: is_known_section_def section_value_def index_in_def snapshot_section_kinds_def)

lemma section_of_value: "section_of (section_value kind) = kind"
  by (cases kind) (simp_all add: section_of_def section_value_def index_in_def snapshot_section_kinds_def)

lemma read_section_framed:
  assumes "length body \<le> kMaxSnapshotBytes"
  shows "read_section dec (framed (kind, body) @ rest) =
    (case read_section_of kind body dec of Inl e \<Rightarrow> Inl e | Inr dec' \<Rightarrow> Inr (dec', rest))"
proof -
  have "length body < 2 ^ 32" using assms by (simp add: kMaxSnapshotBytes_def)
  then show ?thesis using assms
    by (simp add: read_section_def framed_def u16.decode_encode section_value_known section_of_value
        read_sub_region_section split: sum.split)
qed

fun read_all_sections :: "(Section \<times> bytes) list \<Rightarrow> decoding \<Rightarrow> Status + decoding" where
  "read_all_sections [] dec = Inr dec"
| "read_all_sections ((kind, body) # secs) dec =
     (case read_section_of kind body dec of Inl e \<Rightarrow> Inl e | Inr dec' \<Rightarrow> read_all_sections secs dec')"

lemma framed_nonempty: "framed sec \<noteq> []"
  by (simp add: framed_def store_u16_def)

lemma read_sections_framed:
  "length secs \<le> budget \<Longrightarrow> \<forall>sec \<in> set secs. length (snd sec) \<le> kMaxSnapshotBytes \<Longrightarrow>
     read_sections budget dec (concat (map framed secs)) = read_all_sections secs dec"
proof (induction secs arbitrary: budget dec)
  case Nil
  then show ?case by (cases budget) simp_all
next
  case (Cons sec secs)
  obtain kind body where sec: "sec = (kind, body)" by fastforce
  obtain n where n: "budget = Suc n" using Cons.prems(1) by (cases budget) auto
  show ?case
    using Cons.IH [of n] Cons.prems sec n
      read_section_framed [of body dec kind "concat (map framed secs)"]
    by (simp add: framed_nonempty split: sum.split)
qed

lemma length_framed_le: "sec \<in> set secs \<Longrightarrow> length (snd sec) \<le> length (concat (map framed secs))"
  by (induction secs) (auto simp: framed_def write_blob_def)

subsection \<open>The bodies\<close>

definition map_fits :: "nat \<Rightarrow> ('k \<Rightarrow> 'v \<Rightarrow> bool) \<Rightarrow> ('k::linorder, 'v) omap \<Rightarrow> bool" where
  "map_fits limit fits m \<longleftrightarrow> om_ok m \<and> length m \<le> limit \<and> (\<forall>(k, v) \<in> set m. fits k v)"

lemma map_body_back:
  assumes "map_loop step write_entry fits sound" "map_fits limit fits m" "limit < 2 ^ 32"
  shows "read_map limit step [] (write_map write_entry m) = Inr (m, [])"
  using map_loop.map_read_back [OF assms(1), of m limit "[]"] assms(2,3) by (auto simp: map_fits_def)

lemmas body_backs = map_body_back [OF chain_loop.map_loop_axioms] map_body_back [OF evidence_loop.map_loop_axioms]
  map_body_back [OF plan_loop.map_loop_axioms] map_body_back [OF decision_loop.map_loop_axioms]
  map_body_back [OF record_loop.map_loop_axioms] map_body_back [OF idempotency_loop.map_loop_axioms]
  map_body_back [OF history_loop.map_loop_axioms] map_body_back [OF veto_loop.map_loop_axioms]

lemma header_back:
  assumes "digest_sized (active_policy_digest st)"
  shows "read_header st0 (write_header st) = Inr (st0 \<lparr> coordinator := coordinator st, epoch := epoch st,
    commit_sequence := commit_sequence st, decision_sequence := decision_sequence st,
    artifact_generation := artifact_generation st, compatibility_generation := compatibility_generation st,
    compatibility_profile := compatibility_profile st, active_policy := active_policy st,
    active_policy_generation := active_policy_generation st, active_policy_digest := active_policy_digest st \<rparr>, [])"
  using assms digest.decode_encode [of "active_policy_digest st" "[]"]
  by (simp add: read_header_def write_header_def identity.decode_encode counter.decode_encode)

definition write_salt_counter :: "u64 \<times> u64 \<Rightarrow> bytes" where
  "write_salt_counter saved = store_u64 (fst saved) @ store_u64 (snd saved)"

interpretation salt_counter: codec write_salt_counter read_salt_counter any
  by (rule codecI) (auto simp: read_salt_counter_def write_salt_counter_def wire_iffs)

lemma resume_saved: "gen_salt g \<noteq> 0 \<Longrightarrow> resume (gen_salt g, gen_counter g) = g"
  by (cases g) (simp add: resume_def resume_after_def)

definition generators_fit :: "CoordinatorState \<Rightarrow> bool" where
  "generators_fit st \<longleftrightarrow>
     gen_salt (revision_generator st) \<noteq> 0 \<and> gen_salt (evidence_generator st) \<noteq> 0 \<and> gen_salt (plan_generator st) \<noteq> 0
     \<and> gen_salt (decision_generator st) \<noteq> 0 \<and> gen_salt (transition_generator st) \<noteq> 0
     \<and> gen_salt (reservation_generator st) \<noteq> 0 \<and> gen_salt (instance_generator st) \<noteq> 0
     \<and> gen_salt (provenance_generator st) \<noteq> 0 \<and> gen_salt (internal_request_generator st) \<noteq> 0
     \<and> gen_salt (internal_attempt_generator st) \<noteq> 0"

definition saved_generators :: "CoordinatorState \<Rightarrow> (u64 \<times> u64) list" where
  "saved_generators st =
     [(gen_salt (revision_generator st), gen_counter (revision_generator st)),
      (gen_salt (evidence_generator st), gen_counter (evidence_generator st)),
      (gen_salt (plan_generator st), gen_counter (plan_generator st)),
      (gen_salt (decision_generator st), gen_counter (decision_generator st)),
      (gen_salt (transition_generator st), gen_counter (transition_generator st)),
      (gen_salt (reservation_generator st), gen_counter (reservation_generator st)),
      (gen_salt (instance_generator st), gen_counter (instance_generator st)),
      (gen_salt (provenance_generator st), gen_counter (provenance_generator st)),
      (gen_salt (internal_request_generator st), gen_counter (internal_request_generator st)),
      (gen_salt (internal_attempt_generator st), gen_counter (internal_attempt_generator st))]"

lemma write_generators_saved: "write_generators st = concat (map write_salt_counter (saved_generators st))"
  by (simp add: write_generators_def saved_generators_def write_salt_counter_def write_generator_def)

lemma generators_back:
  assumes "generators_fit st"
  shows "read_generators st0 (write_generators st) = Inr (st0 \<lparr> revision_generator := revision_generator st,
    evidence_generator := evidence_generator st, plan_generator := plan_generator st,
    decision_generator := decision_generator st, transition_generator := transition_generator st,
    reservation_generator := reservation_generator st, instance_generator := instance_generator st,
    provenance_generator := provenance_generator st, internal_request_generator := internal_request_generator st,
    internal_attempt_generator := internal_attempt_generator st \<rparr>, [])"
proof -
  have "length (saved_generators st) = 10" by (simp add: saved_generators_def)
  then have "read_elements read_salt_counter 10 (write_generators st) = Inr (saved_generators st, [])"
    using salt_counter.elements_read_back [of "saved_generators st" "[]"]
    by (simp add: write_generators_saved list_all_iff)
  then show ?thesis
    using assms by (simp add: read_generators_def resume_saved generators_fit_def saved_generators_def)
qed


subsection \<open>The file\<close>

definition policy_mirrored :: "CoordinatorState \<Rightarrow> bool" where
  "policy_mirrored st \<longleftrightarrow>
     active_policy st = po_id (active_policy_body st) \<and> active_policy_id st = po_id (active_policy_body st)
     \<and> active_policy_generation st = po_generation (active_policy_body st)
     \<and> active_policy_digest st = po_policy_digest (active_policy_body st)"

definition maps_fit :: "CoordinatorState \<Rightarrow> bool" where
  "maps_fit st \<longleftrightarrow>
     map_fits 1000000 chain_fits (artifacts st)
     \<and> map_fits 10000000 (\<lambda>k v. ev_id v = k \<and> evidence_record_fits v) (evidence st)
     \<and> map_fits 10000000 (\<lambda>k v. pl_id v = k \<and> plan_fits v) (plans st)
     \<and> map_fits 10000000 (\<lambda>k v. de_id v = k \<and> decision_fits v) (decisions st)
     \<and> map_fits 10000000 (\<lambda>k v. pr_transition v = k \<and> promotion_record_fits v) (records st)
     \<and> map_fits 10000000 (\<lambda>k v. ir_request v = k \<and> idempotency_fits v) (idempotency st)
     \<and> map_fits 10000000 (\<lambda>k v. he_sequence v = k \<and> history_event_fits v) (history st)
     \<and> map_fits 1000000 (\<lambda>_. veto_fits) (vetoes st)"

definition snapshot_fits :: "CoordinatorState \<Rightarrow> bool" where
  "snapshot_fits st \<longleftrightarrow>
     policy_mirrored st \<and> policy_fits (active_policy_body st) \<and> maps_fit st \<and> generators_fit st
     \<and> length (encode_payload st) \<le> kMaxSnapshotBytes"

definition restored_state :: "CoordinatorState \<Rightarrow> CoordinatorState" where
  "restored_state st =
     (set_active_policy (active_policy_body st) empty_state) \<lparr> coordinator := coordinator st, epoch := epoch st,
       commit_sequence := commit_sequence st, decision_sequence := decision_sequence st,
       artifact_generation := artifact_generation st, compatibility_generation := compatibility_generation st,
       compatibility_profile := compatibility_profile st, artifacts := artifacts st, evidence := evidence st,
       plans := plans st, decisions := decisions st, records := records st, idempotency := idempotency st,
       history := history st, vetoes := vetoes st, revision_generator := revision_generator st,
       evidence_generator := evidence_generator st, plan_generator := plan_generator st,
       decision_generator := decision_generator st, transition_generator := transition_generator st,
       reservation_generator := reservation_generator st, instance_generator := instance_generator st,
       provenance_generator := provenance_generator st, internal_request_generator := internal_request_generator st,
       internal_attempt_generator := internal_attempt_generator st \<rparr>"

lemma all_sections_back:
  assumes "policy_mirrored st" "policy_fits (active_policy_body st)" "maps_fit st" "generators_fit st"
  shows "read_all_sections (snapshot_sections st) ([], empty_state) =
    Inr (rev (map fst (snapshot_sections st)), st \<lparr> pending := [] \<rparr>)"
proof -
  have digest: "digest_sized (active_policy_digest st)"
    using assms(1,2) by (simp add: policy_mirrored_def policy_fits_def)
  have policy: "read_policy (write_policy (active_policy_body st)) = Inr (active_policy_body st, [])"
    using policy_roundtrip.read_back [OF assms(2), of "[]"] by simp
  have "read_all_sections (snapshot_sections st) ([], empty_state) =
    Inr (rev (map fst (snapshot_sections st)), restored_state st)"
    using assms(3)
    by (simp add: snapshot_sections_def read_section_of_def read_bind_def require_finished_def body_backs maps_fit_def
        header_back [OF digest] generators_back [OF assms(4)] policy restored_state_def set_active_policy_def
        empty_state_def)
  also have "restored_state st = st \<lparr> pending := [] \<rparr>"
    using assms(1) by (cases st) (simp add: restored_state_def policy_mirrored_def set_active_policy_def empty_state_def)
  finally show ?thesis .
qed


lemma length_kMagic [simp]: "length kMagic = 8"
  by (simp add: kMagic_def)

lemma payload_length_word:
  assumes "length payload \<le> kMaxSnapshotBytes"
  shows "unat (of_nat (length payload) :: u64) = length payload"
    and "\<not> (of_nat (length payload) :: u64) > of_nat kMaxSnapshotBytes"
    and "unat (of_nat kHeaderSize + of_nat (length payload) + of_nat kFooterSize :: u64) = length payload + 52"
proof -
  have *: "length payload + 52 < 2 ^ 64" using assms by (simp add: kMaxSnapshotBytes_def)
  then show word: "unat (of_nat (length payload) :: u64) = length payload" by (simp add: unat_of_nat)
  show "\<not> (of_nat (length payload) :: u64) > of_nat kMaxSnapshotBytes"
    using assms by (simp add: word_less_nat_alt word kMaxSnapshotBytes_def)
  have "(of_nat kHeaderSize + of_nat (length payload) + of_nat kFooterSize :: u64) = of_nat (length payload + 52)"
    by (simp add: kHeaderSize_def kFooterSize_def kSha256DigestSize_def)
  moreover have "unat (of_nat (length payload + 52) :: u64) = length payload + 52"
    using * by (simp only: unat_of_nat) simp
  ultimately show "unat (of_nat kHeaderSize + of_nat (length payload) + of_nat kFooterSize :: u64) = length payload + 52"
    by (simp only:)
qed

lemma read_container_sealed:
  assumes "length payload \<le> kMaxSnapshotBytes" "length footer = 32"
  shows "read_container (length payload + 52)
    (kMagic @ store_u16 kFormatVersion @ store_u16 0 @ store_u64 (of_nat (length payload)) @ payload @ footer) =
    Inr (payload, [])"
  using payload_length_word [OF assms(1)] assms(2)
  by (simp add: read_container_def raw_append u16.decode_encode u64.decode_encode Let_def read_skip_def
      available_def kFooterSize_def kSha256DigestSize_def)

lemma decode_sealed:
  assumes "length payload \<le> kMaxSnapshotBytes"
  shows "decode_snapshot (seal_snapshot payload) = decode_payload payload"
proof -
  define content where
    "content = kMagic @ store_u16 kFormatVersion @ store_u16 0 @ store_u64 (of_nat (length payload)) @ payload"
  define footer where "footer = write_digest (sha256 content)"
  have sealed: "seal_snapshot payload = content @ footer"
    by (simp add: seal_snapshot_def content_def footer_def Let_def)
  have footer: "length footer = 32" by (simp add: footer_def write_digest_def)
  have len: "length content = length payload + 20" by (simp add: content_def store_u64_def)
  have "from_raw footer = sha256 content"
    using footer by (cases "sha256 content") (simp add: from_raw_def footer_def write_digest_def kSha256DigestSize_def)
  moreover have "take 8 (content @ footer) = kMagic" by (simp add: content_def)
  moreover have "read_container (length (content @ footer)) (content @ footer) = Inr (payload, [])"
    using read_container_sealed [OF assms footer] footer len by (simp add: content_def add.commute)
  ultimately show ?thesis
    using footer len
    by (simp add: decode_snapshot_def sealed require_finished_def kHeaderSize_def kFooterSize_def kSha256DigestSize_def)
qed

lemma decode_only_sealed:
  assumes "decode_snapshot bytes = Inr st"
  shows "\<exists>payload. length payload \<le> kMaxSnapshotBytes \<and> bytes = seal_snapshot payload \<and> decode_payload payload = Inr st"
proof -
  from assms obtain payload where size: "52 \<le> length bytes" and magic: "take 8 bytes = kMagic"
    and footer: "from_raw (drop (length bytes - 32) bytes) = sha256 (take (length bytes - 32) bytes)"
    and body: "read_container (length bytes) bytes = Inr (payload, [])" and dec: "decode_payload payload = Inr st"
    by (auto simp: decode_snapshot_def require_finished_def kHeaderSize_def kFooterSize_def kSha256DigestSize_def
        split: if_splits sum.splits)
  from body obtain head declared tail where head: "length head = 8"
    and bytes: "bytes = head @ store_u16 kFormatVersion @ store_u16 0 @ store_u64 declared @ payload @ tail"
    and declared: "length payload = unat declared" "\<not> declared > of_nat kMaxSnapshotBytes" and tail: "length tail = 32"
    by (auto simp: read_container_def read_bind_eq_Inr u16.decode_iff u64.decode_iff read_raw_iff read_skip_iff
        Let_def kFooterSize_def kSha256DigestSize_def split: if_splits)
  have "of_nat (length payload) = declared" using declared(1) by simp
  moreover have "length payload \<le> kMaxSnapshotBytes"
    using declared by (simp add: word_less_nat_alt kMaxSnapshotBytes_def not_less)
  moreover have "head = kMagic" using magic head by (simp add: bytes)
  moreover have "tail = write_digest (sha256 (head @ store_u16 kFormatVersion @ store_u16 0 @ store_u64 declared @ payload))"
    using footer tail head
    by (simp add: bytes from_raw_def write_digest_def kSha256DigestSize_def)
      (metis Digest.sel)
  ultimately show ?thesis using dec bytes by (auto simp: seal_snapshot_def Let_def)
qed


lemma read_encoded_sections:
  assumes "length (encode_payload st) \<le> kMaxSnapshotBytes"
  shows "read_sections kMaxSections dec (encode_payload st) = read_all_sections (snapshot_sections st) dec"
proof -
  have "length (snd sec) \<le> kMaxSnapshotBytes" if "sec \<in> set (snapshot_sections st)" for sec
    using length_framed_le [OF that] assms by (simp add: encode_payload_framed)
  then show ?thesis
    unfolding encode_payload_framed
    by (intro read_sections_framed) (auto simp: snapshot_sections_def kMaxSections_def)
qed

lemma payload_back:
  assumes "snapshot_fits st"
  shows "decode_payload (encode_payload st) = Inr (advance_generators (st \<lparr> pending := [] \<rparr>))"
proof -
  have "read_sections kMaxSections ([], empty_state) (encode_payload st) =
      read_all_sections (snapshot_sections st) ([], empty_state)"
    using assms by (intro read_encoded_sections) (simp add: snapshot_fits_def)
  moreover have "list_all (\<lambda>kind. kind \<in> set (rev (map fst (snapshot_sections st)))) snapshot_section_kinds"
    by (simp add: snapshot_sections_def snapshot_section_kinds_def)
  ultimately show ?thesis
    using all_sections_back assms by (simp add: snapshot_fits_def decode_payload_def finish_decode_def policy_mirrored_def)
qed

text \<open>A decision that cannot be read makes the whole file unreadable.\<close>

lemma read_kind_invalid: "read_kind (write_kind AK_Invalid @ rest) =
    Inl (fail EC_InvalidEnum ''encoded artifact kind is not a known artifact class'')"
  by (simp add: read_kind_def read_enum_def write_enum_def u8.decode_encode is_valid_artifact_kind_def
      artifact_kind_value_def index_in_def artifact_kinds_def)

lemma read_kindless_decision:
  assumes "de_artifact_kind d = AK_Invalid" "digest_sized (de_artifact_digest d)"
  shows "read_decision (write_decision d @ rest) =
    Inl (fail EC_InvalidEnum ''encoded artifact kind is not a known artifact class'')"
  using assms by (simp add: read_decision_def write_decision_def identity.decode_encode counter.decode_encode
      digest.decode_encode read_kind_invalid)

lemma kindless_decision_unreadable:
  assumes "policy_mirrored st" "policy_fits (active_policy_body st)" "maps_fit (st \<lparr> decisions := ds \<rparr>)"
    and new: "decisions st = om_insert k d ds" and kindless: "de_artifact_kind d = AK_Invalid" "digest_sized (de_artifact_digest d)"
    and bound: "length (decisions st) \<le> 10000000" "length (encode_payload st) \<le> kMaxSnapshotBytes"
  shows "decode_snapshot (encode_snapshot st) =
    Inl (fail EC_InvalidEnum ''encoded artifact kind is not a known artifact class'')"
proof -
  let ?err = "fail EC_InvalidEnum ''encoded artifact kind is not a known artifact class''"
  have ok: "om_ok (decisions st)" using assms(3) by (simp add: new maps_fit_def map_fits_def)
  have "(k, d) \<in> set (decisions st)" using ok by (simp add: om_find_iff [symmetric] new)
  then obtain es es2 where split: "decisions st = es @ (k, d) # es2" by (meson split_list)
  have "(a, b) \<in> set ds" if "(a, b) \<in> set es" for a b
  proof -
    have "a \<noteq> k" using that ok by (auto simp: split om_ok_def sorted_wrt_append)
    moreover have "(a, b) \<in> insert (k, d) (set ds)"
      using that set_om_insert_subset [of k d ds] by (auto simp: new [symmetric] split)
    ultimately show ?thesis by simp
  qed
  moreover have "\<forall>(a, b) \<in> set ds. de_id b = a \<and> decision_fits b"
    using assms(3) by (simp add: maps_fit_def map_fits_def)
  ultimately have "\<forall>(a, b) \<in> set es. de_id b = a \<and> decision_fits b" by blast
  moreover have "read_entry read_decision de_id m (write_decision d @ rest) = Inl ?err" for m rest
    using read_kindless_decision [OF kindless] by (simp add: read_entry_def)
  ultimately have fail_decisions:
    "read_map 10000000 (read_entry read_decision de_id) [] (write_map (\<lambda>_. write_decision) (decisions st)) = Inl ?err"
    using decision_loop.map_fail [where k = k and v = d and err = ?err and es = es and ?es2.0 = es2 and limit = 10000000] ok bound(1) by (simp add: split)
  have digest: "digest_sized (active_policy_digest st)"
    using assms(1,2) by (simp add: policy_mirrored_def policy_fits_def)
  have policy: "read_policy (write_policy (active_policy_body st)) = Inr (active_policy_body st, [])"
    using policy_roundtrip.read_back [OF assms(2), of "[]"] by simp
  have "read_all_sections (snapshot_sections st) ([], empty_state) = Inl ?err"
    using assms(3) fail_decisions
    by (simp add: snapshot_sections_def read_section_of_def read_bind_def require_finished_def body_backs maps_fit_def
        header_back [OF digest] policy set_active_policy_def empty_state_def)
  then show ?thesis
    using bound(2) read_encoded_sections [OF bound(2)]
    by (simp add: encode_snapshot_def decode_sealed decode_payload_def)
qed

section \<open>What the decoder accepts\<close>

definition map_holds :: "('k \<Rightarrow> 'v \<Rightarrow> bool) \<Rightarrow> ('k::linorder, 'v) omap \<Rightarrow> bool" where
  "map_holds holds m \<longleftrightarrow> om_ok m \<and> (\<forall>(k, v) \<in> set m. holds k v)"

definition state_sound :: "CoordinatorState \<Rightarrow> bool" where
  "state_sound st \<longleftrightarrow>
     map_holds chain_fits (artifacts st) \<and> map_holds (\<lambda>k v. ev_id v = k \<and> evidence_record_fits v) (evidence st)
     \<and> map_holds (\<lambda>k v. pl_id v = k \<and> plan_fits v) (plans st) \<and> map_holds (\<lambda>k v. de_id v = k) (decisions st)
     \<and> map_holds (\<lambda>k v. pr_transition v = k \<and> promotion_record_fits v) (records st)
     \<and> map_holds (\<lambda>k v. ir_request v = k \<and> idempotency_fits v) (idempotency st)
     \<and> map_holds (\<lambda>k v. he_sequence v = k \<and> history_event_fits v) (history st)
     \<and> map_holds (\<lambda>_. veto_fits) (vetoes st) \<and> pending st = []
     \<and> active_policy_id st = po_id (active_policy_body st)"

lemma map_body_sound:
  assumes "map_loop step write_entry fits sound" "read_map limit step m region = Inr (m', rest)" "map_holds sound m"
  shows "map_holds sound m'"
  using map_loop.map_sound [OF assms(1,2)] assms(3) by (simp add: map_holds_def)

lemmas body_sounds = map_body_sound [OF chain_loop.map_loop_axioms] map_body_sound [OF evidence_loop.map_loop_axioms]
  map_body_sound [OF plan_loop.map_loop_axioms] map_body_sound [OF decision_loop.map_loop_axioms]
  map_body_sound [OF record_loop.map_loop_axioms] map_body_sound [OF idempotency_loop.map_loop_axioms]
  map_body_sound [OF history_loop.map_loop_axioms] map_body_sound [OF veto_loop.map_loop_axioms]

lemma section_body_sound:
  assumes "read_section_body kind st body = Inr (st', rest)" "state_sound st"
  shows "state_sound st'"
proof (cases kind)
  case Sec_Header
  then show ?thesis using assms by (auto simp: read_header_def read_bind_eq_Inr state_sound_def)
next
  case Sec_Policy
  then show ?thesis using assms by (auto simp: read_bind_eq_Inr state_sound_def set_active_policy_def)
next
  case Sec_Generators
  then show ?thesis using assms by (auto simp: read_generators_def read_bind_eq_Inr state_sound_def)
qed (use assms in \<open>auto simp: read_bind_eq_Inr state_sound_def dest: body_sounds\<close>)

lemma sections_sound:
  "read_sections budget dec region = Inr (seen, st) \<Longrightarrow> state_sound (snd dec) \<Longrightarrow> state_sound st"
proof (induction budget arbitrary: dec region)
  case (Suc budget)
  show ?case
  proof (cases "region = []")
    case False
    with Suc.prems(1) obtain dec' rest where "read_section dec region = Inr (dec', rest)"
      and "read_sections budget dec' rest = Inr (seen, st)"
      by (auto split: sum.splits)
    moreover from this(1) have "state_sound (snd dec')"
      using Suc.prems(2)
      by (auto simp: read_section_def read_section_of_def read_bind_eq_Inr split: if_splits sum.splits prod.splits
          dest: section_body_sound)
    ultimately show ?thesis using Suc.IH by blast
  qed (use Suc.prems in auto)
qed (auto split: if_splits)

lemma state_sound_empty: "state_sound empty_state"
  by (simp add: state_sound_def map_holds_def empty_state_def empty_policy_def)

lemma state_sound_advance: "state_sound (advance_generators st) \<longleftrightarrow> state_sound st"
  by (simp add: state_sound_def advance_generators_def)

lemma payload_sound:
  assumes "decode_payload payload = Inr st"
  shows "state_sound st \<and> policy_mirrored st \<and> (\<exists>st0. st = advance_generators st0)"
proof -
  from assms obtain seen st0 where "read_sections kMaxSections ([], empty_state) payload = Inr (seen, st0)"
    and "finish_decode (seen, st0) = Inr st"
    by (auto simp: decode_payload_def split: sum.splits)
  moreover from sections_sound [OF this(1)] have "state_sound st0" by (simp add: state_sound_empty)
  ultimately show ?thesis
    by (auto simp: finish_decode_def state_sound_advance policy_mirrored_def state_sound_def advance_generators_def
        split: if_splits)
qed

subsection \<open>Generators\<close>

lemma fold_observe:
  "gen_salt (fold observe issued g) = gen_salt g
   \<and> gen_counter g \<le> gen_counter (fold observe issued g)
   \<and> (\<forall>i \<in> set issued. high i = gen_salt g \<longrightarrow> low i \<le> gen_counter (fold observe issued g))"
proof (induction issued arbitrary: g)
  case (Cons i issued)
  have "gen_salt (observe i g) = gen_salt g" "gen_counter g \<le> gen_counter (observe i g)"
    "high i = gen_salt g \<longrightarrow> low i \<le> gen_counter (observe i g)"
    by (auto simp: observe_def observe_existing_def not_less)
  with Cons.IH [of "observe i g"] show ?case by (auto intro: order_trans)
qed simp

text \<open>The identity a generator issues after \<open>n\<close> others.\<close>

definition nth_issued :: "nat \<Rightarrow> 't IdentityGenerator \<Rightarrow> 't Identity" where
  "nth_issued n g = fst (gen_next (((\<lambda>h. snd (gen_next h)) ^^ n) g))"

lemma gen_next_unexhausted:
  assumes "unat (gen_counter g) + 1 < 2 ^ 64"
  shows "gen_next g = (Identity (gen_salt g) (gen_counter g + 1), IdentityGenerator (gen_salt g) (gen_counter g + 1))"
    and "unat (gen_counter g + 1) = unat (gen_counter g) + 1"
proof -
  show u: "unat (gen_counter g + 1) = unat (gen_counter g) + 1" using assms by (simp add: unat_word_ariths)
  then have "gen_counter g + 1 \<noteq> 0" by (metis add_is_0 one_neq_zero unat_0)
  then show "gen_next g = (Identity (gen_salt g) (gen_counter g + 1), IdentityGenerator (gen_salt g) (gen_counter g + 1))"
    by (simp add: gen_next_def Let_def)
qed

lemma nth_issued_beyond:
  "unat (gen_counter g) + n + 1 < 2 ^ 64 \<Longrightarrow> high (nth_issued n g) = gen_salt g \<and> unat (low (nth_issued n g)) = unat (gen_counter g) + n + 1"
proof (induction n arbitrary: g)
  case 0
  then show ?case using gen_next_unexhausted [of g] by (simp add: nth_issued_def)
next
  case (Suc n)
  have "nth_issued (Suc n) g = nth_issued n (snd (gen_next g))" by (simp add: nth_issued_def funpow_Suc_right del: funpow.simps)
  with Suc gen_next_unexhausted [of g] show ?case by simp
qed

lemma fold_observe_fresh:
  fixes g :: "'t IdentityGenerator" and issued :: "'t Identity list"
  assumes "unat (gen_counter (fold observe issued g)) + n + 1 < 2 ^ 64"
  shows "nth_issued n (fold observe issued g) \<notin> set issued"
proof
  let ?g = "fold observe issued g"
  assume "nth_issued n ?g \<in> set issued"
  with nth_issued_beyond [OF assms] have "low (nth_issued n ?g) \<le> gen_counter ?g"
    using fold_observe [where g = g and issued = issued] by fastforce
  then show False using nth_issued_beyond [OF assms] by (simp add: word_le_nat_alt)
qed

definition revision_ids :: "CoordinatorState \<Rightarrow> ArtifactRevision list" where
  "revision_ids st = map ar_revision (concat (map snd (artifacts st)))"

lemma fold_pairs: "fold (\<lambda>(i, _). f i) m = fold f (map fst m)"
  by (induction m) auto

lemma fold_observe_map:
  "fold (\<lambda>record. observe (ar_revision record)) rs g = fold observe (map ar_revision rs) g"
  by (induction rs arbitrary: g) auto

lemma fold_revisions:
  "fold (\<lambda>(_, revisions). fold (\<lambda>record. observe (ar_revision record)) revisions) m =
     fold observe (map ar_revision (concat (map snd m)))"
  by (induction m) (auto simp: fun_eq_iff fold_observe_map)

lemma advance_generators_eq:
  "advance_generators st =
     st \<lparr> revision_generator := fold observe (revision_ids st) (revision_generator st),
          evidence_generator := fold observe (map fst (evidence st)) (evidence_generator st),
          plan_generator := fold observe (map fst (plans st)) (plan_generator st),
          decision_generator := fold observe (map fst (decisions st)) (decision_generator st),
          transition_generator := fold observe (map fst (records st)) (transition_generator st),
          internal_request_generator := fold observe (map fst (idempotency st)) (internal_request_generator st) \<rparr>"
  by (simp add: advance_generators_def fold_pairs fold_revisions revision_ids_def)

text \<open>Until the counter is exhausted, no identity the generator issues is one of the listed ones.\<close>

definition issues_fresh :: "'t IdentityGenerator \<Rightarrow> 't Identity list \<Rightarrow> bool" where
  "issues_fresh g issued \<longleftrightarrow> (\<forall>n. unat (gen_counter g) + n + 1 < 2 ^ 64 \<longrightarrow> nth_issued n g \<notin> set issued)"

lemma advanced_fresh:
  "issues_fresh (revision_generator (advance_generators st)) (revision_ids (advance_generators st))"
  "issues_fresh (evidence_generator (advance_generators st)) (map fst (evidence (advance_generators st)))"
  "issues_fresh (plan_generator (advance_generators st)) (map fst (plans (advance_generators st)))"
  "issues_fresh (decision_generator (advance_generators st)) (map fst (decisions (advance_generators st)))"
  "issues_fresh (transition_generator (advance_generators st)) (map fst (records (advance_generators st)))"
  "issues_fresh (internal_request_generator (advance_generators st)) (map fst (idempotency (advance_generators st)))"
  by (simp_all add: issues_fresh_def advance_generators_eq revision_ids_def fold_observe_fresh del: set_map set_concat)

end
