(* ===== verification/Coordinator_Invariant.thy ===== *)
theory Coordinator_Invariant
  imports Authority
begin

text \<open>
  The coordinator as a state machine: one step per public operation of the engine
  (\<open>include/artifact_promotion/engine.hpp\<close>), the states reachable from construction, and what
  holds in every one of them.  Operations are sequential, as the state lock of the engine makes them.
\<close>

section \<open>Entries of an ordered map\<close>

lemma om_insert_all: "list_all P m \<Longrightarrow> P (k, v) \<Longrightarrow> list_all P (om_insert k v m)"
  by (induction k v m rule: om_insert.induct) auto

lemma om_erase_all: "list_all P m \<Longrightarrow> list_all P (om_erase k m)"
  by (induction k m rule: om_erase.induct) auto

lemma om_update_all:
  "list_all P m \<Longrightarrow> (\<And>v. P (k, v) \<Longrightarrow> P (k, f v)) \<Longrightarrow> list_all P (om_update k f m)"
  by (induction k f m rule: om_update.induct) auto

lemma om_erase_foldl_all: "list_all P m \<Longrightarrow> list_all P (foldl (\<lambda>m i. om_erase i m) m is)"
  by (induction "is" arbitrary: m) (auto intro: om_erase_all)

lemma om_erase_foldl_ok: "om_ok m \<Longrightarrow> om_ok (foldl (\<lambda>m i. om_erase i m) m is)"
  by (induction "is" arbitrary: m) auto

lemma om_find_all: "list_all P m \<Longrightarrow> om_find m k = Some v \<Longrightarrow> P (k, v)"
  by (auto simp: list_all_iff dest: om_find_set)

section \<open>Registered content\<close>

text \<open>The part of a revision that registration fixes.\<close>

definition same_content :: "ArtifactRecord \<Rightarrow> ArtifactRecord \<Rightarrow> bool" where
  "same_content r r' \<longleftrightarrow>
     ar_id r' = ar_id r \<and> ar_revision r' = ar_revision r \<and> ar_generation r' = ar_generation r
     \<and> ar_kind r' = ar_kind r \<and> ar_digest r' = ar_digest r \<and> ar_size_bytes r' = ar_size_bytes r
     \<and> ar_name r' = ar_name r \<and> ar_producer r' = ar_producer r
     \<and> ar_created_sequence r' = ar_created_sequence r
     \<and> ar_created_unix_millis r' = ar_created_unix_millis r
     \<and> ar_provenance r' = ar_provenance r \<and> ar_dependencies r' = ar_dependencies r"

lemma same_content_refl [simp]: "same_content r r"
  by (simp add: same_content_def)

lemma same_content_trans: "same_content a b \<Longrightarrow> same_content b c \<Longrightarrow> same_content a c"
  by (simp add: same_content_def)

type_synonym registry = "(ArtifactId, ArtifactRecord list) omap"

text \<open>A registry that only grew: chains keep their revisions, in place, and may get new ones at the
  end.\<close>

definition chain_evolves :: "ArtifactRecord list \<Rightarrow> ArtifactRecord list \<Rightarrow> bool" where
  "chain_evolves c c' \<longleftrightarrow> (\<exists>old new. c' = old @ new \<and> list_all2 same_content c old)"

definition evolves :: "registry \<Rightarrow> registry \<Rightarrow> bool" where
  "evolves A A' \<longleftrightarrow> (\<forall>i c. om_find A i = Some c \<longrightarrow> (\<exists>c'. om_find A' i = Some c' \<and> chain_evolves c c'))"

lemma chain_evolves_refl [simp]: "chain_evolves c c"
  unfolding chain_evolves_def by (intro exI [of _ c] exI [of _ "[]"]) (simp add: list.rel_refl)

lemma chain_evolves_trans:
  assumes "chain_evolves a b" "chain_evolves b c"
  shows "chain_evolves a c"
proof -
  from assms obtain old new old' new' where b: "b = old @ new" "list_all2 same_content a old"
    and c: "c = old' @ new'" "list_all2 same_content b old'"
    by (auto simp: chain_evolves_def)
  from b(1) c(2) obtain us vs where "old' = us @ vs" "list_all2 same_content old us"
    by (auto simp: list_all2_append1)
  with b(2) c(1) show ?thesis
    unfolding chain_evolves_def
    by (intro exI [of _ us] exI [of _ "vs @ new'"]) (auto intro: list_all2_trans [OF same_content_trans])
qed

lemma evolves_refl [simp]: "evolves A A"
  by (simp add: evolves_def)

lemma evolves_trans: "evolves A B \<Longrightarrow> evolves B C \<Longrightarrow> evolves A C"
  unfolding evolves_def by (meson chain_evolves_trans)

lemma chain_evolves_update_last:
  assumes "\<And>r. same_content r (f r)"
  shows "chain_evolves c (update_last f c)"
proof (cases c rule: rev_cases)
  case (snoc xs x)
  with assms show ?thesis
    unfolding chain_evolves_def update_last_def
    by (intro exI [of _ "xs @ [f x]"] exI [of _ "[]"]) (simp add: list_all2_appendI list.rel_refl)
qed (simp add: update_last_def)

lemma chain_evolves_update_first:
  assumes "\<And>r. same_content r (f r)"
  shows "chain_evolves c (update_first P f c)"
proof -
  have "list_all2 same_content c (update_first P f c)"
    using assms by (induction P f c rule: update_first.induct) (auto intro: list.rel_refl)
  then show ?thesis
    unfolding chain_evolves_def by (intro exI [of _ "update_first P f c"] exI [of _ "[]"]) simp
qed

lemma evolves_update:
  assumes "\<And>c. chain_evolves c (g c)"
  shows "evolves A (om_update i g A)"
  using assms by (auto simp: evolves_def)

lemma evolves_current: "(\<And>r. same_content r (f r)) \<Longrightarrow> evolves A (om_update i (update_last f) A)"
  by (intro evolves_update chain_evolves_update_last)

lemma evolves_revision: "(\<And>r. same_content r (f r)) \<Longrightarrow> evolves A (om_update i (update_first P f) A)"
  by (intro evolves_update chain_evolves_update_first)

lemma find_list_all2:
  assumes "list_all2 same_content c c'" "find (\<lambda>r. ar_revision r = v) c = Some r"
  shows "\<exists>r'. find (\<lambda>r. ar_revision r = v) c' = Some r' \<and> same_content r r'"
  using assms by (induction rule: list_all2_induct) (auto simp: same_content_def split: if_splits)

lemma find_append_Some: "find P xs = Some x \<Longrightarrow> find P (xs @ ys) = Some x"
  by (induction xs) auto

lemma evolves_find_revision:
  assumes "evolves (artifacts st) (artifacts st')" "find_revision st i v = Some r"
  shows "\<exists>r'. find_revision st' i v = Some r' \<and> same_content r r'"
proof -
  from assms(2) obtain c where c: "om_find (artifacts st) i = Some c" "find (\<lambda>r. ar_revision r = v) c = Some r"
    by (auto simp: find_revision_def split: option.splits)
  with assms(1) obtain c' where c': "om_find (artifacts st') i = Some c'" "chain_evolves c c'"
    unfolding evolves_def by blast
  then obtain old new where "c' = old @ new" "list_all2 same_content c old"
    unfolding chain_evolves_def by blast
  moreover from this find_list_all2 [OF _ c(2)] obtain r' where "find (\<lambda>r. ar_revision r = v) old = Some r'" "same_content r r'"
    by blast
  ultimately show ?thesis
    using c'(1) find_append_Some [of _ old r' new] by (auto simp: find_revision_def)
qed


section \<open>The invariant\<close>

definition chain_ok :: "ArtifactId \<times> ArtifactRecord list \<Rightarrow> bool" where
  "chain_ok entry \<longleftrightarrow> snd entry \<noteq> [] \<and> list_all (\<lambda>r. ar_id r = fst entry) (snd entry)"

text \<open>A record speaks about a registered revision, carries its digest, and has not been altered.\<close>

definition evidence_ok :: "CoordinatorState \<Rightarrow> EvidenceId \<times> EvidenceRecord \<Rightarrow> bool" where
  "evidence_ok st entry \<longleftrightarrow>
     ev_id (snd entry) = fst entry
     \<and> (\<exists>subject. find_revision st (ev_subject (snd entry)) (ev_subject_revision (snd entry)) = Some subject
          \<and> ar_digest subject = ev_subject_digest (snd entry))
     \<and> compute_evidence_integrity (snd entry) = ev_integrity_digest (snd entry)"

definition policy_ok :: "CoordinatorState \<Rightarrow> bool" where
  "policy_ok st \<longleftrightarrow>
     po_id (active_policy_body st) = active_policy st
     \<and> po_generation (active_policy_body st) = active_policy_generation st
     \<and> po_policy_digest (active_policy_body st) = active_policy_digest st
     \<and> status_ok (policy_validate (active_policy_body st))"

definition maps_ok :: "CoordinatorState \<Rightarrow> bool" where
  "maps_ok st \<longleftrightarrow>
     om_ok (artifacts st) \<and> om_ok (evidence st) \<and> om_ok (pending st) \<and> om_ok (plans st)
     \<and> om_ok (decisions st) \<and> om_ok (records st) \<and> om_ok (idempotency st) \<and> om_ok (history st)
     \<and> om_ok (vetoes st)"

definition state_ok :: "CoordinatorState \<Rightarrow> bool" where
  "state_ok st \<longleftrightarrow>
     maps_ok st \<and> list_all chain_ok (artifacts st) \<and> list_all (evidence_ok st) (evidence st)
     \<and> list_all (\<lambda>(i, p). pt_artifact p = i) (pending st) \<and> policy_ok st"

definition engine_ok :: "engine \<Rightarrow> bool" where
  "engine_ok e \<longleftrightarrow> config_valid (config e) \<and> state_ok (state e)"

lemma evidence_ok_evolves:
  assumes "evolves (artifacts st) (artifacts st')" "list_all (evidence_ok st) E"
  shows "list_all (evidence_ok st') E"
  unfolding list_all_iff
proof
  fix entry assume "entry \<in> set E"
  with assms(2) obtain subject where sub: "find_revision st (ev_subject (snd entry)) (ev_subject_revision (snd entry)) = Some subject"
    "ar_digest subject = ev_subject_digest (snd entry)" "ev_id (snd entry) = fst entry"
    "compute_evidence_integrity (snd entry) = ev_integrity_digest (snd entry)"
    unfolding list_all_iff evidence_ok_def by blast
  with evolves_find_revision [OF assms(1) sub(1)] show "evidence_ok st' entry"
    unfolding evidence_ok_def same_content_def by auto
qed

lemma chain_ok_update_last:
  "chain_ok (i, c) \<Longrightarrow> (\<And>r. ar_id (f r) = ar_id r) \<Longrightarrow> chain_ok (i, update_last f c)"
  by (cases c rule: rev_cases) (auto simp: chain_ok_def update_last_def)

lemma chain_ok_update_first:
  assumes "chain_ok (i, c)" "\<And>r. ar_id (f r) = ar_id r"
  shows "chain_ok (i, update_first P f c)"
proof -
  have "list_all (\<lambda>r. ar_id r = i) (update_first P f c)" if "list_all (\<lambda>r. ar_id r = i) c"
    using that assms(2) by (induction P f c rule: update_first.induct) auto
  moreover have "update_first P f c = [] \<longleftrightarrow> c = []" by (cases c) auto
  ultimately show ?thesis using assms(1) by (simp add: chain_ok_def)
qed

lemma same_content_id: "same_content r r' \<Longrightarrow> ar_id r' = ar_id r"
  by (simp add: same_content_def)

lemma registry_update_current:
  assumes "list_all chain_ok A" "\<And>r. same_content r (f r)"
  shows "list_all chain_ok (om_update i (update_last f) A)"
  using assms by (intro om_update_all chain_ok_update_last) (auto dest: same_content_id)

lemma registry_update_revision:
  assumes "list_all chain_ok A" "\<And>r. same_content r (f r)"
  shows "list_all chain_ok (om_update i (update_first P f) A)"
  using assms by (intro om_update_all chain_ok_update_first) (auto dest: same_content_id)


section \<open>Every state update keeps it\<close>

text \<open>A state that satisfies the invariant and whose registry evolved from \<open>A\<close>.\<close>

definition good :: "registry \<Rightarrow> CoordinatorState \<Rightarrow> bool" where
  "good A st \<longleftrightarrow> state_ok st \<and> evolves A (artifacts st)"

lemma evidence_ok_cong: "artifacts st = artifacts st' \<Longrightarrow> evidence_ok st = evidence_ok st'"
  using find_revision_cong [of st st'] by (intro ext) (simp add: evidence_ok_def)

lemma good_frame:
  assumes "good A st" "maps_ok st'" "artifacts st' = artifacts st" "evidence st' = evidence st"
    "list_all (\<lambda>(i, p). pt_artifact p = i) (pending st')" "policy_ok st'"
  shows "good A st'"
  using assms evidence_ok_cong [of st' st] by (simp add: good_def state_ok_def)

lemma good_rewrite:
  assumes "good A st" "maps_ok st'" "evolves (artifacts st) (artifacts st')" "list_all chain_ok (artifacts st')"
    "evidence st' = evidence st" "list_all (\<lambda>(i, p). pt_artifact p = i) (pending st')" "policy_ok st'"
  shows "good A st'"
  using assms evidence_ok_evolves [of st st' "evidence st"] evolves_trans [of A "artifacts st" "artifacts st'"]
  by (simp add: good_def state_ok_def)

lemmas good_unfold = good_def state_ok_def maps_ok_def policy_ok_def

lemma good_fields [simp]:
  "good A (st \<lparr> commit_sequence := n \<rparr>) = good A st"
  "good A (st \<lparr> decision_sequence := k \<rparr>) = good A st"
  "good A (st \<lparr> epoch := ep \<rparr>) = good A st"
  "good A (st \<lparr> artifact_generation := ag \<rparr>) = good A st"
  "good A (st \<lparr> compatibility_generation := cg \<rparr>) = good A st"
  "good A (st \<lparr> revision_generator := rg \<rparr>) = good A st"
  "good A (st \<lparr> evidence_generator := eg \<rparr>) = good A st"
  "good A (st \<lparr> plan_generator := pg \<rparr>) = good A st"
  "good A (st \<lparr> decision_generator := dg \<rparr>) = good A st"
  "good A (st \<lparr> transition_generator := tg \<rparr>) = good A st"
  "good A (st \<lparr> reservation_generator := vg \<rparr>) = good A st"
  "good A (st \<lparr> internal_request_generator := ig \<rparr>) = good A st"
  "good A (st \<lparr> internal_attempt_generator := jg \<rparr>) = good A st"
  by (simp_all add: good_unfold evidence_ok_cong [of "_ \<lparr> commit_sequence := n \<rparr>" st]
      evidence_ok_cong [of "_ \<lparr> decision_sequence := k \<rparr>" st] evidence_ok_cong [of "_ \<lparr> epoch := ep \<rparr>" st]
      evidence_ok_cong [of "_ \<lparr> artifact_generation := ag \<rparr>" st]
      evidence_ok_cong [of "_ \<lparr> compatibility_generation := cg \<rparr>" st]
      evidence_ok_cong [of "_ \<lparr> revision_generator := rg \<rparr>" st]
      evidence_ok_cong [of "_ \<lparr> evidence_generator := eg \<rparr>" st]
      evidence_ok_cong [of "_ \<lparr> plan_generator := pg \<rparr>" st]
      evidence_ok_cong [of "_ \<lparr> decision_generator := dg \<rparr>" st]
      evidence_ok_cong [of "_ \<lparr> transition_generator := tg \<rparr>" st]
      evidence_ok_cong [of "_ \<lparr> reservation_generator := vg \<rparr>" st]
      evidence_ok_cong [of "_ \<lparr> internal_request_generator := ig \<rparr>" st]
      evidence_ok_cong [of "_ \<lparr> internal_attempt_generator := jg \<rparr>" st])

lemma good_maps:
  "good A st \<Longrightarrow> om_ok H \<Longrightarrow> good A (st \<lparr> history := H \<rparr>)"
  "good A st \<Longrightarrow> om_ok P \<Longrightarrow> good A (st \<lparr> plans := P \<rparr>)"
  "good A st \<Longrightarrow> om_ok D \<Longrightarrow> good A (st \<lparr> decisions := D \<rparr>)"
  "good A st \<Longrightarrow> om_ok R \<Longrightarrow> good A (st \<lparr> records := R \<rparr>)"
  "good A st \<Longrightarrow> om_ok I \<Longrightarrow> good A (st \<lparr> idempotency := I \<rparr>)"
  "good A st \<Longrightarrow> om_ok V \<Longrightarrow> good A (st \<lparr> vetoes := V \<rparr>)"
  "good A st \<Longrightarrow> om_ok Q \<Longrightarrow> list_all (\<lambda>(i, p). pt_artifact p = i) Q \<Longrightarrow> good A (st \<lparr> pending := Q \<rparr>)"
  by (rule good_frame [of A st]; simp add: good_unfold)+

lemma good_om_ok:
  assumes "good A st"
  shows "om_ok (history st)" "om_ok (plans st)" "om_ok (decisions st)" "om_ok (records st)"
    "om_ok (idempotency st)" "om_ok (vetoes st)" "om_ok (pending st)" "om_ok (evidence st)" "om_ok (artifacts st)"
    "list_all (\<lambda>(i, p). pt_artifact p = i) (pending st)"
  using assms by (simp_all add: good_unfold)

text \<open>The helpers the operations are made of.\<close>

lemma good_push_event: "good A st \<Longrightarrow> good A (push_event cfg ev st)"
  unfolding push_event_def by (intro good_maps om.retain_ok) (auto dest: good_om_ok)

lemma good_push_event_unbounded: "good A st \<Longrightarrow> good A (push_event_unbounded ev st)"
  unfolding push_event_unbounded_def by (intro good_maps om_ok_insert) (auto dest: good_om_ok)

lemma good_append_history: "good A st \<Longrightarrow> good A (append_history cfg k art a b t st)"
  unfolding append_history_def next_sequence_eq Let_def prod.case by (intro good_push_event) simp

lemma good_put_record: "good A st \<Longrightarrow> good A (put_record cfg r st)"
  unfolding put_record_def by (intro good_maps om.retain_ok) (auto dest: good_om_ok)

lemma good_next_transition: "good A st \<Longrightarrow> good A (snd (next_transition st))"
  by (simp add: next_transition_def case_prod_beta)

lemma good_erase_pending: "good A st \<Longrightarrow> good A (erase_pending i st)"
  unfolding erase_pending_def by (intro good_maps om_ok_erase om_erase_all) (auto dest: good_om_ok)

lemma good_store_decision: "good A st \<Longrightarrow> good A (store_decision d st)"
  unfolding store_decision_def by (intro good_maps om_ok_insert) (auto dest: good_om_ok)

lemma good_put_decision: "good A st \<Longrightarrow> good A (put_decision i d st)"
  unfolding put_decision_def by (intro good_maps om_ok_insert) (auto dest: good_om_ok)

lemma good_update_current:
  assumes "good A st" "\<And>r. same_content r (f r)"
  shows "good A (update_current i f st)"
  using assms unfolding update_current_def
  by (intro good_rewrite [OF assms(1)] evolves_current registry_update_current)
    (auto simp: good_unfold intro!: evolves_current registry_update_current)

lemma good_update_revision:
  assumes "good A st" "\<And>r. same_content r (f r)"
  shows "good A (update_revision i v f st)"
  using assms unfolding update_revision_def
  by (intro good_rewrite [OF assms(1)])
    (auto simp: good_unfold intro!: evolves_revision registry_update_revision)

lemmas good_helpers = good_push_event good_push_event_unbounded good_append_history good_put_record
  good_next_transition good_erase_pending good_store_decision good_put_decision good_update_current
  good_update_revision


section \<open>Every operation keeps it\<close>

definition keeps :: "engine \<Rightarrow> engine \<Rightarrow> bool" where
  "keeps e e' \<longleftrightarrow> config e' = config e \<and> good (artifacts (state e)) (state e')"

lemma keeps_refl: "engine_ok e \<Longrightarrow> keeps e e"
  by (simp add: keeps_def engine_ok_def good_def)

lemma keeps_ok: "engine_ok e \<Longrightarrow> keeps e e' \<Longrightarrow> engine_ok e'"
  by (simp add: keeps_def engine_ok_def good_def)

lemma keeps_finish: "good (artifacts (state e)) st \<Longrightarrow> keeps e (finish e st)"
  by (simp add: keeps_def)

lemma engine_ok_good: "engine_ok e \<Longrightarrow> good (artifacts (state e)) (state e)"
  by (simp add: engine_ok_def good_def)

lemma policy_validate_digest [simp]: "policy_validate (p \<lparr> po_policy_digest := x \<rparr>) = policy_validate p"
  by (simp add: policy_validate_def)

lemma good_set_active_policy:
  "good A st \<Longrightarrow> status_ok (policy_validate p) \<Longrightarrow> good A (set_active_policy p st)"
  by (rule good_frame [of A st]) (simp_all add: good_unfold set_active_policy_def)

lemma keeps_publish: "engine_ok e \<Longrightarrow> keeps e (snd (publish_policy p e))"
  by (auto simp: publish_policy_def Let_def next_sequence_eq status_failed_iff keeps_def
      dest: engine_ok_good intro!: good_helpers good_set_active_policy)

lemma good_release_all: "good A st \<Longrightarrow> good A (snd (release_all note is st))"
proof (induction "note" "is" st rule: release_all.induct)
  case (2 "note" i "is" st)
  have "good A (release_reservation t i p st)" for t p
    using "2.prems" unfolding release_reservation_def next_sequence_eq Let_def prod.case
    by (intro good_maps good_helpers om_ok_erase om_erase_all) (auto dest: good_om_ok)
  with 2 show ?case by (auto simp: case_prod_beta split: option.splits)
qed simp

lemma keeps_restart: "engine_ok e \<Longrightarrow> keeps e (snd (restart ep e))"
  by (auto simp: restart_def Let_def case_prod_beta keeps_def dest: engine_ok_good intro!: good_release_all)

lemma keeps_recover: "engine_ok e \<Longrightarrow> keeps e (snd (recover_in_flight e))"
  by (auto simp: recover_in_flight_def Let_def case_prod_beta keeps_def dest: engine_ok_good intro!: good_release_all)

lemma content_edits [simp]:
  "same_content r (apply_quarantine c t a q g r)" "same_content r (apply_release q r)"
  "same_content r (apply_revocation i c t a q g j r)" "same_content r (apply_supersession s v t a q r)"
  "same_content r (apply_retirement q r)" "same_content r (supersede_previous s v a q r)"
  "same_content r (apply_transition plan a q r)"
  by (simp_all add: same_content_def apply_quarantine_def apply_release_def apply_revocation_def
      apply_supersession_def apply_retirement_def supersede_previous_def apply_transition_def Let_def)

lemma keeps_quarantine: "engine_ok e \<Longrightarrow> keeps e (snd (quarantine i c t auth e))"
  by (auto simp: quarantine_def Let_def next_sequence_eq dest: engine_ok_good
      intro!: keeps_refl keeps_finish good_helpers split: option.splits)

lemma keeps_revoke: "engine_ok e \<Longrightarrow> keeps e (snd (revoke now i d c t auth cause e))"
  by (auto simp: revoke_def Let_def next_sequence_eq case_prod_beta dest: engine_ok_good
      intro!: keeps_refl keeps_finish good_helpers split: option.splits)

lemma keeps_supersede: "engine_ok e \<Longrightarrow> keeps e (snd (supersede now i j t auth e))"
  by (auto simp: supersede_def Let_def next_sequence_eq case_prod_beta dest: engine_ok_good
      intro!: keeps_refl keeps_finish good_helpers split: option.splits)

lemma keeps_retire: "engine_ok e \<Longrightarrow> keeps e (snd (retire now i auth e))"
  by (auto simp: retire_def Let_def next_sequence_eq case_prod_beta dest: engine_ok_good
      intro!: keeps_refl keeps_finish good_helpers split: option.splits)

lemma good_open_decision: "good A st \<Longrightarrow> good A (snd (open_decision req st))"
  by (simp add: open_decision_def next_decision_sequence_eq Let_def case_prod_beta)

lemma good_decide_release: "good A st \<Longrightarrow> good A (snd (snd (snd (decide_release cfg now i art st))))"
  by (auto simp: decide_release_def next_internal_request_def next_internal_attempt_def Let_def case_prod_beta
      intro!: good_helpers good_open_decision)

lemma keeps_release: "engine_ok e \<Longrightarrow> keeps e (snd (release_quarantine now1 now2 i auth e))"
  by (auto simp: release_quarantine_def Let_def next_sequence_eq case_prod_beta dest: engine_ok_good
      intro!: keeps_refl keeps_finish good_helpers good_decide_release split: option.splits)

lemma keeps_vetoes:
  "engine_ok e \<Longrightarrow> keeps e (snd (set_security_veto i b t e))"
  "engine_ok e \<Longrightarrow> keeps e (snd (set_dependency_veto i b t e))"
  by (auto simp: set_security_veto_def set_dependency_veto_def Let_def dest: engine_ok_good
      intro!: keeps_refl keeps_finish good_maps om_ok_insert) (auto dest: engine_ok_good good_om_ok)

lemma keeps_compatibility: "engine_ok e \<Longrightarrow> keeps e (snd (set_compatibility_generation g e))"
  by (auto simp: set_compatibility_generation_def Let_def dest: engine_ok_good
      intro!: keeps_refl keeps_finish good_maps)


lemma good_evidence:
  assumes "good A st" "evidence_ok st (i, r)"
  shows "good A (st \<lparr> evidence := om_insert i r (evidence st) \<rparr>)"
  using assms evidence_ok_cong [of "st \<lparr> evidence := om_insert i r (evidence st) \<rparr>" st]
  by (auto simp: good_unfold intro!: om_insert_all)

lemma good_evidence_find: "good A st \<Longrightarrow> om_find (evidence st) i = Some r \<Longrightarrow> evidence_ok st (i, r)"
  unfolding good_unfold by (auto intro: om_find_all)

lemma evidence_ok_revoked:
  "evidence_ok st (i, r) \<Longrightarrow> evidence_ok st (i, revoked_evidence t a q r)"
  by (simp add: evidence_ok_def)

text \<open>Supersession and the digest itself are outside the hashed bytes.\<close>

lemma integrity_unaffected [simp]:
  "compute_evidence_integrity (r \<lparr> ev_superseded := b, ev_superseded_by := j \<rparr>) = compute_evidence_integrity r"
  "compute_evidence_integrity (r \<lparr> ev_integrity_digest := x \<rparr>) = compute_evidence_integrity r"
  by (simp_all add: compute_evidence_integrity_def evidence_preimage_def)

lemma evidence_ok_superseded:
  "evidence_ok st (i, r) \<Longrightarrow> evidence_ok st (i, r \<lparr> ev_superseded := True, ev_superseded_by := j \<rparr>)"
  by (simp add: evidence_ok_def)

lemma good_fence_pending: "good A st \<Longrightarrow> good A (fence_pending r st)"
  unfolding fence_pending_def Let_def
  by (intro good_maps om_erase_foldl_ok om_erase_foldl_all) (auto dest: good_om_ok)

lemma evidence_ok_sequence [simp]:
  "evidence_ok (st \<lparr> commit_sequence := n \<rparr>) = evidence_ok st"
  "evidence_ok (st \<lparr> evidence_generator := g \<rparr>) = evidence_ok st"
  "evidence_ok (st \<lparr> evidence := E \<rparr>) = evidence_ok st"
  "evidence_ok (push_event cfg ev st) = evidence_ok st"
  by (rule evidence_ok_cong; simp)+

lemma good_evidence_later:
  assumes "good A (st \<lparr> commit_sequence := n \<rparr>)" "evidence_ok st (i, r)"
  shows "good A (st \<lparr> commit_sequence := n, evidence := om_insert i r (evidence st) \<rparr>)"
  using good_evidence [OF assms(1), of i r] assms(2) by simp

lemma keeps_revoke_evidence: "engine_ok e \<Longrightarrow> keeps e (snd (revoke_evidence i t auth e))"
  by (auto simp: revoke_evidence_def Let_def next_sequence_eq dest: engine_ok_good
      intro!: keeps_refl keeps_finish good_helpers good_fence_pending good_evidence_later evidence_ok_revoked
      intro: good_evidence_find split: option.splits)

lemma good_replace_evidence:
  assumes "good A st" "evidence_ok st (i, old)"
  shows "good A (replace_evidence cfg i old r st)"
  using assms unfolding replace_evidence_def next_sequence_eq Let_def prod.case
  by (intro good_push_event) (simp add: good_evidence evidence_ok_superseded)

lemma replace_evidence_artifacts [simp]: "artifacts (replace_evidence cfg i old r st) = artifacts st"
  by (simp add: replace_evidence_def next_sequence_eq Let_def)

lemma new_evidence_simps [simp]:
  "ev_id (new_evidence s i q g) = i" "ev_subject (new_evidence s i q g) = es_subject s"
  "ev_subject_revision (new_evidence s i q g) = es_subject_revision s"
  "ev_subject_digest (new_evidence s i q g) = es_subject_digest s"
  by (simp_all add: new_evidence_def)

lemma good_store_evidence:
  assumes "good A st" "find_revision st (es_subject s) (es_subject_revision s) = Some subject"
    "ar_digest subject = es_subject_digest s"
  shows "good A (snd (store_evidence cfg s st))"
proof -
  obtain i gen where gn: "gen_next (evidence_generator st) = (i, gen)" by fastforce
  let ?st = "st \<lparr> evidence_generator := gen, commit_sequence := counter_next (commit_sequence st) \<rparr>"
  have ok: "evidence_ok st' (i, r \<lparr> ev_integrity_digest := compute_evidence_integrity r \<rparr>)"
    if "artifacts st' = artifacts st" "r = new_evidence s i q g" for st' r q g
    using that assms(2,3) find_revision_cong [OF that(1)]
    by (simp add: evidence_ok_def)
  have stored: "good A (st' \<lparr> evidence := om_insert i (new_evidence s i q g
      \<lparr> ev_integrity_digest := compute_evidence_integrity (new_evidence s i q g) \<rparr>) (evidence st') \<rparr>)"
    if "good A st'" "artifacts st' = artifacts st" for st' q g
    using good_evidence [OF that(1) ok [OF that(2) refl]] .
  have prev: "evidence_ok st (p, old)" if "previous_evidence s st = Some (p, old)" for p old
    using that assms(1) unfolding previous_evidence_def good_unfold
    by (auto simp: find_Some_iff list_all_length)
  have replaced: "good A (replace_evidence cfg p old r ?st)" if "previous_evidence s st = Some (p, old)" for p old r
    using assms(1) prev [OF that] by (intro good_replace_evidence) simp_all
  show ?thesis
  proof (cases "previous_evidence s st")
    case None
    with stored [of ?st] assms(1) show ?thesis
      by (simp add: store_evidence_def gn next_sequence_eq Let_def good_push_event)
  next
    case (Some po)
    obtain p old where po: "po = (p, old)" by (cases po)
    with Some stored [OF replaced [of p old]] show ?thesis
      by (simp add: store_evidence_def gn next_sequence_eq Let_def good_push_event)
  qed
qed

lemma keeps_submit: "engine_ok e \<Longrightarrow> keeps e (snd (submit_evidence s e))"
proof -
  assume ok: "engine_ok e"
  have "good (artifacts (state e)) st'" if "store_evidence (config e) s (state e) = (r, st')"
    "find_revision (state e) (es_subject s) (es_subject_revision s) = Some subject"
    "ar_digest subject = es_subject_digest s" for r st' subject
    using good_store_evidence [OF engine_ok_good [OF ok] that(2,3), of "config e"] that(1) by simp
  with keeps_refl [OF ok] show ?thesis
    by (auto simp: submit_evidence_def Let_def keeps_def split: option.splits prod.splits)
qed


lemma good_issue_plan: "good A st \<Longrightarrow> good A (snd (snd (issue_plan cfg now req art d n st)))"
proof -
  assume ok: "good A st"
  then have "om_ok (if length (plans st) \<ge> max_plans_retained cfg then om_erase_begin (plans st) else plans st)"
    by (auto dest: good_om_ok)
  with ok have st1: "good A (st \<lparr> plans := (if length (plans st) \<ge> max_plans_retained cfg
      then om_erase_begin (plans st) else plans st) \<rparr>)" (is "good A ?st")
    by (intro good_maps)
  show ?thesis
    using good_om_ok [OF st1] st1 ok
    by (auto simp: issue_plan_def make_plan_def make_reservation_def next_sequence_eq Let_def case_prod_beta
        intro!: good_maps om_ok_insert om_insert_all)
qed

lemma good_decide: "good A st \<Longrightarrow> good A (snd (snd (decide cfg now req art d st)))"
  by (auto simp: decide_def Let_def case_prod_beta intro: good_issue_plan)

lemma good_evaluate_registered: "good A st \<Longrightarrow> good A (snd (evaluate_registered cfg now req art st))"
proof -
  assume ok: "good A st"
  obtain d0 st1 where od: "open_decision req st = (d0, st1)" by fastforce
  let ?d = "d0 \<lparr> de_artifact_generation := ar_generation art, de_artifact_kind := ar_kind art,
    de_from := ar_stage art, de_decided_unix_millis := Some now \<rparr>"
  obtain d p st2 where de: "decide cfg now req art ?d st1 = (d, p, st2)"
    by (cases "decide cfg now req art ?d st1") auto
  have "good A st2"
    using good_decide [OF good_open_decision [OF ok, of req], of cfg now req art ?d] od de by simp
  then have "good A (store_decision d st2)" "om_ok (idempotency st2)"
    by (auto intro: good_store_decision dest: good_om_ok)
  then show ?thesis
    using od de
    by (auto simp: evaluate_registered_def next_sequence_eq Let_def dest: good_om_ok
        intro!: good_push_event good_maps om_ok_insert)
qed

lemma keeps_evaluate: "engine_ok e \<Longrightarrow> keeps e (snd (evaluate now req e))"
proof -
  assume ok: "engine_ok e"
  note good = engine_ok_good [OF ok]
  have "good (artifacts (state e)) (snd (evaluate_unregistered req (state e)))"
    "good (artifacts (state e)) (snd (evaluate_digest_mismatch req art (state e)))" for art
    using good_store_decision [OF good_open_decision [OF good]]
    by (simp_all add: evaluate_unregistered_def evaluate_digest_mismatch_def Let_def case_prod_beta)
  with good_evaluate_registered [OF good] keeps_refl [OF ok] show ?thesis
    by (auto simp: evaluate_def Let_def case_prod_beta keeps_def split: option.splits)
qed

lemma good_perform_commit: "good A st \<Longrightarrow> good A (snd (perform_commit cfg now plan from d st))"
proof -
  assume ok: "good A st"
  let ?st = "update_revision (pl_artifact plan) (pl_artifact_revision plan)
    (apply_transition plan (state_authority_id st) (counter_next (commit_sequence st)))
    (st \<lparr> commit_sequence := counter_next (commit_sequence st) \<rparr>)"
  have "good A ?st" using ok by (intro good_update_revision) simp_all
  then show ?thesis
    unfolding perform_commit_def next_sequence_eq Let_def prod.case
    by (auto simp: case_prod_beta state_authority_id_def dest: good_om_ok
        intro!: good_push_event good_erase_pending good_put_decision good_maps om.retain_ok)
qed

lemma good_commit_plan: "good A st \<Longrightarrow> good A (snd (snd (snd (commit_plan cfg now plan st))))"
  by (auto simp: commit_plan_def commit_reserved_def commit_rejected_def Let_def case_prod_beta
      intro!: good_erase_pending good_put_decision good_perform_commit split: option.splits)

lemma keeps_commit: "engine_ok e \<Longrightarrow> keeps e (snd (commit now plan e))"
proof -
  assume ok: "engine_ok e"
  from good_commit_plan [OF engine_ok_good [OF ok], of "config e" now plan] keeps_refl [OF ok] show ?thesis
    by (auto simp: commit_def Let_def case_prod_beta keeps_def split: option.splits)
qed

lemma keeps_trans: "keeps a b \<Longrightarrow> keeps b c \<Longrightarrow> keeps a c"
  by (auto simp: keeps_def good_def intro: evolves_trans)

lemma keeps_promote: "engine_ok e \<Longrightarrow> keeps e (snd (promote now1 now2 req e))"
proof -
  assume ok: "engine_ok e"
  obtain r e1 where ev: "evaluate now1 req e = (r, e1)" by fastforce
  with keeps_evaluate [OF ok, of now1 req] have k: "keeps e e1" by simp
  with keeps_trans [OF k keeps_commit [OF keeps_ok [OF ok k]]] ev show ?thesis
    by (auto simp: promote_def split: sum.splits option.splits)
qed

lemma good_extend:
  assumes "good A st" "chain_ok (i, c)"
    "\<And>old. om_find (artifacts st) i = Some old \<Longrightarrow> chain_evolves old c"
  shows "good A (st \<lparr> artifacts := om_insert i c (artifacts st) \<rparr>)"
proof -
  have "evolves (artifacts st) (om_insert i c (artifacts st))"
    using assms(3) by (auto simp: evolves_def)
  then show ?thesis
    using assms(1,2) by (intro good_rewrite [OF assms(1)]) (auto simp: good_unfold intro: om_insert_all)
qed

lemma register_supersession_keeps:
  assumes "register_supersession chain r st = (chain', st')" "good A st"
  shows "good A st'" "artifacts st' = artifacts st" "list_all2 same_content chain chain'"
proof -
  show "good A st'" "artifacts st' = artifacts st"
    using assms by (auto simp: register_supersession_def next_sequence_eq Let_def intro: good_push_event_unbounded
        split: if_splits)
  have "list_all2 same_content (butlast chain @ [last chain]) (butlast chain @ [f (last chain)])"
    if "\<And>x. same_content x (f x)" for f
    using that by (intro list_all2_appendI) (auto intro: list.rel_refl)
  with assms show "list_all2 same_content chain chain'"
    by (auto simp: register_supersession_def next_sequence_eq Let_def split: if_splits)
qed


lemma om_insert_insert [simp]: "om_insert k v (om_insert k w m) = om_insert k v m"
  by (induction k w m rule: om_insert.induct) auto

lemma chain_ok_grown:
  assumes "list_all2 same_content c c'" "list_all (\<lambda>r. ar_id r = i) c" "ar_id r = i"
  shows "chain_ok (i, c' @ [r])" "chain_evolves c (c' @ [r])"
proof -
  have "list_all (\<lambda>r. ar_id r = i) c'"
    using assms(1,2) by (induction rule: list_all2_induct) (auto dest: same_content_id)
  then show "chain_ok (i, c' @ [r])" using assms(3) by (simp add: chain_ok_def)
  show "chain_evolves c (c' @ [r])" using assms(1) by (auto simp: chain_evolves_def)
qed

text \<open>The registry after a registration, whether or not the identity was known.\<close>

lemma good_registered:
  assumes "good A st" "register_supersession chain r (st \<lparr> artifacts := om_insert i chain (artifacts st) \<rparr>) = (chain', st3)"
    "chain = (case om_find (artifacts st) i of None \<Rightarrow> [] | Some c \<Rightarrow> c)" "ar_id r' = i"
  shows "good A (st3 \<lparr> commit_sequence := n, artifact_generation := g,
    artifacts := om_insert i (chain' @ [r']) (artifacts st3) \<rparr>)"
proof (cases "om_find (artifacts st) i")
  case None
  with assms(2,3) have "chain' = []" "st3 = st \<lparr> artifacts := om_insert i [] (artifacts st) \<rparr>"
    by (simp_all add: register_supersession_def)
  moreover have "good A (st \<lparr> commit_sequence := n, artifact_generation := g,
      artifacts := om_insert i [r'] (artifacts st) \<rparr>)"
    using good_extend [of A "st \<lparr> commit_sequence := n, artifact_generation := g \<rparr>" i "[r']"] assms(1,4) None
    by (simp add: chain_ok_def)
  ultimately show ?thesis by simp
next
  case (Some c)
  let ?st2 = "st \<lparr> artifacts := om_insert i chain (artifacts st) \<rparr>"
  have chain: "chain = c" "chain_ok (i, c)"
    using assms(1,3) Some om_find_all [of chain_ok "artifacts st" i c] by (auto simp: good_def state_ok_def)
  then have "good A ?st2" using good_extend [OF assms(1), of i c] Some by simp
  note sup = register_supersession_keeps [OF assms(2) this]
  have "om_find (artifacts st3) i = Some chain" using sup(2) by simp
  with chain_ok_grown [OF sup(3), of i r'] chain assms(4)
    good_extend [of A "st3 \<lparr> commit_sequence := n, artifact_generation := g \<rparr>" i "chain' @ [r']"] sup(1)
  show ?thesis by (auto simp: chain_ok_def)
qed

lemma keeps_register: "engine_ok e \<Longrightarrow> keeps e (snd (register_artifact now rg e))"
proof -
  assume ok: "engine_ok e"
  let ?A = "artifacts (state e)"
  obtain revision gen where gn: "gen_next (revision_generator (state e)) = (revision, gen)" by fastforce
  let ?st = "state e \<lparr> revision_generator := gen \<rparr>"
  define r where "r = new_revision rg revision (po_entry_stage (active_policy_body (state e)))"
  define chain where "chain = (case om_find ?A (rg_id rg) of None \<Rightarrow> [] | Some c \<Rightarrow> c)"
  define st2 where "st2 = ?st \<lparr> artifacts := om_insert (rg_id rg) chain ?A \<rparr>"
  obtain chain' st3 where sup: "register_supersession chain r st2 = (chain', st3)" by fastforce
  have good: "good ?A ?st" using engine_ok_good [OF ok] by simp
  have refused: "good ?A st2" if "chain \<noteq> []"
  proof (cases "om_find ?A (rg_id rg)")
    case (Some c)
    with ok have "chain_ok (rg_id rg, c)" by (auto simp: engine_ok_def state_ok_def intro: om_find_all)
    with good_extend [OF good, of "rg_id rg" c] Some show ?thesis by (simp add: st2_def chain_def)
  qed (use that in \<open>simp add: chain_def\<close>)
  have full: "good ?A st2" if "max_artifact_revisions_per_id (config e) \<le> length chain"
    using that ok by (intro refused) (auto simp: engine_ok_def config_valid_def)
  have rid: "ar_id r = rg_id rg" by (simp add: r_def new_revision_def)
  with good_registered [OF good, of chain r "rg_id rg" chain' st3] sup
  have new: "good ?A (st3 \<lparr> commit_sequence := n, artifact_generation := g,
      artifacts := om_insert (rg_id rg) (chain' @ [r']) (artifacts st3) \<rparr>)" if "ar_id r' = rg_id rg" for n g r'
    using that by (simp add: st2_def chain_def)
  show ?thesis
    using keeps_refl [OF ok] refused full sup
    by (auto simp: register_artifact_def Let_def gn r_def [symmetric] chain_def [symmetric] st2_def [symmetric]
        next_sequence_eq keeps_def rid intro!: good_push_event new split: option.splits)
qed


section \<open>The coordinator as a state machine\<close>

text \<open>One rule per public operation, with every argument and every reading of the clock.\<close>

inductive operation :: "engine \<Rightarrow> engine \<Rightarrow> bool" where
  publish: "operation e (snd (publish_policy p e))"
| restarted: "operation e (snd (restart ep e))"
| recovered: "operation e (snd (recover_in_flight e))"
| registered: "operation e (snd (register_artifact now rg e))"
| submitted: "operation e (snd (submit_evidence s e))"
| evaluated: "operation e (snd (evaluate now req e))"
| committed: "operation e (snd (commit now plan e))"
| promoted: "operation e (snd (promote now1 now2 req e))"
| quarantined: "operation e (snd (quarantine i reason_class detail auth e))"
| released: "operation e (snd (release_quarantine now1 now2 i auth e))"
| revoked: "operation e (snd (revoke now i d reason_class detail auth cause e))"
| superseded: "operation e (snd (supersede now i j reason auth e))"
| retired: "operation e (snd (retire now i auth e))"
| evidence_revoked: "operation e (snd (revoke_evidence k reason auth e))"
| security_veto: "operation e (snd (set_security_veto i b reason e))"
| dependency_veto: "operation e (snd (set_dependency_veto i b reason e))"
| compatibility: "operation e (snd (set_compatibility_generation g e))"
| closed: "operation e (close_admission e)"
| opened: "operation e (open_admission e)"
| listening: "operation e (set_change_listener b e)"

text \<open>Construction, operations, and the installation of a loaded state whose maps are well formed,
  which every \<open>std::map\<close> is.\<close>

inductive reachable :: "engine \<Rightarrow> bool" where
  start: "reachable (engine_new cfg ep ticks1 ticks2 thread_hash)"
| step: "reachable e \<Longrightarrow> operation e e' \<Longrightarrow> reachable e'"
| install: "reachable e \<Longrightarrow> maps_ok st \<Longrightarrow> reachable (snd (install_state st e))"

inductive_cases operationE: "operation e e'"

lemmas keeps_operations = keeps_publish keeps_restart keeps_recover keeps_register keeps_submit keeps_evaluate
  keeps_commit keeps_promote keeps_quarantine keeps_release keeps_revoke keeps_supersede keeps_retire
  keeps_revoke_evidence keeps_vetoes keeps_compatibility

lemma keeps_admission:
  "engine_ok e \<Longrightarrow> keeps e (close_admission e)" "engine_ok e \<Longrightarrow> keeps e (open_admission e)"
  "engine_ok e \<Longrightarrow> keeps e (set_change_listener b e)"
  by (simp_all add: keeps_def close_admission_def open_admission_def set_change_listener_def engine_ok_good)

lemma operation_keeps: "operation e e' \<Longrightarrow> engine_ok e \<Longrightarrow> keeps e e'"
  by (induction rule: operation.induct) (rule keeps_operations keeps_admission; assumption)+


section \<open>Construction and installation\<close>

lemma engine_new_ok: "engine_ok (engine_new cfg ep t1 t2 th)"
proof -
  let ?salt = "seed_from (identity_salt_seed (if config_valid cfg then cfg else config_defaults)) (entropy t1 th)"
  have "status_ok (policy_validate (make_reference_policy (Identity ?salt 0xA1) (Counter 1)))"
    by (rule reference_policy_valid) (simp_all add: id_valid_def counter_valid_def)
  moreover have "config_valid config_defaults" by (simp add: config_valid_def config_defaults_def)
  ultimately show ?thesis
    by (simp add: engine_new_def engine_ok_def state_ok_def maps_ok_def policy_ok_def set_active_policy_def
        empty_state_def Let_def)
qed

lemma check_revisions_ids:
  "status_ok (check_revisions i seen n rs) \<Longrightarrow> list_all (\<lambda>r. ar_id r = i) rs"
  by (induction i seen n rs rule: check_revisions.induct) (auto split: if_splits)

lemma check_artifact_chain_ok: "status_ok (check_artifact_chain p) \<Longrightarrow> chain_ok p"
  by (cases p) (auto simp: check_artifact_chain_def chain_ok_def dest: check_revisions_ids split: if_splits)

lemma check_evidence_entry_ok: "status_ok (check_evidence_entry st p) \<Longrightarrow> evidence_ok st p"
  by (cases p) (auto simp: check_evidence_entry_def evidence_ok_def split: if_splits option.splits)

lemma verify_consistency_ok:
  assumes "status_ok (verify_consistency st)"
  shows "list_all chain_ok (artifacts st)" "list_all (evidence_ok st) (evidence st)" "policy_ok st"
proof -
  have parts: "status_ok (check_all check_artifact_chain (artifacts st))"
    "status_ok (check_all (check_evidence_entry st) (evidence st))"
    "policy_ok st"
    using assms by (auto simp: verify_consistency_def Let_def policy_ok_def status_failed_iff split: if_splits)
  then show "list_all chain_ok (artifacts st)" "list_all (evidence_ok st) (evidence st)" "policy_ok st"
    by (auto simp: check_all_ok list_all_iff dest: check_artifact_chain_ok check_evidence_entry_ok)
qed

lemma install_ok: "engine_ok e \<Longrightarrow> maps_ok st \<Longrightarrow> engine_ok (snd (install_state st e))"
  using verify_consistency_ok [of "st \<lparr> pending := [] \<rparr>"]
  by (auto simp: install_state_def Let_def status_failed_iff engine_ok_def state_ok_def maps_ok_def)

lemma reachable_ok: "reachable e \<Longrightarrow> engine_ok e"
  by (induction rule: reachable.induct) (auto intro: engine_new_ok keeps_ok operation_keeps install_ok)

text \<open>A new coordinator that registers one library.\<close>

definition demo_registration :: ArtifactRegistration where
  "demo_registration = \<lparr> rg_id = Identity 1 1, rg_kind = AK_Library, rg_digest = demo_digest, rg_size_bytes = 64,
     rg_name = ''libdemo'', rg_producer = demo_producer, rg_provenance = [], rg_dependencies = [] \<rparr>"

definition demo_start :: engine where
  "demo_start = engine_new config_defaults (Counter 1) 11 12 13"

lemma demo_start_simps:
  "admission_open demo_start" "artifacts (state demo_start) = []" "config demo_start = config_defaults"
  "po_entry_stage (active_policy_body (state demo_start)) = St_Candidate"
  by (simp_all add: demo_start_def engine_new_def config_valid_def config_defaults_def empty_state_def
      set_active_policy_def Let_def)

lemma demo_registered:
  obtains r e' where "register_artifact 5 demo_registration demo_start = (Inr r, e')" "reachable e'"
    "find_revision (state e') (Identity 1 1) (ar_revision r) = Some r"
proof -
  have valid: "\<not> status_failed (registration_validate demo_registration)"
    by code_simp
  obtain v gen where gn: "gen_next (revision_generator (state demo_start)) = (v, gen)" by fastforce
  obtain r e' where reg: "register_artifact 5 demo_registration demo_start = (Inr r, e')"
    "find_revision (state e') (Identity 1 1) (ar_revision r) = Some r"
    using valid gn
    by (auto simp: register_artifact_def demo_start_simps conflicting_class_def register_supersession_def
        next_sequence_eq Let_def config_defaults_def find_revision_def demo_registration_def)
  have "operation demo_start e'"
    using operation.registered [of demo_start 5 demo_registration] reg(1) by simp
  then have "reachable e'"
    using reachable.step reachable.start unfolding demo_start_def by blast
  with reg that show ?thesis by blast
qed

section \<open>What holds in every reachable state\<close>

text \<open>
  C3: In every reachable coordinator the maps are well formed, every registered identity has a
  non-empty chain of revisions that carry it, every stored evidence record speaks about a registered
  revision, carries that revision's digest and has an integrity digest that matches its content, every
  reservation is filed under the artifact it names, and the governing policy validates and is the one
  the recorded identity, generation and digest name.
\<close>

theorem reachable_invariant:
  assumes "reachable e"
  shows "maps_ok (state e) \<and> list_all chain_ok (artifacts (state e))
    \<and> list_all (evidence_ok (state e)) (evidence (state e))
    \<and> list_all (\<lambda>(i, p). pt_artifact p = i) (pending (state e)) \<and> policy_ok (state e)"
  using reachable_ok [OF assms] by (simp add: engine_ok_def state_ok_def)

theorem reachable_invariant_witness:
  "\<exists>e. reachable e \<and> artifacts (state e) \<noteq> [] \<and> list_all chain_ok (artifacts (state e)) \<and> policy_ok (state e)"
proof -
  obtain r e where reg: "reachable e" "find_revision (state e) (Identity 1 1) (ar_revision r) = Some r"
    by (rule demo_registered)
  then have "artifacts (state e) \<noteq> []" by (auto simp: find_revision_def)
  with reachable_invariant [OF reg(1)] reg(1) show ?thesis by blast
qed

text \<open>
  C4: Registered content is immutable: whatever operation a reachable coordinator performs, every
  registered revision is still registered under the same identity with the same content digest, class,
  size, name, producer, provenance, dependencies and position in its chain.
\<close>

theorem content_immutable:
  assumes "reachable e" and "operation e e'" and "find_revision (state e) i v = Some r"
  shows "\<exists>r'. find_revision (state e') i v = Some r' \<and> same_content r r'"
  using operation_keeps [OF assms(2) reachable_ok [OF assms(1)]] evolves_find_revision [OF _ assms(3)]
  by (simp add: keeps_def good_def)

theorem content_immutable_witness:
  "\<exists>e e' r r'. reachable e \<and> operation e e' \<and> find_revision (state e) (Identity 1 1) (ar_revision r) = Some r
     \<and> find_revision (state e') (Identity 1 1) (ar_revision r) = Some r' \<and> same_content r r'"
proof -
  obtain r e where reg: "reachable e" "find_revision (state e) (Identity 1 1) (ar_revision r) = Some r"
    by (rule demo_registered)
  have op: "operation e (snd (restart (Counter 9) e))" by (rule operation.restarted)
  from content_immutable [OF reg(1) op reg(2)] reg op show ?thesis by blast
qed

text \<open>
  The evidence checks of the runtime invariant check can never fail in a reachable coordinator:
  every record is bound to its revision and unaltered.
\<close>

theorem evidence_check_never_fails:
  assumes "reachable e"
  shows "status_ok (check_all (check_evidence_binding (state e)) (evidence (state e)))"
proof -
  have "status_ok (check_evidence_binding (state e) p)" if "evidence_ok (state e) p" for p
    using that by (cases p) (auto simp: evidence_ok_def check_evidence_binding_def)
  with reachable_ok [OF assms] show ?thesis
    by (auto simp: check_all_ok engine_ok_def state_ok_def list_all_iff)
qed


theorem evidence_check_never_fails_witness:
  "\<exists>e. reachable e \<and> artifacts (state e) \<noteq> []
     \<and> status_ok (check_all (check_evidence_binding (state e)) (evidence (state e)))"
proof -
  obtain r e where reg: "reachable e" "find_revision (state e) (Identity 1 1) (ar_revision r) = Some r"
    by (rule demo_registered)
  then have "artifacts (state e) \<noteq> []" by (auto simp: find_revision_def)
  with evidence_check_never_fails [OF reg(1)] reg(1) show ?thesis by blast
qed

end
