(* ===== verification/Durability.thy ===== *)
theory Durability
  imports Snapshot Coordinator_Invariant
begin

text \<open>
  What a restart can rely on: the snapshot of a state is read back, whatever is read back is well formed
  and never reissues an identity, and the one kind of decision the engine stores that the decoder refuses.
\<close>

section \<open>A saved coordinator\<close>

text \<open>The coordinator of \<open>Scenario\<close> with a sealed evidence record and an open reservation.\<close>

definition saved_evidence :: EvidenceRecord where
  "saved_evidence = demo_evidence \<lparr> ev_integrity_digest := compute_evidence_integrity demo_evidence \<rparr>"

definition saved_state :: CoordinatorState where
  "saved_state = demo_state \<lparr> evidence := [(Identity 3 1, saved_evidence)],
     pending := [(Identity 1 1, demo_reservation)] \<rparr>"

lemma saved_evidence_valid: "evidence_valid saved_evidence"
  by code_simp

lemmas size_limits = text_fits_def list_fits_def kMaxNameLength_def kMaxTextLength_def kMaxReferenceLength_def
  kMaxProvenance_def kMaxDependencies_def kMaxRuleGates_def kMaxRulePreferences_def kMaxPolicyRules_def
  kMaxGraphEdges_def digest_sized_def kSha256DigestSize_def

lemma demo_artifact_fits: "artifact_fits demo_artifact"
proof -
  have "artifact_valid demo_artifact" by code_simp
  then show ?thesis
    by (simp add: artifact_fits_def) (simp add: demo_artifact_def demo_digest_def demo_producer_def size_limits
        producer_fits_def producer_valid_def id_valid_def no_quarantine_def no_revocation_def no_supersession_def
        quarantine_fits_def revocation_fits_def supersession_fits_def null_id_def)
qed

lemma demo_gates_valid: "list_all (\<lambda>g. status_ok (gate_validate g)) demo_gates"
  by code_simp

lemma demo_graph_canonical: "is_canonical (po_graph demo_policy)"
  by code_simp

lemma demo_policy_fits: "policy_fits demo_policy"
proof -
  have "list_all gate_fits demo_gates"
    using demo_gates_valid by (simp add: demo_gates_def gate_fits_def empty_gate_def size_limits is_valid_evidence_type_def)
  then have "rule_fits demo_rule"
    by (simp add: rule_fits_def demo_rule_def empty_rule_def scope_fits_def list_fits_def kMaxRuleGates_def
        kMaxRulePreferences_def) (simp add: demo_gates_def)
  moreover have "graph_fits (po_graph demo_policy)"
    using demo_graph_canonical by (simp add: graph_fits_def demo_policy_def edge_fits_def kMaxGraphEdges_def)
  ultimately show ?thesis
    by (simp add: policy_fits_def) (simp add: demo_policy_def empty_policy_def size_limits demo_digest_def)
qed

lemma saved_evidence_fits: "evidence_record_fits saved_evidence"
proof -
  have "evidence_intact saved_evidence"
    by (simp add: evidence_intact_def saved_evidence_def compute_evidence_integrity_def evidence_preimage_def)
  with saved_evidence_valid show ?thesis
    by (simp add: evidence_record_fits_def)
      (simp add: saved_evidence_def demo_evidence_def demo_digest_def demo_producer_def size_limits producer_fits_def
        producer_valid_def id_valid_def is_valid_evidence_type_def compute_evidence_integrity_def)
qed

lemma length_write_text: "length (write_text limit s) \<le> 4 + limit"
  by (simp add: write_text_def Let_def)

lemma length_writers [simp]:
  "length (write_identity i) = 16" "length (write_counter c) = 8" "length (write_boolean b) = 1"
  "length (write_u8 v) = 1" "length (write_enum f x) = 1"
  by (simp_all add: write_identity_def write_counter_def write_boolean_def write_u8_def write_enum_def)

lemma saved_payload_small: "length (encode_payload saved_state) \<le> 10000"
proof -
  have "length (write_evidence saved_evidence) \<le> 2000"
    by (simp add: write_evidence_def saved_evidence_def demo_evidence_def write_text_def write_producer_def
        write_digest_def demo_digest_def write_evidence_type_def compute_evidence_integrity_def size_limits)
  moreover have "length (write_artifact demo_artifact) \<le> 2000"
    by (simp add: write_artifact_def demo_artifact_def write_text_def write_producer_def write_list_def
        write_digest_def demo_digest_def no_quarantine_def no_revocation_def no_supersession_def write_quarantine_def
        write_revocation_def write_supersession_def size_limits)
  moreover have "length (write_policy demo_policy) \<le> 2000"
    by (simp add: write_policy_def demo_policy_def empty_policy_def write_text_def write_list_def write_digest_def
        demo_digest_def write_lifecycle_graph_def write_edge_def write_rule_def demo_rule_def empty_rule_def
        demo_gates_def write_gate_def empty_gate_def write_size_def size_limits)
  ultimately show ?thesis
    by (simp add: encode_payload_framed snapshot_sections_def framed_def write_blob_def saved_state_def demo_state_def
        empty_state_def set_active_policy_def write_header_def write_map_def write_list_def write_chain_def
        write_generators_def write_generator_def write_digest_def)
      (simp add: demo_policy_def demo_digest_def)
qed

lemma saved_payload: "length (encode_payload saved_state) \<le> kMaxSnapshotBytes"
  using saved_payload_small by (simp add: kMaxSnapshotBytes_def)

lemma saved_state_fits: "snapshot_fits saved_state"
proof -
  have "policy_mirrored saved_state" "generators_fit saved_state"
    by (simp_all add: policy_mirrored_def generators_fit_def saved_state_def demo_state_def set_active_policy_def
        empty_state_def gen_new_def gen_default_def)
  moreover have "maps_fit saved_state"
    using demo_artifact_fits saved_evidence_fits
    by (simp add: maps_fit_def map_fits_def saved_state_def demo_state_def empty_state_def set_active_policy_def
        chain_fits_def om_ok_def) (simp add: demo_artifact_def saved_evidence_def demo_evidence_def)
  moreover have "active_policy_body saved_state = demo_policy"
    by (simp add: saved_state_def demo_state_def set_active_policy_def)
  ultimately show ?thesis using saved_payload demo_policy_fits by (simp add: snapshot_fits_def)
qed

lemma saved_state_decodes:
  "decode_snapshot (encode_snapshot saved_state) = Inr (advance_generators (saved_state \<lparr> pending := [] \<rparr>))"
  using saved_state_fits payload_back decode_sealed by (simp add: encode_snapshot_def snapshot_fits_def)

section \<open>Saving and restoring\<close>

text \<open>
  C24: A coordinator state whose texts and counts respect the bounds of the format is restored exactly from
  its snapshot, except that reservations are dropped and the identity generators are advanced past every
  identity the state contains.
\<close>

theorem snapshot_roundtrip:
  assumes "snapshot_fits st"
  shows "decode_snapshot (encode_snapshot st) = Inr (advance_generators (st \<lparr> pending := [] \<rparr>))"
  using payload_back [OF assms] decode_sealed assms by (simp add: encode_snapshot_def snapshot_fits_def)

theorem snapshot_roundtrip_witness:
  "snapshot_fits saved_state \<and> pending saved_state \<noteq> [] \<and>
   decode_snapshot (encode_snapshot saved_state) = Inr (advance_generators (saved_state \<lparr> pending := [] \<rparr>))"
  using snapshot_roundtrip [OF saved_state_fits] saved_state_fits by (simp add: saved_state_def)

text \<open>
  C26: The decoder accepts a file exactly when it is the sealed form (magic, version, zero reserved field,
  payload length, payload, SHA-256 footer over everything before it) of a payload within the bound whose
  sections decode; so truncation, trailing bytes and any change that the footer digest reveals are refused.
\<close>

theorem decode_accepts_only_sealed:
  "decode_snapshot file_bytes = Inr st \<longleftrightarrow>
     (\<exists>payload. length payload \<le> kMaxSnapshotBytes \<and> file_bytes = seal_snapshot payload
        \<and> decode_payload payload = Inr st)"
  using decode_only_sealed decode_sealed by metis

text \<open>
  C25: Whatever the decoder accepts is well formed: the maps are ordered and without duplicates, every chain is
  non-empty, bounded and carries its artifact identity, every evidence record is valid and matches its integrity
  digest, plans, records, requests and history are filed under their own identities, no reservation survives, and
  the governing policy is the one the recorded identity, generation and digest name.
\<close>

theorem decoded_state_sound:
  assumes "decode_snapshot file_bytes = Inr st"
  shows "state_sound st \<and> policy_mirrored st"
  using decode_only_sealed [OF assms] payload_sound by blast

theorem decoded_state_sound_witness:
  "\<exists>st. decode_snapshot (encode_snapshot saved_state) = Inr st \<and> state_sound st \<and> artifacts st \<noteq> []"
  using decoded_state_sound [OF saved_state_decodes] saved_state_decodes
  by (auto simp: advance_generators_def saved_state_def demo_state_def)

text \<open>
  C27: A coordinator that restarts from a snapshot never reissues a revision, evidence, plan, decision, transition or
  request identity that the snapshot contains, whatever counters the file records: for each of these six generators no
  identity it issues, up to the exhaustion of its 64-bit counter, is among those of its kind in the restored state.
\<close>

theorem restart_never_reissues:
  assumes "decode_snapshot file_bytes = Inr st"
  shows "issues_fresh (revision_generator st) (revision_ids st)
    \<and> issues_fresh (evidence_generator st) (map fst (evidence st))
    \<and> issues_fresh (plan_generator st) (map fst (plans st))
    \<and> issues_fresh (decision_generator st) (map fst (decisions st))
    \<and> issues_fresh (transition_generator st) (map fst (records st))
    \<and> issues_fresh (internal_request_generator st) (map fst (idempotency st))"
proof -
  from decode_only_sealed [OF assms] payload_sound obtain st0 where "st = advance_generators st0" by blast
  then show ?thesis using advanced_fresh [of st0] by simp
qed

theorem restart_never_reissues_witness:
  "\<exists>st. decode_snapshot (encode_snapshot saved_state) = Inr st
     \<and> issues_fresh (evidence_generator st) (map fst (evidence st)) \<and> evidence st \<noteq> []"
  using restart_never_reissues [OF saved_state_decodes] saved_state_decodes
  by (auto simp: advance_generators_def saved_state_def)

section \<open>A decision that cannot be restored\<close>

text \<open>
  C35: Evaluating a request for an artifact revision that is not registered stores a decision without an artifact
  class; the snapshot written afterwards, of a coordinator that could be saved and restored before, is refused by
  the decoder.
\<close>

theorem unregistered_request_breaks_snapshot:
  assumes "evaluate now req e = (Inr r, e')" and "snapshot_fits (state e)" and "length (decisions (state e)) < 10000000"
    and "om_find (idempotency (state e)) (rq_request req) = None"
    and "find_revision (state e) (rq_artifact req) (rq_expected_revision req) = None"
    and "digest_sized (rq_expected_digest req)" and "length (encode_payload (state e')) \<le> kMaxSnapshotBytes"
  shows "decode_snapshot (encode_snapshot (state e')) =
    Inl (fail EC_InvalidEnum ''encoded artifact kind is not a known artifact class'')"
proof -
  obtain i gen where gen: "gen_next (decision_generator (state e)) = (i, gen)" by fastforce
  obtain d where new: "decisions (state e') = om_insert i d (decisions (state e))"
    and d: "de_artifact_kind d = AK_Invalid" "de_artifact_digest d = rq_expected_digest req"
    and rest: "state e' = (state e) \<lparr> decision_generator := gen, decision_sequence := decision_sequence (state e'),
      decisions := decisions (state e') \<rparr>"
    using assms(1,4,5) gen
    by (auto simp: evaluate_def Let_def replayed_decision_def evaluate_unregistered_def open_decision_def
        next_decision_sequence_def store_decision_def add_reason_def make_base_decision_def empty_decision_def
        notify_change_def touch_def split: if_splits option.splits)
  have "om_ok (decisions (state e))" using assms(2) by (simp add: snapshot_fits_def maps_fit_def map_fits_def)
  then have "length (decisions (state e')) \<le> 10000000" using assms(3) by (simp add: new length_om_insert)
  moreover have "policy_mirrored (state e')" "policy_fits (active_policy_body (state e'))"
    "maps_fit ((state e') \<lparr> decisions := decisions (state e) \<rparr>)"
    using assms(2) by (subst rest, simp add: snapshot_fits_def policy_mirrored_def maps_fit_def)+
  ultimately show ?thesis
    using kindless_decision_unreadable [OF _ _ _ new] d assms(6,7) by simp
qed

definition saved_engine :: engine where
  "saved_engine = demo_engine \<lparr> state := saved_state \<rparr>"

definition lost_request :: PromotionRequest where
  "lost_request = demo_request \<lparr> rq_artifact := Identity 1 9 \<rparr>"

lemma first_decision_size:
  assumes "decisions st = []"
  shows "length (encode_payload (st \<lparr> decision_generator := g, decision_sequence := s, decisions := [(i, d)] \<rparr>)) =
    length (encode_payload st) + length (write_decision d)"
  using assms
  by (simp add: encode_payload_framed snapshot_sections_def framed_def write_blob_def write_header_def write_map_def
      write_list_def write_generators_def write_generator_def)

lemma unregistered_decision_size:
  assumes "evaluate_unregistered req st = (d, st')" "length (digest_bytes (rq_expected_digest req)) = 32"
    "length (digest_bytes (active_policy_digest st)) = 32"
  shows "length (write_decision d) \<le> 5000"
proof -
  have reason: "length (write_reason r) \<le> 1034" for r
    using length_write_text [of kMaxTextLength "reason_text r"] length_write_text [of kMaxReferenceLength "reason_subject r"]
    by (simp add: write_reason_def write_error_code_def kMaxTextLength_def kMaxReferenceLength_def)
  obtain r where "de_reasons d = [r]" "de_gates d = []" "de_findings d = []"
    "de_artifact_digest d = rq_expected_digest req" "de_policy_digest d = active_policy_digest st"
    "de_evidence_snapshot_digest d = null_digest"
    using assms(1)
    by (auto simp: evaluate_unregistered_def open_decision_def next_decision_sequence_def add_reason_def
        make_base_decision_def empty_decision_def Let_def split: prod.splits)
  then show ?thesis
    using assms(2,3) reason [of r]
    by (simp add: write_decision_def write_list_def write_decided_def write_authority_def write_digest_def
        null_digest_def)
qed

lemma lost_evaluation:
  obtains r e' where "evaluate 1000 lost_request saved_engine = (Inr r, e')"
    "length (encode_payload (state e')) \<le> kMaxSnapshotBytes"
proof -
  have wf: "request_is_well_formed lost_request" by code_simp
  have lost: "find_revision saved_state (rq_artifact lost_request) v = None" "idempotency saved_state = []"
    "decisions saved_state = []" for v
    by (simp_all add: find_revision_def saved_state_def demo_state_def lost_request_def set_active_policy_def
        empty_state_def)
  obtain d st where unreg: "evaluate_unregistered lost_request saved_state = (d, st)" by fastforce
  have "evaluate 1000 lost_request saved_engine =
      (Inr \<lparr> er_decision = d, er_plan = None \<rparr>, notify_change ((touch saved_engine) \<lparr> state := st \<rparr>))"
    using wf lost unreg
    by (simp add: evaluate_def saved_engine_def demo_engine_def request_reused_def replayed_decision_def)
  moreover have "length (encode_payload st) \<le> kMaxSnapshotBytes"
  proof -
    have "length (write_decision d) \<le> 5000"
      by (rule unregistered_decision_size [OF unreg])
        (simp_all add: lost_request_def demo_request_def demo_digest_def saved_state_def demo_state_def
          set_active_policy_def demo_policy_def)
    moreover obtain g q i where "st = saved_state \<lparr> decision_generator := g, decision_sequence := q, decisions := [(i, d)] \<rparr>"
      using unreg lost(3)
      by (auto simp: evaluate_unregistered_def open_decision_def next_decision_sequence_def store_decision_def Let_def
          split: prod.splits)
    ultimately show ?thesis
      using saved_payload_small by (simp add: first_decision_size lost(3) kMaxSnapshotBytes_def)
  qed
  ultimately show ?thesis using that by simp
qed

theorem unregistered_request_breaks_snapshot_witness:
  "\<exists>r e'. evaluate 1000 lost_request saved_engine = (Inr r, e') \<and> snapshot_fits (state saved_engine)
     \<and> (\<exists>err. decode_snapshot (encode_snapshot (state e')) = Inl err)"
proof -
  obtain r e' where eval: "evaluate 1000 lost_request saved_engine = (Inr r, e')"
    and size: "length (encode_payload (state e')) \<le> kMaxSnapshotBytes"
    by (rule lost_evaluation)
  have "state saved_engine = saved_state" by (simp add: saved_engine_def)
  moreover have "decisions saved_state = []" "idempotency saved_state = []"
    "find_revision saved_state (rq_artifact lost_request) v = None" for v
    by (simp_all add: find_revision_def saved_state_def demo_state_def lost_request_def set_active_policy_def
        empty_state_def)
  moreover have "digest_sized (rq_expected_digest lost_request)"
    by (simp add: lost_request_def demo_request_def demo_digest_def size_limits)
  ultimately show ?thesis
    using unregistered_request_breaks_snapshot [OF eval] size eval saved_state_fits by auto
qed

section \<open>Wire forms\<close>

text \<open>
  The wire form of an evidence record is canonical, and a record that fails its own validity rules or does not
  match its integrity digest is never accepted.
\<close>

theorem evidence_wire_form:
  "read_evidence region = Inr (r, rest) \<longleftrightarrow>
     evidence_record_fits r \<and> evidence_valid r \<and> compute_evidence_integrity r = ev_integrity_digest r
     \<and> region = write_evidence r @ rest"
  by (auto simp: evidence_codec.decode_iff evidence_record_fits_def evidence_intact_def)

text \<open>
  The integrity digest binds the whole observation: if two records with the same integrity digest differ in any
  covered field, their preimages are a collision of the hash function.
\<close>

theorem integrity_binds_observation:
  assumes "evidence_fits a" "evidence_fits b" "compute_evidence_integrity a = compute_evidence_integrity b"
  shows "same_observation a b \<or>
    (evidence_preimage a \<noteq> evidence_preimage b \<and> sha256 (evidence_preimage a) = sha256 (evidence_preimage b))"
  using evidence_preimage_eq [OF assms(1,2)] assms(3) by (auto simp: compute_evidence_integrity_def)

theorem integrity_binds_observation_witness:
  "evidence_fits demo_evidence \<and> demo_evidence \<noteq> demo_evidence \<lparr> ev_revocation_reason := ''late'' \<rparr>
   \<and> same_observation demo_evidence (demo_evidence \<lparr> ev_revocation_reason := ''late'' \<rparr>)"
proof -
  let ?b = "demo_evidence \<lparr> ev_revocation_reason := ''late'' \<rparr>"
  have fits: "evidence_fits demo_evidence" "evidence_fits ?b"
    by (simp_all add: evidence_fits_def demo_evidence_def demo_digest_def size_limits)
  have preimage: "evidence_preimage demo_evidence = evidence_preimage ?b" by (simp add: evidence_preimage_def)
  then have "compute_evidence_integrity demo_evidence = compute_evidence_integrity ?b"
    by (simp add: compute_evidence_integrity_def)
  from integrity_binds_observation [OF fits this] preimage show ?thesis
    using fits(1) by (simp add: demo_evidence_def)
qed

end
