(* ===== verification/Lifecycle.thy ===== *)
theory Lifecycle
  imports Coordinator_Invariant
begin

text \<open>
  An abstract lifecycle, in which a revision moves from stage to stage by a governed transition, a withdrawal along an
  edge, a revocation, or a newer registration, and the proof that every operation of the engine
  (\<open>src/engine/engine.cpp\<close>, \<open>promotion.cpp\<close>, \<open>trust.cpp\<close>) refines it.
\<close>

section \<open>The abstract lifecycle\<close>

inductive lifecycle_move :: "PromotionPolicy \<Rightarrow> ArtifactRecord \<Rightarrow> ArtifactRecord \<Rightarrow> bool" for p where
  governed: "find_rule p (ar_kind r) (ar_stage r) (ar_stage r') = Some rule
    \<Longrightarrow> has_edge (po_graph p) (ar_stage r) (ar_stage r') \<Longrightarrow> lifecycle_move p r r'"
| withdrawn: "ar_stage r' \<in> {St_Quarantined, St_Superseded, St_Retired}
    \<Longrightarrow> has_edge (po_graph p) (ar_stage r) (ar_stage r') \<Longrightarrow> lifecycle_move p r r'"
| revoked: "ar_stage r' = St_Revoked \<Longrightarrow> rv_active (ar_revocation r') \<Longrightarrow> \<not> rv_active (ar_revocation r)
    \<Longrightarrow> lifecycle_move p r r'"
| replaced: "ar_stage r' = St_Superseded \<Longrightarrow> sp_active (ar_supersession r') \<Longrightarrow> sp_successor (ar_supersession r') = ar_id r
    \<Longrightarrow> ar_stage r \<notin> {St_Promoted, St_Revoked, St_Retired} \<Longrightarrow> lifecycle_move p r r'"

inductive_simps lifecycle_move_iff: "lifecycle_move p r r'"

text \<open>A revision keeps its content, and its stage or moves.\<close>

definition revision_step :: "PromotionPolicy \<Rightarrow> ArtifactRecord \<Rightarrow> ArtifactRecord \<Rightarrow> bool" where
  "revision_step p r r' \<longleftrightarrow> same_content r r' \<and> (ar_stage r' = ar_stage r \<or> lifecycle_move p r r')"

lemma revision_step_refl [simp]: "revision_step p r r"
  by (simp add: revision_step_def)

definition chain_step :: "PromotionPolicy \<Rightarrow> ArtifactRecord list \<Rightarrow> ArtifactRecord list \<Rightarrow> bool" where
  "chain_step p c c' \<longleftrightarrow> (\<exists>old new. c' = old @ new \<and> list_all2 (revision_step p) c old)"

definition registry_step :: "PromotionPolicy \<Rightarrow> registry \<Rightarrow> registry \<Rightarrow> bool" where
  "registry_step p A A' \<longleftrightarrow> (\<forall>i c. om_find A i = Some c \<longrightarrow> (\<exists>c'. om_find A' i = Some c' \<and> chain_step p c c'))"

lemma chain_step_same: "list_all2 (revision_step p) c c' \<Longrightarrow> chain_step p c c'"
  unfolding chain_step_def by (intro exI [of _ c'] exI [of _ "[]"]) simp

lemma chain_step_refl [simp]: "chain_step p c c"
  by (intro chain_step_same list.rel_refl) simp

lemma registry_step_refl [simp]: "registry_step p A A"
  by (simp add: registry_step_def)

lemma registry_step_current:
  assumes "find_current st i = Some art" "revision_step p art (f art)"
  shows "registry_step p (artifacts st) (om_update i (update_last f) (artifacts st))"
proof -
  from assms(1) obtain c where c: "om_find (artifacts st) i = Some (c @ [art])"
    by (auto simp: find_current_def split: option.splits if_splits) (metis append_butlast_last_id)
  have "chain_step p (c @ [art]) (update_last f (c @ [art]))"
    using assms(2) by (intro chain_step_same) (simp add: update_last_def list_all2_appendI list.rel_refl)
  with c show ?thesis by (auto simp: registry_step_def)
qed

lemma update_first_step:
  "find P c = Some art \<Longrightarrow> revision_step p art (f art) \<Longrightarrow> list_all2 (revision_step p) c (update_first P f c)"
  by (induction P f c rule: update_first.induct) (auto intro: list.rel_refl split: if_splits)

lemma registry_step_revision:
  assumes "find_revision st i v = Some art" "revision_step p art (f art)"
  shows "registry_step p (artifacts st) (om_update i (update_first (\<lambda>r. ar_revision r = v) f) (artifacts st))"
  using assms update_first_step [of "\<lambda>r. ar_revision r = v"]
  by (auto simp: registry_step_def find_revision_def split: option.splits intro: chain_step_same)

lemma find_step:
  assumes "list_all2 (revision_step p) c c'" "find (\<lambda>r. ar_revision r = v) c = Some r"
  shows "\<exists>r'. find (\<lambda>r. ar_revision r = v) c' = Some r' \<and> revision_step p r r'"
  using assms
  by (induction rule: list_all2_induct) (auto simp: revision_step_def same_content_def split: if_splits)

lemma registry_step_find:
  assumes "registry_step p (artifacts st) (artifacts st')" "find_revision st i v = Some r"
  shows "\<exists>r'. find_revision st' i v = Some r' \<and> revision_step p r r'"
proof -
  from assms(2) obtain c where c: "om_find (artifacts st) i = Some c" "find (\<lambda>r. ar_revision r = v) c = Some r"
    by (auto simp: find_revision_def split: option.splits)
  with assms(1) obtain old new where c': "om_find (artifacts st') i = Some (old @ new)" "list_all2 (revision_step p) c old"
    unfolding registry_step_def chain_step_def by blast
  with find_step [OF _ c(2)] obtain r' where "find (\<lambda>r. ar_revision r = v) old = Some r'" "revision_step p r r'"
    by blast
  with c'(1) find_append_Some [of _ old r' new] show ?thesis by (auto simp: find_revision_def)
qed

section \<open>The operations\<close>

abbreviation governs :: "engine \<Rightarrow> engine \<Rightarrow> bool" where
  "governs e e' \<equiv> registry_step (active_policy_body (state e)) (artifacts (state e)) (artifacts (state e'))"

lemma governs_same: "artifacts (state e') = artifacts (state e) \<Longrightarrow> governs e e'"
  by simp

lemmas lifecycle_edits = revision_step_def lifecycle_move_iff apply_quarantine_def apply_release_def
  apply_revocation_def apply_supersession_def apply_retirement_def supersede_previous_def same_content_def Let_def

lemma next_transition_artifacts [simp]: "artifacts (snd (next_transition st)) = artifacts st"
  by (simp add: next_transition_def case_prod_beta)

lemma append_history_artifacts [simp]: "artifacts (append_history cfg k art a b t st) = artifacts st"
  by (simp add: append_history_def next_sequence_eq Let_def)

lemma put_record_artifacts [simp]: "artifacts (put_record cfg r st) = artifacts st"
  by (simp add: put_record_def)

lemma update_current_artifacts [simp]:
  "artifacts (update_current i f st) = om_update i (update_last f) (artifacts st)"
  by (simp add: update_current_def)

lemma governs_quarantine: "governs e (snd (quarantine i c t auth e))"
  by (auto simp: quarantine_def trust_operation split: option.splits
      intro!: registry_step_current) (auto simp: lifecycle_edits)

lemma governs_revoke: "governs e (snd (revoke now i d c t auth cause e))"
  by (auto simp: revoke_def trust_operation split: option.splits
      intro!: registry_step_current) (auto simp: lifecycle_edits)

lemma governs_supersede: "governs e (snd (supersede now i j t auth e))"
  by (auto simp: supersede_def trust_operation split: option.splits
      intro!: registry_step_current) (auto simp: lifecycle_edits)

lemma governs_retire: "governs e (snd (retire now i auth e))"
  by (auto simp: retire_def trust_operation split: option.splits
      intro!: registry_step_current) (auto simp: lifecycle_edits)

text \<open>
  A release edits the last revision of the chain, and its gates are evaluated for the first one of that identity: when the
  two differ, a lookup never returns the edited one.
\<close>

lemma find_append: "find P (xs @ ys) = (case find P xs of None \<Rightarrow> find P ys | Some x \<Rightarrow> Some x)"
  by (induction xs) auto

lemma release_step_find:
  assumes "find_current st i = Some art" and "\<And>x. ar_revision (f x) = ar_revision x"
    and "artifacts st' = om_update i (update_last f) (artifacts st)"
    and "find_revision st i (ar_revision art) = Some art \<Longrightarrow> revision_step p art (f art)"
    and "find_revision st j v = Some r"
  shows "\<exists>r'. find_revision st' j v = Some r' \<and> revision_step p r r'"
proof (cases "j = i")
  case True
  from assms(1) obtain c where c: "om_find (artifacts st) i = Some (c @ [art])"
    by (auto simp: find_current_def split: option.splits if_splits) (metis append_butlast_last_id)
  with assms(3) have c': "om_find (artifacts st') i = Some (c @ [f art])" by (simp add: update_last_def)
  show ?thesis
  proof (cases "find (\<lambda>r. ar_revision r = v) c")
    case None
    with c True assms(5) have "r = art" "ar_revision art = v"
      by (auto simp: find_revision_def find_append split: if_splits)
    with None c c' True assms(2,4) show ?thesis by (simp add: find_revision_def find_append)
  next
    case (Some x)
    with c c' True assms(5) show ?thesis by (simp add: find_revision_def find_append)
  qed
next
  case False
  with assms(3,5) show ?thesis by (simp add: find_revision_def)
qed

lemma release_governs:
  assumes valid: "status_ok (policy_validate (active_policy_body (state e)))" and r: "find_revision (state e) j v = Some r"
  shows "\<exists>r'. find_revision (state (snd (release_quarantine now1 now2 i auth e))) j v = Some r'
    \<and> revision_step (active_policy_body (state e)) r r'"
proof (cases "artifacts (state (snd (release_quarantine now1 now2 i auth e))) = artifacts (state e)")
  case True
  with r find_revision_cong [OF True] show ?thesis by simp
next
  case False
  then obtain art where art: "find_current (state e) i = Some art"
    by (cases "find_current (state e) i") (simp_all add: release_quarantine_def Let_def split: if_splits)
  obtain out req d st1 where dr: "decide_release (config e) now1 i art (state e) = (out, req, d, st1)"
    by (cases "decide_release (config e) now1 i art (state e)") auto
  note same = lifecycle_fields [OF decide_release_outcome(2) [OF dr]]
  from False art dr same obtain seq where "\<not> go_failed out" and
    arts: "artifacts (state (snd (release_quarantine now1 now2 i auth e))) = om_update i (update_last (apply_release seq)) (artifacts (state e))"
    by (auto simp: release_quarantine_def trust_operation split: if_splits)
  then have "revision_step (active_policy_body (state e)) art (apply_release seq art)"
    if "find_revision (state e) i (ar_revision art) = Some art"
    using that decide_release_outcome(1,5,6) [OF dr] validated_rule_edge [OF valid]
    by (auto simp: release_permitted_def lifecycle_edits)
  with release_step_find [OF art _ arts _ r] show ?thesis by (simp add: apply_release_def)
qed

lemma governs_commit:
  assumes "status_ok (policy_validate (active_policy_body (state e)))"
  shows "governs e (snd (commit now plan e))"
proof (cases "fst (commit now plan e)")
  case (Inl s)
  then have "snd (commit now plan e) = e" using commit_error_unchanged [of now plan e s] by (metis prod.collapse)
  then show ?thesis by simp
next
  case (Inr r)
  then have c: "commit now plan e = (Inr r, snd (commit now plan e))" by (metis prod.collapse)
  obtain touched flag where cp: "commit_plan (config e) now plan (state e) = (r, touched, flag, state (snd (commit now plan e)))"
    using c by (rule commit_cases)
  show ?thesis
  proof (cases "cr_outcome r = PO_PromotionCommitted")
    case False
    with commit_plan_flag [OF cp] cp commit_plan_rejected_frame have "lifecycle (state (snd (commit now plan e))) = lifecycle (state e)"
      by metis
    then show ?thesis by (simp add: lifecycle_def)
  next
    case True
    from c True obtain art d where art: "find_revision (state e) (pl_artifact plan) (pl_artifact_revision plan) = Some art"
      and pc: "perform_commit (config e) now plan (ar_stage art) d (put_decision (pl_decision plan) d
         (put_decision (pl_decision plan) (decision_at (pl_decision plan) (state e)) (state e))) = (r, state (snd (commit now plan e)))"
      by (rule commit_committed_state)
    from True cp have "commit_authorised (config e) now plan (state e)"
      using commit_plan_committed [of "config e" now plan "state e"] by simp
    with art obtain rule where "find_rule (active_policy_body (state e)) (ar_kind art) (ar_stage art) (pl_to plan) = Some rule"
      by (auto simp: commit_authorised_def)
    with validated_rule_edge [OF assms] have "revision_step (active_policy_body (state e)) art (apply_transition plan a q art)" for a q
      by (auto simp: revision_step_def lifecycle_move_iff)
    with registry_step_revision [OF art, where f = "apply_transition plan _ _"] perform_commit_state(1) [OF pc] show ?thesis
      by (simp add: update_revision_def)
  qed
qed

lemma governs_evaluate: "governs e (snd (evaluate now req e))"
  using evaluate_lifecycle [of now req e "fst (evaluate now req e)" "snd (evaluate now req e)"]
  by (simp add: lifecycle_def)

lemma governs_promote:
  assumes "status_ok (policy_validate (active_policy_body (state e)))"
  shows "governs e (snd (promote now1 now2 req e))"
proof -
  obtain r e1 where ev: "evaluate now1 req e = (r, e1)" by fastforce
  have same: "artifacts (state e1) = artifacts (state e)" "active_policy_body (state e1) = active_policy_body (state e)"
    using evaluate_lifecycle [OF ev] by (simp_all add: lifecycle_def)
  with governs_commit [of e1 now2] assms ev show ?thesis
    by (auto simp: promote_def split: sum.splits option.splits)
qed

lemma register_supersession_step:
  assumes "register_supersession chain record st = (chain', st')" "list_all (\<lambda>r. ar_id r = ar_id record) chain"
  shows "list_all2 (revision_step p) chain chain' \<and> artifacts st' = artifacts st"
proof (cases chain rule: rev_cases)
  case (snoc older previous)
  with assms(2) have "revision_step p previous (supersede_previous (ar_id record) v a q previous)" for v a q
    by (auto simp: lifecycle_edits)
  with assms(1) snoc show ?thesis
    by (auto simp: register_supersession_def next_sequence_eq Let_def intro!: list_all2_appendI list.rel_refl)
qed (use assms in \<open>simp add: register_supersession_def\<close>)

lemma governs_register:
  assumes "list_all chain_ok (artifacts (state e))"
  shows "governs e (snd (register_artifact now rg e))"
proof -
  let ?p = "active_policy_body (state e)" and ?A = "artifacts (state e)"
  obtain revision gen where gn: "gen_next (revision_generator (state e)) = (revision, gen)" by fastforce
  define r where "r = new_revision rg revision (po_entry_stage ?p)"
  define chain where "chain = (case om_find ?A (rg_id rg) of None \<Rightarrow> [] | Some c \<Rightarrow> c)"
  define st2 where "st2 = state e \<lparr> revision_generator := gen, artifacts := om_insert (rg_id rg) chain ?A \<rparr>"
  obtain chain' st3 where sup: "register_supersession chain r st2 = (chain', st3)" by fastforce
  have "ar_id r = rg_id rg" by (simp add: r_def new_revision_def)
  moreover have "list_all (\<lambda>x. ar_id x = rg_id rg) chain"
    using assms om_find_all [of chain_ok ?A "rg_id rg"] by (auto simp: chain_def chain_ok_def split: option.splits)
  ultimately have moved: "list_all2 (revision_step ?p) chain chain'" "artifacts st3 = om_insert (rg_id rg) chain ?A"
    using register_supersession_step [OF sup, of ?p] by (simp_all add: st2_def)
  have same: "registry_step ?p ?A (artifacts st2)"
    by (auto simp: registry_step_def chain_def st2_def)
  have grown: "registry_step ?p ?A (om_insert (rg_id rg) (chain' @ [r']) ?A)" for r'
    using moved(1) chain_step_def [of ?p chain "chain' @ [r']"]
    by (auto simp: registry_step_def chain_def)
  show ?thesis
    using sup moved(2) same grown
    by (auto simp: register_artifact_def Let_def gn r_def [symmetric] chain_def [symmetric] st2_def [symmetric]
        next_sequence_eq grown split: option.splits)
qed

lemma release_all_artifacts [simp]: "artifacts (snd (release_all note is st)) = artifacts st"
proof (induction "note" "is" st rule: release_all.induct)
  case (2 "note" i "is" st)
  have "artifacts (release_reservation t i p st) = artifacts st" for t p
    by (simp add: release_reservation_def next_sequence_eq Let_def)
  with 2 show ?case by (auto simp: case_prod_beta split: option.splits)
qed simp

lemma governs_recovery:
  "governs e (snd (publish_policy p e))" "governs e (snd (restart ep e))" "governs e (snd (recover_in_flight e))"
  by (rule governs_same; simp add: publish_policy_def restart_def recover_in_flight_def set_active_policy_def
      trust_operation)+

lemma governs_evidence:
  "governs e (snd (submit_evidence s e))" "governs e (snd (revoke_evidence k t auth e))"
proof -
  have "artifacts st' = artifacts st" if "store_evidence cfg s st = (r, st')" for cfg st r st'
    using that by (auto simp: store_evidence_def trust_operation split: option.splits)
  then show "governs e (snd (submit_evidence s e))"
    by (intro governs_same) (auto simp: submit_evidence_def Let_def split: option.splits prod.splits)
  show "governs e (snd (revoke_evidence k t auth e))"
    by (rule governs_same) (auto simp: revoke_evidence_def fence_pending_def trust_operation split: option.splits)
qed

lemma governs_settings:
  "governs e (snd (set_security_veto i b t e))" "governs e (snd (set_dependency_veto i b t e))"
  "governs e (snd (set_compatibility_generation g e))" "governs e (close_admission e)" "governs e (open_admission e)"
  "governs e (set_change_listener b e)"
  by (rule governs_same; simp add: set_security_veto_def set_dependency_veto_def set_compatibility_generation_def
      close_admission_def open_admission_def set_change_listener_def Let_def)+

lemma operation_governs:
  assumes "operation e e'" "engine_ok e" and r: "find_revision (state e) i v = Some r"
  shows "\<exists>r'. find_revision (state e') i v = Some r' \<and> revision_step (active_policy_body (state e)) r r'"
proof -
  have valid: "status_ok (policy_validate (active_policy_body (state e)))" and "list_all chain_ok (artifacts (state e))"
    using assms(2) by (simp_all add: engine_ok_def state_ok_def policy_ok_def)
  note facts = governs_commit [OF valid] governs_promote [OF valid] governs_register [OF this(2)]
    governs_quarantine governs_revoke governs_supersede governs_retire governs_evaluate
    governs_recovery governs_evidence governs_settings
  from assms(1) show ?thesis
    by (rule operationE)
      (simp_all only: release_governs [OF valid r] facts [THEN registry_step_find, OF r])
qed

section \<open>The engine refines the lifecycle\<close>

text \<open>
  C6: The engine implements the abstract lifecycle: whatever operation a reachable coordinator performs, a registered
  revision stays registered with its content, and its stage changes only by a transition that a rule of the active policy
  governs and the lifecycle graph has, by a quarantine, supersession or retirement along an edge of the graph, by a
  revocation, or because a newer revision of an unpromoted artifact was registered.
\<close>

theorem engine_refines_lifecycle:
  assumes "reachable e" and "operation e e'" and "find_revision (state e) i v = Some r"
  shows "\<exists>r'. find_revision (state e') i v = Some r' \<and> same_content r r'
    \<and> (ar_stage r' = ar_stage r \<or> lifecycle_move (active_policy_body (state e)) r r')"
  using operation_governs [OF assms(2) reachable_ok [OF assms(1)] assms(3)]
  by (simp add: revision_step_def)

lemma demo_holds:
  obtains r e where "reachable e" "artifacts (state e) = [(Identity 1 1, [r])]" "ar_stage r = St_Candidate"
    "\<not> qr_active (ar_quarantine r)" "admission_open e" "active_policy_body (state e) = active_policy_body (state demo_start)"
proof -
  have valid: "\<not> status_failed (registration_validate demo_registration)" by code_simp
  obtain v gen where gn: "gen_next (revision_generator (state demo_start)) = (v, gen)" by fastforce
  obtain r e where reg: "register_artifact 5 demo_registration demo_start = (Inr r, e)"
    and e: "artifacts (state e) = [(Identity 1 1, [r])]" "ar_stage r = St_Candidate"
      "\<not> qr_active (ar_quarantine r)" "admission_open e" "active_policy_body (state e) = active_policy_body (state demo_start)"
    using valid gn
    by (auto simp: register_artifact_def demo_start_simps conflicting_class_def register_supersession_def new_revision_def
        no_quarantine_def next_sequence_eq Let_def config_defaults_def demo_registration_def)
  have "reachable e"
    using reachable.step [OF reachable.start operation.registered [of demo_start 5 demo_registration, unfolded demo_start_def]]
      reg by (simp add: demo_start_def)
  with e that show ?thesis by blast
qed

theorem engine_refines_lifecycle_witness:
  "\<exists>e e' r r'. reachable e \<and> operation e e'
     \<and> find_revision (state e) (Identity 1 1) (ar_revision r) = Some r \<and> ar_stage r = St_Candidate
     \<and> find_revision (state e') (Identity 1 1) (ar_revision r) = Some r' \<and> same_content r r'
     \<and> ar_stage r' = St_Quarantined \<and> lifecycle_move (active_policy_body (state e)) r r'"
proof -
  obtain r e where e: "reachable e" "artifacts (state e) = [(Identity 1 1, [r])]" "ar_stage r = St_Candidate"
    "\<not> qr_active (ar_quarantine r)" "admission_open e" "active_policy_body (state e) = active_policy_body (state demo_start)"
    by (rule demo_holds)
  let ?auth = "\<lparr> ca_coordinator = null_id, ca_epoch = Counter 0 \<rparr>"
  define e' where "e' = snd (quarantine (Identity 1 1) ''cve'' [] ?auth e)"
  have "is_valid_name ''cve''" "has_edge graph_reference St_Candidate St_Quarantined" by code_simp+
  moreover have "po_graph (active_policy_body (state demo_start)) = graph_reference"
    by (simp add: demo_start_def engine_new_def set_active_policy_def Let_def)
  ultimately have held: "\<exists>f. artifacts (state e') = [(Identity 1 1, [f r])] \<and> ar_stage (f r) = St_Quarantined"
    using e by (auto simp: e'_def quarantine_def foreign_authority_def authority_valid_def id_valid_def null_id_def
        find_current_def update_last_def apply_quarantine_def trust_operation)
  have start: "operation e e'" "find_revision (state e) (Identity 1 1) (ar_revision r) = Some r"
    using e(2) by (simp_all add: e'_def operation.quarantined find_revision_def)
  from engine_refines_lifecycle [OF e(1) this] obtain r' where
    r': "find_revision (state e') (Identity 1 1) (ar_revision r) = Some r'" "same_content r r'"
    "ar_stage r' = ar_stage r \<or> lifecycle_move (active_policy_body (state e)) r r'" by blast
  moreover from r'(1) held have "ar_stage r' = St_Quarantined" by (auto simp: find_revision_def split: if_splits)
  moreover from this have "lifecycle_move (active_policy_body (state e)) r r'" using r'(3) e(3) by simp
  ultimately show ?thesis using e(1,3) start by blast
qed

end
