(* ===== verification/Progress.thy ===== *)
theory Progress
  imports Coordinator_Invariant
begin

text \<open>
  Progress: a plan that an evaluation issues can be committed at once.  The gates that passed when the plan was issued
  pass again under the plan's own reservation, and nothing else a commit checks can have changed.
\<close>

section \<open>Gates under the plan's own reservation\<close>

text \<open>Two states that differ, for the gates, only in the reservations.\<close>

definition same_but_pending :: "CoordinatorState \<Rightarrow> CoordinatorState \<Rightarrow> bool" where
  "same_but_pending st st' \<longleftrightarrow> same_authorities (st \<lparr> pending := pending st' \<rparr>) st'"

lemma gate_passes_reserved:
  assumes "same_but_pending st st'" and "om_find (pending st') (ar_id art) = Some p"
    and "pt_request p = rq_request req'" "pt_attempt p = rq_attempt req'"
    and "rq_authority req' = authority_of st" "counter_valid (epoch st)"
    and "gate_passes cfg st req now formed art evs g"
  shows "gate_passes cfg st' req' now formed art evs g"
proof -
  let ?st = "st \<lparr> pending := pending st' \<rparr>"
  have eq: "eval_gate cfg st' req' now formed art evs g = eval_gate cfg ?st req' now formed art evs g"
    using eval_gate_cong [of ?st st'] assms(1) by (simp add: same_but_pending_def)
  have dep: "dependency_gate ?st ds = dependency_gate st ds" for ds by (rule dependency_gate_cong) simp
  have epoch_gate: "coordinator_epoch_gate ?st req' = satisfied"
    using assms(5) by (simp add: coordinator_epoch_gate_def authority_of_def)
  have conflict: "no_conflict_gate ?st req' art = satisfied"
    using assms(2-4) by (simp add: no_conflict_gate_def)
  have compat: "compatibility_gate ?st g = compatibility_gate st g"
    unfolding compatibility_gate_def by (simp cong del: lit_opaque)
  have generation: "policy_generation_gate ?st req' formed = satisfied" if "formed = active_policy_generation st"
    using that assms(5,6) by (simp add: policy_generation_gate_def authority_of_def)
  show ?thesis
    using assms(7) generation unfolding gate_passes_def eq
    by (cases "gt_kind g")
      (simp_all add: eval_gate_def dep epoch_gate conflict compat satisfied_def policy_generation_gate_def split: if_splits)
qed

section \<open>What issuing a plan leaves\<close>

lemma issue_plan_issued:
  assumes "issue_plan cfg now req art d n st = (d', Some plan, st')"
  shows "d' = d \<lparr> de_plan := pl_id plan \<rparr>"
    and "same_but_pending st st'" "active_policy_digest st' = active_policy_digest st"
    and "om_find (plans st') (pl_id plan) = Some plan"
    and "\<exists>p. om_find (pending st') (ar_id art) = Some p \<and> pt_request p = rq_request req \<and> pt_attempt p = rq_attempt req
           \<and> pt_plan p = pl_id plan"
    and "pl_request plan = rq_request req" "pl_attempt plan = rq_attempt req" "pl_decision plan = de_id d"
      "pl_artifact plan = ar_id art" "pl_artifact_revision plan = ar_revision art" "pl_artifact_digest plan = ar_digest art"
      "pl_to plan = rq_requested_stage req" "pl_policy_generation plan = active_policy_generation st"
      "pl_policy_digest plan = active_policy_digest st"
      "pl_lifecycle_digest plan = graph_digest (po_graph (active_policy_body st))"
      "pl_authority plan = authority_of st" "pl_evidence_snapshot_digest plan = de_evidence_snapshot_digest d"
      "pl_expires_unix_millis plan = now + plan_ttl_millis cfg"
  using assms
  by (auto simp: issue_plan_def make_plan_def make_reservation_def next_sequence_eq Let_def same_but_pending_def
      same_authorities_def authority_of_def split: if_splits prod.splits)

lemma decide_issued:
  assumes "decide cfg now req art d st = (d', Some plan, st')"
    and "find_revision st (rq_artifact req) (rq_expected_revision req) = Some art"
  obtains d2 n rule where "issue_plan cfg now req art d2 n st = (d', Some plan, st')"
    "find_rule (active_policy_body st) (ar_kind art) (ar_stage art) (rq_requested_stage req) = Some rule"
    "all_gates_pass cfg st req now (de_policy_generation d) art rule"
    "de_evidence_snapshot_digest d2 = current_snapshot st art" "de_policy_generation d2 = de_policy_generation d"
    "de_id d2 = de_id d" "ar_stage art \<noteq> rq_requested_stage req"
proof -
  obtain out d1 es where eg: "evaluate_gates cfg st req now d = (out, d1, es)" by (metis prod.exhaust)
  with assms(1) have ok: "\<not> go_failed out" "ar_stage art \<noteq> rq_requested_stage req"
    and iss: "issue_plan cfg now req art (d1 \<lparr> de_outcome := go_outcome out \<rparr>) (length es) st = (d', Some plan, st')"
    by (auto simp: decide_def Let_def split: if_splits)
  from ok(1) eg evaluate_gates_failed [of cfg st req now d] evaluate_gates_eligible [of cfg st req now d] assms(2)
  obtain rule where rule: "find_rule (active_policy_body st) (ar_kind art) (ar_stage art) (rq_requested_stage req) = Some rule"
    "all_gates_pass cfg st req now (de_policy_generation d) art rule" by auto
  have run: "d1 = snd (run_gates cfg st req now d art rule)"
    using eg evaluate_gates_rule [OF assms(2) rule(1), of cfg now d] by (metis fst_conv snd_conv)
  have bind: "same_binding (bind_snapshot art (snapshot_entries (gathered st art)) (bind_artifact art req d)) d1"
    using gate_loop_binding [where cfg = cfg and st = st and req = req and now = now and art = art
        and evs = "gathered st art" and gates = "ru_requirements rule" and first = True and result = initial_outcome] run
    by metis
  then have "de_evidence_snapshot_digest d1 = current_snapshot st art" "de_id d1 = de_id d"
    "de_policy_generation d1 = de_policy_generation d"
    using same_bindingD [OF bind] by (simp_all add: bind_snapshot_def bind_artifact_def current_snapshot_def)
  with that [OF iss rule] ok(2) show ?thesis by simp
qed

lemma issuing_evaluation:
  assumes "evaluate now req e = (Inr r, e')" "er_plan r = Some plan"
  shows "\<exists>art. find_revision (state e) (rq_artifact req) (rq_expected_revision req) = Some art \<and> admission_open e
    \<and> evaluate now req e = map_prod Inr (\<lambda>st. notify_change ((touch e) \<lparr> state := st \<rparr>))
        (evaluate_registered (config e) now req art (state e))"
proof (cases "find_revision (state e) (rq_artifact req) (rq_expected_revision req)")
  case None
  then show ?thesis using assms by (simp add: evaluate_def Let_def case_prod_beta split: if_splits option.splits) auto
next
  case (Some art)
  then have "ar_digest art = rq_expected_digest req"
    using assms by (simp add: evaluate_def Let_def case_prod_beta split: if_splits option.splits) auto
  with Some assms show ?thesis
    by (simp add: evaluate_def Let_def case_prod_beta map_prod_def split: if_splits option.splits) auto
qed

lemma evaluate_issued:
  assumes "evaluate now req e = (Inr r, e')" "er_plan r = Some plan"
  obtains art d0 st1 d st2 where "find_revision (state e) (rq_artifact req) (rq_expected_revision req) = Some art"
    "admission_open e" "same_authorities (state e) st1" "active_policy_digest st1 = active_policy_digest (state e)"
    "decide (config e) now req art d0 st1 = (d, Some plan, st2)" "same_authorities st2 (state e')" "plans (state e') = plans st2"
    "om_find (decisions (state e')) (de_id d) = Some d" "config e' = config e" "admission_open e' = admission_open e"
proof -
  obtain art where art: "find_revision (state e) (rq_artifact req) (rq_expected_revision req) = Some art" "admission_open e"
    and ev: "evaluate now req e = map_prod Inr (\<lambda>st. notify_change ((touch e) \<lparr> state := st \<rparr>))
      (evaluate_registered (config e) now req art (state e))"
    using issuing_evaluation [OF assms] by blast
  define st' where "st' = snd (evaluate_registered (config e) now req art (state e))"
  have reg: "evaluate_registered (config e) now req art (state e) = (r, st')"
    and e': "e' = notify_change ((touch e) \<lparr> state := st' \<rparr>)"
    using ev assms(1) by (simp_all add: st'_def map_prod_def case_prod_beta prod_eq_iff)
  obtain d0 st1 where open1: "open_decision req (state e) = (d0, st1)" by fastforce
  let ?d1 = "d0 \<lparr> de_artifact_generation := ar_generation art, de_artifact_kind := ar_kind art,
                    de_from := ar_stage art, de_decided_unix_millis := Some now \<rparr>"
  obtain d pl st2 where dec: "decide (config e) now req art ?d1 st1 = (d, pl, st2)" by (metis prod.exhaust)
  have same1: "same_authorities (state e) st1" "active_policy_digest st1 = active_policy_digest (state e)"
    using open1 by (auto simp: open_decision_def next_decision_sequence_def same_authorities_def Let_def split: prod.splits)
  have "pl = Some plan" and st': "same_authorities st2 st'" "plans st' = plans st2" "om_find (decisions st') (de_id d) = Some d"
    using reg assms(2) open1 dec
    by (auto simp: evaluate_registered_def next_sequence_eq store_decision_def same_authorities_def Let_def)
  with that [OF art same1, of ?d1 d st2] dec e' show ?thesis by simp
qed

lemma same_but_pendingI:
  "same_authorities a b \<Longrightarrow> same_but_pending b c \<Longrightarrow> same_authorities c d \<Longrightarrow> same_but_pending a d \<and> pending d = pending c"
  by (simp add: same_authorities_def same_but_pending_def)

lemma not_expired:
  assumes "unat now + unat ttl < 2 ^ 64" "pl_expires_unix_millis plan = now + (ttl :: u64)"
  shows "\<not> plan_expired now plan"
proof -
  have "now \<le> now + ttl" using assms(1) by (simp add: word_le_nat_alt unat_plus_if' )
  then show ?thesis using assms(2) by (simp add: plan_expired_def not_less)
qed

section \<open>An issued plan commits\<close>

lemma find_revision_ids:
  assumes "list_all chain_ok (artifacts st)" "find_revision st i v = Some art"
  shows "ar_id art = i" "ar_revision art = v"
proof -
  from assms(2) obtain chain where c: "om_find (artifacts st) i = Some chain" "find (\<lambda>r. ar_revision r = v) chain = Some art"
    by (auto simp: find_revision_def split: option.splits)
  then show "ar_revision art = v" by (auto simp: find_Some_iff)
  have "art \<in> set chain" using c(2) by (auto simp: find_Some_iff)
  moreover have "chain_ok (i, chain)" using om_find_all [OF assms(1) c(1)] .
  ultimately show "ar_id art = i" by (auto simp: chain_ok_def list_all_iff)
qed

lemma issued_gates_pass:
  assumes "issue_plan cfg now req art d2 n st = (d, Some plan, st2)" "same_but_pending st st'"
    and "om_find (pending st') (ar_id art) = Some p" "pt_request p = rq_request req" "pt_attempt p = rq_attempt req"
    and "counter_valid (epoch st)" "all_gates_pass cfg st req now formed art rule"
  shows "all_gates_pass cfg st' (plan_request plan) now formed art rule"
proof -
  have gathered: "gathered st' art = gathered st art"
    using assms(2) by (simp add: gather_evidence_def same_but_pending_def same_authorities_def)
  note issued = issue_plan_issued [OF assms(1)]
  have "gate_passes cfg st' (plan_request plan) now formed art (gathered st art) g" if "g \<in> set (ru_requirements rule)" for g
    using gate_passes_reserved [OF assms(2,3), of "plan_request plan" cfg req now formed "gathered st art" g]
      assms(4-7) that issued(6,7,16) by (simp add: all_gates_pass_def plan_request_def)
  then show ?thesis by (simp add: all_gates_pass_def gathered)
qed

lemma issued_authorised:
  assumes "evaluate now req e = (Inr r, e')" "er_plan r = Some plan" "plan_valid plan"
    and "list_all chain_ok (artifacts (state e))"
    and "po_policy_digest (active_policy_body (state e)) = active_policy_digest (state e)"
    and "unat now + unat (plan_ttl_millis (config e)) < 2 ^ 64"
  shows "commit_authorised (config e) now plan (state e')"
    and "om_find (plans (state e')) (pl_id plan) = Some plan" "config e' = config e" "admission_open e'"
proof -
  obtain art d0 st1 d st2 where art: "find_revision (state e) (rq_artifact req) (rq_expected_revision req) = Some art" "admission_open e"
    and same1: "same_authorities (state e) st1" "active_policy_digest st1 = active_policy_digest (state e)"
    and dec: "decide (config e) now req art d0 st1 = (d, Some plan, st2)"
    and same2: "same_authorities st2 (state e')" "plans (state e') = plans st2"
    and stored: "om_find (decisions (state e')) (de_id d) = Some d"
    and eng: "config e' = config e" "admission_open e' = admission_open e"
    using assms(1,2) by (rule evaluate_issued)
  have ids: "ar_id art = rq_artifact req" "ar_revision art = rq_expected_revision req"
    using find_revision_ids [OF assms(4) art(1)] by simp_all
  have art1: "find_revision st1 (rq_artifact req) (rq_expected_revision req) = Some art"
    using art(1) find_revision_cong [of "state e" st1] same1 by (simp add: same_authorities_def)
  obtain d2 n rule where iss: "issue_plan (config e) now req art d2 n st1 = (d, Some plan, st2)"
    and rule: "find_rule (active_policy_body st1) (ar_kind art) (ar_stage art) (rq_requested_stage req) = Some rule"
      "all_gates_pass (config e) st1 req now (de_policy_generation d0) art rule"
    and d2: "de_evidence_snapshot_digest d2 = current_snapshot st1 art" "de_policy_generation d2 = de_policy_generation d0"
      "de_id d2 = de_id d0" "ar_stage art \<noteq> rq_requested_stage req"
    using dec art1 by (rule decide_issued)
  note issued = issue_plan_issued [OF iss]
  note after = same_but_pendingI [OF _ issued(2) same2(1), of st1]
  have same: "same_but_pending st1 (state e')" and pend: "pending (state e') = pending st2"
    using after by (simp_all add: same_authorities_def)
  from issued(5) obtain p where p: "om_find (pending (state e')) (ar_id art) = Some p" "pt_request p = rq_request req"
    "pt_attempt p = rq_attempt req" "pt_plan p = pl_id plan" by (auto simp: pend)
  have valid: "counter_valid (epoch st1)"
    using assms(3) issued(16) by (simp add: plan_valid_def authority_valid_def authority_of_def)
  have arts: "artifacts (state e') = artifacts st1" "evidence (state e') = evidence st1"
    "active_policy_body (state e') = active_policy_body st1" "active_policy_generation (state e') = active_policy_generation st1"
    using same by (simp_all add: same_but_pending_def same_authorities_def)
  have gathered: "gathered (state e') art = gathered st1 art" by (simp add: gather_evidence_def arts)
  have gates: "all_gates_pass (config e) (state e') (plan_request plan) now (de_policy_generation d0) art rule"
    using issued_gates_pass [OF iss same p(1) _ _ valid rule(2)] p(2,3) by simp
  have dec_at: "de_policy_generation (decision_at (pl_decision plan) (state e')) = de_policy_generation d0"
    using stored issued(1,8) d2 by (simp add: decision_at_def)
  have art': "find_revision (state e') (pl_artifact plan) (pl_artifact_revision plan) = Some art"
    using art1 find_revision_cong [OF arts(1)] issued(9,10) ids by simp
  have snap: "current_snapshot (state e') art = pl_evidence_snapshot_digest plan"
    using issued(17) d2(1) gathered by (simp add: current_snapshot_def)
  have "\<not> policy_changed plan (state e')" "\<not> lifecycle_changed plan (state e')"
    using issued(13,14,15) assms(5) same1 arts by (simp_all add: policy_changed_def lifecycle_changed_def same_authorities_def)
  moreover have "\<not> plan_expired now plan" using assms(6) issued(18) by (rule not_expired)
  moreover have "reservation_held plan (state e')" using p issued(9) by (auto simp: reservation_held_def)
  ultimately show "commit_authorised (config e) now plan (state e')"
    using art' rule(1) gates dec_at snap d2(4) issued(12) arts(3) by (auto simp: commit_authorised_def)
  show "om_find (plans (state e')) (pl_id plan) = Some plan" using issued(4) same2(2) by simp
  show "config e' = config e" "admission_open e'" using eng art(2) by simp_all
qed

text \<open>
  C13: A plan is not only a permission: when an evaluation issues a well-formed plan and nothing happens in between, a
  commit at the same instant succeeds and moves the artifact, so that promoting, evaluating and committing in one call,
  commits exactly when the evaluation finds the request eligible and can reserve it.
\<close>

theorem issued_plan_commits:
  assumes "evaluate now req e = (Inr r, e')" and "er_plan r = Some plan" and "plan_valid plan"
    and "list_all chain_ok (artifacts (state e))"
    and "po_policy_digest (active_policy_body (state e)) = active_policy_digest (state e)"
    and "unat now + unat (plan_ttl_millis (config e)) < 2 ^ 64"
  shows "\<exists>r' e''. promote now now req e = (Inr r', e'') \<and> commit now plan e' = (Inr r', e'')
    \<and> cr_outcome r' = PO_PromotionCommitted \<and> cr_record r' \<noteq> None"
proof -
  note authorised = issued_authorised [OF assms]
  obtain e'' where c: "commit now plan e' = (Inr (fst (commit_plan (config e) now plan (state e'))), e'')"
    using commit_state_eq [OF authorised(4) assms(3) authorised(2)] authorised(3) by metis
  have out: "cr_outcome (fst (commit_plan (config e) now plan (state e'))) = PO_PromotionCommitted"
    using commit_plan_committed authorised(1) by blast
  obtain art d where "find_revision (state e') (pl_artifact plan) (pl_artifact_revision plan) = Some art"
    and pc: "perform_commit (config e') now plan (ar_stage art) d (put_decision (pl_decision plan) d
       (put_decision (pl_decision plan) (decision_at (pl_decision plan) (state e')) (state e')))
      = (fst (commit_plan (config e) now plan (state e')), state e'')"
    using c out by (rule commit_committed_state)
  from perform_commit_record(1) [OF pc] have "cr_record (fst (commit_plan (config e) now plan (state e'))) \<noteq> None" by auto
  moreover have "promote now now req e = commit now plan e'" using assms(1,2) by (simp add: promote_def)
  ultimately show ?thesis using c out by simp
qed

theorem issued_plan_commits_witness:
  "\<exists>r e' r' e''. evaluate 1000 demo_request demo_engine = (Inr r, e') \<and> er_plan r = Some demo_plan
     \<and> promote 1000 1000 demo_request demo_engine = (Inr r', e'') \<and> cr_outcome r' = PO_PromotionCommitted"
proof -
  obtain r e' where ev: "evaluate 1000 demo_request demo_engine = (Inr r, e')" "er_plan r = Some demo_plan"
    using demo_evaluate by auto
  have "list_all chain_ok (artifacts (state demo_engine))"
    by (simp add: demo_engine_def demo_state_def chain_ok_def demo_artifact_def)
  moreover have "po_policy_digest (active_policy_body (state demo_engine)) = active_policy_digest (state demo_engine)"
    by (simp add: demo_engine_def demo_state_def set_active_policy_def)
  moreover have "unat (1000 :: u64) + unat (plan_ttl_millis (config demo_engine)) < 2 ^ 64"
    by (simp add: demo_engine_def config_defaults_def)
  ultimately show ?thesis
    using issued_plan_commits [OF ev demo_plan_valid] ev by blast
qed

end
