(* ===== verification/Protocol.thy ===== *)
theory Protocol
  imports Policy_Codec
begin

text \<open>
  The framed protocol (\<open>protocol.hpp\<close>, first part of \<open>src/distributed/protocol.cpp\<close>): message
  types, the frame with its fixed header and SHA-256 footer, and its encoder and decoder.  The decoder accepts
  exactly what the encoder of the current version produces.
\<close>

section \<open>Message types\<close>

datatype MessageType =
    MT_Invalid | MT_HelloRequest | MT_HelloResponse | MT_RegisterArtifactRequest | MT_RegisterArtifactResponse
  | MT_SubmitEvidenceRequest | MT_SubmitEvidenceResponse | MT_PromotionRequest | MT_PromotionResponse
  | MT_EvaluateRequest | MT_EvaluateResponse | MT_ArtifactStateRequest | MT_ArtifactStateResponse
  | MT_HistoryRequest | MT_HistoryResponse | MT_QuarantineRequest | MT_QuarantineResponse
  | MT_ReleaseQuarantineRequest | MT_ReleaseQuarantineResponse | MT_RevokeRequest | MT_RevokeResponse
  | MT_RevokeEvidenceRequest | MT_RevokeEvidenceResponse | MT_SupersedeRequest | MT_SupersedeResponse
  | MT_RetireRequest | MT_RetireResponse | MT_SnapshotSaveRequest | MT_SnapshotSaveResponse
  | MT_ExplainRequest | MT_ExplainResponse | MT_Error | MT_Goodbye

fun message_type_value :: "MessageType \<Rightarrow> nat" where
  "message_type_value MT_Invalid = 0"
| "message_type_value MT_HelloRequest = 1"
| "message_type_value MT_HelloResponse = 2"
| "message_type_value MT_RegisterArtifactRequest = 10"
| "message_type_value MT_RegisterArtifactResponse = 11"
| "message_type_value MT_SubmitEvidenceRequest = 20"
| "message_type_value MT_SubmitEvidenceResponse = 21"
| "message_type_value MT_PromotionRequest = 30"
| "message_type_value MT_PromotionResponse = 31"
| "message_type_value MT_EvaluateRequest = 32"
| "message_type_value MT_EvaluateResponse = 33"
| "message_type_value MT_ArtifactStateRequest = 40"
| "message_type_value MT_ArtifactStateResponse = 41"
| "message_type_value MT_HistoryRequest = 50"
| "message_type_value MT_HistoryResponse = 51"
| "message_type_value MT_QuarantineRequest = 60"
| "message_type_value MT_QuarantineResponse = 61"
| "message_type_value MT_ReleaseQuarantineRequest = 62"
| "message_type_value MT_ReleaseQuarantineResponse = 63"
| "message_type_value MT_RevokeRequest = 64"
| "message_type_value MT_RevokeResponse = 65"
| "message_type_value MT_RevokeEvidenceRequest = 66"
| "message_type_value MT_RevokeEvidenceResponse = 67"
| "message_type_value MT_SupersedeRequest = 68"
| "message_type_value MT_SupersedeResponse = 69"
| "message_type_value MT_RetireRequest = 70"
| "message_type_value MT_RetireResponse = 71"
| "message_type_value MT_SnapshotSaveRequest = 80"
| "message_type_value MT_SnapshotSaveResponse = 81"
| "message_type_value MT_ExplainRequest = 90"
| "message_type_value MT_ExplainResponse = 91"
| "message_type_value MT_Error = 100"
| "message_type_value MT_Goodbye = 101"

fun message_type_to_string :: "MessageType \<Rightarrow> string" where
  "message_type_to_string MT_Invalid = ''INVALID''"
| "message_type_to_string MT_HelloRequest = ''HELLO_REQUEST''"
| "message_type_to_string MT_HelloResponse = ''HELLO_RESPONSE''"
| "message_type_to_string MT_RegisterArtifactRequest = ''REGISTER_ARTIFACT_REQUEST''"
| "message_type_to_string MT_RegisterArtifactResponse = ''REGISTER_ARTIFACT_RESPONSE''"
| "message_type_to_string MT_SubmitEvidenceRequest = ''SUBMIT_EVIDENCE_REQUEST''"
| "message_type_to_string MT_SubmitEvidenceResponse = ''SUBMIT_EVIDENCE_RESPONSE''"
| "message_type_to_string MT_PromotionRequest = ''PROMOTION_REQUEST''"
| "message_type_to_string MT_PromotionResponse = ''PROMOTION_RESPONSE''"
| "message_type_to_string MT_EvaluateRequest = ''EVALUATE_REQUEST''"
| "message_type_to_string MT_EvaluateResponse = ''EVALUATE_RESPONSE''"
| "message_type_to_string MT_ArtifactStateRequest = ''ARTIFACT_STATE_REQUEST''"
| "message_type_to_string MT_ArtifactStateResponse = ''ARTIFACT_STATE_RESPONSE''"
| "message_type_to_string MT_HistoryRequest = ''HISTORY_REQUEST''"
| "message_type_to_string MT_HistoryResponse = ''HISTORY_RESPONSE''"
| "message_type_to_string MT_QuarantineRequest = ''QUARANTINE_REQUEST''"
| "message_type_to_string MT_QuarantineResponse = ''QUARANTINE_RESPONSE''"
| "message_type_to_string MT_ReleaseQuarantineRequest = ''RELEASE_QUARANTINE_REQUEST''"
| "message_type_to_string MT_ReleaseQuarantineResponse = ''RELEASE_QUARANTINE_RESPONSE''"
| "message_type_to_string MT_RevokeRequest = ''REVOKE_REQUEST''"
| "message_type_to_string MT_RevokeResponse = ''REVOKE_RESPONSE''"
| "message_type_to_string MT_RevokeEvidenceRequest = ''REVOKE_EVIDENCE_REQUEST''"
| "message_type_to_string MT_RevokeEvidenceResponse = ''REVOKE_EVIDENCE_RESPONSE''"
| "message_type_to_string MT_SupersedeRequest = ''SUPERSEDE_REQUEST''"
| "message_type_to_string MT_SupersedeResponse = ''SUPERSEDE_RESPONSE''"
| "message_type_to_string MT_RetireRequest = ''RETIRE_REQUEST''"
| "message_type_to_string MT_RetireResponse = ''RETIRE_RESPONSE''"
| "message_type_to_string MT_SnapshotSaveRequest = ''SNAPSHOT_SAVE_REQUEST''"
| "message_type_to_string MT_SnapshotSaveResponse = ''SNAPSHOT_SAVE_RESPONSE''"
| "message_type_to_string MT_ExplainRequest = ''EXPLAIN_REQUEST''"
| "message_type_to_string MT_ExplainResponse = ''EXPLAIN_RESPONSE''"
| "message_type_to_string MT_Error = ''ERROR''"
| "message_type_to_string MT_Goodbye = ''GOODBYE''"

text \<open>The types \<open>is_valid_message_type\<close> lists.\<close>

definition valid_message_types :: "MessageType list" where
  "valid_message_types =
     [MT_HelloRequest, MT_HelloResponse, MT_RegisterArtifactRequest, MT_RegisterArtifactResponse,
      MT_SubmitEvidenceRequest, MT_SubmitEvidenceResponse, MT_PromotionRequest, MT_PromotionResponse,
      MT_EvaluateRequest, MT_EvaluateResponse, MT_ArtifactStateRequest, MT_ArtifactStateResponse,
      MT_HistoryRequest, MT_HistoryResponse, MT_QuarantineRequest, MT_QuarantineResponse,
      MT_ReleaseQuarantineRequest, MT_ReleaseQuarantineResponse, MT_RevokeRequest, MT_RevokeResponse,
      MT_RevokeEvidenceRequest, MT_RevokeEvidenceResponse, MT_SupersedeRequest, MT_SupersedeResponse,
      MT_RetireRequest, MT_RetireResponse, MT_SnapshotSaveRequest, MT_SnapshotSaveResponse,
      MT_ExplainRequest, MT_ExplainResponse, MT_Error, MT_Goodbye]"

definition is_valid_message_type :: "nat \<Rightarrow> bool" where
  "is_valid_message_type raw \<longleftrightarrow> raw \<in> set (map message_type_value valid_message_types)"

text \<open>\<open>static_cast<MessageType>\<close> of a value that was found valid.\<close>

definition message_type_of :: "nat \<Rightarrow> MessageType" where
  "message_type_of raw =
     (case find (\<lambda>t. message_type_value t = raw) valid_message_types of None \<Rightarrow> MT_Invalid | Some t \<Rightarrow> t)"

definition is_request_type :: "MessageType \<Rightarrow> bool" where
  "is_request_type t \<longleftrightarrow> t \<in> set [MT_HelloRequest, MT_RegisterArtifactRequest, MT_SubmitEvidenceRequest,
     MT_PromotionRequest, MT_EvaluateRequest, MT_ArtifactStateRequest, MT_HistoryRequest, MT_QuarantineRequest,
     MT_ReleaseQuarantineRequest, MT_RevokeRequest, MT_RevokeEvidenceRequest, MT_SupersedeRequest, MT_RetireRequest,
     MT_SnapshotSaveRequest, MT_ExplainRequest]"

section \<open>Frames\<close>

definition kMaxFrameBytes :: nat where "kMaxFrameBytes = 4 * 1024 * 1024"
definition kFrameMagic :: u32 where "kFrameMagic = 0x41504652"
definition kProtocolVersion :: u16 where "kProtocolVersion = 1"
definition kFrameHeaderSize :: nat where "kFrameHeaderSize = 4 + 2 + 2 + 4 + 4 + 16 + 16 + 16 + 8 + 16 + 16"
definition kFrameFooterSize :: nat where "kFrameFooterSize = kSha256DigestSize"
definition kFlagNone :: u32 where "kFlagNone = 0"
definition kFlagNonIdempotent :: u32 where "kFlagNonIdempotent = 1"

record Frame =
  fr_version :: u16
  fr_type :: MessageType
  fr_flags :: u32
  fr_request :: PromotionRequestId
  fr_correlation :: PromotionRequestId
  fr_coordinator :: CoordinatorId
  fr_epoch :: CoordinatorEpoch
  fr_worker :: WorkerId
  fr_boot :: WorkerBootId
  fr_payload :: bytes

definition empty_frame :: Frame where
  "empty_frame = \<lparr> fr_version = kProtocolVersion, fr_type = MT_Invalid, fr_flags = kFlagNone, fr_request = null_id,
     fr_correlation = null_id, fr_coordinator = null_id, fr_epoch = Counter 0, fr_worker = null_id,
     fr_boot = null_id, fr_payload = [] \<rparr>"

definition unknown_flags :: "u32 \<Rightarrow> bool" where
  "unknown_flags flags \<longleftrightarrow> and flags (not kFlagNonIdempotent) \<noteq> 0"

definition write_frame :: "Frame \<Rightarrow> bytes" where
  "write_frame f =
     store_u32 kFrameMagic @ store_u16 (fr_version f) @ store_u16 (of_nat (message_type_value (fr_type f)))
     @ store_u32 (fr_flags f) @ store_u32 (of_nat (length (fr_payload f))) @ write_identity (fr_request f)
     @ write_identity (fr_correlation f) @ write_identity (fr_coordinator f) @ write_counter (fr_epoch f)
     @ write_identity (fr_worker f) @ write_identity (fr_boot f) @ fr_payload f"

definition encode_frame :: "Frame \<Rightarrow> Status + bytes" where
  "encode_frame f =
     (if \<not> is_valid_message_type (message_type_value (fr_type f))
      then Inl (fail EC_ProtocolMalformed ''frame carries an unknown message type'')
      else if unknown_flags (fr_flags f)
      then Inl (fail EC_ProtocolMalformed ''frame carries unknown flag bits'')
      else if length (fr_payload f) > kMaxFrameBytes
      then Inl (fail EC_ProtocolOversized ''frame payload exceeds the configured bound'')
      else if id_invalid (fr_request f) \<and> id_invalid (fr_correlation f)
      then Inl (fail EC_ProtocolMalformed ''frame carries neither a request nor a correlation identity'')
      else if length (write_frame f) \<noteq> kFrameHeaderSize + length (fr_payload f)
      then Inl (fail EC_InternalError ''frame header size does not match the declared layout'')
      else Inr (write_frame f @ write_digest (sha256 (write_frame f))))"

definition read_message_type :: "MessageType reader" where
  "read_message_type =
     read_bind read_u16 (\<lambda>raw.
       if \<not> is_valid_message_type (unat raw)
       then read_fail (fail EC_ProtocolMalformed ''frame carries an unknown message type'')
       else read_return (message_type_of (unat raw)))"

definition read_frame :: "bytes \<Rightarrow> Frame reader" where
  "read_frame bytes =
     read_bind read_u32 (\<lambda>magic.
       if magic \<noteq> kFrameMagic
       then read_fail (fail EC_ProtocolMalformed ''frame does not begin with the expected magic'')
       else
     read_bind read_u16 (\<lambda>version.
       if version \<noteq> kProtocolVersion
       then read_fail (fail EC_ProtocolError
              (''frame protocol version '' @ digits_of_nat (unat version) @ '' is not supported''))
       else
     read_bind read_message_type (\<lambda>type.
     read_bind read_u32 (\<lambda>flags.
       if unknown_flags flags
       then read_fail (fail EC_ProtocolMalformed ''frame carries unknown flag bits'')
       else
     read_bind read_u32 (\<lambda>declared.
       if unat declared > kMaxFrameBytes
       then read_fail (fail EC_ProtocolOversized ''declared frame payload exceeds the configured bound'')
       else if kFrameHeaderSize + unat declared + kFrameFooterSize \<noteq> length bytes
       then read_fail (fail EC_ProtocolMalformed ''declared frame length does not match the received byte count'')
       else
     read_bind read_identity (\<lambda>request.
     read_bind read_identity (\<lambda>correlation.
       if id_invalid request \<and> id_invalid correlation
       then read_fail (fail EC_ProtocolMalformed ''frame carries neither a request nor a correlation identity'')
       else
     read_bind read_identity (\<lambda>coordinator.
     read_bind read_counter (\<lambda>epoch.
     read_bind read_identity (\<lambda>worker.
     read_bind read_identity (\<lambda>boot.
       if from_raw (drop (length bytes - kFrameFooterSize) bytes) \<noteq> sha256 (take (length bytes - kFrameFooterSize) bytes)
       then read_fail (fail EC_ProtocolMalformed ''frame footer digest does not match the frame content'')
       else
     read_bind (read_raw (unat declared)) (\<lambda>payload.
       let consumed = kFrameHeaderSize + unat declared in
       if consumed > length bytes \<or> length bytes - consumed \<noteq> kFrameFooterSize
       then read_fail (fail EC_ProtocolMalformed ''frame contains trailing bytes after its declared content'')
       else read_return \<lparr> fr_version = version, fr_type = type, fr_flags = flags, fr_request = request,
              fr_correlation = correlation, fr_coordinator = coordinator, fr_epoch = epoch, fr_worker = worker,
              fr_boot = boot, fr_payload = payload \<rparr>))))))))))))"

definition decode_frame :: "bytes \<Rightarrow> Status + Frame" where
  "decode_frame bytes =
     (if length bytes < kFrameHeaderSize + kFrameFooterSize
      then Inl (fail EC_ProtocolTruncated ''frame is shorter than the minimum frame size'')
      else map_sum id fst (read_frame bytes bytes))"

section \<open>The decoder accepts exactly the encoded frames\<close>

lemma valid_type_iff: "is_valid_message_type (message_type_value t) \<longleftrightarrow> t \<noteq> MT_Invalid"
  by (cases t) (simp_all add: is_valid_message_type_def valid_message_types_def)

lemma message_type_of_value: "message_type_of (message_type_value t) = t"
  by (cases t) (simp_all add: message_type_of_def valid_message_types_def)

lemma message_type_value_of: "is_valid_message_type n \<Longrightarrow> message_type_value (message_type_of n) = n"
  by (auto simp: is_valid_message_type_def message_type_of_value)

lemma message_type_value_small: "message_type_value t < 2 ^ 16"
  by (cases t) simp_all

abbreviation write_message_type :: "MessageType \<Rightarrow> bytes" where
  "write_message_type t \<equiv> store_u16 (of_nat (message_type_value t))"

interpretation message_type_codec: codec write_message_type read_message_type "\<lambda>t. t \<noteq> MT_Invalid"
proof (rule codecI)
  have unat_value: "unat (of_nat (message_type_value t) :: u16) = message_type_value t" for t
    using message_type_value_small [of t] by (simp add: unat_of_nat)
  have word_of: "of_nat (message_type_value (message_type_of (unat w))) = w" if "is_valid_message_type (unat w)" for w :: u16
    using message_type_value_of [OF that] by simp
  show "read_message_type region = Inr (t, rest) \<longleftrightarrow> t \<noteq> MT_Invalid \<and> region = write_message_type t @ rest" for region t rest
  proof -
    have "read_message_type region = Inr (t, rest) \<longleftrightarrow>
        (\<exists>w :: u16. is_valid_message_type (unat w) \<and> t = message_type_of (unat w) \<and> region = store_u16 w @ rest)"
      by (auto simp: read_message_type_def wire_iffs)
    also have "\<dots> \<longleftrightarrow> t \<noteq> MT_Invalid \<and> region = write_message_type t @ rest"
      by (metis unat_value word_of valid_type_iff message_type_of_value message_type_value_of)
    finally show ?thesis .
  qed
qed

definition frame_fits :: "Frame \<Rightarrow> bool" where
  "frame_fits f \<longleftrightarrow>
     fr_type f \<noteq> MT_Invalid \<and> \<not> unknown_flags (fr_flags f) \<and> length (fr_payload f) \<le> kMaxFrameBytes
     \<and> \<not> (id_invalid (fr_request f) \<and> id_invalid (fr_correlation f))"

definition sealed_frame :: "Frame \<Rightarrow> bytes" where
  "sealed_frame f = write_frame f @ write_digest (sha256 (write_frame f))"

lemma length_write_frame: "length (write_frame f) = kFrameHeaderSize + length (fr_payload f)"
  by (simp add: write_frame_def write_identity_def write_counter_def kFrameHeaderSize_def)

lemma encode_frame_iff: "encode_frame f = Inr bytes \<longleftrightarrow> frame_fits f \<and> bytes = sealed_frame f"
  by (auto simp: encode_frame_def frame_fits_def sealed_frame_def valid_type_iff length_write_frame)

lemma length_sealed_frame: "length (sealed_frame f) = kFrameHeaderSize + length (fr_payload f) + kFrameFooterSize"
  by (simp add: sealed_frame_def length_write_frame write_digest_def kFrameFooterSize_def kSha256DigestSize_def)

lemma sealed_footer:
  "from_raw (drop (length (sealed_frame f) - kFrameFooterSize) (sealed_frame f)) =
   sha256 (take (length (sealed_frame f) - kFrameFooterSize) (sealed_frame f))"
proof -
  have "length (sealed_frame f) - kFrameFooterSize = length (write_frame f)"
    by (simp add: length_sealed_frame length_write_frame)
  moreover have "from_raw (write_digest (sha256 (write_frame f))) = sha256 (write_frame f)"
    by (cases "sha256 (write_frame f)") (use length_sha256 [of "write_frame f"] in
        \<open>simp add: from_raw_def write_digest_def kSha256DigestSize_def\<close>)
  ultimately show ?thesis by (simp add: sealed_frame_def)
qed

lemma read_frame_sealed:
  assumes "frame_fits f" "fr_version f = kProtocolVersion"
  shows "read_frame (sealed_frame f) (sealed_frame f) = Inr (f, write_digest (sha256 (write_frame f)))"
proof -
  have size: "length (fr_payload f) < 2 ^ 32" "length (fr_payload f) \<le> kMaxFrameBytes"
    using assms(1) by (simp_all add: frame_fits_def kMaxFrameBytes_def)
  have raw: "read_raw (length (fr_payload f)) (fr_payload f @ rest) = Inr (fr_payload f, rest)" for rest
    by (simp add: read_raw_iff)
  have "read_frame (sealed_frame f) (write_frame f @ rest) = Inr (f, rest)" for rest
    using assms size length_sealed_frame [of f] sealed_footer [of f] raw
    by (simp add: read_frame_def write_frame_def u32.decode_encode u16.decode_encode identity.decode_encode
        counter.decode_encode message_type_codec.decode_encode frame_fits_def unat_of_nat_u32 Let_def
        kProtocolVersion_def del: of_nat_numeral)
  then show ?thesis by (simp add: sealed_frame_def)
qed

lemma read_frame_only:
  assumes "read_frame bytes bytes = Inr (f, rest)"
  shows "frame_fits f \<and> fr_version f = kProtocolVersion \<and> bytes = sealed_frame f"
proof -
  from assms have fits: "frame_fits f" "fr_version f = kProtocolVersion" and bytes: "bytes = write_frame f @ rest"
    and size: "length bytes = kFrameHeaderSize + length (fr_payload f) + kFrameFooterSize"
    and footer: "from_raw (drop (length bytes - kFrameFooterSize) bytes) = sha256 (take (length bytes - kFrameFooterSize) bytes)"
    by (auto simp: read_frame_def wire_iffs message_type_codec.decode_iff read_raw_iff Let_def frame_fits_def write_frame_def
        split: if_splits)
  have len: "length rest = kFrameFooterSize" using size by (simp add: bytes length_write_frame)
  then have "from_raw rest = sha256 (write_frame f)" using footer by (simp add: bytes)
  then have "rest = write_digest (sha256 (write_frame f))"
    using len by (simp add: from_raw_def write_digest_def kFrameFooterSize_def) (metis Digest.sel)
  with fits bytes show ?thesis by (simp add: sealed_frame_def)
qed

lemma decode_frame_accepts:
  assumes "encode_frame f = Inr bytes" "fr_version f = kProtocolVersion"
  shows "decode_frame bytes = Inr f"
  using assms read_frame_sealed length_sealed_frame by (auto simp: encode_frame_iff decode_frame_def)

lemma decode_frame_only:
  assumes "decode_frame bytes = Inr f"
  shows "frame_fits f \<and> fr_version f = kProtocolVersion \<and> bytes = sealed_frame f"
proof -
  from assms obtain rest where "read_frame bytes bytes = Inr (f, rest)"
    by (cases "read_frame bytes bytes") (auto simp: decode_frame_def split: if_splits)
  then show ?thesis by (rule read_frame_only)
qed

text \<open>
  C28: The frame decoder accepts a byte sequence exactly when it is what the encoder produces for the frame it returns,
  and the frame has the current protocol version: an accepted frame has a known type, known flags, a bounded payload, a
  request or a correlation identity, exactly the declared length and a matching footer digest.
\<close>

theorem decode_frame_iff:
  "decode_frame bytes = Inr f \<longleftrightarrow> encode_frame f = Inr bytes \<and> fr_version f = kProtocolVersion"
  using decode_frame_only [of bytes f] decode_frame_accepts [of f bytes] by (auto simp: encode_frame_iff)

end
