(* ===== verification/Messages.thy ===== *)
theory Messages
  imports Protocol
begin

text \<open>
  The payloads of the protocol (second part of \<open>src/distributed/protocol.cpp\<close>).  \<open>write_\<close> and
  \<open>read_\<close> are the field sequences, \<open>encode_\<close> and \<open>decode_\<close> the functions of the
  program, which may refuse a payload and which demand that nothing follows it.  Locale \<open>message_codec\<close> is the
  contract between the two ends; it is interpreted for every payload.
\<close>

section \<open>The contract of a payload\<close>

text \<open>A payload fills its whole region.\<close>

definition read_whole :: "'a reader \<Rightarrow> bytes \<Rightarrow> Status + 'a" where
  "read_whole r region =
     (case r region of
        Inl e \<Rightarrow> Inl e
      | Inr (x, rest) \<Rightarrow> if status_failed (require_finished rest) then Inl (require_finished rest) else Inr x)"

lemma read_whole_iff: "read_whole r region = Inr x \<longleftrightarrow> r region = Inr (x, [])"
  by (auto simp: read_whole_def require_finished_def split: sum.splits)

locale message_codec =
  fixes encode :: "'a \<Rightarrow> Status + bytes" and decode :: "bytes \<Rightarrow> Status + 'a" and ok :: "'a \<Rightarrow> bool"
  assumes encoded: "ok x \<Longrightarrow> \<exists>payload. encode x = Inr payload"
    and decoded: "ok x \<Longrightarrow> encode x = Inr payload \<Longrightarrow> decode payload = Inr x"
begin

lemma delivered:
  assumes "ok x" "encode x = Inr payload" "encode_frame (f \<lparr> fr_payload := payload \<rparr>) = Inr wire"
    "fr_version f = kProtocolVersion"
  shows "decode_frame wire = Inr (f \<lparr> fr_payload := payload \<rparr>) \<and> decode payload = Inr x"
  using assms decoded by (simp add: decode_frame_accepts)

end

lemma message_of_roundtrip:
  assumes "roundtrip write read_payload ok"
  shows "message_codec (\<lambda>x. Inr (write x)) (read_whole read_payload) ok"
  using roundtrip.read_back [OF assms, where rest = "[]"] by unfold_locales (auto simp: read_whole_iff)

section \<open>Fields with checks of their own\<close>

definition kMaxProvenanceList :: nat where "kMaxProvenanceList = 32"
definition kMaxDependencyList :: nat where "kMaxDependencyList = 32"
definition kMaxHistoryRecords :: nat where "kMaxHistoryRecords = 4096"

definition read_hello_version :: "u16 reader" where
  "read_hello_version =
     read_bind read_u16 (\<lambda>version.
       if version \<noteq> kProtocolVersion
       then read_fail (fail EC_ProtocolError ''peer speaks an unsupported protocol version'')
       else read_return version)"

definition read_registered_kind :: "ArtifactKind reader" where
  "read_registered_kind = read_enum artifact_kinds is_valid_artifact_kind
     (fail EC_InvalidEnum ''artifact registration carries an unknown artifact class'')"

definition read_submitted_type :: "EvidenceType reader" where
  "read_submitted_type =
     read_bind read_u8 (\<lambda>raw.
       if \<not> is_valid_evidence_type (unat raw)
       then read_fail (fail EC_InvalidEnum ''evidence submission carries an unknown evidence class'')
       else read_return (EvidenceType raw))"

definition read_submitted_result :: "EvidenceResult reader" where
  "read_submitted_result = read_enum evidence_results is_valid_evidence_result
     (fail EC_InvalidEnum ''evidence submission carries an unknown result class'')"

definition read_confidence :: "u32 reader" where
  "read_confidence =
     read_bind read_u32 (\<lambda>confidence.
       if confidence > 1000
       then read_fail (fail EC_InvalidArgument ''evidence confidence exceeds the documented range'')
       else read_return confidence)"

text \<open>The probes that share the payload of a promotion request carry no stage.\<close>

definition read_requested_stage :: "Stage reader" where
  "read_requested_stage = read_enum all_stages (\<lambda>raw. \<not> raw > kStageMax)
     (fail EC_InvalidStage ''promotion request carries an unknown lifecycle stage'')"

definition read_result_outcome :: "string \<Rightarrow> PromotionOutcome reader" where
  "read_result_outcome malformed = read_enum promotion_outcomes is_valid_promotion_outcome (fail EC_InvalidEnum malformed)"

definition read_status_code :: "string \<Rightarrow> ErrorCode reader" where
  "read_status_code malformed =
     read_bind read_u16 (\<lambda>raw.
       if unat raw > error_code_value EC_InvariantViolation then read_fail (fail EC_ProtocolMalformed malformed)
       else read_return (error_codes ! unat raw))"

lemma hello_version_iff:
  "read_hello_version region = Inr (v, rest) \<longleftrightarrow> v = kProtocolVersion \<and> region = store_u16 v @ rest"
  by (auto simp: read_hello_version_def wire_iffs)

lemma submitted_type_iff:
  "read_submitted_type region = Inr (t, rest) \<longleftrightarrow> evidence_type_valid t \<and> region = write_evidence_type t @ rest"
  by (cases t) (auto simp: read_submitted_type_def write_evidence_type_def wire_iffs)

lemma confidence_iff:
  "read_confidence region = Inr (c, rest) \<longleftrightarrow> \<not> c > 1000 \<and> region = store_u32 c @ rest"
  by (auto simp: read_confidence_def wire_iffs)

interpretation registered_kind: codec write_kind read_registered_kind "\<lambda>k. k \<noteq> AK_Invalid"
  by (rule enum_codec [OF byte_enumI [OF kinds.enumeration_axioms enum_values(2)] read_registered_kind_def
        valid_artifact_kind_iff]) (simp_all add: enum_ranges)

interpretation submitted_result: codec write_evidence_result read_submitted_result any
proof (rule enum_codec [OF byte_enumI [OF enum_tables(2) value_tables(2)] read_submitted_result_def])
  show "is_valid_evidence_result (evidence_result_value x) \<longleftrightarrow> True" for x
    by (cases x) (simp_all add: is_valid_evidence_result_def)
qed (auto simp: enum_ranges)

interpretation requested_stage: codec write_stage read_requested_stage any
proof (rule enum_codec [OF byte_enumI [OF stages.enumeration_axioms enum_values(1)] read_requested_stage_def])
  show "(\<not> stage_value x > kStageMax) \<longleftrightarrow> True" for x
    by (cases x) (simp_all add: kStageMax_def)
qed (auto simp: enum_ranges)

interpretation result_outcome: codec write_outcome "read_result_outcome malformed" "\<lambda>x. x \<noteq> PO_Invalid" for malformed
  by (rule enum_codec [OF byte_enumI [OF outcomes.enumeration_axioms enum_values(4)] read_result_outcome_def
        outcome_valid_iff]) (simp_all add: enum_ranges)

interpretation status_code_codec: codec write_error_code "read_status_code malformed" any for malformed
proof (rule codecI)
  show "read_status_code malformed region = Inr (x, rest) \<longleftrightarrow> True \<and> region = write_error_code x @ rest" for region x rest
    using error_code_codec.decode_iff [of region x rest]
    by (auto simp: read_status_code_def read_error_code_def wire_iffs)
qed

lemmas message_iffs = hello_version_iff submitted_type_iff confidence_iff registered_kind.decode_iff
  submitted_result.decode_iff requested_stage.decode_iff result_outcome.decode_iff status_code_codec.decode_iff
  artifact_codec.decode_iff codec.decode_iff [OF identity.list_codec] codec.decode_iff [OF text_codec.list_codec]
  codec.decode_iff [OF promotion_record_codec.list_codec]

section \<open>Requests\<close>

record HelloPayload =
  hp_protocol_version :: u16
  hp_coordinator :: CoordinatorId
  hp_epoch :: CoordinatorEpoch
  hp_max_frame_bytes :: u64
  hp_pending_promotions :: u64
  hp_policy_digest :: Digest
  hp_policy_generation :: PolicyGeneration

definition write_hello :: "HelloPayload \<Rightarrow> bytes" where
  "write_hello p =
     store_u16 (hp_protocol_version p) @ write_identity (hp_coordinator p)
     @ write_counter (hp_epoch p) @ store_u64 (hp_max_frame_bytes p)
     @ store_u64 (hp_pending_promotions p) @ write_digest (hp_policy_digest p)
     @ write_counter (hp_policy_generation p)"

definition read_hello :: "HelloPayload reader" where
  "read_hello =
     read_bind read_hello_version (\<lambda>protocol_version0.
     read_bind read_identity (\<lambda>coordinator0.
     read_bind read_counter (\<lambda>epoch0.
     read_bind read_u64 (\<lambda>max_frame_bytes0.
     read_bind read_u64 (\<lambda>pending_promotions0.
     read_bind read_digest (\<lambda>policy_digest0.
     read_bind read_counter (\<lambda>policy_generation0.
     read_return \<lparr> hp_protocol_version = protocol_version0, hp_coordinator = coordinator0, hp_epoch = epoch0,
        hp_max_frame_bytes = max_frame_bytes0, hp_pending_promotions = pending_promotions0,
        hp_policy_digest = policy_digest0, hp_policy_generation = policy_generation0 \<rparr>)))))))"

definition hello_fits :: "HelloPayload \<Rightarrow> bool" where
  "hello_fits p \<longleftrightarrow>
     hp_protocol_version p = kProtocolVersion \<and> digest_sized (hp_policy_digest p)"

interpretation hello_codec: codec write_hello read_hello hello_fits
proof (rule codecI)
  show "read_hello region = Inr (x, rest) \<longleftrightarrow> hello_fits x \<and> region = write_hello x @ rest" for region x rest
    by (cases x)
      (auto simp: read_hello_def write_hello_def hello_fits_def Let_def wire_iffs message_iffs)
qed

definition encode_hello :: "HelloPayload \<Rightarrow> Status + bytes" where
  "encode_hello p = Inr (write_hello p)"

definition decode_hello :: "bytes \<Rightarrow> Status + HelloPayload" where
  "decode_hello = read_whole read_hello"

record RegisterArtifactPayload =
  ra_artifact :: ArtifactId
  ra_kind :: ArtifactKind
  ra_digest :: Digest
  ra_size_bytes :: u64
  ra_name :: string
  ra_provenance :: "ProvenanceRef list"
  ra_dependencies :: "string list"

definition write_register_artifact :: "RegisterArtifactPayload \<Rightarrow> bytes" where
  "write_register_artifact p =
     write_identity (ra_artifact p) @ write_kind (ra_kind p) @ write_digest (ra_digest p)
     @ store_u64 (ra_size_bytes p) @ write_text kMaxNameLength (ra_name p)
     @ write_list write_identity (ra_provenance p)
     @ write_list (write_text kMaxNameLength) (ra_dependencies p)"

definition read_register_artifact :: "RegisterArtifactPayload reader" where
  "read_register_artifact =
     read_bind read_identity (\<lambda>artifact0.
     read_bind read_registered_kind (\<lambda>kind0.
     read_bind read_digest (\<lambda>digest0.
     read_bind read_u64 (\<lambda>size_bytes0.
     read_bind (read_text kMaxNameLength) (\<lambda>name0.
     read_bind (read_list kMaxProvenanceList read_identity) (\<lambda>provenance0.
     read_bind (read_list kMaxDependencyList (read_text kMaxNameLength)) (\<lambda>dependencies0.
     read_return \<lparr> ra_artifact = artifact0, ra_kind = kind0, ra_digest = digest0, ra_size_bytes = size_bytes0,
        ra_name = name0, ra_provenance = provenance0, ra_dependencies = dependencies0 \<rparr>)))))))"

definition register_artifact_fits :: "RegisterArtifactPayload \<Rightarrow> bool" where
  "register_artifact_fits p \<longleftrightarrow>
     ra_kind p \<noteq> AK_Invalid \<and> digest_sized (ra_digest p)
     \<and> text_fits kMaxNameLength (ra_name p)
     \<and> list_fits kMaxProvenanceList any (ra_provenance p)
     \<and> list_fits kMaxDependencyList (text_fits kMaxNameLength) (ra_dependencies p)"

interpretation register_artifact_codec: codec write_register_artifact read_register_artifact register_artifact_fits
proof (rule codecI)
  show "read_register_artifact region = Inr (x, rest) \<longleftrightarrow> register_artifact_fits x \<and> region = write_register_artifact x @ rest" for region x rest
    by (cases x)
      (auto simp: read_register_artifact_def write_register_artifact_def register_artifact_fits_def Let_def wire_iffs message_iffs)
qed

definition encode_register_artifact :: "RegisterArtifactPayload \<Rightarrow> Status + bytes" where
  "encode_register_artifact p =
     (if length (ra_name p) > kMaxNameLength \<or> \<not> is_valid_name (ra_name p)
      then Inl (fail EC_InvalidName ''artifact name is empty, too long, or malformed'')
      else Inr (write_register_artifact p))"

definition decode_register_artifact :: "bytes \<Rightarrow> Status + RegisterArtifactPayload" where
  "decode_register_artifact = read_whole read_register_artifact"

text \<open>The evidence identity of a submission is never transmitted.\<close>

record EvidencePayload =
  ep_evidence :: EvidenceId
  ep_type :: EvidenceType
  ep_produced_unix_millis :: u64
  ep_custom_type :: string
  ep_subject :: ArtifactId
  ep_subject_digest :: Digest
  ep_subject_revision :: ArtifactRevision
  ep_result :: EvidenceResult
  ep_confidence_milli :: u32
  ep_measurement :: string
  ep_detail :: string
  ep_payload_digest :: Digest
  ep_provenance :: ProvenanceRef
  ep_has_validity_window :: bool
  ep_valid_from_unix_millis :: u64
  ep_valid_until_unix_millis :: u64
  ep_environment :: string

definition write_evidence_submission :: "EvidencePayload \<Rightarrow> bytes" where
  "write_evidence_submission p =
     write_evidence_type (ep_type p) @ write_text kMaxNameLength (ep_custom_type p)
     @ write_identity (ep_subject p) @ write_digest (ep_subject_digest p)
     @ write_identity (ep_subject_revision p) @ write_evidence_result (ep_result p)
     @ store_u32 (ep_confidence_milli p) @ write_text kMaxTextLength (ep_measurement p)
     @ write_text kMaxTextLength (ep_detail p) @ write_digest (ep_payload_digest p)
     @ write_identity (ep_provenance p) @ store_u64 (ep_produced_unix_millis p)
     @ write_boolean (ep_has_validity_window p) @ store_u64 (ep_valid_from_unix_millis p)
     @ store_u64 (ep_valid_until_unix_millis p) @ write_text kMaxTextLength (ep_environment p)"

definition read_evidence_submission :: "EvidencePayload reader" where
  "read_evidence_submission =
     read_bind read_submitted_type (\<lambda>type0.
     read_bind (read_text kMaxNameLength) (\<lambda>custom_type0.
     read_bind read_identity (\<lambda>subject0.
     read_bind read_digest (\<lambda>subject_digest0.
     read_bind read_identity (\<lambda>subject_revision0.
     read_bind read_submitted_result (\<lambda>result0.
     read_bind read_confidence (\<lambda>confidence_milli0.
     read_bind (read_text kMaxTextLength) (\<lambda>measurement0.
     read_bind (read_text kMaxTextLength) (\<lambda>detail0.
     read_bind read_digest (\<lambda>payload_digest0.
     read_bind read_identity (\<lambda>provenance0.
     read_bind read_u64 (\<lambda>produced_unix_millis0.
     read_bind read_boolean (\<lambda>has_validity_window0.
     read_bind read_u64 (\<lambda>valid_from_unix_millis0.
     read_bind read_u64 (\<lambda>valid_until_unix_millis0.
     read_bind (read_text kMaxTextLength) (\<lambda>environment0.
     read_return \<lparr> ep_evidence = null_id, ep_type = type0, ep_produced_unix_millis = produced_unix_millis0,
        ep_custom_type = custom_type0, ep_subject = subject0, ep_subject_digest = subject_digest0,
        ep_subject_revision = subject_revision0, ep_result = result0,
        ep_confidence_milli = confidence_milli0, ep_measurement = measurement0,
        ep_detail = detail0, ep_payload_digest = payload_digest0, ep_provenance = provenance0,
        ep_has_validity_window = has_validity_window0,
        ep_valid_from_unix_millis = valid_from_unix_millis0,
        ep_valid_until_unix_millis = valid_until_unix_millis0, ep_environment = environment0 \<rparr>))))))))))))))))"

definition evidence_submission_fits :: "EvidencePayload \<Rightarrow> bool" where
  "evidence_submission_fits p \<longleftrightarrow>
     ep_evidence p = null_id \<and> evidence_type_valid (ep_type p) \<and> text_fits kMaxNameLength (ep_custom_type p)
     \<and> digest_sized (ep_subject_digest p) \<and> \<not> ep_confidence_milli p > 1000
     \<and> text_fits kMaxTextLength (ep_measurement p)
     \<and> text_fits kMaxTextLength (ep_detail p) \<and> digest_sized (ep_payload_digest p)
     \<and> text_fits kMaxTextLength (ep_environment p)"

interpretation evidence_submission_codec: codec write_evidence_submission read_evidence_submission evidence_submission_fits
proof (rule codecI)
  show "read_evidence_submission region = Inr (x, rest) \<longleftrightarrow> evidence_submission_fits x \<and> region = write_evidence_submission x @ rest" for region x rest
    by (cases x)
      (auto simp: read_evidence_submission_def write_evidence_submission_def evidence_submission_fits_def Let_def wire_iffs message_iffs)
qed

definition encode_evidence_submission :: "EvidencePayload \<Rightarrow> Status + bytes" where
  "encode_evidence_submission p = Inr (write_evidence_submission p)"

definition decode_evidence_submission :: "bytes \<Rightarrow> Status + EvidencePayload" where
  "decode_evidence_submission = read_whole read_evidence_submission"

definition encode_evidence_record :: "EvidenceRecord \<Rightarrow> Status + bytes" where
  "encode_evidence_record r = Inr (write_evidence r)"

definition decode_evidence_record :: "bytes \<Rightarrow> Status + EvidenceRecord" where
  "decode_evidence_record = read_whole read_evidence"

record PromotionPayload =
  pq_artifact :: ArtifactId
  pq_revision :: ArtifactRevision
  pq_digest :: Digest
  pq_requested_stage :: Stage
  pq_commit_immediately :: bool
  pq_plan_digest :: Digest

definition write_promotion_request :: "PromotionPayload \<Rightarrow> bytes" where
  "write_promotion_request p =
     write_identity (pq_artifact p) @ write_identity (pq_revision p) @ write_digest (pq_digest p)
     @ write_stage (pq_requested_stage p) @ write_boolean (pq_commit_immediately p)
     @ write_digest (pq_plan_digest p)"

definition read_promotion_request :: "PromotionPayload reader" where
  "read_promotion_request =
     read_bind read_identity (\<lambda>artifact0.
     read_bind read_identity (\<lambda>revision0.
     read_bind read_digest (\<lambda>digest0.
     read_bind read_requested_stage (\<lambda>requested_stage0.
     read_bind read_boolean (\<lambda>commit_immediately0.
     read_bind read_digest (\<lambda>plan_digest0.
     read_return \<lparr> pq_artifact = artifact0, pq_revision = revision0, pq_digest = digest0,
        pq_requested_stage = requested_stage0, pq_commit_immediately = commit_immediately0,
        pq_plan_digest = plan_digest0 \<rparr>))))))"

definition promotion_request_fits :: "PromotionPayload \<Rightarrow> bool" where
  "promotion_request_fits p \<longleftrightarrow>
     digest_sized (pq_digest p) \<and> digest_sized (pq_plan_digest p)"

interpretation promotion_request_codec: codec write_promotion_request read_promotion_request promotion_request_fits
proof (rule codecI)
  show "read_promotion_request region = Inr (x, rest) \<longleftrightarrow> promotion_request_fits x \<and> region = write_promotion_request x @ rest" for region x rest
    by (cases x)
      (auto simp: read_promotion_request_def write_promotion_request_def promotion_request_fits_def Let_def wire_iffs message_iffs)
qed

definition encode_promotion_request :: "PromotionPayload \<Rightarrow> Status + bytes" where
  "encode_promotion_request p = Inr (write_promotion_request p)"

definition decode_promotion_request :: "bytes \<Rightarrow> Status + PromotionPayload" where
  "decode_promotion_request = read_whole read_promotion_request"

record TrustPayload =
  tp_artifact :: ArtifactId
  tp_successor :: ArtifactId
  tp_decision :: PromotionDecisionId
  tp_evidence :: EvidenceId
  tp_reason_class :: string
  tp_detail :: string

definition write_trust :: "TrustPayload \<Rightarrow> bytes" where
  "write_trust p =
     write_identity (tp_artifact p) @ write_identity (tp_successor p)
     @ write_identity (tp_decision p) @ write_identity (tp_evidence p)
     @ write_text kMaxNameLength (tp_reason_class p) @ write_text kMaxTextLength (tp_detail p)"

definition read_trust :: "TrustPayload reader" where
  "read_trust =
     read_bind read_identity (\<lambda>artifact0.
     read_bind read_identity (\<lambda>successor0.
     read_bind read_identity (\<lambda>decision0.
     read_bind read_identity (\<lambda>evidence0.
     read_bind (read_text kMaxNameLength) (\<lambda>reason_class0.
     read_bind (read_text kMaxTextLength) (\<lambda>detail0.
     read_return \<lparr> tp_artifact = artifact0, tp_successor = successor0, tp_decision = decision0,
        tp_evidence = evidence0, tp_reason_class = reason_class0, tp_detail = detail0 \<rparr>))))))"

definition trust_fits :: "TrustPayload \<Rightarrow> bool" where
  "trust_fits p \<longleftrightarrow>
     text_fits kMaxNameLength (tp_reason_class p) \<and> text_fits kMaxTextLength (tp_detail p)"

interpretation trust_codec: codec write_trust read_trust trust_fits
proof (rule codecI)
  show "read_trust region = Inr (x, rest) \<longleftrightarrow> trust_fits x \<and> region = write_trust x @ rest" for region x rest
    by (cases x)
      (auto simp: read_trust_def write_trust_def trust_fits_def Let_def wire_iffs message_iffs)
qed

definition encode_trust :: "TrustPayload \<Rightarrow> Status + bytes" where
  "encode_trust p = Inr (write_trust p)"

definition decode_trust :: "bytes \<Rightarrow> Status + TrustPayload" where
  "decode_trust = read_whole read_trust"

section \<open>Responses\<close>

record ArtifactStatePayload =
  ap_artifact :: ArtifactId
  ap_record :: ArtifactRecord
  ap_evidence_count :: u32
  ap_promotion_record_count :: u32
  ap_has_active_reservation :: bool

definition write_artifact_state :: "ArtifactStatePayload \<Rightarrow> bytes" where
  "write_artifact_state p =
     write_identity (ap_artifact p) @ write_artifact (ap_record p)
     @ store_u32 (ap_evidence_count p) @ store_u32 (ap_promotion_record_count p)
     @ write_boolean (ap_has_active_reservation p)"

definition read_artifact_state :: "ArtifactStatePayload reader" where
  "read_artifact_state =
     read_bind read_identity (\<lambda>artifact0.
     read_bind read_artifact (\<lambda>record0.
     read_bind read_u32 (\<lambda>evidence_count0.
     read_bind read_u32 (\<lambda>promotion_record_count0.
     read_bind read_boolean (\<lambda>has_active_reservation0.
     read_return \<lparr> ap_artifact = artifact0, ap_record = record0, ap_evidence_count = evidence_count0,
        ap_promotion_record_count = promotion_record_count0,
        ap_has_active_reservation = has_active_reservation0 \<rparr>)))))"

definition artifact_state_fits :: "ArtifactStatePayload \<Rightarrow> bool" where
  "artifact_state_fits p \<longleftrightarrow>
     artifact_fits (ap_record p)"

interpretation artifact_state_codec: codec write_artifact_state read_artifact_state artifact_state_fits
proof (rule codecI)
  show "read_artifact_state region = Inr (x, rest) \<longleftrightarrow> artifact_state_fits x \<and> region = write_artifact_state x @ rest" for region x rest
    by (cases x)
      (auto simp: read_artifact_state_def write_artifact_state_def artifact_state_fits_def Let_def wire_iffs message_iffs)
qed

definition encode_artifact_state :: "ArtifactStatePayload \<Rightarrow> Status + bytes" where
  "encode_artifact_state p = Inr (write_artifact_state p)"

definition decode_artifact_state :: "bytes \<Rightarrow> Status + ArtifactStatePayload" where
  "decode_artifact_state = read_whole read_artifact_state"

record HistoryPayload =
  hy_artifact :: ArtifactId
  hy_records :: "PromotionRecord list"

definition write_history :: "HistoryPayload \<Rightarrow> bytes" where
  "write_history p =
     write_identity (hy_artifact p) @ write_list write_promotion_record (hy_records p)"

definition read_history :: "HistoryPayload reader" where
  "read_history =
     read_bind read_identity (\<lambda>artifact0.
     read_bind (read_list kMaxHistoryRecords read_promotion_record) (\<lambda>records0.
     read_return \<lparr> hy_artifact = artifact0, hy_records = records0 \<rparr>))"

definition history_fits :: "HistoryPayload \<Rightarrow> bool" where
  "history_fits p \<longleftrightarrow>
     list_fits kMaxHistoryRecords promotion_record_fits (hy_records p)"

interpretation history_codec: codec write_history read_history history_fits
proof (rule codecI)
  show "read_history region = Inr (x, rest) \<longleftrightarrow> history_fits x \<and> region = write_history x @ rest" for region x rest
    by (cases x)
      (auto simp: read_history_def write_history_def history_fits_def Let_def wire_iffs message_iffs)
qed

definition encode_history :: "HistoryPayload \<Rightarrow> Status + bytes" where
  "encode_history p =
     (if length (hy_records p) > kMaxHistoryRecords
      then Inl (fail EC_PayloadTooLarge ''history response exceeds the configured record bound'')
      else Inr (write_history p))"

definition decode_history :: "bytes \<Rightarrow> Status + HistoryPayload" where
  "decode_history = read_whole read_history"

text \<open>\<open>has_plan\<close>, \<open>has_record\<close> and \<open>has_artifact\<close> with the value they guard are options.\<close>

definition write_optional :: "('a \<Rightarrow> bytes) \<Rightarrow> 'a option \<Rightarrow> bytes" where
  "write_optional write x = write_boolean (x \<noteq> None) @ (case x of None \<Rightarrow> [] | Some v \<Rightarrow> write v)"

definition read_optional :: "'a reader \<Rightarrow> 'a option reader" where
  "read_optional r =
     read_bind read_boolean (\<lambda>present.
       if present then read_bind r (\<lambda>v. read_return (Some v)) else read_return None)"

lemma optional_read_back:
  assumes "roundtrip write r ok" "\<forall>v. x = Some v \<longrightarrow> ok v"
  shows "read_optional r (write_optional write x @ rest) = Inr (x, rest)"
  using assms(2) roundtrip.read_back [OF assms(1)]
  by (cases x) (simp_all add: read_optional_def write_optional_def boolean.decode_encode read_bind_def)

record PromotionResultPayload =
  ps_outcome :: PromotionOutcome
  ps_decision :: PromotionDecision
  ps_plan :: "PromotionPlan option"
  ps_record :: "PromotionRecord option"

definition write_promotion_result :: "PromotionResultPayload \<Rightarrow> bytes" where
  "write_promotion_result p =
     write_outcome (ps_outcome p) @ write_decision (ps_decision p) @ write_optional write_plan (ps_plan p)
     @ write_optional write_promotion_record (ps_record p)"

definition read_promotion_result :: "PromotionResultPayload reader" where
  "read_promotion_result =
     read_bind (read_result_outcome ''promotion response carries an unknown outcome'') (\<lambda>outcome.
     read_bind read_decision (\<lambda>decision.
     read_bind (read_optional read_plan) (\<lambda>plan.
     read_bind (read_optional read_promotion_record) (\<lambda>record.
     read_return \<lparr> ps_outcome = outcome, ps_decision = decision, ps_plan = plan, ps_record = record \<rparr>))))"

definition promotion_result_fits :: "PromotionResultPayload \<Rightarrow> bool" where
  "promotion_result_fits p \<longleftrightarrow>
     ps_outcome p \<noteq> PO_Invalid \<and> decision_fits (ps_decision p) \<and> (\<forall>v. ps_plan p = Some v \<longrightarrow> plan_fits v)
     \<and> (\<forall>v. ps_record p = Some v \<longrightarrow> promotion_record_fits v)"

interpretation promotion_result_roundtrip: roundtrip write_promotion_result read_promotion_result promotion_result_fits
proof
  show "read_promotion_result (write_promotion_result p @ rest) = Inr (p, rest)" if "promotion_result_fits p" for p rest
    using that
    by (simp add: read_promotion_result_def write_promotion_result_def promotion_result_fits_def
        result_outcome.decode_encode decision_roundtrip.read_back optional_read_back [OF plan_codec.roundtrip_axioms]
        optional_read_back [OF promotion_record_codec.roundtrip_axioms])
qed

definition encode_promotion_result :: "PromotionResultPayload \<Rightarrow> Status + bytes" where
  "encode_promotion_result p = Inr (write_promotion_result p)"

definition decode_promotion_result :: "bytes \<Rightarrow> Status + PromotionResultPayload" where
  "decode_promotion_result = read_whole read_promotion_result"

definition write_status :: "ErrorCode \<Rightarrow> string \<Rightarrow> bytes" where
  "write_status code message = write_error_code code @ write_text kMaxTextLength message"

definition encode_status :: "ErrorCode \<Rightarrow> string \<Rightarrow> Status + bytes" where
  "encode_status code message = Inr (write_status code message)"

definition read_status :: "Reason reader" where
  "read_status =
     read_bind (read_status_code ''error payload carries an unknown error code'') (\<lambda>code.
     read_bind (read_text kMaxTextLength) (\<lambda>message. read_return (make_reason code message [])))"

definition decode_status :: "bytes \<Rightarrow> Status + Reason" where
  "decode_status = read_whole read_status"

record ArtifactResultPayload =
  af_outcome :: PromotionOutcome
  af_artifact :: "ArtifactRecord option"
  af_reasons :: "Reason list"

definition read_result_reason :: "Reason reader" where
  "read_result_reason =
     read_bind (read_status_code ''reason carries an unknown error code'') (\<lambda>code.
     read_bind (read_text kMaxTextLength) (\<lambda>message.
     read_bind (read_text kMaxReferenceLength) (\<lambda>subject.
     read_return (make_reason code message subject))))"

definition result_reason_fits :: "Reason \<Rightarrow> bool" where
  "result_reason_fits r \<longleftrightarrow> length (reason_text r) \<le> kCapacity \<and> text_fits kMaxReferenceLength (reason_subject r)"

interpretation result_reason: roundtrip write_reason read_result_reason result_reason_fits
proof
  show "read_result_reason (write_reason r @ rest) = Inr (r, rest)" if "result_reason_fits r" for r rest
  proof -
    have "text_fits kMaxTextLength (reason_text r)"
      using that by (simp add: result_reason_fits_def text_fits_def kCapacity_def kMaxTextLength_def)
    with that show ?thesis
      by (cases r) (simp add: read_result_reason_def write_reason_def result_reason_fits_def
          status_code_codec.decode_encode text_codec.decode_encode make_reason_def static_string_def)
  qed
qed

definition write_artifact_result :: "ArtifactResultPayload \<Rightarrow> bytes" where
  "write_artifact_result p =
     write_outcome (af_outcome p) @ write_optional write_artifact (af_artifact p)
     @ write_list write_reason (af_reasons p)"

definition read_artifact_result :: "ArtifactResultPayload reader" where
  "read_artifact_result =
     read_bind (read_result_outcome ''artifact result carries an unknown outcome'') (\<lambda>outcome.
     read_bind (read_optional read_artifact) (\<lambda>artifact.
     read_bind (read_list 32 read_result_reason) (\<lambda>reasons.
     read_return \<lparr> af_outcome = outcome, af_artifact = artifact, af_reasons = reasons \<rparr>)))"

definition artifact_result_fits :: "ArtifactResultPayload \<Rightarrow> bool" where
  "artifact_result_fits p \<longleftrightarrow>
     af_outcome p \<noteq> PO_Invalid \<and> (\<forall>v. af_artifact p = Some v \<longrightarrow> artifact_fits v)
     \<and> list_fits 32 result_reason_fits (af_reasons p)"

interpretation artifact_result_roundtrip: roundtrip write_artifact_result read_artifact_result artifact_result_fits
proof
  show "read_artifact_result (write_artifact_result p @ rest) = Inr (p, rest)" if "artifact_result_fits p" for p rest
    using that
    by (simp add: read_artifact_result_def write_artifact_result_def artifact_result_fits_def
        result_outcome.decode_encode optional_read_back [OF artifact_codec.roundtrip_axioms]
        result_reason.list_read_back)
qed

definition encode_artifact_result :: "ArtifactResultPayload \<Rightarrow> Status + bytes" where
  "encode_artifact_result p = Inr (write_artifact_result p)"

definition decode_artifact_result :: "bytes \<Rightarrow> Status + ArtifactResultPayload" where
  "decode_artifact_result = read_whole read_artifact_result"

section \<open>Every payload keeps the contract\<close>

interpretation hello_message: message_codec encode_hello decode_hello hello_fits
  unfolding encode_hello_def decode_hello_def by (rule message_of_roundtrip) (rule hello_codec.roundtrip_axioms)

interpretation register_message: message_codec encode_register_artifact decode_register_artifact
    "\<lambda>p. register_artifact_fits p \<and> is_valid_name (ra_name p)"
proof
  have "length (ra_name p) \<le> kMaxNameLength" if "register_artifact_fits p" for p
    using that by (simp add: register_artifact_fits_def text_fits_def)
  then show "\<exists>payload. encode_register_artifact p = Inr payload" if "register_artifact_fits p \<and> is_valid_name (ra_name p)" for p
    using that by (auto simp: encode_register_artifact_def not_less)
  show "decode_register_artifact payload = Inr p"
    if "register_artifact_fits p \<and> is_valid_name (ra_name p)" "encode_register_artifact p = Inr payload" for p payload
    using that register_artifact_codec.decode_encode [of p "[]"]
    by (auto simp: encode_register_artifact_def decode_register_artifact_def read_whole_iff split: if_splits)
qed

interpretation submission_message: message_codec encode_evidence_submission decode_evidence_submission evidence_submission_fits
  unfolding encode_evidence_submission_def decode_evidence_submission_def
  by (rule message_of_roundtrip) (rule evidence_submission_codec.roundtrip_axioms)

interpretation evidence_message: message_codec encode_evidence_record decode_evidence_record evidence_record_fits
  unfolding encode_evidence_record_def decode_evidence_record_def
  by (rule message_of_roundtrip) (rule evidence_codec.roundtrip_axioms)

interpretation promotion_message: message_codec encode_promotion_request decode_promotion_request promotion_request_fits
  unfolding encode_promotion_request_def decode_promotion_request_def
  by (rule message_of_roundtrip) (rule promotion_request_codec.roundtrip_axioms)

interpretation trust_message: message_codec encode_trust decode_trust trust_fits
  unfolding encode_trust_def decode_trust_def by (rule message_of_roundtrip) (rule trust_codec.roundtrip_axioms)

interpretation state_message: message_codec encode_artifact_state decode_artifact_state artifact_state_fits
  unfolding encode_artifact_state_def decode_artifact_state_def
  by (rule message_of_roundtrip) (rule artifact_state_codec.roundtrip_axioms)

interpretation history_message: message_codec encode_history decode_history history_fits
proof
  show "\<exists>payload. encode_history p = Inr payload" if "history_fits p" for p
    using that by (auto simp: encode_history_def history_fits_def list_fits_def)
  show "decode_history payload = Inr p" if "history_fits p" "encode_history p = Inr payload" for p payload
    using that history_codec.decode_encode [of p "[]"]
    by (auto simp: encode_history_def decode_history_def read_whole_iff split: if_splits)
qed

interpretation result_message: message_codec encode_promotion_result decode_promotion_result promotion_result_fits
  unfolding encode_promotion_result_def decode_promotion_result_def
  by (rule message_of_roundtrip) (rule promotion_result_roundtrip.roundtrip_axioms)

interpretation artifact_result_message: message_codec encode_artifact_result decode_artifact_result artifact_result_fits
  unfolding encode_artifact_result_def decode_artifact_result_def
  by (rule message_of_roundtrip) (rule artifact_result_roundtrip.roundtrip_axioms)

lemma status_read_back:
  assumes "length message \<le> kCapacity"
  shows "decode_status (write_status code message) = Inr (Reason code message [])"
proof -
  have "text_fits kMaxTextLength message"
    using assms by (simp add: text_fits_def kCapacity_def kMaxTextLength_def)
  then show ?thesis
    using assms text_codec.decode_encode [of kMaxTextLength message "[]"]
    by (simp add: decode_status_def read_whole_iff read_status_def write_status_def status_code_codec.decode_encode
        make_reason_def static_string_def)
qed

end
