(* ===== verification/Server.thy ===== *)
theory Server
  imports Messages Snapshot Coordinator_Invariant
begin

text \<open>
  The coordinator server (\<open>coordinator_server.hpp\<close>, \<open>src/distributed/coordinator_server.cpp\<close>): the
  request handlers, the per-connection loop over the received bytes, the worker boot registry, the durable snapshot
  and the start from it.  The server state holds the engine, the state file and the registry; a connection holds the
  request identities it has seen and whether its handshake is complete.

  What the operating system decides is an argument: the clock readings, the outcome of the atomic file replacement,
  whether the reply could be sent and whether the server is stopping.  Connections are served one frame at a time;
  sockets and threads are not modelled.
\<close>

section \<open>State\<close>

record server =
  sv_engine :: engine
  sv_state_path :: string
  sv_file :: "bytes option"
  sv_running :: bool
  sv_worker_boots :: "(WorkerId, WorkerBootId) omap"
  sv_stale_authority_rejections :: u64
  sv_duplicate_request_rejections :: u64
  sv_protocol_rejections :: u64

record connection =
  cn_seen_requests :: "PromotionRequestId list"
  cn_handshake_completed :: bool

definition new_connection :: connection where
  "new_connection = \<lparr> cn_seen_requests = [], cn_handshake_completed = False \<rparr>"

record environment =
  en_now :: u64
  en_later :: u64
  en_disk :: "nat \<Rightarrow> Status"
  en_save :: Status
  en_sent :: bool
  en_stopping :: bool

definition server_new :: "string \<Rightarrow> bytes option \<Rightarrow> EngineConfig \<Rightarrow> u64 \<Rightarrow> u64 \<Rightarrow> u64 \<Rightarrow> server" where
  "server_new state_path state_file cfg ticks1 ticks2 thread_hash =
     (let e = engine_new cfg (Counter 1) ticks1 ticks2 thread_hash in
      \<lparr> sv_engine = (if state_path = [] then e else set_change_listener True e), sv_state_path = state_path,
        sv_file = state_file, sv_running = False, sv_worker_boots = [], sv_stale_authority_rejections = 0,
        sv_duplicate_request_rejections = 0, sv_protocol_rejections = 0 \<rparr>)"

section \<open>Durable state\<close>

text \<open>\<open>StatePersistence::save\<close>: the file is replaced as a whole or not at all.\<close>

definition save_snapshot :: "Status \<Rightarrow> CoordinatorState \<Rightarrow> server \<Rightarrow> Status \<times> server" where
  "save_snapshot disk st sv =
     (if status_failed disk then (disk, sv) else (success, sv \<lparr> sv_file := Some (encode_snapshot st) \<rparr>))"

definition persist_now :: "Status \<Rightarrow> server \<Rightarrow> Status \<times> server" where
  "persist_now disk sv =
     (if sv_state_path sv = []
      then (fail EC_InvalidArgument ''no state path is configured for this coordinator'', sv)
      else save_snapshot disk (snapshot (sv_engine sv)) sv)"

text \<open>The change listener saves the state at every notification of an operation and drops the outcome: \<open>disk k\<close>
  is the outcome of the file replacement at the engine's \<open>k\<close>-th notification.\<close>

definition persist_notified :: "(nat \<Rightarrow> Status) \<Rightarrow> engine \<Rightarrow> server \<Rightarrow> server" where
  "persist_notified disk before sv =
     (let e = sv_engine sv in
      foldl (\<lambda>sv1 k. snd (save_snapshot (disk k) (snapshot (e \<lparr> state := notified e ! k \<rparr>)) sv1)) sv
        [length (notified before) ..< length (notified e)])"

definition with_engine :: "(nat \<Rightarrow> Status) \<Rightarrow> (engine \<Rightarrow> 'a \<times> engine) \<Rightarrow> server \<Rightarrow> 'a \<times> server" where
  "with_engine disk operate sv =
     (case operate (sv_engine sv) of
        (r, e) \<Rightarrow> (r, persist_notified disk (sv_engine sv) (sv \<lparr> sv_engine := e \<rparr>)))"

text \<open>\<open>read_file\<close>: what the operating system reports of the file, besides its content.\<close>

record read_outcomes =
  rd_sized :: bool
  rd_opened :: bool
  rd_count :: nat
  rd_bad :: bool

definition read_file :: "read_outcomes \<Rightarrow> bytes \<Rightarrow> string \<Rightarrow> Status + bytes" where
  "read_file os content path =
     (if \<not> rd_sized os
      then Inl (make_status EC_PersistenceIoError ''cannot determine the size of the state file'' path)
      else if length content > kMaxSnapshotBytes
      then Inl (make_status EC_PayloadTooLarge ''state file is larger than the supported snapshot bound'' path)
      else if \<not> rd_opened os
      then Inl (make_status EC_PersistenceIoError ''cannot open the state file for reading'' path)
      else if content \<noteq> [] \<and> rd_count os \<noteq> length content
      then Inl (make_status EC_PersistenceIoError ''state file was shorter than its reported size'' path)
      else if rd_bad os
      then Inl (make_status EC_PersistenceIoError ''read error while loading the state file'' path)
      else Inr content)"

definition load_snapshot :: "read_outcomes \<Rightarrow> bytes \<Rightarrow> string \<Rightarrow> Status + CoordinatorState" where
  "load_snapshot os content path =
     (case read_file os content path of Inl e \<Rightarrow> Inl e | Inr file_bytes \<Rightarrow> decode_snapshot file_bytes)"

section \<open>Starting and stopping\<close>

record start_outcomes =
  so_networking :: Status
  so_read :: read_outcomes
  so_disk :: "nat \<Rightarrow> Status"
  so_bound :: Status
  so_listening :: Status

text \<open>The part of \<open>start\<close> that takes the state file over.\<close>

definition restore_state :: "start_outcomes \<Rightarrow> server \<Rightarrow> (Status + unit) \<times> server" where
  "restore_state os sv =
     (case (if sv_state_path sv \<noteq> [] then sv_file sv else None) of
        None \<Rightarrow> (Inr (), sv)
      | Some content \<Rightarrow>
          (case load_snapshot (so_read os) content (sv_state_path sv) of
             Inl e \<Rightarrow> (Inl e, sv)
           | Inr loaded \<Rightarrow>
               (case with_engine (so_disk os) (install_state (loaded \<lparr> epoch := counter_next (epoch loaded) \<rparr>)) sv of
                  (installed, sv1) \<Rightarrow>
                    if status_failed installed then (Inl installed, sv1)
                    else (Inr (), snd (with_engine (so_disk os) recover_in_flight sv1)))))"

definition server_start :: "start_outcomes \<Rightarrow> server \<Rightarrow> Status \<times> server" where
  "server_start os sv =
     (if sv_running sv then (fail EC_Conflict ''the coordinator is already running'', sv)
      else if status_failed (so_networking os) then (so_networking os, sv)
      else case restore_state os sv of
        (Inl e, sv1) \<Rightarrow> (e, sv1)
      | (Inr _, sv1) \<Rightarrow>
          if status_failed (so_bound os) then (so_bound os, sv1)
          else if status_failed (so_listening os) then (so_listening os, sv1)
          else (success, sv1 \<lparr> sv_running := True \<rparr>))"

definition server_stop :: "Status \<Rightarrow> server \<Rightarrow> server" where
  "server_stop disk sv =
     (if \<not> sv_running sv then sv
      else
        let closed = sv \<lparr> sv_engine := close_admission (sv_engine sv), sv_running := False \<rparr> in
        if sv_state_path sv \<noteq> [] then snd (persist_now disk closed) else closed)"

section \<open>Worker boots\<close>

definition register_worker_boot :: "WorkerId \<Rightarrow> WorkerBootId \<Rightarrow> server \<Rightarrow> Status \<times> server" where
  "register_worker_boot worker boot sv =
     (if id_invalid worker \<or> id_invalid boot
      then (fail EC_InvalidIdentity ''worker identity and boot identity must both be present'', sv)
      else case om_find (sv_worker_boots sv) worker of
        Some registered \<Rightarrow>
          if boot = registered then (success, sv)
          else if boot < registered
          then (fail EC_StaleWorkerBoot
                 ''this worker boot identity is older than the incarnation already registered'', sv)
          else (success, sv \<lparr> sv_worker_boots := om_insert worker boot (sv_worker_boots sv) \<rparr>)
      | None \<Rightarrow> (success, sv \<lparr> sv_worker_boots := om_insert worker boot (sv_worker_boots sv) \<rparr>))"

section \<open>Request handlers\<close>

text \<open>A handler returns the status it fails with or the type and the payload of the response.\<close>

type_synonym reply = "Status + (MessageType \<times> bytes)"

definition stale_rejection :: "server \<Rightarrow> server" where
  "stale_rejection sv = sv \<lparr> sv_stale_authority_rejections := sv_stale_authority_rejections sv + 1 \<rparr>"

abbreviation server_authority :: "server \<Rightarrow> CoordinatorAuthority" where
  "server_authority sv \<equiv> authority_of (state (sv_engine sv))"

definition require_current_authority :: "Frame \<Rightarrow> server \<Rightarrow> Status \<times> server" where
  "require_current_authority f sv =
     (if \<not> admission_open (sv_engine sv)
      then (fail EC_ShuttingDown ''the coordinator is shutting down'', sv)
      else if fr_coordinator f \<noteq> ca_coordinator (server_authority sv) \<or> fr_epoch f \<noteq> ca_epoch (server_authority sv)
      then (fail EC_StaleCoordinatorEpoch ''request carries a stale coordinator identity or epoch'',
            stale_rejection sv)
      else (success, sv))"

definition with_authority :: "Frame \<Rightarrow> (server \<Rightarrow> reply \<times> server) \<Rightarrow> server \<Rightarrow> reply \<times> server" where
  "with_authority f handle sv =
     (case require_current_authority f sv of
        (st, sv1) \<Rightarrow> if status_failed st then (Inl st, sv1) else handle sv1)"

definition with_payload :: "Status + 'a \<Rightarrow> ('a \<Rightarrow> server \<Rightarrow> reply \<times> server) \<Rightarrow> server \<Rightarrow> reply \<times> server" where
  "with_payload decoded handle sv = (case decoded of Inl e \<Rightarrow> (Inl e, sv) | Inr p \<Rightarrow> handle p sv)"

definition answer :: "MessageType \<Rightarrow> Status + bytes \<Rightarrow> reply" where
  "answer type encoded = (case encoded of Inl e \<Rightarrow> Inl e | Inr payload \<Rightarrow> Inr (type, payload))"

text \<open>An engine operation that changes state, and the response made of its result and the state after it.\<close>

definition perform :: "(nat \<Rightarrow> Status) \<Rightarrow> (engine \<Rightarrow> 'a Result \<times> engine) \<Rightarrow> ('a \<Rightarrow> engine \<Rightarrow> reply) \<Rightarrow> server \<Rightarrow> reply \<times> server" where
  "perform disk operate respond sv =
     (case with_engine disk operate sv of
        (Inl e, sv1) \<Rightarrow> (Inl e, sv1)
      | (Inr r, sv1) \<Rightarrow> (respond r (sv_engine sv1), sv1))"

definition handle_hello :: "Frame \<Rightarrow> server \<Rightarrow> reply \<times> server" where
  "handle_hello f sv =
     (case register_worker_boot (fr_worker f) (fr_boot f) sv of
        (boot, sv1) \<Rightarrow>
          if status_failed boot then (Inl boot, stale_rejection sv1)
          else
            let copy = snapshot (sv_engine sv1) in
            (answer MT_HelloResponse (encode_hello
               \<lparr> hp_protocol_version = kProtocolVersion, hp_coordinator = ca_coordinator (server_authority sv),
                 hp_epoch = ca_epoch (server_authority sv), hp_max_frame_bytes = of_nat kMaxFrameBytes,
                 hp_pending_promotions = of_nat (length (pending copy)),
                 hp_policy_digest = active_policy_digest copy,
                 hp_policy_generation = active_policy_generation copy \<rparr>), sv1))"

definition ledger_provenance :: "ProvenanceRef \<Rightarrow> ProvenanceRecord" where
  "ledger_provenance reference = \<lparr> pv_reference = reference, pv_source = ''research-ledger'',
     pv_subject = ''ledger:'' @ id_to_string reference, pv_resolution = PR_Resolved \<rparr>"

definition registration_of :: "Frame \<Rightarrow> RegisterArtifactPayload \<Rightarrow> ArtifactRegistration" where
  "registration_of f p = \<lparr> rg_id = ra_artifact p, rg_kind = ra_kind p, rg_digest = ra_digest p,
     rg_size_bytes = ra_size_bytes p, rg_name = ra_name p,
     rg_producer = \<lparr> pi_worker = fr_worker f, pi_boot = fr_boot f \<rparr>,
     rg_provenance = map ledger_provenance (ra_provenance p), rg_dependencies = ra_dependencies p \<rparr>"

definition handle_register :: "environment \<Rightarrow> Frame \<Rightarrow> server \<Rightarrow> reply \<times> server" where
  "handle_register env f =
     with_authority f (with_payload (decode_register_artifact (fr_payload f)) (\<lambda>p.
       perform (en_disk env) (register_artifact (en_now env) (registration_of f p))
         (\<lambda>r _. answer MT_RegisterArtifactResponse (encode_artifact_result
            \<lparr> af_outcome = PO_PromotionCommitted, af_artifact = Some r, af_reasons = [] \<rparr>))))"

definition submission_of :: "Frame \<Rightarrow> EvidencePayload \<Rightarrow> EvidenceSubmission" where
  "submission_of f p = \<lparr> es_subject = ep_subject p, es_subject_digest = ep_subject_digest p,
     es_subject_revision = ep_subject_revision p, es_type = ep_type p, es_custom_type = ep_custom_type p,
     es_producer = \<lparr> pi_worker = fr_worker f, pi_boot = fr_boot f \<rparr>, es_result = ep_result p,
     es_confidence_milli = ep_confidence_milli p, es_measurement = ep_measurement p, es_detail = ep_detail p,
     es_payload_digest = ep_payload_digest p, es_provenance = ep_provenance p,
     es_produced_unix_millis = ep_produced_unix_millis p, es_has_validity_window = ep_has_validity_window p,
     es_valid_from_unix_millis = ep_valid_from_unix_millis p,
     es_valid_until_unix_millis = ep_valid_until_unix_millis p, es_environment = ep_environment p \<rparr>"

definition handle_submit :: "environment \<Rightarrow> Frame \<Rightarrow> server \<Rightarrow> reply \<times> server" where
  "handle_submit env f =
     with_authority f (with_payload (decode_evidence_submission (fr_payload f)) (\<lambda>p.
       perform (en_disk env) (submit_evidence (submission_of f p))
         (\<lambda>r _. answer MT_SubmitEvidenceResponse (encode_evidence_record r))))"

definition promotion_of :: "Frame \<Rightarrow> CoordinatorAuthority \<Rightarrow> PromotionPayload \<Rightarrow> PromotionRequest" where
  "promotion_of f authority p = \<lparr> rq_artifact = pq_artifact p, rq_expected_revision = pq_revision p,
     rq_expected_digest = pq_digest p, rq_requested_stage = pq_requested_stage p, rq_request = fr_request f,
     rq_attempt = Identity (high (fr_request f)) (low (fr_request f)), rq_authority = authority,
     rq_requester = \<lparr> pi_worker = fr_worker f, pi_boot = fr_boot f \<rparr> \<rparr>"

definition with_stage ::
  "Frame \<Rightarrow> (PromotionPayload \<Rightarrow> server \<Rightarrow> reply \<times> server) \<Rightarrow> PromotionPayload \<Rightarrow> server \<Rightarrow> reply \<times> server" where
  "with_stage f handle p sv =
     (if \<not> is_valid_stage_value (stage_value (pq_requested_stage p))
      then (Inl (make_status EC_InvalidStage ''promotion request names no destination stage''
             (id_to_string (fr_request f))), sv)
      else handle p sv)"

definition handle_evaluate :: "environment \<Rightarrow> Frame \<Rightarrow> server \<Rightarrow> reply \<times> server" where
  "handle_evaluate env f sv =
     with_authority f (with_payload (decode_promotion_request (fr_payload f)) (with_stage f (\<lambda>p.
       perform (en_disk env) (evaluate (en_now env) (promotion_of f (server_authority sv) p))
         (\<lambda>r _. answer MT_EvaluateResponse (encode_promotion_result
            \<lparr> ps_outcome = de_outcome (er_decision r), ps_decision = er_decision r, ps_plan = er_plan r,
              ps_record = None \<rparr>))))) sv"

definition handle_promote :: "environment \<Rightarrow> Frame \<Rightarrow> server \<Rightarrow> reply \<times> server" where
  "handle_promote env f sv =
     with_authority f (with_payload (decode_promotion_request (fr_payload f)) (with_stage f (\<lambda>p.
       perform (en_disk env) (promote (en_now env) (en_later env) (promotion_of f (server_authority sv) p))
         (\<lambda>r e. answer MT_PromotionResponse (encode_promotion_result
            \<lparr> ps_outcome = cr_outcome r, ps_decision = cr_decision r,
              ps_plan = (if id_valid (de_plan (cr_decision r)) then inspect_plan e (de_plan (cr_decision r)) else None),
              ps_record = cr_record r \<rparr>))))) sv"

definition handle_state :: "Frame \<Rightarrow> server \<Rightarrow> reply \<times> server" where
  "handle_state f =
     with_payload (decode_promotion_request (fr_payload f)) (\<lambda>p sv.
       case inspect_artifact (sv_engine sv) (pq_artifact p) of
         None \<Rightarrow> (Inl (fail EC_ArtifactNotFound ''artifact identity is not registered''), sv)
       | Some view \<Rightarrow>
           (answer MT_ArtifactStateResponse (encode_artifact_state
              \<lparr> ap_artifact = pq_artifact p, ap_record = av_artifact view,
                ap_evidence_count = of_nat (av_evidence_count view),
                ap_promotion_record_count = of_nat (av_promotion_record_count view),
                ap_has_active_reservation = av_has_active_reservation view \<rparr>), sv))"

definition handle_history :: "Frame \<Rightarrow> server \<Rightarrow> reply \<times> server" where
  "handle_history f =
     with_payload (decode_promotion_request (fr_payload f)) (\<lambda>p sv.
       (answer MT_HistoryResponse (encode_history
          \<lparr> hy_artifact = pq_artifact p, hy_records = promotion_history (sv_engine sv) (pq_artifact p) \<rparr>), sv))"

definition handle_explain :: "environment \<Rightarrow> Frame \<Rightarrow> server \<Rightarrow> reply \<times> server" where
  "handle_explain env f =
     with_payload (decode_promotion_request (fr_payload f)) (\<lambda>p sv.
       case explain (en_now env) (en_later env) (sv_engine sv) (pq_artifact p) (pq_requested_stage p) of
         None \<Rightarrow> (Inl (fail EC_ArtifactNotFound ''artifact identity is not registered''), sv)
       | Some d \<Rightarrow>
           (answer MT_ExplainResponse (encode_promotion_result
              \<lparr> ps_outcome = de_outcome d, ps_decision = d, ps_plan = None, ps_record = None \<rparr>), sv))"

definition trust_answer :: "MessageType \<Rightarrow> TrustMutation \<Rightarrow> reply" where
  "trust_answer type r =
     answer type (encode_artifact_result
       \<lparr> af_outcome = tm_outcome r,
         af_artifact = (case tm_artifact r of
            None \<Rightarrow> None
          | Some art \<Rightarrow> if id_valid (ar_id art) then Some art else None),
         af_reasons = tm_reasons r \<rparr>)"

definition handle_trust :: "environment \<Rightarrow> MessageType \<Rightarrow> (TrustPayload \<Rightarrow> CoordinatorAuthority \<Rightarrow> engine
    \<Rightarrow> TrustMutation Result \<times> engine) \<Rightarrow> Frame \<Rightarrow> server \<Rightarrow> reply \<times> server" where
  "handle_trust env type operate f sv =
     with_authority f (with_payload (decode_trust (fr_payload f)) (\<lambda>p.
       perform (en_disk env) (operate p (server_authority sv)) (\<lambda>r _. trust_answer type r))) sv"

definition handle_revoke_evidence :: "environment \<Rightarrow> Frame \<Rightarrow> server \<Rightarrow> reply \<times> server" where
  "handle_revoke_evidence env f sv =
     with_authority f (with_payload (decode_trust (fr_payload f)) (\<lambda>p.
       perform (en_disk env) (revoke_evidence (tp_evidence p) (tp_detail p) (server_authority sv))
         (\<lambda>r _. answer MT_RevokeEvidenceResponse (encode_artifact_result
            \<lparr> af_outcome = tm_outcome r, af_artifact = None, af_reasons = tm_reasons r \<rparr>)))) sv"

definition handle_snapshot_save :: "environment \<Rightarrow> server \<Rightarrow> reply \<times> server" where
  "handle_snapshot_save env sv =
     (case persist_now (en_save env) sv of
        (saved, sv1) \<Rightarrow>
          if status_failed saved then (Inl saved, sv1)
          else (answer MT_SnapshotSaveResponse (encode_artifact_result
                 \<lparr> af_outcome = PO_PromotionCommitted, af_artifact = None, af_reasons = [] \<rparr>), sv1))"

definition handle_quarantine :: "environment \<Rightarrow> Frame \<Rightarrow> server \<Rightarrow> reply \<times> server" where
  "handle_quarantine env = handle_trust env MT_QuarantineResponse
     (\<lambda>p. quarantine (tp_artifact p) (tp_reason_class p) (tp_detail p))"

definition handle_release :: "environment \<Rightarrow> Frame \<Rightarrow> server \<Rightarrow> reply \<times> server" where
  "handle_release env = handle_trust env MT_ReleaseQuarantineResponse
     (\<lambda>p. release_quarantine (en_now env) (en_later env) (tp_artifact p))"

definition handle_revoke :: "environment \<Rightarrow> Frame \<Rightarrow> server \<Rightarrow> reply \<times> server" where
  "handle_revoke env = handle_trust env MT_RevokeResponse
     (\<lambda>p authority. revoke (en_now env) (tp_artifact p) (tp_decision p) (tp_reason_class p) (tp_detail p) authority
        null_id)"

definition handle_supersede :: "environment \<Rightarrow> Frame \<Rightarrow> server \<Rightarrow> reply \<times> server" where
  "handle_supersede env = handle_trust env MT_SupersedeResponse
     (\<lambda>p. supersede (en_now env) (tp_artifact p) (tp_successor p) (tp_detail p))"

definition handle_retire :: "environment \<Rightarrow> Frame \<Rightarrow> server \<Rightarrow> reply \<times> server" where
  "handle_retire env = handle_trust env MT_RetireResponse (\<lambda>p. retire (en_now env) (tp_artifact p))"

definition handle_frame :: "environment \<Rightarrow> Frame \<Rightarrow> server \<Rightarrow> reply \<times> server" where
  "handle_frame env f sv =
     (case fr_type f of
        MT_HelloRequest \<Rightarrow> handle_hello f sv
      | MT_RegisterArtifactRequest \<Rightarrow> handle_register env f sv
      | MT_SubmitEvidenceRequest \<Rightarrow> handle_submit env f sv
      | MT_PromotionRequest \<Rightarrow> handle_promote env f sv
      | MT_EvaluateRequest \<Rightarrow> handle_evaluate env f sv
      | MT_ArtifactStateRequest \<Rightarrow> handle_state f sv
      | MT_HistoryRequest \<Rightarrow> handle_history f sv
      | MT_ExplainRequest \<Rightarrow> handle_explain env f sv
      | MT_QuarantineRequest \<Rightarrow> handle_quarantine env f sv
      | MT_ReleaseQuarantineRequest \<Rightarrow> handle_release env f sv
      | MT_RevokeRequest \<Rightarrow> handle_revoke env f sv
      | MT_RevokeEvidenceRequest \<Rightarrow> handle_revoke_evidence env f sv
      | MT_SupersedeRequest \<Rightarrow> handle_supersede env f sv
      | MT_RetireRequest \<Rightarrow> handle_retire env f sv
      | MT_SnapshotSaveRequest \<Rightarrow> handle_snapshot_save env sv
      | _ \<Rightarrow> (Inl (fail EC_ProtocolMalformed ''a response message type was received as a request''), sv))"

section \<open>Connections\<close>

definition fill_response_header :: "Frame \<Rightarrow> CoordinatorAuthority \<Rightarrow> Frame \<Rightarrow> Frame" where
  "fill_response_header request authority response =
     response \<lparr> fr_correlation := fr_request request, fr_coordinator := ca_coordinator authority,
       fr_epoch := ca_epoch authority, fr_worker := fr_worker request, fr_boot := fr_boot request \<rparr>"

definition error_response :: "Frame \<Rightarrow> CoordinatorAuthority \<Rightarrow> ErrorCode \<Rightarrow> string \<Rightarrow> Frame \<Rightarrow> Frame" where
  "error_response request authority code message response =
     (fill_response_header request authority response)
       \<lparr> fr_type := MT_Error, fr_payload := (case encode_status code message of Inl _ \<Rightarrow> [] | Inr payload \<Rightarrow> payload) \<rparr>"

text \<open>The answer to a byte sequence that is no frame: an error under a placeholder request identity.\<close>

definition rejection_response :: "CoordinatorAuthority \<Rightarrow> Status \<Rightarrow> Frame" where
  "rejection_response authority st =
     (let placeholder = empty_frame \<lparr> fr_request := Identity 1 1 \<rparr> in
      (error_response placeholder authority (status_code st) (status_message st) empty_frame)
        \<lparr> fr_correlation := (if status_code st = EC_Ok then null_id else fr_request placeholder) \<rparr>)"

text \<open>A request that is neither a repetition nor before the handshake.\<close>

definition handled_response :: "environment \<Rightarrow> Frame \<Rightarrow> server \<Rightarrow> Frame \<times> server" where
  "handled_response env f sv =
     (case handle_frame env f sv of
        (r, sv1) \<Rightarrow>
          let response = empty_frame \<lparr> fr_request := fr_request f \<rparr>;
              filled = (case r of
                 Inl e \<Rightarrow> error_response f (server_authority sv1) (status_code e) (status_message e) response
               | Inr (type, payload) \<Rightarrow> response \<lparr> fr_type := type, fr_payload := payload \<rparr>)
          in (fill_response_header f (server_authority sv1) filled, sv1))"

definition duplicate_rejection :: "server \<Rightarrow> server" where
  "duplicate_rejection sv = sv \<lparr> sv_duplicate_request_rejections := sv_duplicate_request_rejections sv + 1 \<rparr>"

definition protocol_rejection :: "server \<Rightarrow> server" where
  "protocol_rejection sv = sv \<lparr> sv_protocol_rejections := sv_protocol_rejections sv + 1 \<rparr>"

definition answer_request ::
  "environment \<Rightarrow> Frame \<Rightarrow> connection \<Rightarrow> server \<Rightarrow> Frame \<times> connection \<times> server" where
  "answer_request env f cn sv =
     (if fr_request f \<in> set (cn_seen_requests cn)
      then (error_response f (server_authority sv) EC_DuplicateRequest
              ''this request identity was already received on this connection'' empty_frame, cn, duplicate_rejection sv)
      else
        let seen = cn \<lparr> cn_seen_requests := fr_request f # cn_seen_requests cn \<rparr> in
        if \<not> cn_handshake_completed cn \<and> fr_type f \<noteq> MT_HelloRequest
        then (error_response f (server_authority sv) EC_StaleWorkerBoot
                ''no handshake has been completed on this connection'' empty_frame, seen, sv)
        else case handled_response env f sv of
          (response, sv1) \<Rightarrow>
            (response,
             (if fr_type f = MT_HelloRequest \<and> fr_type response = MT_HelloResponse
              then seen \<lparr> cn_handshake_completed := True \<rparr> else seen), sv1))"

text \<open>One received byte sequence: the bytes sent back, the connection unless it is closed, and the server.\<close>

definition serve_bytes ::
  "environment \<Rightarrow> bytes \<Rightarrow> connection \<Rightarrow> server \<Rightarrow> bytes option \<times> connection option \<times> server" where
  "serve_bytes env full cn sv =
     (case decode_frame full of
        Inl st \<Rightarrow>
          (case encode_frame (rejection_response (server_authority sv) st) of
             Inl _ \<Rightarrow> (None, None, protocol_rejection sv)
           | Inr encoded \<Rightarrow> (Some encoded, None, protocol_rejection sv))
      | Inr f \<Rightarrow>
          if fr_type f = MT_Goodbye then (None, None, sv)
          else case answer_request env f cn sv of
            (response, cn1, sv1) \<Rightarrow>
              (case encode_frame response of
                 Inl _ \<Rightarrow> (None, None, sv1)
               | Inr encoded \<Rightarrow> (Some encoded, if en_sent env then Some cn1 else None, sv1)))"

text \<open>\<open>receive_exactly\<close> on the bytes the peer sends before it closes or the read times out.\<close>

definition receive_exactly :: "nat \<Rightarrow> bytes \<Rightarrow> (bytes \<times> bytes) option" where
  "receive_exactly n stream = (if length stream < n then None else Some (take n stream, drop n stream))"

datatype received = Closed | Refused | Received bytes bytes

definition receive_frame :: "bytes \<Rightarrow> received" where
  "receive_frame stream =
     (case receive_exactly kFrameHeaderSize stream of
        None \<Rightarrow> Closed
      | Some (header, rest) \<Rightarrow>
          let declared = unat (load_u32 (drop 12 header)) in
          if declared > kMaxFrameBytes then Refused
          else (case receive_exactly (declared + kFrameFooterSize) rest of
                  None \<Rightarrow> Refused
                | Some (remainder, later) \<Rightarrow> Received (header @ remainder) later))"

lemma receive_frame_shorter: "receive_frame stream = Received full later \<Longrightarrow> length later < length stream"
  by (auto simp: receive_frame_def receive_exactly_def Let_def kFrameHeaderSize_def split: if_splits)

text \<open>The loop: \<open>envs k\<close> is what the operating system decides in round \<open>k\<close>.\<close>

function serve_connection ::
  "(nat \<Rightarrow> environment) \<Rightarrow> nat \<Rightarrow> bytes \<Rightarrow> connection \<Rightarrow> server \<Rightarrow> bytes list \<times> server" where
  "serve_connection envs k stream cn sv =
     (if en_stopping (envs k) then ([], sv)
      else case receive_frame stream of
        Closed \<Rightarrow> ([], sv)
      | Refused \<Rightarrow> ([], protocol_rejection sv)
      | Received full later \<Rightarrow>
          (case serve_bytes (envs k) full cn sv of
             (sent, None, sv1) \<Rightarrow> (case sent of None \<Rightarrow> [] | Some reply \<Rightarrow> [reply], sv1)
           | (sent, Some cn1, sv1) \<Rightarrow>
               (case serve_connection envs (Suc k) later cn1 sv1 of
                  (replies, sv2) \<Rightarrow> ((case sent of None \<Rightarrow> [] | Some reply \<Rightarrow> [reply]) @ replies, sv2))))"
  by pat_completeness auto
termination
  by (relation "measure (\<lambda>(_, _, stream, _). length stream)") (auto dest: receive_frame_shorter)

declare serve_connection.simps [simp del]

end
