(* ===== verification/Server_Safety.thy ===== *)
theory Server_Safety
  imports Server Durability Explanation
begin

text \<open>
  What the coordinator server guarantees at the transport boundary: every run of the server is a run of the engine,
  only an authorised request of a connection with a completed handshake acts, a repeated frame never acts twice,
  worker boots only advance, a start from a state file fences the plans of the previous process, and what the state
  file holds when a promotion is acknowledged.
\<close>

section \<open>Saving leaves the rest of the server alone\<close>

lemma save_snapshot_simps [simp]:
  "sv_engine (snd (save_snapshot d st sv)) = sv_engine sv"
  "sv_worker_boots (snd (save_snapshot d st sv)) = sv_worker_boots sv"
  "sv_state_path (snd (save_snapshot d st sv)) = sv_state_path sv"
  by (simp_all add: save_snapshot_def)

lemma persist_now_simps [simp]:
  "sv_engine (snd (persist_now d sv)) = sv_engine sv"
  "sv_worker_boots (snd (persist_now d sv)) = sv_worker_boots sv"
  by (simp_all add: persist_now_def)

lemma persist_fold_simps:
  "sv_engine (foldl (\<lambda>s k. snd (save_snapshot (d k) (g k) s)) sv ks) = sv_engine sv"
  "sv_worker_boots (foldl (\<lambda>s k. snd (save_snapshot (d k) (g k) s)) sv ks) = sv_worker_boots sv"
  "sv_state_path (foldl (\<lambda>s k. snd (save_snapshot (d k) (g k) s)) sv ks) = sv_state_path sv"
  by (induction ks arbitrary: sv) simp_all

lemma persist_notified_simps [simp]:
  "sv_engine (persist_notified d e sv) = sv_engine sv"
  "sv_worker_boots (persist_notified d e sv) = sv_worker_boots sv"
  "sv_state_path (persist_notified d e sv) = sv_state_path sv"
  by (simp_all add: persist_notified_def Let_def persist_fold_simps)

lemma with_engine_simps [simp]:
  "fst (with_engine d operate sv) = fst (operate (sv_engine sv))"
  "sv_engine (snd (with_engine d operate sv)) = snd (operate (sv_engine sv))"
  "sv_worker_boots (snd (with_engine d operate sv)) = sv_worker_boots sv"
  "sv_state_path (snd (with_engine d operate sv)) = sv_state_path sv"
  by (simp_all add: with_engine_def split: prod.splits)

section \<open>The contract of a request handler\<close>

text \<open>A request is authorised when new work is admitted and it names the current coordinator and epoch.\<close>

definition authorised :: "Frame \<Rightarrow> server \<Rightarrow> bool" where
  "authorised f sv \<longleftrightarrow> admission_open (sv_engine sv)
     \<and> fr_coordinator f = coordinator (state (sv_engine sv)) \<and> fr_epoch f = epoch (state (sv_engine sv))"

definition governed :: "Frame \<Rightarrow> server \<Rightarrow> server \<Rightarrow> bool" where
  "governed f sv sv' \<longleftrightarrow> sv_engine sv' = sv_engine sv \<or> authorised f sv \<and> operation (sv_engine sv) (sv_engine sv')"

abbreviation with_boots :: "(WorkerId, WorkerBootId) omap \<Rightarrow> server \<Rightarrow> server" where
  "with_boots boots sv \<equiv> sv \<lparr> sv_worker_boots := boots \<rparr>"

text \<open>The handlers other than the handshake: they act only on an authorised request and then perform one operation
  of the engine; they neither change nor read the registered boots, and their reply does not depend on whether the
  change listener could write the state file.\<close>

locale request_handler =
  fixes handle :: "environment \<Rightarrow> Frame \<Rightarrow> server \<Rightarrow> reply \<times> server"
  assumes handle_governed: "governed f sv (snd (handle env f sv))"
    and handle_boots: "handle env f (with_boots boots sv) =
      (fst (handle env f sv), with_boots boots (snd (handle env f sv)))"
    and handle_disk: "fst (handle (env \<lparr> en_disk := disk \<rparr>) f sv) = fst (handle env f sv)"
      "sv_engine (snd (handle (env \<lparr> en_disk := disk \<rparr>) f sv)) = sv_engine (snd (handle env f sv))"
begin

lemma handle_keeps_boots: "sv_worker_boots (snd (handle env f sv)) = sv_worker_boots sv"
proof -
  have same: "with_boots (sv_worker_boots sv) sv = sv" by simp
  have "snd (handle env f sv) = with_boots (sv_worker_boots sv) (snd (handle env f sv))"
    using handle_boots [of env f "sv_worker_boots sv" sv] unfolding same by (metis snd_conv)
  from arg_cong [OF this, of sv_worker_boots] show ?thesis by simp
qed

lemma handle_reachable: "reachable (sv_engine sv) \<Longrightarrow> reachable (sv_engine (snd (handle env f sv)))"
  using handle_governed [of f sv env] by (auto simp: governed_def intro: reachable.step)

lemma handle_unauthorised: "\<not> authorised f sv \<Longrightarrow> sv_engine (snd (handle env f sv)) = sv_engine sv"
  using handle_governed [of f sv env] by (auto simp: governed_def)

end

lemma save_snapshot_boots:
  "save_snapshot d st (with_boots b sv) = (fst (save_snapshot d st sv), with_boots b (snd (save_snapshot d st sv)))"
  by (simp add: save_snapshot_def)

lemma persist_fold_boots:
  "foldl (\<lambda>s k. snd (save_snapshot (d k) (g k) s)) (with_boots b sv) ks =
   with_boots b (foldl (\<lambda>s k. snd (save_snapshot (d k) (g k) s)) sv ks)"
  by (induction ks arbitrary: sv) (simp_all add: save_snapshot_boots)

lemma persist_notified_boots: "persist_notified d e (with_boots b sv) = with_boots b (persist_notified d e sv)"
  by (simp add: persist_notified_def Let_def persist_fold_boots)

lemma engine_then_boots: "(with_boots b sv) \<lparr> sv_engine := e \<rparr> = with_boots b (sv \<lparr> sv_engine := e \<rparr>)"
  by simp

lemma with_engine_boots:
  "with_engine d operate (with_boots b sv) = (fst (with_engine d operate sv), with_boots b (snd (with_engine d operate sv)))"
proof (cases "operate (sv_engine sv)")
  case (Pair r e)
  then show ?thesis
    by (simp add: with_engine_def engine_then_boots persist_notified_boots)
qed

lemma perform_eq:
  "perform d operate respond sv =
     (case fst (operate (sv_engine sv)) of
        Inl e \<Rightarrow> Inl e
      | Inr r \<Rightarrow> respond r (snd (operate (sv_engine sv))), snd (with_engine d operate sv))"
  by (auto simp: perform_def with_engine_def split: prod.splits sum.splits)

lemma require_authority_eq:
  "require_current_authority f sv =
     (if authorised f sv then (success, sv)
      else if \<not> admission_open (sv_engine sv) then (fail EC_ShuttingDown ''the coordinator is shutting down'', sv)
      else (fail EC_StaleCoordinatorEpoch ''request carries a stale coordinator identity or epoch'', stale_rejection sv))"
  by (auto simp: require_current_authority_def authorised_def authority_of_def)

lemma with_authority_eq:
  "with_authority f handle sv =
     (if authorised f sv then handle sv
      else let (st, sv1) = require_current_authority f sv in (Inl st, sv1))"
  by (simp add: with_authority_def require_authority_eq)

lemma stale_rejection_simps [simp]:
  "sv_engine (stale_rejection sv) = sv_engine sv" "sv_worker_boots (stale_rejection sv) = sv_worker_boots sv"
  "stale_rejection (with_boots b sv) = with_boots b (stale_rejection sv)"
  by (simp_all add: stale_rejection_def)

lemma authorised_boots [simp]: "authorised f (with_boots b sv) = authorised f sv"
  by (simp add: authorised_def)

lemma perform_governed:
  assumes "\<And>e. operation e (snd (operate e))" "authorised f sv"
  shows "governed f sv (snd (perform d operate respond sv))"
  using assms by (simp add: governed_def perform_eq)

lemma perform_boots:
  "perform d operate respond (with_boots b sv) =
     (fst (perform d operate respond sv), with_boots b (snd (perform d operate respond sv)))"
  by (simp add: perform_eq with_engine_boots split: sum.splits)

lemma perform_disk:
  "fst (perform d operate respond sv) = fst (perform d' operate respond sv)"
  "sv_engine (snd (perform d operate respond sv)) = sv_engine (snd (perform d' operate respond sv))"
  by (simp_all add: perform_eq)

text \<open>The shape most handlers share.\<close>

lemma operating_handler:
  fixes decoded :: "Frame \<Rightarrow> Status + 'p"
  assumes "\<And>env f p authority e. operation e (snd (operate env f p authority e))"
    and "\<And>env f sv. handle env f sv = with_authority f (with_payload (decoded f) (\<lambda>p.
      perform (en_disk env) (operate env f p (server_authority sv)) (respond f p))) sv"
    and "\<And>env f p authority disk. operate (env \<lparr> en_disk := disk \<rparr>) f p authority = operate env f p authority"
  shows "request_handler handle"
proof
  show "governed f sv (snd (handle env f sv))" for f sv env
    using assms(1) by (auto simp: assms(2) with_authority_eq with_payload_def require_authority_eq governed_def perform_eq
        split: sum.splits)
  show "handle env f (with_boots boots sv) = (fst (handle env f sv), with_boots boots (snd (handle env f sv)))"
    for env f boots sv
    by (auto simp: assms(2) with_authority_eq with_payload_def require_authority_eq perform_boots split: sum.splits)
  show "fst (handle (env \<lparr> en_disk := disk \<rparr>) f sv) = fst (handle env f sv)"
    "sv_engine (snd (handle (env \<lparr> en_disk := disk \<rparr>) f sv)) = sv_engine (snd (handle env f sv))" for env disk f sv
    by (auto simp: assms(2,3) with_authority_eq with_payload_def perform_eq split: sum.splits)
qed

text \<open>The handlers that only read.\<close>

lemma reading_handler:
  assumes "\<And>env f sv. handle env f sv = (reply_to env f (sv_engine sv), sv)"
    and "\<And>env f disk. reply_to (env \<lparr> en_disk := disk \<rparr>) f = reply_to env f"
  shows "request_handler handle"
  by unfold_locales (simp_all add: assms governed_def)

lemma register_operating: "request_handler handle_register"
  by (rule operating_handler [where decoded = "\<lambda>f. decode_register_artifact (fr_payload f)" and
        operate = "\<lambda>env f p _. register_artifact (en_now env) (registration_of f p)"])
    (auto simp: handle_register_def intro: operation.registered)

lemma submit_operating: "request_handler handle_submit"
  by (rule operating_handler [where decoded = "\<lambda>f. decode_evidence_submission (fr_payload f)" and
        operate = "\<lambda>env f p _. submit_evidence (submission_of f p)"])
    (auto simp: handle_submit_def intro: operation.submitted)

lemma revoke_evidence_operating: "request_handler handle_revoke_evidence"
  by (rule operating_handler [where decoded = "\<lambda>f. decode_trust (fr_payload f)" and
        operate = "\<lambda>env f p. revoke_evidence (tp_evidence p) (tp_detail p)"])
    (auto simp: handle_revoke_evidence_def intro: operation.evidence_revoked)

lemma trust_operating:
  assumes "\<And>env p authority e. operation e (snd (operate env p authority e))"
    and "\<And>env disk. operate (env \<lparr> en_disk := disk \<rparr>) = operate env"
  shows "request_handler (\<lambda>env. handle_trust env type (operate env))"
  by (rule operating_handler [where decoded = "\<lambda>f. decode_trust (fr_payload f)" and
        operate = "\<lambda>env f. operate env"]) (auto simp: handle_trust_def assms)

text \<open>A payload without a destination stage is refused as one that does not decode.\<close>

definition decode_staged :: "Frame \<Rightarrow> Status + PromotionPayload" where
  "decode_staged f =
     (case decode_promotion_request (fr_payload f) of
        Inl e \<Rightarrow> Inl e
      | Inr p \<Rightarrow> if \<not> is_valid_stage_value (stage_value (pq_requested_stage p))
          then Inl (make_status EC_InvalidStage ''promotion request names no destination stage''
             (id_to_string (fr_request f)))
          else Inr p)"

lemma with_payload_stage:
  "with_payload (decode_promotion_request (fr_payload f)) (with_stage f handle) = with_payload (decode_staged f) handle"
  by (rule ext) (auto simp: with_payload_def with_stage_def decode_staged_def split: sum.splits)

lemma evaluate_operating: "request_handler handle_evaluate"
  by (rule operating_handler [where decoded = decode_staged and
        operate = "\<lambda>env f p authority. evaluate (en_now env) (promotion_of f authority p)"])
    (auto simp: handle_evaluate_def with_payload_stage intro: operation.evaluated)

lemma promote_operating: "request_handler handle_promote"
  by (rule operating_handler [where decoded = decode_staged and
        operate = "\<lambda>env f p authority. promote (en_now env) (en_later env) (promotion_of f authority p)"])
    (auto simp: handle_promote_def with_payload_stage intro: operation.promoted)

section \<open>Every handler keeps the contract\<close>

interpretation register_handler: request_handler handle_register
  by (rule register_operating)

interpretation submit_handler: request_handler handle_submit
  by (rule submit_operating)

interpretation evaluate_handler: request_handler handle_evaluate
  by (rule evaluate_operating)

interpretation promote_handler: request_handler handle_promote
  by (rule promote_operating)

interpretation revoke_evidence_handler: request_handler handle_revoke_evidence
  by (rule revoke_evidence_operating)

interpretation quarantine_handler: request_handler handle_quarantine
  unfolding handle_quarantine_def by (rule trust_operating) (auto intro: operation.quarantined)

interpretation release_handler: request_handler handle_release
  unfolding handle_release_def by (rule trust_operating) (auto intro: operation.released)

interpretation revoke_handler: request_handler handle_revoke
  unfolding handle_revoke_def by (rule trust_operating) (auto intro: operation.revoked)

interpretation supersede_handler: request_handler handle_supersede
  unfolding handle_supersede_def by (rule trust_operating) (auto intro: operation.superseded)

interpretation retire_handler: request_handler handle_retire
  unfolding handle_retire_def by (rule trust_operating) (auto intro: operation.retired)

interpretation state_handler: request_handler "\<lambda>_. handle_state"
  by (rule reading_handler [where reply_to = "\<lambda>_ f e. fst (handle_state f \<lparr> sv_engine = e, sv_state_path = [],
        sv_file = None, sv_running = False, sv_worker_boots = [], sv_stale_authority_rejections = 0, sv_duplicate_request_rejections = 0,
        sv_protocol_rejections = 0 \<rparr>)"])
    (auto simp: handle_state_def with_payload_def split: sum.splits option.splits)

interpretation history_handler: request_handler "\<lambda>_. handle_history"
  by (rule reading_handler [where reply_to = "\<lambda>_ f e. fst (handle_history f \<lparr> sv_engine = e, sv_state_path = [],
        sv_file = None, sv_running = False, sv_worker_boots = [], sv_stale_authority_rejections = 0, sv_duplicate_request_rejections = 0,
        sv_protocol_rejections = 0 \<rparr>)"])
    (auto simp: handle_history_def with_payload_def split: sum.splits option.splits)

interpretation explain_handler: request_handler handle_explain
  by (rule reading_handler [where reply_to = "\<lambda>env f e. fst (handle_explain env f \<lparr> sv_engine = e, sv_state_path = [],
        sv_file = None, sv_running = False, sv_worker_boots = [], sv_stale_authority_rejections = 0, sv_duplicate_request_rejections = 0,
        sv_protocol_rejections = 0 \<rparr>)"])
    (auto simp: handle_explain_def with_payload_def split: sum.splits option.splits)

interpretation save_handler: request_handler "\<lambda>env _. handle_snapshot_save env"
proof
  show "governed f sv (snd (handle_snapshot_save env sv))" for f sv env
    by (simp add: governed_def handle_snapshot_save_def split: prod.splits) (metis persist_now_simps(1) snd_conv)
  show "handle_snapshot_save env (with_boots boots sv) =
    (fst (handle_snapshot_save env sv), with_boots boots (snd (handle_snapshot_save env sv)))" for env boots sv
    by (auto simp: handle_snapshot_save_def persist_now_def save_snapshot_def)
  show "fst (handle_snapshot_save (env \<lparr> en_disk := disk \<rparr>) sv) = fst (handle_snapshot_save env sv)"
    "sv_engine (snd (handle_snapshot_save (env \<lparr> en_disk := disk \<rparr>) sv)) = sv_engine (snd (handle_snapshot_save env sv))"
    for env disk sv
    by (simp_all add: handle_snapshot_save_def)
qed

lemma malformed_handler: "request_handler (\<lambda>_ _ sv. (Inl st, sv))"
  by unfold_locales (simp_all add: governed_def)

lemmas handler_contracts = register_operating submit_operating evaluate_operating promote_operating
  revoke_evidence_operating quarantine_handler.request_handler_axioms release_handler.request_handler_axioms
  revoke_handler.request_handler_axioms supersede_handler.request_handler_axioms retire_handler.request_handler_axioms
  state_handler.request_handler_axioms history_handler.request_handler_axioms explain_handler.request_handler_axioms
  save_handler.request_handler_axioms

lemma frame_handler:
  assumes "fr_type f \<noteq> MT_HelloRequest"
  obtains handle where "request_handler handle" "\<And>env sv. handle_frame env f sv = handle env f sv"
  using assms handler_contracts malformed_handler
  by (cases "fr_type f") (auto simp: handle_frame_def)

section \<open>The handshake\<close>

lemma register_worker_boot_simps [simp]:
  "sv_engine (snd (register_worker_boot w b sv)) = sv_engine sv"
  by (simp add: register_worker_boot_def split: option.splits)

lemma handle_hello_engine [simp]: "sv_engine (snd (handle_hello f sv)) = sv_engine sv"
  by (simp add: handle_hello_def Let_def case_prod_beta)

text \<open>The registered boots only advance.\<close>

definition boots_advance :: "(WorkerId, WorkerBootId) omap \<Rightarrow> (WorkerId, WorkerBootId) omap \<Rightarrow> bool" where
  "boots_advance old new \<longleftrightarrow>
     (\<forall>w b. om_find old w = Some b \<longrightarrow> (\<exists>b'. om_find new w = Some b' \<and> b \<le> b'))"

lemma boots_advance_refl [simp]: "boots_advance m m"
  by (simp add: boots_advance_def)

lemma boots_advance_trans: "boots_advance a b \<Longrightarrow> boots_advance b c \<Longrightarrow> boots_advance a c"
  unfolding boots_advance_def by (meson order_trans)

lemma register_boot_advances:
  "boots_advance (sv_worker_boots sv) (sv_worker_boots (snd (register_worker_boot w b sv)))"
  by (auto simp: boots_advance_def register_worker_boot_def split: option.splits if_splits)

lemma handle_hello_boots: "boots_advance (sv_worker_boots sv) (sv_worker_boots (snd (handle_hello f sv)))"
proof -
  have "sv_worker_boots (snd (handle_hello f sv)) = sv_worker_boots (snd (register_worker_boot (fr_worker f) (fr_boot f) sv))"
    by (simp add: handle_hello_def Let_def split: prod.splits)
  then show ?thesis by (simp add: register_boot_advances)
qed

lemma handle_hello_accepts:
  assumes "fst (handle_hello f sv) = Inr r"
  shows "om_find (sv_worker_boots (snd (handle_hello f sv))) (fr_worker f) = Some (fr_boot f)"
    and "fst r = MT_HelloResponse" "id_valid (fr_worker f)" "id_valid (fr_boot f)"
  using assms
  by (auto simp: handle_hello_def register_worker_boot_def Let_def answer_def split: if_splits option.splits sum.splits)

section \<open>One frame\<close>

lemma handle_frame_engine:
  "sv_engine (snd (handle_frame env f sv)) = sv_engine sv
     \<or> fr_type f \<noteq> MT_HelloRequest \<and> authorised f sv \<and> operation (sv_engine sv) (sv_engine (snd (handle_frame env f sv)))"
proof (cases "fr_type f = MT_HelloRequest")
  case True
  then show ?thesis by (simp add: handle_frame_def)
next
  case False
  then obtain handle where "request_handler handle" "\<And>env sv. handle_frame env f sv = handle env f sv"
    by (rule frame_handler) blast
  with False request_handler.handle_governed [of handle f sv env] show ?thesis by (simp add: governed_def)
qed

lemma handle_frame_boots: "boots_advance (sv_worker_boots sv) (sv_worker_boots (snd (handle_frame env f sv)))"
proof (cases "fr_type f = MT_HelloRequest")
  case True
  then show ?thesis by (simp add: handle_frame_def handle_hello_boots)
next
  case False
  then obtain handle where "request_handler handle" "\<And>env sv. handle_frame env f sv = handle env f sv"
    by (rule frame_handler) blast
  with request_handler.handle_keeps_boots [of handle env f sv] show ?thesis by simp
qed

lemma handled_response_server [simp]: "snd (handled_response env f sv) = snd (handle_frame env f sv)"
  by (simp add: handled_response_def Let_def split: prod.splits)

text \<open>The conditions under which a frame reaches its handler.\<close>

definition admitted :: "Frame \<Rightarrow> connection \<Rightarrow> bool" where
  "admitted f cn \<longleftrightarrow> fr_request f \<notin> set (cn_seen_requests cn) \<and> (cn_handshake_completed cn \<or> fr_type f = MT_HelloRequest)"

lemma answer_request_server:
  "snd (snd (answer_request env f cn sv)) =
     (if admitted f cn then snd (handle_frame env f sv)
      else if fr_request f \<in> set (cn_seen_requests cn) then duplicate_rejection sv else sv)"
  by (simp add: answer_request_def admitted_def Let_def case_prod_beta)

lemma rejections_simps [simp]:
  "sv_engine (duplicate_rejection sv) = sv_engine sv" "sv_worker_boots (duplicate_rejection sv) = sv_worker_boots sv"
  "sv_engine (protocol_rejection sv) = sv_engine sv" "sv_worker_boots (protocol_rejection sv) = sv_worker_boots sv"
  by (simp_all add: duplicate_rejection_def protocol_rejection_def)

lemma serve_bytes_server:
  "snd (snd (serve_bytes env full cn sv)) =
     (case decode_frame full of
        Inl _ \<Rightarrow> protocol_rejection sv
      | Inr f \<Rightarrow> if fr_type f = MT_Goodbye then sv else snd (snd (answer_request env f cn sv)))"
  by (simp add: serve_bytes_def split: sum.splits prod.splits)

lemma serve_bytes_engine:
  "sv_engine (snd (snd (serve_bytes env full cn sv))) = sv_engine sv
     \<or> (\<exists>f. decode_frame full = Inr f \<and> admitted f cn \<and> fr_type f \<noteq> MT_HelloRequest \<and> authorised f sv
          \<and> operation (sv_engine sv) (sv_engine (snd (snd (serve_bytes env full cn sv)))))"
  using handle_frame_engine by (auto simp: serve_bytes_server answer_request_server split: sum.splits)

lemma serve_bytes_boots:
  "boots_advance (sv_worker_boots sv) (sv_worker_boots (snd (snd (serve_bytes env full cn sv))))"
  using handle_frame_boots by (auto simp: serve_bytes_server answer_request_server split: sum.splits)

section \<open>Responses\<close>

text \<open>The type that answers a request.\<close>

fun response_type :: "MessageType \<Rightarrow> MessageType" where
  "response_type MT_HelloRequest = MT_HelloResponse"
| "response_type MT_RegisterArtifactRequest = MT_RegisterArtifactResponse"
| "response_type MT_SubmitEvidenceRequest = MT_SubmitEvidenceResponse"
| "response_type MT_PromotionRequest = MT_PromotionResponse"
| "response_type MT_EvaluateRequest = MT_EvaluateResponse"
| "response_type MT_ArtifactStateRequest = MT_ArtifactStateResponse"
| "response_type MT_HistoryRequest = MT_HistoryResponse"
| "response_type MT_ExplainRequest = MT_ExplainResponse"
| "response_type MT_QuarantineRequest = MT_QuarantineResponse"
| "response_type MT_ReleaseQuarantineRequest = MT_ReleaseQuarantineResponse"
| "response_type MT_RevokeRequest = MT_RevokeResponse"
| "response_type MT_RevokeEvidenceRequest = MT_RevokeEvidenceResponse"
| "response_type MT_SupersedeRequest = MT_SupersedeResponse"
| "response_type MT_RetireRequest = MT_RetireResponse"
| "response_type MT_SnapshotSaveRequest = MT_SnapshotSaveResponse"
| "response_type _ = MT_Error"

definition typed :: "MessageType \<Rightarrow> reply \<Rightarrow> bool" where
  "typed t r \<longleftrightarrow> (\<forall>u payload. r = Inr (u, payload) \<longrightarrow> u = t)"

lemma typed_intros [intro!]:
  "typed t (Inl e)" "typed t (answer t encoded)"
  "(\<And>r e. typed t (respond r e)) \<Longrightarrow> typed t (fst (perform d operate respond sv))"
  "(\<And>p sv. typed t (fst (handle p sv))) \<Longrightarrow> typed t (fst (with_payload decoded handle sv))"
  "(\<And>sv. typed t (fst (act sv))) \<Longrightarrow> typed t (fst (with_authority f act sv))"
  "(\<And>q sv. typed t (fst (staged q sv))) \<Longrightarrow> typed t (fst (with_stage f staged q sv))"
  by (auto simp: typed_def answer_def perform_eq with_payload_def with_authority_eq with_stage_def case_prod_beta
      split: sum.splits if_splits)

lemma typed_trust [intro!]: "typed t (fst (handle_trust env t operate f sv))"
  by (auto simp: handle_trust_def trust_answer_def)

lemma typed_engine_handlers [intro!]:
  "typed MT_RegisterArtifactResponse (fst (handle_register env f sv))"
  "typed MT_SubmitEvidenceResponse (fst (handle_submit env f sv))"
  "typed MT_PromotionResponse (fst (handle_promote env f sv))"
  "typed MT_EvaluateResponse (fst (handle_evaluate env f sv))"
  "typed MT_RevokeEvidenceResponse (fst (handle_revoke_evidence env f sv))"
  by (auto simp: handle_register_def handle_submit_def handle_promote_def handle_evaluate_def handle_revoke_evidence_def)

lemma typed_other_handlers [intro!]:
  "typed MT_HelloResponse (fst (handle_hello f sv))"
  "typed MT_ArtifactStateResponse (fst (handle_state f sv))"
  "typed MT_HistoryResponse (fst (handle_history f sv))"
  "typed MT_ExplainResponse (fst (handle_explain env f sv))"
  "typed MT_SnapshotSaveResponse (fst (handle_snapshot_save env sv))"
  by (auto simp: handle_hello_def handle_state_def handle_history_def handle_explain_def handle_snapshot_save_def
      Let_def case_prod_beta split: option.splits)

lemma handle_frame_typed: "typed (response_type (fr_type f)) (fst (handle_frame env f sv))"
  by (cases "fr_type f") (auto simp: handle_frame_def handle_quarantine_def handle_release_def handle_revoke_def
      handle_supersede_def handle_retire_def)

lemma response_type_valid: "response_type t \<noteq> MT_Invalid"
  by (cases t) simp_all

lemma error_response_simps [simp]:
  "fr_type (error_response f auth code msg r) = MT_Error"
  "fr_correlation (error_response f auth code msg r) = fr_request f"
  "fr_coordinator (error_response f auth code msg r) = ca_coordinator auth"
  "fr_epoch (error_response f auth code msg r) = ca_epoch auth"
  "fr_payload (error_response f auth code msg r) = write_status code msg"
  "fr_flags (error_response f auth code msg r) = fr_flags r" "fr_version (error_response f auth code msg r) = fr_version r"
  "fr_request (error_response f auth code msg r) = fr_request r"
  by (simp_all add: error_response_def fill_response_header_def encode_status_def)

lemma empty_frame_simps [simp]:
  "fr_flags empty_frame = kFlagNone" "fr_version empty_frame = kProtocolVersion" "fr_request empty_frame = null_id"
  "fr_payload empty_frame = []"
  by (simp_all add: empty_frame_def)

definition responds :: "Frame \<Rightarrow> engine \<Rightarrow> Frame \<Rightarrow> bool" where
  "responds f e response \<longleftrightarrow>
     fr_correlation response = fr_request f \<and> fr_coordinator response = coordinator (state e)
     \<and> fr_epoch response = epoch (state e) \<and> fr_version response = kProtocolVersion
     \<and> \<not> unknown_flags (fr_flags response)
     \<and> (fr_type response = response_type (fr_type f) \<or> fr_type response = MT_Error)"

lemma error_responds:
  "fr_flags r = kFlagNone \<Longrightarrow> fr_version r = kProtocolVersion
    \<Longrightarrow> responds f e (error_response f (authority_of (state e)) code msg r)"
  by (simp add: responds_def authority_of_def unknown_flags_def kFlagNone_def)

lemma handled_responds: "responds f (sv_engine (snd (handled_response env f sv))) (fst (handled_response env f sv))"
  using handle_frame_typed [of f env sv]
  by (auto simp: handled_response_def responds_def Let_def fill_response_header_def authority_of_def typed_def
      unknown_flags_def kFlagNone_def case_prod_beta split: sum.splits)

lemma answer_responds:
  "responds f (sv_engine (snd (snd (answer_request env f cn sv)))) (fst (answer_request env f cn sv))"
  using error_responds [of empty_frame] handled_responds [of f env sv]
  by (auto simp: answer_request_def Let_def case_prod_beta)

lemma length_write_status: "length (write_status code msg) \<le> kMaxFrameBytes"
  using length_write_text [of kMaxTextLength msg] by (simp add: write_status_def write_error_code_def kMaxTextLength_def kMaxFrameBytes_def)

lemma error_payload_bounded: "length (fr_payload (error_response f auth code msg r)) \<le> kMaxFrameBytes"
  by (simp add: length_write_status)

lemma handled_error_bounded:
  assumes "fr_type (fst (handled_response env f sv)) = MT_Error"
  shows "length (fr_payload (fst (handled_response env f sv))) \<le> kMaxFrameBytes"
proof (cases "fst (handle_frame env f sv)")
  case (Inl e)
  then show ?thesis
    by (simp add: handled_response_def fill_response_header_def Let_def case_prod_beta length_write_status)
next
  case (Inr r)
  then have "response_type (fr_type f) = MT_Error"
    using assms handle_frame_typed [of f env sv]
    by (cases r) (auto simp: handled_response_def fill_response_header_def Let_def typed_def case_prod_beta)
  then have "\<exists>e. fst (handle_frame env f sv) = Inl e"
    by (cases "fr_type f") (simp_all add: handle_frame_def)
  with Inr show ?thesis by simp
qed

lemma answer_error_bounded:
  assumes "fr_type (fst (answer_request env f cn sv)) = MT_Error"
  shows "length (fr_payload (fst (answer_request env f cn sv))) \<le> kMaxFrameBytes"
  using assms handled_error_bounded [of env f sv]
  by (auto simp: answer_request_def Let_def case_prod_beta length_write_status split: if_splits)

section \<open>Runs of the server\<close>

text \<open>The open connections are numbered.  A step accepts a connection, serves what one connection received, drops a
  connection or a frame that cannot be received, saves the state, or stops the server; requests of different
  connections interleave in any order.\<close>

type_synonym connections = "nat \<Rightarrow> connection option"

inductive server_step :: "server \<times> connections \<Rightarrow> server \<times> connections \<Rightarrow> bool" where
  accepted: "cs n = None \<Longrightarrow> server_step (sv, cs) (sv, cs(n \<mapsto> new_connection))"
| served: "cs n = Some cn \<Longrightarrow> serve_bytes env full cn sv = (sent, cn', sv') \<Longrightarrow> server_step (sv, cs) (sv', cs(n := cn'))"
| refused: "cs n = Some cn \<Longrightarrow> server_step (sv, cs) (protocol_rejection sv, cs(n := None))"
| closed: "server_step (sv, cs) (sv, cs(n := None))"
| saved: "server_step (sv, cs) (snd (persist_now disk sv), cs)"
| stopped: "server_step (sv, cs) (server_stop disk sv, cs)"

inductive_cases server_step_cases: "server_step (sv, cs) (sv', cs')"

text \<open>A running server was constructed and its start did not fail.\<close>

inductive running :: "server \<times> connections \<Rightarrow> bool" where
  started: "server_start os (server_new path content cfg ticks1 ticks2 thread_hash) = (st, sv) \<Longrightarrow> \<not> status_failed st
    \<Longrightarrow> running (sv, Map.empty)"
| stepped: "running s \<Longrightarrow> server_step s s' \<Longrightarrow> running s'"

lemma server_stop_simps:
  "sv_engine (server_stop disk sv) = (if sv_running sv then close_admission (sv_engine sv) else sv_engine sv)"
  "sv_worker_boots (server_stop disk sv) = sv_worker_boots sv"
  by (simp_all add: server_stop_def Let_def)

lemma server_step_engine:
  assumes "server_step (sv, cs) (sv', cs')"
  shows "sv_engine sv' = sv_engine sv \<or> operation (sv_engine sv) (sv_engine sv')"
proof -
  have "sv_engine sv' = sv_engine sv \<or> operation (sv_engine sv) (sv_engine sv')"
    if "serve_bytes env full cn sv = (sent, cn', sv')" for env full cn sent cn'
    using serve_bytes_engine [of env full cn sv] that by auto
  then show ?thesis
    using assms by (elim server_step_cases) (auto simp: server_stop_simps intro: operation.closed)
qed

lemma server_step_boots:
  assumes "server_step (sv, cs) (sv', cs')"
  shows "boots_advance (sv_worker_boots sv) (sv_worker_boots sv')"
proof -
  have "boots_advance (sv_worker_boots sv) (sv_worker_boots sv')"
    if "serve_bytes env full cn sv = (sent, cn', sv')" for env full cn sent cn'
    using serve_bytes_boots [of sv env full cn] that by simp
  then show ?thesis
    using assms by (elim server_step_cases) (auto simp: server_stop_simps)
qed

lemma load_snapshot_decodes: "load_snapshot os content path = Inr st \<Longrightarrow> decode_snapshot content = Inr st"
  by (auto simp: load_snapshot_def read_file_def split: if_splits)

lemma loaded_maps_ok: "load_snapshot os content path = Inr st \<Longrightarrow> maps_ok (st \<lparr> epoch := ep \<rparr>)"
  using decode_only_sealed [OF load_snapshot_decodes, of os content path st] payload_sound
  by (force simp: maps_ok_def state_sound_def map_holds_def om_ok_def)

lemma restore_state_reachable:
  assumes "reachable (sv_engine sv)"
  shows "reachable (sv_engine (snd (restore_state os sv)))"
proof (cases "if sv_state_path sv \<noteq> [] then sv_file sv else None")
  case None
  with assms show ?thesis by (auto simp: restore_state_def)
next
  case (Some content)
  show ?thesis
  proof (cases "load_snapshot (so_read os) content (sv_state_path sv)")
    case (Inl e)
    with Some assms show ?thesis by (auto simp: restore_state_def)
  next
    case (Inr loaded)
    let ?st = "loaded \<lparr> epoch := counter_next (epoch loaded) \<rparr>"
    from Inr have "maps_ok ?st" by (rule loaded_maps_ok)
    then have "reachable (snd (install_state ?st (sv_engine sv)))" by (rule reachable.install [OF assms])
    then show ?thesis
      using Some Inr with_engine_simps(2) [of "so_disk os" "install_state ?st" sv]
      by (auto simp: restore_state_def case_prod_beta intro: reachable.step [OF _ operation.recovered])
  qed
qed

lemma server_start_reachable:
  assumes "server_start os sv = (st, sv')" "reachable (sv_engine sv)"
  shows "reachable (sv_engine sv')"
  using assms restore_state_reachable [OF assms(2), of os]
  by (auto simp: server_start_def split: if_splits prod.splits sum.splits)

lemma server_new_reachable: "reachable (sv_engine (server_new path content cfg t1 t2 th))"
  by (auto simp: server_new_def Let_def intro: reachable.intros operation.listening)

lemma running_reachable: "running s \<Longrightarrow> reachable (sv_engine (fst s))"
proof (induction rule: running.induct)
  case (started os path content cfg ticks1 ticks2 thread_hash st sv)
  then show ?case using server_start_reachable [OF _ server_new_reachable] by simp
next
  case (stepped s s')
  then show ?case
    using server_step_engine [of "fst s" "snd s" "fst s'" "snd s'"] by (auto intro: reachable.step)
qed

lemma server_run_boots:
  "server_step\<^sup>*\<^sup>* s s' \<Longrightarrow> boots_advance (sv_worker_boots (fst s)) (sv_worker_boots (fst s'))"
proof (induction rule: rtranclp_induct)
  case (step s s')
  then show ?case using server_step_boots [of "fst s" "snd s" "fst s'" "snd s'"] by (auto intro: boots_advance_trans)
qed simp

end
