(* ===== verification/Service.thy ===== *)
theory Service
  imports Server_Safety
begin

text \<open>
  The coordinator as a service: what a worker and an operator can rely on at the transport boundary, over restarts and
  when the state file cannot be written.
\<close>

section \<open>A server for the witnesses\<close>

definition demo_server :: server where
  "demo_server = \<lparr> sv_engine = demo_engine \<lparr> listener := True \<rparr>, sv_state_path = ''state'', sv_file = None, sv_running = True,
     sv_worker_boots = [(Identity 5 1, Identity 6 2)], sv_stale_authority_rejections = 0,
     sv_duplicate_request_rejections = 0, sv_protocol_rejections = 0 \<rparr>"

text \<open>Every call to the operating system succeeds.\<close>

definition smooth_start :: "nat \<Rightarrow> start_outcomes" where
  "smooth_start read_bytes = \<lparr> so_networking = success, so_read = \<lparr> rd_sized = True, rd_opened = True, rd_count = read_bytes,
     rd_bad = False \<rparr>, so_disk = (\<lambda>_. success), so_bound = success, so_listening = success \<rparr>"

definition demo_env :: environment where
  "demo_env = \<lparr> en_now = 1000, en_later = 2000, en_disk = (\<lambda>_. success), en_save = success, en_sent = True,
     en_stopping = False \<rparr>"

text \<open>A worker of an earlier boot puts the artifact on hold.\<close>

definition demo_trust :: TrustPayload where
  "demo_trust = \<lparr> tp_artifact = Identity 1 1, tp_successor = null_id, tp_decision = null_id, tp_evidence = null_id,
     tp_reason_class = ''cve'', tp_detail = [] \<rparr>"

definition demo_frame :: Frame where
  "demo_frame = empty_frame \<lparr> fr_type := MT_QuarantineRequest, fr_request := Identity 7 1, fr_coordinator := Identity 9 1,
     fr_epoch := Counter 3, fr_worker := Identity 5 1, fr_boot := Identity 6 1, fr_payload := write_trust demo_trust \<rparr>"

definition demo_connection :: connection where
  "demo_connection = \<lparr> cn_seen_requests = [], cn_handshake_completed = True \<rparr>"

lemma demo_frame_simps:
  "fr_type demo_frame = MT_QuarantineRequest" "fr_request demo_frame = Identity 7 1" "fr_worker demo_frame = Identity 5 1"
  "fr_boot demo_frame = Identity 6 1"
  by (simp_all add: demo_frame_def)

lemma demo_frame_decodes: "decode_frame (sealed_frame demo_frame) = Inr demo_frame"
proof -
  have "length (write_trust demo_trust) \<le> kMaxFrameBytes"
    by (simp add: write_trust_def demo_trust_def write_text_def kMaxFrameBytes_def size_limits)
  then have "encode_frame demo_frame = Inr (sealed_frame demo_frame)"
    by (simp add: encode_frame_iff frame_fits_def demo_frame_def empty_frame_def unknown_flags_def kFlagNone_def
        id_valid_def)
  then show ?thesis by (rule decode_frame_accepts) (simp add: demo_frame_def empty_frame_def)
qed

lemma demo_trust_decodes: "decode_trust (fr_payload demo_frame) = Inr demo_trust"
proof -
  have "trust_fits demo_trust" by (simp add: trust_fits_def demo_trust_def size_limits)
  then show ?thesis
    using trust_message.decoded [of demo_trust "write_trust demo_trust"] by (simp add: demo_frame_def encode_trust_def)
qed

lemma demo_authorised_frame: "authorised demo_frame demo_server"
  by (simp add: authorised_def demo_frame_def demo_server_def demo_engine_def demo_state_def)

lemma demo_quarantined:
  "\<exists>m e. quarantine (Identity 1 1) ''cve'' [] (server_authority demo_server) (sv_engine demo_server) = (Inr m, e)
     \<and> persist_epoch e = 1"
proof -
  have cur: "find_current demo_state (Identity 1 1) = Some demo_artifact"
    by (simp add: find_current_def demo_state_def)
  have "is_valid_name ''cve''" "has_edge (po_graph demo_policy) St_Approved St_Quarantined" by code_simp+
  moreover have "\<not> qr_active (ar_quarantine demo_artifact)" "ar_stage demo_artifact = St_Approved"
    by (simp_all add: demo_artifact_def no_quarantine_def)
  moreover have "active_policy_body demo_state = demo_policy" by (simp add: demo_state_def set_active_policy_def)
  ultimately show ?thesis
    using cur
    by (simp add: quarantine_def foreign_authority_def demo_server_def demo_engine_def authority_of_def Let_def
        case_prod_beta finish_def notify_change_def touch_def)
qed

lemma demo_serves:
  "\<exists>sent cn' sv'. serve_bytes demo_env (sealed_frame demo_frame) demo_connection demo_server = (sent, cn', sv')
     \<and> sv_engine sv' \<noteq> sv_engine demo_server"
proof -
  let ?sv = "snd (snd (serve_bytes demo_env (sealed_frame demo_frame) demo_connection demo_server))"
  obtain m e where q: "quarantine (Identity 1 1) ''cve'' [] (server_authority demo_server) (sv_engine demo_server) = (Inr m, e)"
    "persist_epoch e = 1" using demo_quarantined by blast
  have "sv_engine ?sv = e"
    using demo_authorised_frame demo_trust_decodes q(1)
    by (simp add: serve_bytes_server demo_frame_decodes answer_request_server admitted_def demo_connection_def
        demo_frame_simps handle_frame_def handle_quarantine_def handle_trust_def with_authority_eq with_payload_def
        perform_eq) (simp add: demo_trust_def)
  moreover have "persist_epoch (sv_engine demo_server) = 0" by (simp add: demo_server_def demo_engine_def)
  ultimately have "sv_engine ?sv \<noteq> sv_engine demo_server" using q(2) by auto
  then show ?thesis by (metis prod.collapse)
qed

section \<open>Every run of the server is a run of the engine\<close>

text \<open>
  C7: Whatever bytes its connections receive, in whatever order, and whatever the clock, the disk and the network
  decide, a running coordinator server holds an engine that the engine's own operations can reach from construction:
  the transport adds no behaviour to the coordinator.
\<close>

theorem server_refines_engine:
  assumes "running (sv, cs)"
  shows "reachable (sv_engine sv)"
  using running_reachable [OF assms] by simp

definition demo_started :: server where
  "demo_started = (server_new [] None config_defaults 1 2 3) \<lparr> sv_running := True \<rparr>"

lemma demo_running: "running (demo_started, Map.empty)"
  by (rule running.started [where os = "smooth_start 0" and st = success and path = "[]" and content = None
        and cfg = config_defaults and ?ticks1.0 = 1 and ?ticks2.0 = 2 and thread_hash = 3])
    (simp_all add: server_start_def restore_state_def server_new_def demo_started_def smooth_start_def Let_def)

theorem server_refines_engine_witness:
  "running (demo_started, Map.empty) \<and> reachable (sv_engine demo_started)"
  using server_refines_engine [OF demo_running] demo_running by simp

section \<open>Who can change the coordinator\<close>

text \<open>
  C8: Bytes received on a connection change the engine only when they are a valid frame with a request type other than
  the handshake, on a connection whose handshake is complete, under a request identity the connection has not used, while
  new work is admitted, naming the current coordinator and the current epoch; and then the change is one operation of the
  engine.
\<close>

theorem only_authorised_requests_act:
  assumes "serve_bytes env full cn sv = (sent, cn', sv')" and "sv_engine sv' \<noteq> sv_engine sv"
  shows "\<exists>f. decode_frame full = Inr f \<and> is_request_type (fr_type f) \<and> fr_type f \<noteq> MT_HelloRequest
    \<and> cn_handshake_completed cn \<and> fr_request f \<notin> set (cn_seen_requests cn) \<and> admission_open (sv_engine sv)
    \<and> fr_coordinator f = coordinator (state (sv_engine sv)) \<and> fr_epoch f = epoch (state (sv_engine sv))
    \<and> operation (sv_engine sv) (sv_engine sv')"
proof -
  have sv': "snd (snd (serve_bytes env full cn sv)) = sv'" using assms(1) by simp
  from serve_bytes_engine [of env full cn sv] assms(2) obtain f where f: "decode_frame full = Inr f" "admitted f cn"
    "fr_type f \<noteq> MT_HelloRequest" "authorised f sv" "operation (sv_engine sv) (sv_engine sv')"
    by (auto simp: sv')
  moreover have "fr_type f \<noteq> MT_Goodbye"
    using f(1) assms(2) sv' by (auto simp: serve_bytes_server)
  moreover have "is_request_type (fr_type f)"
  proof (rule ccontr)
    assume "\<not> is_request_type (fr_type f)"
    then have "snd (handle_frame env f sv) = sv"
      by (cases "fr_type f") (simp_all add: is_request_type_def handle_frame_def)
    with f assms(2) sv' show False by (auto simp: serve_bytes_server answer_request_server split: if_splits)
  qed
  ultimately show ?thesis by (auto simp: admitted_def authorised_def)
qed

theorem only_authorised_requests_act_witness:
  "\<exists>sent cn' sv'. serve_bytes demo_env (sealed_frame demo_frame) demo_connection demo_server = (sent, cn', sv')
     \<and> sv_engine sv' \<noteq> sv_engine demo_server \<and> operation (sv_engine demo_server) (sv_engine sv')"
proof -
  obtain sent cn' sv' where serves: "serve_bytes demo_env (sealed_frame demo_frame) demo_connection demo_server = (sent, cn', sv')"
    "sv_engine sv' \<noteq> sv_engine demo_server" using demo_serves by blast
  with only_authorised_requests_act [OF serves] show ?thesis by auto
qed

section \<open>Every request gets its answer\<close>

lemma answered:
  assumes "decode_frame full = Inr f" "fr_type f \<noteq> MT_Goodbye" "id_valid (fr_request f)"
    and "answer_request env f cn sv = (response, cn1, sv1)" "length (fr_payload response) \<le> kMaxFrameBytes"
  shows "\<exists>reply. serve_bytes env full cn sv = (Some reply, if en_sent env then Some cn1 else None, sv1)
    \<and> decode_frame reply = Inr response"
proof -
  have r: "responds f (sv_engine sv1) response"
    using answer_responds [of f env cn sv] assms(4) by simp
  then have "frame_fits response"
    using assms(3,5) response_type_valid [of "fr_type f"] by (auto simp: responds_def frame_fits_def)
  then have "encode_frame response = Inr (sealed_frame response)" by (simp add: encode_frame_iff)
  moreover from this have "decode_frame (sealed_frame response) = Inr response"
    using r by (simp add: decode_frame_accepts responds_def)
  ultimately show ?thesis using assms(1,2,4) by (simp add: serve_bytes_def)
qed

text \<open>
  C16: Every valid frame with a request identity, other than a goodbye, is answered: the reply is a valid frame that
  correlates with the request, names the current coordinator and epoch, and has the response type of the request or is
  an error, unless the payload of the response does not fit a frame, which an error's payload always does.
\<close>

theorem every_request_is_answered:
  assumes "decode_frame full = Inr f" and "fr_type f \<noteq> MT_Goodbye" and "id_valid (fr_request f)"
  shows "\<exists>response cn1 sv1. answer_request env f cn sv = (response, cn1, sv1)
    \<and> responds f (sv_engine sv1) response
    \<and> (if length (fr_payload response) \<le> kMaxFrameBytes
       then \<exists>reply. serve_bytes env full cn sv = (Some reply, if en_sent env then Some cn1 else None, sv1)
          \<and> decode_frame reply = Inr response
       else fr_type response \<noteq> MT_Error \<and> serve_bytes env full cn sv = (None, None, sv1))"
proof -
  obtain response cn1 sv1 where ans: "answer_request env f cn sv = (response, cn1, sv1)" by (metis prod.exhaust)
  then have r: "responds f (sv_engine sv1) response" using answer_responds [of f env cn sv] by simp
  have "fr_type response \<noteq> MT_Error \<and> serve_bytes env full cn sv = (None, None, sv1)"
    if "\<not> length (fr_payload response) \<le> kMaxFrameBytes"
  proof
    show "fr_type response \<noteq> MT_Error"
      using answer_error_bounded [of env f cn sv] ans that by auto
    have "encode_frame response \<noteq> Inr reply" for reply
      using that by (auto simp: encode_frame_iff frame_fits_def)
    then show "serve_bytes env full cn sv = (None, None, sv1)"
      using assms ans by (auto simp: serve_bytes_def split: sum.splits)
  qed
  with answered [OF assms ans] ans r show ?thesis by auto
qed

theorem every_request_is_answered_witness:
  "\<exists>reply response cn1 sv1. decode_frame (sealed_frame demo_frame) = Inr demo_frame
     \<and> serve_bytes demo_env (sealed_frame demo_frame) new_connection demo_server = (Some reply, Some cn1, sv1)
     \<and> decode_frame reply = Inr response \<and> fr_type response = MT_Error \<and> sv1 = demo_server"
proof -
  have sent: "en_sent demo_env" by (simp add: demo_env_def)
  have ids: "fr_type demo_frame \<noteq> MT_Goodbye" "id_valid (fr_request demo_frame)"
    by (simp_all add: demo_frame_simps id_valid_def)
  have "fst (answer_request demo_env demo_frame new_connection demo_server) =
      error_response demo_frame (server_authority demo_server) EC_StaleWorkerBoot
        ''no handshake has been completed on this connection'' empty_frame"
    "snd (snd (answer_request demo_env demo_frame new_connection demo_server)) = demo_server"
    by (simp_all add: answer_request_def new_connection_def demo_frame_simps Let_def)
  with every_request_is_answered [OF demo_frame_decodes ids, of demo_env new_connection demo_server] sent demo_frame_decodes
  show ?thesis using error_payload_bounded by (auto simp: length_write_status)
qed

section \<open>Repetition\<close>

lemma answer_request_seen:
  "cn_seen_requests (fst (snd (answer_request env f cn sv))) =
     (if fr_request f \<in> set (cn_seen_requests cn) then cn_seen_requests cn else fr_request f # cn_seen_requests cn)"
  by (simp add: answer_request_def Let_def case_prod_beta)

lemma response_request: "fr_request (fst (answer_request env f cn sv)) \<in> {null_id, fr_request f}"
  by (auto simp: answer_request_def handled_response_def fill_response_header_def Let_def case_prod_beta split: sum.splits)

lemma kept_open:
  assumes "serve_bytes env full cn sv = (sent, Some cn1, sv1)"
  obtains f where "decode_frame full = Inr f" "fr_type f \<noteq> MT_Goodbye" "id_valid (fr_request f)"
    "fr_request f \<in> set (cn_seen_requests cn1)"
proof -
  from assms obtain f response reply where f: "decode_frame full = Inr f" "fr_type f \<noteq> MT_Goodbye"
    "answer_request env f cn sv = (response, cn1, sv1)" "encode_frame response = Inr reply"
    by (auto simp: serve_bytes_def split: sum.splits if_splits prod.splits)
  have "fr_correlation response = fr_request f" "fr_request response \<in> {null_id, fr_request f}"
    using answer_responds [of f env cn sv] response_request [of env f cn sv] f(3) by (auto simp: responds_def)
  then have "id_valid (fr_request f)"
    using f(4) by (auto simp: encode_frame_iff frame_fits_def id_valid_def null_id_def)
  then show ?thesis
    using that [OF f(1,2)] f(3) answer_request_seen [of env f cn sv] by (auto split: if_splits)
qed

text \<open>While a connection stays open it forgets no request.\<close>

lemma serve_bytes_seen:
  assumes "serve_bytes env full cn sv = (sent, Some cn1, sv1)"
  shows "set (cn_seen_requests cn) \<subseteq> set (cn_seen_requests cn1)"
proof -
  from assms obtain f response where "answer_request env f cn sv = (response, cn1, sv1)"
    by (auto simp: serve_bytes_def split: sum.splits if_splits prod.splits)
  with answer_request_seen [of env f cn sv] show ?thesis by auto
qed

lemma server_step_seen:
  assumes "server_step (sv, cs) (sv', cs')" and "cs n = Some cn" and "cs' n = Some cn'"
  shows "set (cn_seen_requests cn) \<subseteq> set (cn_seen_requests cn')"
  using assms
  by (elim server_step_cases) (auto split: if_splits dest: serve_bytes_seen)

definition step_keeping :: "nat \<Rightarrow> server \<times> connections \<Rightarrow> server \<times> connections \<Rightarrow> bool" where
  "step_keeping n s s' \<longleftrightarrow> server_step s s' \<and> snd s' n \<noteq> None"

lemma run_keeping_seen:
  assumes "(step_keeping n)\<^sup>*\<^sup>* s s'" and "snd s n = Some cn"
  shows "\<exists>cn'. snd s' n = Some cn' \<and> set (cn_seen_requests cn) \<subseteq> set (cn_seen_requests cn')"
  using assms
proof (induction rule: rtranclp_induct)
  case (step s' s'')
  then obtain cn' cn'' where "snd s' n = Some cn'" "set (cn_seen_requests cn) \<subseteq> set (cn_seen_requests cn')"
    "snd s'' n = Some cn''" "server_step s' s''"
    by (auto simp: step_keeping_def)
  with server_step_seen [of "fst s'" "snd s'" "fst s''" "snd s''" n cn' cn''] show ?case by auto
qed simp

text \<open>
  C29: A frame that was served on a connection never acts again on it.  Let the connection stay open after the frame was
  served, and let the server run on in any way that does not close this connection: bytes served on it and on other
  connections, connections accepted and closed, saves and a stop.  When the same bytes then arrive again on the
  connection, the reply is an error for a duplicate request and only the rejection counter changes.
\<close>

theorem repeated_frame_never_acts:
  assumes "serve_bytes env full cn sv = (sent, Some cn1, sv1)"
    and "(step_keeping n)\<^sup>*\<^sup>* (sv1, cs(n \<mapsto> cn1)) (sv2, cs2)"
  shows "\<exists>cn2 reply response. cs2 n = Some cn2
    \<and> serve_bytes env2 full cn2 sv2 = (Some reply, if en_sent env2 then Some cn2 else None, duplicate_rejection sv2)
    \<and> decode_frame reply = Inr response \<and> fr_type response = MT_Error
    \<and> fr_payload response = write_status EC_DuplicateRequest
        ''this request identity was already received on this connection''"
proof -
  from assms(1) obtain f where f: "decode_frame full = Inr f" "fr_type f \<noteq> MT_Goodbye" "id_valid (fr_request f)"
    and "fr_request f \<in> set (cn_seen_requests cn1)" by (rule kept_open)
  moreover obtain cn2 where cn2: "cs2 n = Some cn2" "set (cn_seen_requests cn1) \<subseteq> set (cn_seen_requests cn2)"
    using run_keeping_seen [OF assms(2), of cn1] by auto
  ultimately have "answer_request env2 f cn2 sv2 =
      (error_response f (server_authority sv2) EC_DuplicateRequest
        ''this request identity was already received on this connection'' empty_frame, cn2, duplicate_rejection sv2)"
    by (auto simp: answer_request_def)
  from answered [OF f this] cn2(1) show ?thesis by (auto simp: length_write_status)
qed

lemma demo_kept_open:
  "\<exists>sent cn1. serve_bytes demo_env (sealed_frame demo_frame) new_connection demo_server = (sent, Some cn1, demo_server)"
proof -
  obtain cn1 where "answer_request demo_env demo_frame new_connection demo_server =
      (error_response demo_frame (server_authority demo_server) EC_StaleWorkerBoot
        ''no handshake has been completed on this connection'' empty_frame, cn1, demo_server)"
    by (simp add: answer_request_def new_connection_def demo_frame_simps Let_def)
  from answered [OF demo_frame_decodes _ _ this] show ?thesis
    by (auto simp: length_write_status demo_frame_simps id_valid_def demo_env_def)
qed

theorem repeated_frame_never_acts_witness:
  "\<exists>sent cn1. serve_bytes demo_env (sealed_frame demo_frame) new_connection demo_server = (sent, Some cn1, demo_server)
     \<and> (step_keeping 0)\<^sup>*\<^sup>* (demo_server, [0 \<mapsto> cn1]) (demo_server, [0 \<mapsto> cn1, 1 \<mapsto> new_connection])
     \<and> snd (snd (serve_bytes demo_env (sealed_frame demo_frame) cn1 demo_server)) = duplicate_rejection demo_server"
proof -
  obtain sent cn1 where first: "serve_bytes demo_env (sealed_frame demo_frame) new_connection demo_server = (sent, Some cn1, demo_server)"
    using demo_kept_open by blast
  have "step_keeping 0 (demo_server, [0 \<mapsto> cn1]) (demo_server, [0 \<mapsto> cn1, 1 \<mapsto> new_connection])"
    using server_step.accepted [of "[0 \<mapsto> cn1]" 1 demo_server] by (simp add: step_keeping_def)
  then have run: "(step_keeping 0)\<^sup>*\<^sup>* (demo_server, [0 \<mapsto> cn1]) (demo_server, [0 \<mapsto> cn1, 1 \<mapsto> new_connection])"
    by (rule r_into_rtranclp)
  from repeated_frame_never_acts [OF first run, of demo_env] first run show ?thesis by auto
qed

section \<open>Worker boots\<close>

text \<open>
  C30: Once a worker boot is registered, the handshake of every older boot of that worker is refused for as long as the
  server runs, whatever other requests are served in between.
\<close>

theorem older_boot_stays_fenced:
  assumes "server_step\<^sup>*\<^sup>* (sv, cs) (sv', cs')" and "om_find (sv_worker_boots sv) (fr_worker f) = Some b"
    and "fr_boot f < b" and "fr_type f = MT_HelloRequest" and "id_valid (fr_worker f)" and "id_valid (fr_boot f)"
  shows "handle_frame env f sv' =
    (Inl (fail EC_StaleWorkerBoot ''this worker boot identity is older than the incarnation already registered''),
     stale_rejection sv')"
proof -
  from server_run_boots [OF assms(1)] assms(2) obtain b' where "om_find (sv_worker_boots sv') (fr_worker f) = Some b'" "b \<le> b'"
    by (auto simp: boots_advance_def)
  with assms(3-6) show ?thesis
    by (auto simp: handle_frame_def handle_hello_def register_worker_boot_def)
qed

definition demo_hello :: Frame where
  "demo_hello = empty_frame \<lparr> fr_type := MT_HelloRequest, fr_request := Identity 7 2, fr_worker := Identity 5 1,
     fr_boot := Identity 6 1 \<rparr>"

theorem older_boot_stays_fenced_witness:
  "server_step\<^sup>*\<^sup>* (demo_server, Map.empty) (protocol_rejection demo_server, Map.empty)
   \<and> fst (handle_frame demo_env demo_hello (protocol_rejection demo_server)) =
       Inl (fail EC_StaleWorkerBoot ''this worker boot identity is older than the incarnation already registered'')"
proof -
  have "server_step (demo_server, Map.empty) (demo_server, [0 \<mapsto> new_connection])"
    using server_step.accepted [of Map.empty 0 demo_server] by simp
  moreover have "server_step (demo_server, [0 \<mapsto> new_connection]) (protocol_rejection demo_server, Map.empty)"
    using server_step.refused [of "[0 \<mapsto> new_connection]" 0 new_connection demo_server] by simp
  ultimately have run: "server_step\<^sup>*\<^sup>* (demo_server, Map.empty) (protocol_rejection demo_server, Map.empty)" by simp
  have "Identity 6 1 < (Identity 6 2 :: WorkerBootId)" by code_simp
  then show ?thesis
    using older_boot_stays_fenced [OF run, of demo_hello "Identity 6 2" demo_env] run
    by (simp add: demo_hello_def demo_server_def id_valid_def)
qed

text \<open>
  C38: Outside the handshake the registered boots are not consulted: every other request is answered and takes effect
  alike under any registry, so a worker whose boot a newer one has fenced keeps acting on a connection it opened before.
\<close>

theorem fenced_boot_keeps_acting:
  assumes "fr_type f \<noteq> MT_HelloRequest"
  shows "handle_frame env f (with_boots boots sv) =
    (fst (handle_frame env f sv), with_boots boots (snd (handle_frame env f sv)))"
proof -
  from assms obtain handle where "request_handler handle" "\<And>env sv. handle_frame env f sv = handle env f sv"
    by (rule frame_handler) blast
  with request_handler.handle_boots [of handle env f boots sv] show ?thesis by simp
qed

theorem fenced_boot_keeps_acting_witness:
  "om_find (sv_worker_boots demo_server) (fr_worker demo_frame) = Some (Identity 6 2) \<and> fr_boot demo_frame < Identity 6 2
   \<and> (\<exists>sent cn' sv'. serve_bytes demo_env (sealed_frame demo_frame) demo_connection demo_server = (sent, cn', sv')
        \<and> sv_engine sv' \<noteq> sv_engine demo_server)
   \<and> fst (handle_frame demo_env demo_frame (with_boots [] demo_server)) = fst (handle_frame demo_env demo_frame demo_server)"
proof -
  have "Identity 6 1 < (Identity 6 2 :: WorkerBootId)" by code_simp
  then show ?thesis
    using demo_serves fenced_boot_keeps_acting [of demo_frame demo_env "[]" demo_server]
    by (simp add: demo_frame_simps demo_server_def)
qed

section \<open>Starting from a state file\<close>

lemma install_state_effect:
  assumes "install_state st e = (r, e')"
  shows "if status_failed r then e' = e else state e' = st \<lparr> pending := [] \<rparr> \<and> notified e' = notified e"
  using assms by (auto simp: install_state_def Let_def touch_def split: if_splits)

lemma recover_nothing: "pending (state e) = [] \<Longrightarrow> recover_in_flight e = (0, e)"
  by (simp add: recover_in_flight_def Let_def)

lemma with_engine_quiet:
  "notified (snd (operate (sv_engine sv))) = notified (sv_engine sv)
    \<Longrightarrow> with_engine d operate sv = (fst (operate (sv_engine sv)), sv \<lparr> sv_engine := snd (operate (sv_engine sv)) \<rparr>)"
  by (simp add: with_engine_def persist_notified_def case_prod_beta)

lemma restore_state_cases:
  assumes "restore_state os sv = (r, sv')" and "sv_state_path sv \<noteq> []" and "sv_file sv = Some content"
  shows "(\<exists>e. r = Inl e \<and> sv' = sv \<and> (load_snapshot (so_read os) content (sv_state_path sv) = Inl e \<or> status_failed e))
    \<or> r = Inr () \<and> (\<exists>loaded e. decode_snapshot content = Inr loaded \<and> sv' = sv \<lparr> sv_engine := e \<rparr>
      \<and> state e = loaded \<lparr> epoch := counter_next (epoch loaded), pending := [] \<rparr>)"
proof (cases "load_snapshot (so_read os) content (sv_state_path sv)")
  case (Inl e)
  then show ?thesis using assms by (auto simp: restore_state_def)
next
  case (Inr loaded)
  let ?st = "loaded \<lparr> epoch := counter_next (epoch loaded) \<rparr>"
  obtain installed e where i: "install_state ?st (sv_engine sv) = (installed, e)" by fastforce
  note effect = install_state_effect [OF i]
  have quiet: "with_engine (so_disk os) (install_state ?st) sv = (installed, sv \<lparr> sv_engine := e \<rparr>)"
    using with_engine_quiet [of "install_state ?st" sv "so_disk os"] effect by (auto simp: i split: if_splits)
  show ?thesis
  proof (cases "status_failed installed")
    case True
    with assms Inr quiet effect show ?thesis by (auto simp: restore_state_def)
  next
    case False
    then have "state e = loaded \<lparr> epoch := counter_next (epoch loaded), pending := [] \<rparr>" using effect by simp
    moreover from this have "with_engine (so_disk os) recover_in_flight (sv \<lparr> sv_engine := e \<rparr>) = (0, sv \<lparr> sv_engine := e \<rparr>)"
      using with_engine_quiet [of recover_in_flight "sv \<lparr> sv_engine := e \<rparr>" "so_disk os"] by (simp add: recover_nothing)
    ultimately show ?thesis
      using assms Inr False quiet load_snapshot_decodes [OF Inr] by (auto simp: restore_state_def)
  qed
qed

lemma start_outcome:
  assumes "server_start os sv = (st, sv')" and "sv_state_path sv \<noteq> []" and "sv_file sv = Some content"
    and "\<not> sv_running sv"
  shows "(sv' = sv \<and> (load_snapshot (so_read os) content (sv_state_path sv) = Inl st \<or> status_failed st))
    \<or> sv_running sv' = status_ok st \<and> sv_file sv' = sv_file sv \<and> (\<exists>loaded. decode_snapshot content = Inr loaded
      \<and> state (sv_engine sv') = loaded \<lparr> epoch := counter_next (epoch loaded), pending := [] \<rparr>)"
proof (cases "status_failed (so_networking os)")
  case True
  then show ?thesis using assms by (auto simp: server_start_def)
next
  case False
  obtain r sv1 where r: "restore_state os sv = (r, sv1)" by fastforce
  from restore_state_cases [OF r assms(2,3)] show ?thesis
  proof (elim disjE exE conjE)
    fix e
    assume "r = Inl e" "sv1 = sv" "load_snapshot (so_read os) content (sv_state_path sv) = Inl e"
    with assms(1,4) False r show ?thesis by (auto simp: server_start_def)
  next
    fix e
    assume "r = Inl e" "sv1 = sv" "status_failed e"
    with assms(1,4) False r show ?thesis by (auto simp: server_start_def)
  next
    fix loaded e
    assume ok: "r = Inr ()" "decode_snapshot content = Inr loaded" "sv1 = sv \<lparr> sv_engine := e \<rparr>"
      and e: "state e = loaded \<lparr> epoch := counter_next (epoch loaded), pending := [] \<rparr>"
    with assms(1,4) False r ok e show ?thesis
      by (auto simp: server_start_def status_failed_iff split: if_splits)
  qed
qed

text \<open>
  C15: A start with a state file either fails and leaves the server as it was, or has taken the decoded state over with
  the epoch advanced and without any reservation, so that no plan of the previous process can commit; it never starts
  from an empty state, it leaves the file as it is, and the server runs exactly when nothing failed.
\<close>

theorem start_fences_previous_process:
  assumes "server_start os sv = (st, sv')" and "sv_state_path sv \<noteq> []" and "sv_file sv = Some content"
    and "\<not> sv_running sv"
  shows "(sv' = sv \<and> (load_snapshot (so_read os) content (sv_state_path sv) = Inl st \<or> status_failed st))
    \<or> sv_running sv' = status_ok st \<and> sv_file sv' = sv_file sv \<and> (\<exists>loaded. decode_snapshot content = Inr loaded
      \<and> state (sv_engine sv') = loaded \<lparr> epoch := counter_next (epoch loaded), pending := [] \<rparr>
      \<and> \<not> commits now plan (sv_engine sv'))"
proof -
  have "\<not> commits now plan e" if "state e = loaded \<lparr> epoch := counter_next (epoch loaded), pending := [] \<rparr>" for e loaded
    using that by (intro unreserved_never_commits) simp
  with start_outcome [OF assms] show ?thesis by metis
qed

text \<open>A coordinator under a small policy, saved before its first artifact.\<close>

definition boot_policy :: PromotionPolicy where
  "boot_policy = empty_policy \<lparr> po_id := Identity 6 1, po_generation := Counter 2, po_name := ''boot'',
     po_graph := LifecycleGraph
       [Edge St_Candidate St_Verified, Edge St_Candidate St_Retired, Edge St_Verified St_Retired],
     po_rules := [demo_rule \<lparr> ru_from := St_Candidate, ru_to := St_Verified \<rparr>], po_policy_digest := demo_digest \<rparr>"

definition boot_state :: CoordinatorState where
  "boot_state = (set_active_policy boot_policy empty_state) \<lparr> coordinator := Identity 9 1, epoch := Counter 3 \<rparr>"

lemma boot_policy_valid: "status_ok (policy_validate boot_policy)" "is_canonical (po_graph boot_policy)"
  by code_simp+

lemma boot_policy_fits: "policy_fits boot_policy"
proof -
  have "list_all gate_fits demo_gates"
    using demo_gates_valid by (simp add: demo_gates_def gate_fits_def empty_gate_def size_limits is_valid_evidence_type_def)
  then have "rule_fits (demo_rule \<lparr> ru_from := St_Candidate, ru_to := St_Verified \<rparr>)"
    by (simp add: rule_fits_def demo_rule_def empty_rule_def scope_fits_def list_fits_def kMaxRuleGates_def
        kMaxRulePreferences_def) (simp add: demo_gates_def)
  moreover have "graph_fits (po_graph boot_policy)"
    using boot_policy_valid(2) by (simp add: graph_fits_def boot_policy_def edge_fits_def kMaxGraphEdges_def)
  ultimately show ?thesis
    by (simp add: policy_fits_def) (simp add: boot_policy_def empty_policy_def size_limits demo_digest_def)
qed

lemma boot_payload_small: "length (encode_payload boot_state) \<le> 10000"
proof -
  have "length (write_policy boot_policy) \<le> 2000"
    by (simp add: write_policy_def boot_policy_def empty_policy_def write_text_def write_list_def write_digest_def
        demo_digest_def write_lifecycle_graph_def write_edge_def write_rule_def demo_rule_def empty_rule_def
        demo_gates_def write_gate_def empty_gate_def write_size_def size_limits)
  then show ?thesis
    by (simp add: encode_payload_framed snapshot_sections_def framed_def write_blob_def boot_state_def
        empty_state_def set_active_policy_def write_header_def write_map_def write_list_def
        write_generators_def write_generator_def write_digest_def)
      (simp add: boot_policy_def demo_digest_def)
qed

lemma boot_state_fits: "snapshot_fits boot_state"
proof -
  have "policy_mirrored boot_state" "generators_fit boot_state" "maps_fit boot_state" "active_policy_body boot_state = boot_policy"
    by (simp_all add: policy_mirrored_def generators_fit_def maps_fit_def map_fits_def om_ok_def boot_state_def
        set_active_policy_def empty_state_def gen_new_def gen_default_def)
  then show ?thesis
    using boot_payload_small boot_policy_fits by (simp add: snapshot_fits_def kMaxSnapshotBytes_def)
qed

lemma boot_consistent: "status_ok (verify_consistency (boot_state \<lparr> epoch := Counter 4 \<rparr>))"
  using boot_policy_valid
  by (simp add: verify_consistency_def boot_state_def set_active_policy_def empty_state_def Let_def id_valid_def
      counter_valid_def status_failed_iff) (simp add: boot_policy_def)

definition boot_server :: server where
  "boot_server = demo_server \<lparr> sv_file := Some (encode_snapshot boot_state), sv_running := False \<rparr>"

lemma boot_decodes: "decode_snapshot (encode_snapshot boot_state) = Inr boot_state"
proof -
  have "advance_generators (boot_state \<lparr> pending := [] \<rparr>) = boot_state"
    by (simp add: advance_generators_def boot_state_def empty_state_def set_active_policy_def)
  then show ?thesis
    using boot_state_fits payload_back decode_sealed by (simp add: encode_snapshot_def snapshot_fits_def)
qed

definition boot_start :: start_outcomes where
  "boot_start = smooth_start (length (encode_snapshot boot_state))"

lemma boot_loads: "load_snapshot (so_read boot_start) (encode_snapshot boot_state) path = Inr boot_state"
proof -
  have "length (encode_snapshot boot_state) \<le> kMaxSnapshotBytes"
    using boot_payload_small
    by (simp add: encode_snapshot_def seal_snapshot_def write_digest_def kMaxSnapshotBytes_def Let_def)
  then show ?thesis
    using boot_decodes by (simp add: load_snapshot_def read_file_def boot_start_def smooth_start_def)
qed

lemma boot_starts: "fst (server_start boot_start boot_server) = success"
proof -
  have "install_state (boot_state \<lparr> epoch := Counter 4 \<rparr>) e = (success, (touch e) \<lparr> state := boot_state \<lparr> epoch := Counter 4 \<rparr> \<rparr>)" for e
    using boot_consistent
    by (simp add: install_state_def status_failed_iff boot_state_def empty_state_def set_active_policy_def)
  moreover have "counter_next (epoch boot_state) = Counter 4" by (simp add: boot_state_def counter_next_def)
  ultimately have "fst (restore_state boot_start boot_server) = Inr ()"
    using boot_loads
    by (simp add: restore_state_def boot_server_def demo_server_def with_engine_def case_prod_beta)
  moreover have "so_networking boot_start = success" "so_bound boot_start = success" "so_listening boot_start = success"
    "\<not> sv_running boot_server"
    by (simp_all add: boot_start_def smooth_start_def boot_server_def)
  ultimately show ?thesis
    by (auto simp: server_start_def split: prod.splits sum.splits)
qed

theorem start_fences_previous_process_witness:
  "\<exists>sv'. server_start boot_start boot_server = (success, sv') \<and> epoch (state (sv_engine sv')) = Counter 4
     \<and> sv_running sv' \<and> \<not> commits 2000 demo_plan (sv_engine sv')"
proof -
  obtain sv' where started: "server_start boot_start boot_server = (success, sv')"
    using boot_starts by (metis prod.collapse)
  have "sv_state_path boot_server \<noteq> []" "sv_file boot_server = Some (encode_snapshot boot_state)" "\<not> sv_running boot_server"
    by (simp_all add: boot_server_def demo_server_def)
  with start_fences_previous_process [OF started, of "encode_snapshot boot_state" 2000 demo_plan] started boot_decodes boot_loads
  show ?thesis by (auto simp: boot_state_def counter_next_def)
qed

section \<open>What is on disk when a promotion is acknowledged\<close>

lemma notify_change_listener [simp]: "listener (notify_change e) = listener e"
  by (simp add: notify_change_def Let_def)

lemma notify_change_grows: "length (notified e) \<le> length (notified (notify_change e))"
  by (simp add: notify_change_def Let_def)

lemma touch_quiet [simp]: "listener (touch e) = listener e" "notified (touch e) = notified e"
  by (simp_all add: touch_def)

lemma evaluate_notifies:
  assumes "evaluate now req e = (r, e')"
  shows "listener e' = listener e \<and> length (notified e) \<le> length (notified e')"
proof -
  have grows: "length (notified e) \<le> length (notified (notify_change ((touch e) \<lparr> state := st \<rparr>)))" for st
    using notify_change_grows [of "(touch e) \<lparr> state := st \<rparr>"] by simp
  from assms grows show ?thesis
    by (auto simp: evaluate_def Let_def case_prod_beta split: if_splits option.splits)
qed

text \<open>A committed transition calls the listener with the state it leaves.\<close>

lemma commit_notifies:
  assumes "commit now plan e = (Inr r, e')" "cr_outcome r = PO_PromotionCommitted" "listener e"
  shows "\<exists>ns. notified e' = notified e @ ns @ [state e']"
proof -
  obtain touched flag st' where cp: "commit_plan (config e) now plan (state e) = (r, touched, flag, st')"
    using commit_cases [OF assms(1)] by metis
  with commit_plan_flag [OF cp] assms(2) have "flag" by simp
  with assms(1,3) cp show ?thesis
    by (auto simp: commit_def acknowledge_def notify_change_def touch_def Let_def split: if_splits option.splits)
qed

lemma promote_commits:
  assumes "promote now1 now2 req e = (Inr r, e')" "cr_record r = Some record"
  obtains r1 plan e1 where "evaluate now1 req e = (Inr r1, e1)" "commit now2 plan e1 = (Inr r, e')"
  using assms by (auto simp: promote_def split: prod.splits sum.splits option.splits)

lemma promote_notifies:
  assumes "promote now1 now2 req e = (Inr r, e')" "cr_outcome r = PO_PromotionCommitted" "cr_record r = Some record"
    and "listener e"
  shows "\<exists>ns. notified e' = ns @ [state e'] \<and> length (notified e) \<le> length ns"
    and "om_find (records (state e')) (pr_transition record) = Some record"
proof -
  obtain r1 plan e1 where ev: "evaluate now1 req e = (Inr r1, e1)" and c: "commit now2 plan e1 = (Inr r, e')"
    using assms(1,3) by (rule promote_commits)
  have "listener e1" "length (notified e) \<le> length (notified e1)"
    using evaluate_notifies [OF ev] assms(4) by auto
  moreover obtain ns where "notified e' = notified e1 @ ns @ [state e']"
    using commit_notifies [OF c assms(2)] calculation(1) by blast
  ultimately show "\<exists>ns. notified e' = ns @ [state e'] \<and> length (notified e) \<le> length ns"
    by (intro exI [of _ "notified e1 @ ns"]) simp
  obtain art d where "find_revision (state e1) (pl_artifact plan) (pl_artifact_revision plan) = Some art"
    and pc: "perform_commit (config e1) now2 plan (ar_stage art) d (put_decision (pl_decision plan) d
       (put_decision (pl_decision plan) (decision_at (pl_decision plan) (state e1)) (state e1))) = (r, state e')"
    using c assms(2) by (rule commit_committed_state)
  from perform_commit_state(2) [OF pc assms(3)]
  show "om_find (records (state e')) (pr_transition record) = Some record" .
qed

lemma persist_last:
  assumes "notified (sv_engine sv) = ns @ [state (sv_engine sv)]" "length (notified before) \<le> length ns" "status_ok (disk (length ns))"
  shows "sv_file (persist_notified disk before sv) = Some (encode_snapshot (snapshot (sv_engine sv)))"
  using assms by (simp add: persist_notified_def Let_def save_snapshot_def nth_append status_failed_iff)

text \<open>A coordinator that starts from the snapshot of another one has its artifacts, evidence, decisions and records.\<close>

lemma restart_keeps_lifecycle:
  assumes "sv_file sv = Some (encode_snapshot (snapshot e))" and "snapshot_fits (snapshot e)"
    and "sv_state_path sv \<noteq> []" and "\<not> sv_running sv" and "server_start os sv = (st, sv')" and "sv_running sv'"
  shows "artifacts (state (sv_engine sv')) = artifacts (state e) \<and> evidence (state (sv_engine sv')) = evidence (state e)
    \<and> decisions (state (sv_engine sv')) = decisions (state e) \<and> records (state (sv_engine sv')) = records (state e)"
proof -
  have "decode_snapshot (encode_snapshot (snapshot e)) = Inr (advance_generators ((snapshot e) \<lparr> pending := [] \<rparr>))"
    using payload_back [OF assms(2)] decode_sealed assms(2) by (simp add: encode_snapshot_def snapshot_fits_def)
  with start_outcome [OF assms(5,3,1,4)] assms(4,6) show ?thesis
    by (auto simp: advance_generators_def snapshot_def Let_def set_active_policy_def)
qed

text \<open>
  C14: When a promotion is acknowledged as committed, the change listener is set and the disk takes every write, the state
  file is the snapshot of the coordinator that acknowledged it and contains the promotion record.  When that snapshot is
  within the bounds of the format, a coordinator that runs after starting from this file has the same artifacts, evidence,
  decisions and promotion records.
\<close>

theorem acknowledged_promotion_is_saved:
  assumes "with_engine disk (promote now1 now2 req) sv = (Inr r, sv')" and "cr_outcome r = PO_PromotionCommitted"
    and "cr_record r = Some record" and "listener (sv_engine sv)" and "\<And>k. status_ok (disk k)"
  shows "sv_file sv' = Some (encode_snapshot (snapshot (sv_engine sv')))
    \<and> om_find (records (snapshot (sv_engine sv'))) (pr_transition record) = Some record
    \<and> (\<forall>os sv2 st sv3. snapshot_fits (snapshot (sv_engine sv')) \<and> sv_file sv2 = sv_file sv' \<and> sv_state_path sv2 \<noteq> []
        \<and> \<not> sv_running sv2 \<and> server_start os sv2 = (st, sv3) \<and> sv_running sv3 \<longrightarrow>
        artifacts (state (sv_engine sv3)) = artifacts (state (sv_engine sv'))
        \<and> evidence (state (sv_engine sv3)) = evidence (state (sv_engine sv'))
        \<and> decisions (state (sv_engine sv3)) = decisions (state (sv_engine sv'))
        \<and> records (state (sv_engine sv3)) = records (state (sv_engine sv')))"
proof -
  have p: "promote now1 now2 req (sv_engine sv) = (Inr r, sv_engine sv')"
    using assms(1) by (metis with_engine_simps(1,2) fst_conv snd_conv prod.collapse)
  note notifies = promote_notifies [OF p assms(2,3,4)]
  from notifies(1) obtain ns where ns: "notified (sv_engine sv') = ns @ [state (sv_engine sv')]"
    "length (notified (sv_engine sv)) \<le> length ns" by blast
  have "snd (with_engine disk (promote now1 now2 req) sv) =
      persist_notified disk (sv_engine sv) (sv \<lparr> sv_engine := sv_engine sv' \<rparr>)"
    by (simp add: with_engine_def p)
  then have "sv_file (snd (with_engine disk (promote now1 now2 req) sv)) = Some (encode_snapshot (snapshot (sv_engine sv')))"
    using persist_last [of "sv \<lparr> sv_engine := sv_engine sv' \<rparr>" ns] ns assms(5) by simp
  then have saved: "sv_file sv' = Some (encode_snapshot (snapshot (sv_engine sv')))" using assms(1) by simp
  moreover have "records (snapshot (sv_engine sv')) = records (state (sv_engine sv'))"
    by (simp add: snapshot_def Let_def set_active_policy_def)
  moreover note notifies(2)
  ultimately show ?thesis
    using restart_keeps_lifecycle [where e = "sv_engine sv'"] by auto
qed

lemma evaluate_listener:
  "fst (evaluate now req (e \<lparr> listener := b \<rparr>)) = fst (evaluate now req e)"
  "state (snd (evaluate now req (e \<lparr> listener := b \<rparr>))) = state (snd (evaluate now req e))"
  "config (snd (evaluate now req (e \<lparr> listener := b \<rparr>))) = config (snd (evaluate now req e))"
  "admission_open (snd (evaluate now req (e \<lparr> listener := b \<rparr>))) = admission_open (snd (evaluate now req e))"
  by (auto simp: evaluate_def Let_def touch_def case_prod_beta split: option.splits)

lemma demo_promotes:
  "\<exists>r e' record. promote 1000 2000 demo_request (sv_engine demo_server) = (Inr r, e')
     \<and> cr_outcome r = PO_PromotionCommitted \<and> cr_record r = Some record"
proof -
  obtain d where ev: "fst (evaluate 1000 demo_request demo_engine) = Inr \<lparr> er_decision = d, er_plan = Some demo_plan \<rparr>"
    using demo_evaluate by auto
  let ?e1 = "snd (evaluate 1000 demo_request (sv_engine demo_server))"
  have e1: "state ?e1 = state demo_reserved" "config ?e1 = config_defaults" "admission_open ?e1"
    by (simp_all add: demo_server_def evaluate_listener demo_reserved_def [symmetric] demo_reserved_simps)
  then obtain r e' where c: "commit 2000 demo_plan ?e1 = (Inr r, e')" "cr_outcome r = PO_PromotionCommitted"
    using commit_state_eq [of ?e1 demo_plan 2000] demo_plan_valid demo_authorised demo_plan_stored
      commit_plan_committed [of config_defaults 2000 demo_plan "state demo_reserved"] by auto
  obtain art d' where "find_revision (state ?e1) (pl_artifact demo_plan) (pl_artifact_revision demo_plan) = Some art"
    and pc: "perform_commit (config ?e1) 2000 demo_plan (ar_stage art) d' (put_decision (pl_decision demo_plan) d'
       (put_decision (pl_decision demo_plan) (decision_at (pl_decision demo_plan) (state ?e1)) (state ?e1))) = (r, state e')"
    using c by (rule commit_committed_state)
  from perform_commit_record(1) [OF pc] obtain committed where "cr_record r = Some committed" by auto
  moreover have "fst (evaluate 1000 demo_request (sv_engine demo_server)) = Inr \<lparr> er_decision = d, er_plan = Some demo_plan \<rparr>"
    using ev by (simp add: demo_server_def evaluate_listener)
  ultimately show ?thesis
    using c by (auto simp: promote_def case_prod_beta)
qed

theorem acknowledged_promotion_is_saved_witness:
  "\<exists>r sv'. with_engine (\<lambda>_. success) (promote 1000 2000 demo_request) demo_server = (Inr r, sv')
     \<and> cr_outcome r = PO_PromotionCommitted \<and> sv_file demo_server = None
     \<and> sv_file sv' = Some (encode_snapshot (snapshot (sv_engine sv'))) \<and> records (snapshot (sv_engine sv')) \<noteq> []"
proof -
  obtain r e' committed where p: "promote 1000 2000 demo_request (sv_engine demo_server) = (Inr r, e')"
    and r: "cr_outcome r = PO_PromotionCommitted" "cr_record r = Some committed" using demo_promotes by blast
  obtain sv' where w: "with_engine (\<lambda>_. success) (promote 1000 2000 demo_request) demo_server = (Inr r, sv')"
    by (simp add: with_engine_def p)
  have "listener (sv_engine demo_server)" "sv_file demo_server = None" by (simp_all add: demo_server_def)
  with acknowledged_promotion_is_saved [OF w r] w r show ?thesis by auto
qed

lemma persist_fails: "sv_file (persist_notified (\<lambda>_. fail EC_PersistenceIoError detail) before sv) = sv_file sv"
proof -
  have "foldl (\<lambda>s k. snd (save_snapshot (fail EC_PersistenceIoError detail) (g k) s)) sv ks = sv" for g and ks :: "nat list"
    by (induction ks) (simp_all add: save_snapshot_def)
  then show ?thesis by (simp add: persist_notified_def Let_def)
qed

lemma promote_unsaved:
  "sv_file (snd (handle_promote (env \<lparr> en_disk := \<lambda>_. fail EC_PersistenceIoError detail \<rparr>) f sv)) = sv_file sv"
  by (simp add: handle_promote_def with_payload_stage with_authority_eq with_payload_def perform_eq with_engine_def
      persist_fails require_authority_eq stale_rejection_def case_prod_beta split: sum.splits)

lemma handle_frame_save:
  assumes "fr_type f \<noteq> MT_SnapshotSaveRequest"
  shows "handle_frame (env \<lparr> en_save := save \<rparr>) f sv = handle_frame env f sv"
  using assms
  by (cases "fr_type f")
    (simp_all add: handle_frame_def handle_register_def handle_submit_def handle_promote_def handle_evaluate_def
      handle_explain_def handle_quarantine_def handle_release_def handle_revoke_def handle_revoke_evidence_def
      handle_supersede_def handle_retire_def handle_trust_def)

text \<open>
  C36: The acknowledgement does not depend on the disk: for every frame but a request to save a snapshot, whose reply
  reports its own write, the reply and the engine afterwards are the same whatever the writes of the state file return;
  so a promotion is acknowledged as committed although no write succeeded and the state file is what it was.
\<close>

theorem acknowledgement_ignores_disk:
  assumes "fr_type f \<noteq> MT_SnapshotSaveRequest"
  shows "fst (handle_frame (env \<lparr> en_disk := disk, en_save := save \<rparr>) f sv) = fst (handle_frame env f sv)
   \<and> sv_engine (snd (handle_frame (env \<lparr> en_disk := disk, en_save := save \<rparr>) f sv)) = sv_engine (snd (handle_frame env f sv))
   \<and> (fr_type f = MT_PromotionRequest \<longrightarrow>
        sv_file (snd (handle_frame (env \<lparr> en_disk := \<lambda>_. fail EC_PersistenceIoError detail \<rparr>) f sv)) = sv_file sv)"
proof -
  have unsaved: "sv_file (snd (handle_frame (env \<lparr> en_disk := \<lambda>_. fail EC_PersistenceIoError detail \<rparr>) f sv)) = sv_file sv"
    if "fr_type f = MT_PromotionRequest"
    using that promote_unsaved by (simp add: handle_frame_def)
  show ?thesis
  proof (cases "fr_type f = MT_HelloRequest")
    case True
    then show ?thesis by (simp add: handle_frame_def)
  next
    case False
    then obtain handle where "request_handler handle" "\<And>env sv. handle_frame env f sv = handle env f sv"
      by (rule frame_handler) blast
    with request_handler.handle_disk [of handle] handle_frame_save [OF assms, where env = "env \<lparr> en_disk := disk \<rparr>"] unsaved
    show ?thesis by simp
  qed
qed

theorem acknowledgement_ignores_disk_witness:
  "\<exists>reply. fst (handle_frame (demo_env \<lparr> en_disk := \<lambda>_. fail EC_PersistenceIoError ''full'',
        en_save := fail EC_PersistenceIoError ''full'' \<rparr>) demo_frame demo_server) = reply
     \<and> fst (handle_frame demo_env demo_frame demo_server) = reply
     \<and> sv_engine (snd (handle_frame demo_env demo_frame demo_server)) \<noteq> sv_engine demo_server"
proof -
  have "fr_type demo_frame \<noteq> MT_SnapshotSaveRequest" by (simp add: demo_frame_simps)
  moreover have "sv_engine (snd (handle_frame demo_env demo_frame demo_server)) \<noteq> sv_engine demo_server"
    using demo_serves
    by (auto simp: demo_frame_decodes serve_bytes_server answer_request_server admitted_def demo_connection_def demo_frame_simps
        dest!: arg_cong [where f = "\<lambda>x. snd (snd x)"])
  ultimately show ?thesis
    using acknowledgement_ignores_disk [of demo_frame, where env = demo_env and sv = demo_server
        and disk = "\<lambda>_. fail EC_PersistenceIoError ''full''" and save = "fail EC_PersistenceIoError ''full''"] by auto
qed

end
