(* ===== verification/Client.thy ===== *)
theory Client
  imports Server
begin

text \<open>
  The worker client (\<open>worker_client.hpp\<close>, \<open>src/distributed/worker_client.cpp\<close>): its construction, the
  handshake, the exchange of one frame and every request.  The socket is an argument: a peer takes the bytes of a frame
  and its own state \<open>'w\<close> and returns the outcome of the send, the bytes that arrive before the next send, and the
  status a receive fails with when they do not suffice.  Bytes that arrived and were not read wait in the client's inbox.
\<close>

section \<open>State\<close>

record client =
  cl_connected :: bool
  cl_worker :: WorkerId
  cl_boot :: WorkerBootId
  cl_coordinator :: CoordinatorId
  cl_epoch :: CoordinatorEpoch
  cl_frames_sent :: u64
  cl_request_generator :: "PromotionRequestIdTag IdentityGenerator"
  cl_attempt_generator :: "PromotionAttemptIdTag IdentityGenerator"
  cl_inbox :: bytes

record delivery =
  lk_sent :: Status
  lk_received :: bytes
  lk_closed :: Status

type_synonym 'w peer = "bytes \<Rightarrow> 'w \<Rightarrow> delivery \<times> 'w"

text \<open>The six readings of \<open>entropy()\<close>; a configured worker identity makes the first two unused.  C++ leaves open in which
  order the two arguments of \<open>from_parts(entropy(), entropy())\<close> are evaluated; the model takes them from left to right.\<close>

definition client_new :: "WorkerId \<Rightarrow> u64 list \<Rightarrow> client" where
  "client_new worker seeds =
     \<lparr> cl_connected = False,
       cl_worker = (if id_valid worker then worker else Identity (seeds ! 0) (seeds ! 1)),
       cl_boot = Identity (seeds ! 4) (seeds ! 5), cl_coordinator = null_id, cl_epoch = Counter 0,
       cl_frames_sent = 0, cl_request_generator = gen_new (seeds ! 2), cl_attempt_generator = gen_new (seeds ! 3),
       cl_inbox = [] \<rparr>"

definition client_entropies :: "u64 list \<Rightarrow> u64 \<Rightarrow> u64 list" where
  "client_entropies ticks thread_hash = map (\<lambda>t. entropy t thread_hash) ticks"

section \<open>One exchange\<close>

definition next_request_id :: "client \<Rightarrow> PromotionRequestId \<times> client" where
  "next_request_id c =
     (case gen_next (cl_request_generator c) of (i, g) \<Rightarrow> (i, c \<lparr> cl_request_generator := g \<rparr>))"

definition next_attempt_id :: "client \<Rightarrow> PromotionAttemptId \<times> client" where
  "next_attempt_id c =
     (case gen_next (cl_attempt_generator c) of (i, g) \<Rightarrow> (i, c \<lparr> cl_attempt_generator := g \<rparr>))"

definition adopt_authority :: "Frame \<Rightarrow> client \<Rightarrow> client" where
  "adopt_authority response c =
     (let c1 = (if id_valid (fr_coordinator response) \<and> fr_coordinator response \<noteq> cl_coordinator c
                then c \<lparr> cl_coordinator := fr_coordinator response \<rparr> else c)
      in if counter_valid (fr_epoch response)
            \<and> (fr_epoch response > cl_epoch c1 \<or> fr_epoch response \<noteq> cl_epoch c1)
         then c1 \<lparr> cl_epoch := fr_epoch response \<rparr> else c1)"

text \<open>What the client makes of a decoded response.\<close>

definition accept_response :: "Frame \<Rightarrow> Frame \<Rightarrow> client \<Rightarrow> (Status \<times> Frame) \<times> client" where
  "accept_response request response c =
     (if fr_correlation response \<noteq> fr_request request
      then ((fail EC_ProtocolError ''the response does not correlate with the request'', response), c)
      else if fr_type response = MT_Error
      then (case decode_status (fr_payload response) of
              Inl e \<Rightarrow> ((e, response), c)
            | Inr reason \<Rightarrow>
                ((make_status (reason_code reason) (reason_text reason) (reason_subject reason), response), c))
      else ((success, response), adopt_authority response c))"

definition receive_response :: "Frame \<Rightarrow> Status \<Rightarrow> client \<Rightarrow> (Status \<times> Frame) \<times> client" where
  "receive_response request closed c =
     (case receive_exactly kFrameHeaderSize (cl_inbox c) of
        None \<Rightarrow> ((closed, empty_frame), c \<lparr> cl_connected := False \<rparr>)
      | Some (header, rest) \<Rightarrow>
          let declared = unat (load_u32 (drop 12 header)) in
          if declared > kMaxFrameBytes
          then ((fail EC_ProtocolOversized ''the coordinator declared an oversized response frame'', empty_frame),
                c \<lparr> cl_inbox := rest \<rparr>)
          else (case receive_exactly (declared + kFrameFooterSize) rest of
                  None \<Rightarrow> ((closed, empty_frame), c \<lparr> cl_connected := False \<rparr>)
                | Some (remainder, later) \<Rightarrow>
                    (case decode_frame (header @ remainder) of
                       Inl e \<Rightarrow> ((e, empty_frame), c \<lparr> cl_inbox := later \<rparr>)
                     | Inr response \<Rightarrow> accept_response request response (c \<lparr> cl_inbox := later \<rparr>))))"

definition exchange :: "'w peer \<Rightarrow> Frame \<Rightarrow> client \<Rightarrow> 'w \<Rightarrow> (Status \<times> Frame) \<times> client \<times> 'w" where
  "exchange peer request c w =
     (case encode_frame request of
        Inl e \<Rightarrow> ((e, empty_frame), c, w)
      | Inr encoded \<Rightarrow>
          (case peer encoded w of
             (d, w1) \<Rightarrow>
               if status_failed (lk_sent d) then ((lk_sent d, empty_frame), c \<lparr> cl_connected := False \<rparr>, w1)
               else
                 (case receive_response request (lk_closed d)
                        (c \<lparr> cl_frames_sent := cl_frames_sent c + 1, cl_inbox := cl_inbox c @ lk_received d \<rparr>) of
                    (r, c1) \<Rightarrow> (r, c1, w1))))"

section \<open>Connection\<close>

definition request_frame :: "client \<Rightarrow> MessageType \<Rightarrow> u32 \<Rightarrow> PromotionRequestId \<Rightarrow> bytes \<Rightarrow> Frame" where
  "request_frame c type flags request payload =
     empty_frame \<lparr> fr_type := type, fr_flags := flags, fr_request := request, fr_coordinator := cl_coordinator c,
       fr_epoch := cl_epoch c, fr_worker := cl_worker c, fr_boot := cl_boot c, fr_payload := payload \<rparr>"

definition client_handshake :: "'w peer \<Rightarrow> client \<Rightarrow> 'w \<Rightarrow> Status \<times> client \<times> 'w" where
  "client_handshake peer c w =
     (if \<not> cl_connected c
      then (fail EC_ConnectionClosed ''the worker is not connected to a coordinator'', c, w)
      else
        let (i, c1) = next_request_id c;
            request = empty_frame \<lparr> fr_type := MT_HelloRequest, fr_request := i, fr_worker := cl_worker c1,
              fr_boot := cl_boot c1 \<rparr>
        in case exchange peer request c1 w of
             ((st, response), c2, w1) \<Rightarrow>
               if status_failed st then (st, c2, w1)
               else if fr_type response \<noteq> MT_HelloResponse
               then (fail EC_ProtocolError ''the coordinator did not answer the handshake with a hello response'', c2, w1)
               else (case decode_hello (fr_payload response) of
                       Inl e \<Rightarrow> (e, c2, w1)
                     | Inr p \<Rightarrow> (success, c2 \<lparr> cl_coordinator := hp_coordinator p, cl_epoch := hp_epoch p \<rparr>, w1)))"

text \<open>\<open>connect\<close>: \<open>init\<close> and \<open>opened\<close> are the outcomes of the network initialisation and of the
  socket connection.\<close>

definition client_connect :: "'w peer \<Rightarrow> Status \<Rightarrow> Status \<Rightarrow> client \<Rightarrow> 'w \<Rightarrow> Status \<times> client \<times> 'w" where
  "client_connect peer init opened c w =
     (if status_failed init then (init, c, w)
      else if cl_connected c then (success, c, w)
      else if status_failed opened then (opened, c, w)
      else
        (case client_handshake peer (c \<lparr> cl_connected := True, cl_inbox := [] \<rparr>) w of
           (st, c1, w1) \<Rightarrow>
             if status_failed st then (st, c1 \<lparr> cl_connected := False \<rparr>, w1) else (success, c1, w1)))"

definition client_disconnect :: "'w peer \<Rightarrow> client \<Rightarrow> 'w \<Rightarrow> client \<times> 'w" where
  "client_disconnect peer c w =
     (if \<not> cl_connected c then (c, w)
      else
        let (i, c1) = next_request_id c in
        (c1 \<lparr> cl_connected := False \<rparr>,
         case encode_frame (request_frame c1 MT_Goodbye kFlagNone i []) of
           Inl _ \<Rightarrow> w
         | Inr encoded \<Rightarrow> snd (peer encoded w)))"

section \<open>Requests\<close>

text \<open>The common part of every request: the payload is encoded, the frame is exchanged, and the response must have the
  expected type before its payload is read.\<close>

definition ask :: "'w peer \<Rightarrow> MessageType \<Rightarrow> u32 \<Rightarrow> PromotionRequestId \<Rightarrow> Status + bytes \<Rightarrow> MessageType \<Rightarrow> string
    \<Rightarrow> (bytes \<Rightarrow> Status + 'a) \<Rightarrow> client \<Rightarrow> 'w \<Rightarrow> (Status + 'a) \<times> client \<times> 'w" where
  "ask peer type flags request encoded expected complaint decode c w =
     (case encoded of
        Inl e \<Rightarrow> (Inl e, c, w)
      | Inr payload \<Rightarrow>
          (case exchange peer (request_frame c type flags request payload) c w of
             ((st, response), c1, w1) \<Rightarrow>
               if status_failed st then (Inl st, c1, w1)
               else if fr_type response \<noteq> expected then (Inl (fail EC_ProtocolError complaint), c1, w1)
               else (decode (fr_payload response), c1, w1)))"

definition ask_fresh :: "'w peer \<Rightarrow> MessageType \<Rightarrow> u32 \<Rightarrow> Status + bytes \<Rightarrow> MessageType \<Rightarrow> string
    \<Rightarrow> (bytes \<Rightarrow> Status + 'a) \<Rightarrow> client \<Rightarrow> 'w \<Rightarrow> (Status + 'a) \<times> client \<times> 'w" where
  "ask_fresh peer type flags encoded expected complaint decode c w =
     (case next_request_id c of (i, c1) \<Rightarrow> ask peer type flags i encoded expected complaint decode c1 w)"

definition register_payload :: "ArtifactRegistration \<Rightarrow> RegisterArtifactPayload" where
  "register_payload r = \<lparr> ra_artifact = rg_id r, ra_kind = rg_kind r, ra_digest = rg_digest r,
     ra_size_bytes = rg_size_bytes r, ra_name = rg_name r, ra_provenance = map pv_reference (rg_provenance r),
     ra_dependencies = rg_dependencies r \<rparr>"

definition returned_artifact :: "bytes \<Rightarrow> Status + ArtifactRecord" where
  "returned_artifact payload =
     (case decode_artifact_result payload of
        Inl e \<Rightarrow> Inl e
      | Inr r \<Rightarrow>
          (case af_artifact r of
             None \<Rightarrow> Inl (fail EC_ArtifactNotFound ''the coordinator did not return an artifact record'')
           | Some art \<Rightarrow> Inr art))"

definition client_register :: "'w peer \<Rightarrow> ArtifactRegistration \<Rightarrow> client \<Rightarrow> 'w \<Rightarrow> ArtifactRecord Result \<times> client \<times> 'w" where
  "client_register peer r c w =
     (let validation = registration_validate r in
      if status_failed validation then (Inl validation, c, w)
      else ask_fresh peer MT_RegisterArtifactRequest kFlagNone (encode_register_artifact (register_payload r))
             MT_RegisterArtifactResponse ''unexpected response type for an artifact registration'' returned_artifact c w)"

definition evidence_payload :: "EvidenceSubmission \<Rightarrow> EvidencePayload" where
  "evidence_payload s = \<lparr> ep_evidence = null_id, ep_type = es_type s,
     ep_produced_unix_millis = es_produced_unix_millis s, ep_custom_type = es_custom_type s, ep_subject = es_subject s,
     ep_subject_digest = es_subject_digest s, ep_subject_revision = es_subject_revision s, ep_result = es_result s,
     ep_confidence_milli = es_confidence_milli s, ep_measurement = es_measurement s, ep_detail = es_detail s,
     ep_payload_digest = es_payload_digest s, ep_provenance = es_provenance s, ep_has_validity_window = es_has_validity_window s,
     ep_valid_from_unix_millis = es_valid_from_unix_millis s,
     ep_valid_until_unix_millis = es_valid_until_unix_millis s, ep_environment = es_environment s \<rparr>"

definition client_submit :: "'w peer \<Rightarrow> EvidenceSubmission \<Rightarrow> client \<Rightarrow> 'w \<Rightarrow> EvidenceRecord Result \<times> client \<times> 'w" where
  "client_submit peer s c w =
     (let validation = submission_validate s in
      if status_failed validation then (Inl validation, c, w)
      else ask_fresh peer MT_SubmitEvidenceRequest kFlagNone (encode_evidence_submission (evidence_payload s))
             MT_SubmitEvidenceResponse ''unexpected response type for an evidence submission'' decode_evidence_record c w)"

definition make_promotion_payload :: "PromotionRequest \<Rightarrow> PromotionPayload" where
  "make_promotion_payload req = \<lparr> pq_artifact = rq_artifact req, pq_revision = rq_expected_revision req,
     pq_digest = rq_expected_digest req, pq_requested_stage = rq_requested_stage req, pq_commit_immediately = False,
     pq_plan_digest = null_digest \<rparr>"

text \<open>A request that names its identity keeps it.\<close>

definition request_identity :: "PromotionRequest \<Rightarrow> client \<Rightarrow> PromotionRequestId \<times> client" where
  "request_identity req c = (if id_valid (rq_request req) then (rq_request req, c) else next_request_id c)"

definition evaluation_of :: "bytes \<Rightarrow> EvaluationResult Result" where
  "evaluation_of payload =
     (case decode_promotion_result payload of
        Inl e \<Rightarrow> Inl e
      | Inr p \<Rightarrow> Inr \<lparr> er_decision = ps_decision p, er_plan = ps_plan p \<rparr>)"

definition client_evaluate :: "'w peer \<Rightarrow> PromotionRequest \<Rightarrow> client \<Rightarrow> 'w \<Rightarrow> EvaluationResult Result \<times> client \<times> 'w" where
  "client_evaluate peer req c w =
     (case request_identity req c of
        (i, c1) \<Rightarrow> ask peer MT_EvaluateRequest kFlagNone i (encode_promotion_request (make_promotion_payload req))
          MT_EvaluateResponse ''unexpected response type for an evaluation'' evaluation_of c1 w)"

definition commit_of :: "bytes \<Rightarrow> CommitResult Result" where
  "commit_of payload =
     (case decode_promotion_result payload of
        Inl e \<Rightarrow> Inl e
      | Inr p \<Rightarrow> Inr \<lparr> cr_outcome = ps_outcome p, cr_decision = ps_decision p, cr_record = ps_record p \<rparr>)"

definition client_promote :: "'w peer \<Rightarrow> PromotionRequest \<Rightarrow> client \<Rightarrow> 'w \<Rightarrow> CommitResult Result \<times> client \<times> 'w" where
  "client_promote peer req c w =
     (case request_identity req c of
        (i, c1) \<Rightarrow> ask peer MT_PromotionRequest kFlagNonIdempotent i (encode_promotion_request (make_promotion_payload req))
          MT_PromotionResponse ''unexpected response type for a promotion'' commit_of c1 w)"

definition probe :: "ArtifactId \<Rightarrow> Stage \<Rightarrow> PromotionPayload" where
  "probe i destination = \<lparr> pq_artifact = i, pq_revision = null_id, pq_digest = null_digest,
     pq_requested_stage = destination, pq_commit_immediately = False, pq_plan_digest = null_digest \<rparr>"

definition client_state :: "'w peer \<Rightarrow> ArtifactId \<Rightarrow> client \<Rightarrow> 'w \<Rightarrow> ArtifactStatePayload Result \<times> client \<times> 'w" where
  "client_state peer i =
     ask_fresh peer MT_ArtifactStateRequest kFlagNone (encode_promotion_request (probe i St_Invalid))
       MT_ArtifactStateResponse ''unexpected response type for an artifact state query'' decode_artifact_state"

definition client_history :: "'w peer \<Rightarrow> ArtifactId \<Rightarrow> client \<Rightarrow> 'w \<Rightarrow> PromotionRecord list Result \<times> client \<times> 'w" where
  "client_history peer i =
     ask_fresh peer MT_HistoryRequest kFlagNone (encode_promotion_request (probe i St_Invalid))
       MT_HistoryResponse ''unexpected response type for a history query'' (map_sum id hy_records \<circ> decode_history)"

definition client_explain :: "'w peer \<Rightarrow> ArtifactId \<Rightarrow> Stage \<Rightarrow> client \<Rightarrow> 'w \<Rightarrow> PromotionDecision Result \<times> client \<times> 'w" where
  "client_explain peer i destination =
     ask_fresh peer MT_ExplainRequest kFlagNone (encode_promotion_request (probe i destination))
       MT_ExplainResponse ''unexpected response type for an explanation'' (map_sum id ps_decision \<circ> decode_promotion_result)"

definition trust_payload :: "ArtifactId \<Rightarrow> string \<Rightarrow> string \<Rightarrow> TrustPayload" where
  "trust_payload i reason_class detail = \<lparr> tp_artifact = i, tp_successor = null_id, tp_decision = null_id,
     tp_evidence = null_id, tp_reason_class = reason_class, tp_detail = detail \<rparr>"

definition mutation_of :: "bytes \<Rightarrow> TrustMutation Result" where
  "mutation_of payload =
     (case decode_artifact_result payload of
        Inl e \<Rightarrow> Inl e
      | Inr r \<Rightarrow> Inr \<lparr> tm_outcome = af_outcome r, tm_artifact = af_artifact r, tm_record = None,
          tm_reasons = af_reasons r \<rparr>)"

definition client_quarantine ::
  "'w peer \<Rightarrow> ArtifactId \<Rightarrow> string \<Rightarrow> string \<Rightarrow> client \<Rightarrow> 'w \<Rightarrow> TrustMutation Result \<times> client \<times> 'w" where
  "client_quarantine peer i reason_class detail =
     ask_fresh peer MT_QuarantineRequest kFlagNonIdempotent (encode_trust (trust_payload i reason_class detail))
       MT_QuarantineResponse ''unexpected response type for a quarantine request'' mutation_of"

definition client_revoke ::
  "'w peer \<Rightarrow> ArtifactId \<Rightarrow> string \<Rightarrow> string \<Rightarrow> client \<Rightarrow> 'w \<Rightarrow> TrustMutation Result \<times> client \<times> 'w" where
  "client_revoke peer i reason_class detail =
     ask_fresh peer MT_RevokeRequest kFlagNonIdempotent (encode_trust (trust_payload i reason_class detail))
       MT_RevokeResponse ''unexpected response type for a revocation'' mutation_of"

definition client_save :: "'w peer \<Rightarrow> client \<Rightarrow> 'w \<Rightarrow> unit Result \<times> client \<times> 'w" where
  "client_save peer =
     ask_fresh peer MT_SnapshotSaveRequest kFlagNone (Inr []) MT_SnapshotSaveResponse
       ''unexpected response type for a snapshot save request'' (\<lambda>_. Inr ())"

end
