(* ===== verification/Remote.thy ===== *)
theory Remote
  imports Service Client
begin

text \<open>
  Worker client and coordinator server connected: what a remote call returns and does is what the engine operation
  returns and does.
\<close>

section \<open>A connection between client and server\<close>

text \<open>One connection of the server, as the client sees it: the frame it sends is served, and the reply arrives unless the
  connection is closed or the reply cannot be sent.\<close>

definition served_by :: "environment \<Rightarrow> Status \<Rightarrow> (connection option \<times> server) peer" where
  "served_by env ended stream w =
     (case fst w of
        None \<Rightarrow> (\<lparr> lk_sent = ended, lk_received = [], lk_closed = ended \<rparr>, w)
      | Some cn \<Rightarrow>
          (case receive_frame stream of
             Closed \<Rightarrow> (\<lparr> lk_sent = success, lk_received = [], lk_closed = ended \<rparr>, None, snd w)
           | Refused \<Rightarrow> (\<lparr> lk_sent = success, lk_received = [], lk_closed = ended \<rparr>, None, protocol_rejection (snd w))
           | Received full later \<Rightarrow>
               (case serve_bytes env full cn (snd w) of
                  (sent, cn', sv') \<Rightarrow>
                    (\<lparr> lk_sent = success,
                       lk_received = (case sent of None \<Rightarrow> [] | Some reply \<Rightarrow> if en_sent env then reply else []),
                       lk_closed = ended \<rparr>,
                     cn', sv'))))"

lemma declared_length:
  assumes "frame_fits f"
  shows "unat (load_u32 (drop 12 (take kFrameHeaderSize (sealed_frame f @ later)))) = length (fr_payload f)"
proof -
  let ?n = "of_nat (length (fr_payload f)) :: u32"
  let ?before = "store_u32 kFrameMagic @ store_u16 (fr_version f) @ write_message_type (fr_type f) @ store_u32 (fr_flags f)"
  obtain after where split: "sealed_frame f = ?before @ store_u32 ?n @ after"
    by (simp add: sealed_frame_def write_frame_def)
  have "load_u32 (drop 12 (take kFrameHeaderSize (sealed_frame f @ later))) = ?n"
    using load_u32_store [of ?n] by (simp add: split kFrameHeaderSize_def)
  moreover have "length (fr_payload f) < 2 ^ 32"
    using assms by (simp add: frame_fits_def kMaxFrameBytes_def)
  ultimately show ?thesis by (simp add: unat_of_nat_u32)
qed

lemma receive_sealed: "frame_fits f \<Longrightarrow> receive_frame (sealed_frame f @ later) = Received (sealed_frame f) later"
  using declared_length [of f later] length_sealed_frame [of f]
  by (auto simp: receive_frame_def receive_exactly_def Let_def frame_fits_def simp flip: take_add)

lemma client_receives:
  assumes "frame_fits r" "fr_version r = kProtocolVersion" "cl_inbox c = sealed_frame r"
  shows "receive_response f ended c = accept_response f r (c \<lparr> cl_inbox := [] \<rparr>)"
  using declared_length [OF assms(1), of "[]"] length_sealed_frame [of r] read_frame_sealed [OF assms(1,2)] assms
  by (auto simp: receive_response_def receive_exactly_def Let_def frame_fits_def decode_frame_def simp flip: take_add)

section \<open>One exchange with the server\<close>

lemma exchange_served:
  assumes f: "frame_fits f" "fr_version f = kProtocolVersion" "fr_type f \<noteq> MT_Goodbye" "id_valid (fr_request f)"
    and c: "cl_inbox c = []" and env: "en_sent env"
    and ans: "answer_request env f cn sv = (response, cn1, sv1)" "length (fr_payload response) \<le> kMaxFrameBytes"
  shows "exchange (served_by env ended) f c (Some cn, sv) =
    (fst (accept_response f response (c \<lparr> cl_frames_sent := cl_frames_sent c + 1 \<rparr>)),
     snd (accept_response f response (c \<lparr> cl_frames_sent := cl_frames_sent c + 1 \<rparr>)), Some cn1, sv1)"
proof -
  have encoded: "encode_frame f = Inr (sealed_frame f)" using f(1) by (simp add: encode_frame_iff)
  then have "decode_frame (sealed_frame f) = Inr f" using f(2) by (rule decode_frame_accepts)
  from answered [OF this f(3,4) ans] obtain reply
    where reply: "serve_bytes env (sealed_frame f) cn sv = (Some reply, Some cn1, sv1)" "decode_frame reply = Inr response"
    using env by auto
  have fits: "reply = sealed_frame response" "frame_fits response" "fr_version response = kProtocolVersion"
    using decode_frame_only [OF reply(2)] by simp_all
  let ?c = "c \<lparr> cl_frames_sent := cl_frames_sent c + 1, cl_inbox := sealed_frame response \<rparr>"
  have "receive_response f ended ?c = accept_response f response (?c \<lparr> cl_inbox := [] \<rparr>)"
    using client_receives [OF fits(2,3), of ?c] by simp
  moreover have "?c \<lparr> cl_inbox := [] \<rparr> = c \<lparr> cl_frames_sent := cl_frames_sent c + 1 \<rparr>"
    using c by (cases c) simp
  moreover have "served_by env ended (sealed_frame f) (Some cn, sv) =
      (\<lparr> lk_sent = success, lk_received = sealed_frame response, lk_closed = ended \<rparr>, Some cn1, sv1)"
    using receive_sealed [OF f(1), of "[]"] reply(1) env fits(1) by (simp add: served_by_def)
  ultimately show ?thesis
    using encoded c by (simp add: exchange_def case_prod_beta)
qed

text \<open>The connection after a request.\<close>

definition served_connection :: "Frame \<Rightarrow> connection \<Rightarrow> connection" where
  "served_connection f cn = cn \<lparr> cn_seen_requests := fr_request f # cn_seen_requests cn \<rparr>"

lemma answer_admitted:
  assumes "admitted f cn" "fr_type f \<noteq> MT_HelloRequest"
  shows "answer_request env f cn sv =
    (fst (handled_response env f sv), served_connection f cn, snd (handle_frame env f sv))"
  using assms by (auto simp: answer_request_def admitted_def served_connection_def Let_def case_prod_beta)

text \<open>A request of an admitted client returns what the handler replied.\<close>

lemma ask_served:
  fixes decode :: "bytes \<Rightarrow> Status + 'a"
  assumes f: "f = request_frame c type flags i payload" "frame_fits f" "id_valid i" "admitted f cn"
    and type: "type \<noteq> MT_Goodbye" "type \<noteq> MT_HelloRequest" "response_type type \<noteq> MT_Error"
    and c: "cl_inbox c = []" and env: "en_sent env"
    and handled: "handle_frame env f sv = (Inr (t, reply), sv')" "length reply \<le> kMaxFrameBytes"
  shows "\<exists>c'. ask (served_by env ended) type flags i (Inr payload) (response_type type) complaint decode c (Some cn, sv) =
    (decode reply, c', Some (served_connection f cn), sv') \<and> cl_inbox c' = []"
proof -
  have fr: "fr_version f = kProtocolVersion" "fr_type f = type" "fr_request f = i"
    by (simp_all add: f(1) request_frame_def)
  have t: "t = response_type type" using handle_frame_typed [of f env sv] handled(1) by (simp add: typed_def fr)
  let ?r = "fst (handled_response env f sv)"
  have r: "fr_payload ?r = reply" "fr_type ?r = response_type type" "fr_correlation ?r = i"
    using handled(1) t by (simp_all add: handled_response_def fill_response_header_def Let_def fr)
  have ans: "answer_request env f cn sv = (?r, served_connection f cn, sv')"
    using answer_admitted [OF f(4)] type fr handled(1) by simp
  have acc: "accept_response f ?r c1 = ((success, ?r), adopt_authority ?r c1)" for c1
    using r type(3) by (simp add: accept_response_def fr)
  have "exchange (served_by env ended) f c (Some cn, sv) =
      ((success, ?r), adopt_authority ?r (c \<lparr> cl_frames_sent := cl_frames_sent c + 1 \<rparr>), Some (served_connection f cn), sv')"
    using exchange_served [OF f(2) fr(1) _ _ c env ans] f(3) type r handled(2) by (simp add: fr acc)
  moreover have "cl_inbox (adopt_authority ?r (c \<lparr> cl_frames_sent := cl_frames_sent c + 1 \<rparr>)) = []"
    using c by (simp add: adopt_authority_def Let_def)
  ultimately show ?thesis using f(1) r by (simp add: ask_def)
qed

text \<open>An error of the handler reaches the client with its code and message.\<close>

lemma ask_refused:
  fixes decode :: "bytes \<Rightarrow> Status + 'a"
  assumes f: "f = request_frame c type flags i payload" "frame_fits f" "id_valid i" "admitted f cn"
    and type: "type \<noteq> MT_Goodbye" "type \<noteq> MT_HelloRequest"
    and c: "cl_inbox c = []" and env: "en_sent env"
    and handled: "handle_frame env f sv = (Inl (make_status code m subject), sv')" "code \<noteq> EC_Ok"
  shows "\<exists>c'. ask (served_by env ended) type flags i (Inr payload) expected complaint decode c (Some cn, sv) =
    (Inl (fail code m), c', Some (served_connection f cn), sv')"
proof -
  have fr: "fr_version f = kProtocolVersion" "fr_type f = type" "fr_request f = i"
    by (simp_all add: f(1) request_frame_def)
  let ?r = "fst (handled_response env f sv)"
  have r: "fr_type ?r = MT_Error" "fr_correlation ?r = i" "fr_payload ?r = write_status code (static_string m)"
    using handled(1) by (simp_all add: handled_response_def fill_response_header_def Let_def fr make_status_def encode_status_def)
  have ans: "answer_request env f cn sv = (?r, served_connection f cn, sv')"
    using answer_admitted [OF f(4)] type fr handled(1) by simp
  have "fail code (static_string m) = fail code m" by (simp add: make_status_def static_string_def)
  then have acc: "accept_response f ?r d = ((fail code m, ?r), d)" for d
    using r status_read_back [OF length_static_string] by (simp add: accept_response_def fr)
  have "exchange (served_by env ended) f c (Some cn, sv) =
      ((fail code m, ?r), c \<lparr> cl_frames_sent := cl_frames_sent c + 1 \<rparr>, Some (served_connection f cn), sv')"
    using exchange_served [OF f(2) fr(1) _ _ c env ans] f(3) type r by (simp add: fr acc length_write_status)
  then show ?thesis using f(1) handled(2) by (simp add: ask_def status_failed_iff)
qed

section \<open>A remote promotion\<close>

text \<open>The request as the engine sees it: the coordinator derives the attempt from the request identity, takes its own
  authority, and names the connected worker as the requester.\<close>

definition as_received :: "client \<Rightarrow> engine \<Rightarrow> PromotionRequest \<Rightarrow> PromotionRequest" where
  "as_received c e req = req \<lparr> rq_attempt := Identity (high (rq_request req)) (low (rq_request req)),
     rq_authority := authority_of (state e), rq_requester := \<lparr> pi_worker = cl_worker c, pi_boot = cl_boot c \<rparr> \<rparr>"

definition commit_reply :: "engine \<Rightarrow> CommitResult \<Rightarrow> PromotionResultPayload" where
  "commit_reply e r = \<lparr> ps_outcome = cr_outcome r, ps_decision = cr_decision r,
     ps_plan = (if id_valid (de_plan (cr_decision r)) then inspect_plan e (de_plan (cr_decision r)) else None),
     ps_record = cr_record r \<rparr>"

lemma request_frame_simps [simp]:
  "fr_type (request_frame c type flags i payload) = type" "fr_flags (request_frame c type flags i payload) = flags"
  "fr_request (request_frame c type flags i payload) = i" "fr_payload (request_frame c type flags i payload) = payload"
  "fr_coordinator (request_frame c type flags i payload) = cl_coordinator c"
  "fr_epoch (request_frame c type flags i payload) = cl_epoch c"
  "fr_worker (request_frame c type flags i payload) = cl_worker c"
  "fr_boot (request_frame c type flags i payload) = cl_boot c"
  by (simp_all add: request_frame_def)

lemma length_promotion_payload:
  "digest_sized (pq_digest p) \<Longrightarrow> digest_sized (pq_plan_digest p) \<Longrightarrow> length (write_promotion_request p) \<le> 200"
  by (simp add: write_promotion_request_def write_digest_def digest_sized_def kSha256DigestSize_def)

lemma promotion_payload_fits: "digest_sized (rq_expected_digest req) \<Longrightarrow> promotion_request_fits (make_promotion_payload req)"
  by (simp add: promotion_request_fits_def make_promotion_payload_def digest_sized_def null_digest_def kSha256DigestSize_def)

lemma staged_decodes:
  assumes "digest_sized (rq_expected_digest req)" "is_valid_stage_value (stage_value (rq_requested_stage req))"
    and "fr_payload f = write_promotion_request (make_promotion_payload req)"
  shows "decode_staged f = Inr (make_promotion_payload req)"
  using promotion_message.decoded [OF promotion_payload_fits [OF assms(1)]] assms
  by (simp add: decode_staged_def encode_promotion_request_def) (simp add: make_promotion_payload_def)

lemma promotion_frame_fits:
  assumes "digest_sized (rq_expected_digest req)" "id_valid i"
  shows "frame_fits (request_frame c MT_PromotionRequest kFlagNonIdempotent i (write_promotion_request (make_promotion_payload req)))"
  using length_promotion_payload [of "make_promotion_payload req"] promotion_payload_fits [OF assms(1)] assms(2)
  by (simp add: frame_fits_def unknown_flags_def kFlagNonIdempotent_def kMaxFrameBytes_def promotion_request_fits_def)

lemma handled_promotion:
  assumes "authorised f sv" "fr_type f = MT_PromotionRequest" "decode_staged f = Inr p"
    and "promote (en_now env) (en_later env) (promotion_of f (server_authority sv) p) (sv_engine sv) = (Inr r, e')"
  shows "handle_frame env f sv = (Inr (MT_PromotionResponse, write_promotion_result (commit_reply e' r)),
    snd (with_engine (en_disk env) (promote (en_now env) (en_later env) (promotion_of f (server_authority sv) p)) sv))"
  using assms
  by (simp add: handle_frame_def handle_promote_def with_payload_stage with_authority_eq with_payload_def perform_eq
      answer_def encode_promotion_result_def commit_reply_def)

lemma handled_promotion_error:
  assumes "authorised f sv" "fr_type f = MT_PromotionRequest" "decode_staged f = Inr p"
    and "promote (en_now env) (en_later env) (promotion_of f (server_authority sv) p) (sv_engine sv) = (Inl s, e')"
  shows "handle_frame env f sv = (Inl s,
    snd (with_engine (en_disk env) (promote (en_now env) (en_later env) (promotion_of f (server_authority sv) p)) sv))"
  using assms
  by (simp add: handle_frame_def handle_promote_def with_payload_stage with_authority_eq with_payload_def perform_eq)

lemma promote_error:
  assumes "promote now1 now2 req e = (Inl s, e')"
  shows "\<exists>code m subject. s = make_status code m subject \<and> code \<noteq> EC_Ok"
proof -
  have "\<exists>code m subject. s = make_status code m subject \<and> code \<noteq> EC_Ok" if "evaluate now1 req e = (Inl s, e')"
    using that by (fastforce simp: evaluate_def Let_def case_prod_beta split: if_splits option.splits)
  moreover have "\<exists>code m subject. s = make_status code m subject \<and> code \<noteq> EC_Ok" if "commit now2 plan e1 = (Inl s, e')" for plan e1
    using that by (fastforce simp: commit_def Let_def case_prod_beta split: if_splits option.splits)
  ultimately show ?thesis
    using assms by (auto simp: promote_def split: prod.splits sum.splits option.splits)
qed

text \<open>
  C9: A promotion requested through the client is the promotion the engine performs.  On a connection with a completed
  handshake and nothing unread, for a request with a valid identity not yet used on the connection, a digest of full size
  and a stage of the lifecycle, under the current authority, while the coordinator admits work, and when the reply fits
  a frame and is sent: the server's engine moves exactly as the engine's promote moves it for the request as received.
  When that promote ends with an error, the client returns an error of the same code and message; when it returns a result
  that the wire format can express, the client returns exactly that result.  The wire format cannot express a
  decision without an artifact class, which is what an unregistered revision gets.
\<close>

theorem remote_promotion_is_local:
  assumes "cl_inbox c = []" and "cn_handshake_completed cn" and "rq_request req \<notin> set (cn_seen_requests cn)"
    and "admission_open (sv_engine sv)" and "cl_coordinator c = coordinator (state (sv_engine sv))"
    and "cl_epoch c = epoch (state (sv_engine sv))" and "en_sent env"
    and "id_valid (rq_request req)" and "digest_sized (rq_expected_digest req)"
    and "is_valid_stage_value (stage_value (rq_requested_stage req))"
    and "promote (en_now env) (en_later env) (as_received c (sv_engine sv) req) (sv_engine sv) = (result, e')"
    and "\<And>r. result = Inr r \<Longrightarrow> length (write_promotion_result (commit_reply e' r)) \<le> kMaxFrameBytes"
  shows "\<exists>remote c' cn' sv'. client_promote (served_by env ended) req c (Some cn, sv) = (remote, c', Some cn', sv')
    \<and> sv_engine sv' = e'
    \<and> (case result of
         Inl s \<Rightarrow> remote = Inl (fail (status_code s) (status_message s))
       | Inr r \<Rightarrow> promotion_result_fits (commit_reply e' r) \<longrightarrow> remote = Inr r)"
proof -
  let ?f = "request_frame c MT_PromotionRequest kFlagNonIdempotent (rq_request req)
    (write_promotion_request (make_promotion_payload req))"
  let ?sv = "snd (with_engine (en_disk env) (promote (en_now env) (en_later env) (as_received c (sv_engine sv) req)) sv)"
  have auth: "authorised ?f sv" and staged: "decode_staged ?f = Inr (make_promotion_payload req)"
    using assms(4-6,9,10) by (simp add: authorised_def, intro staged_decodes) simp_all
  have received: "promotion_of ?f (server_authority sv) (make_promotion_payload req) = as_received c (sv_engine sv) req"
    by (cases req) (simp add: promotion_of_def make_promotion_payload_def as_received_def)
  have adm: "admitted ?f cn" using assms(2,3) by (simp add: admitted_def)
  have fits: "frame_fits ?f" using assms(9,8) by (rule promotion_frame_fits)
  have moved: "sv_engine ?sv = e'" using assms(11) by simp
  show ?thesis
  proof (cases result)
    case (Inl s)
    with assms(11) obtain code m subject where s: "s = make_status code m subject" "code \<noteq> EC_Ok"
      using promote_error by blast
    have "handle_frame env ?f sv = (Inl (make_status code m subject), ?sv)"
      using handled_promotion_error [OF auth _ staged, unfolded received] assms(11) Inl s(1) by simp
    from ask_refused [OF refl fits assms(8) adm _ _ assms(1,7) this s(2), of ended MT_PromotionResponse
        "''unexpected response type for a promotion''" commit_of] assms(8)
    obtain c' cn' where "client_promote (served_by env ended) req c (Some cn, sv) = (Inl (fail code m), c', Some cn', ?sv)"
      by (auto simp: client_promote_def request_identity_def encode_promotion_request_def)
    moreover have "fail code m = fail (status_code s) (status_message s)"
      by (simp add: s(1) make_status_def static_string_def)
    ultimately show ?thesis using moved Inl by auto
  next
    case (Inr r)
    have "handle_frame env ?f sv = (Inr (MT_PromotionResponse, write_promotion_result (commit_reply e' r)), ?sv)"
      using handled_promotion [OF auth _ staged, unfolded received] assms(11) Inr by simp
    from ask_served [OF refl fits assms(8) adm _ _ _ assms(1,7) this assms(12) [OF Inr], of ended
        "''unexpected response type for a promotion''" commit_of] assms(8)
    obtain c' cn' where "client_promote (served_by env ended) req c (Some cn, sv) =
        (commit_of (write_promotion_result (commit_reply e' r)), c', Some cn', ?sv)"
      by (auto simp: client_promote_def request_identity_def encode_promotion_request_def)
    moreover have "commit_of (write_promotion_result (commit_reply e' r)) = Inr r" if "promotion_result_fits (commit_reply e' r)"
      using result_message.decoded [OF that] by (simp add: commit_of_def encode_promotion_result_def commit_reply_def)
    ultimately show ?thesis using moved Inr by auto
  qed
qed

text \<open>A worker whose digest is not the registered one.\<close>

definition other_digest :: Digest where
  "other_digest = Digest (replicate 32 9)"

definition other_request :: PromotionRequest where
  "other_request = demo_request \<lparr> rq_expected_digest := other_digest \<rparr>"

definition demo_client :: client where
  "demo_client = \<lparr> cl_connected = True, cl_worker = Identity 5 1, cl_boot = Identity 6 2, cl_coordinator = Identity 9 1,
     cl_epoch = Counter 3, cl_frames_sent = 1, cl_request_generator = gen_new 31, cl_attempt_generator = gen_new 32,
     cl_inbox = [] \<rparr>"

lemma other_digest_simps: "digest_sized other_digest" "digest_valid other_digest" "other_digest \<noteq> demo_digest"
  by code_simp+

lemma other_evaluates:
  obtains d st where "evaluate_digest_mismatch (as_received demo_client (sv_engine demo_server) other_request) demo_artifact demo_state = (d, st)"
    "promote now1 now2 (as_received demo_client (sv_engine demo_server) other_request) (sv_engine demo_server) =
      (Inr \<lparr> cr_outcome = PO_DigestMismatch, cr_decision = d, cr_record = None \<rparr>,
       notify_change ((touch (sv_engine demo_server)) \<lparr> state := st \<rparr>))"
proof -
  let ?req = "as_received demo_client (sv_engine demo_server) other_request"
  have engine: "state (sv_engine demo_server) = demo_state" "admission_open (sv_engine demo_server)"
    by (simp_all add: demo_server_def demo_engine_def)
  have wf: "request_is_well_formed ?req"
    using other_digest_simps by (simp add: request_is_well_formed_def as_received_def other_request_def demo_request_def
        engine authority_of_def demo_state_def id_valid_def authority_valid_def counter_valid_def is_valid_stage_value_def
        kStageMin_def kStageMax_def)
  have new: "\<not> request_reused ?req demo_state" "replayed_decision ?req demo_state = None"
    by (simp_all add: request_reused_def replayed_decision_def demo_state_def empty_state_def set_active_policy_def)
  have found: "find_revision demo_state (rq_artifact ?req) (rq_expected_revision ?req) = Some demo_artifact"
    "ar_digest demo_artifact \<noteq> rq_expected_digest ?req"
    using demo_lookup(1) other_digest_simps(3)
    by (simp_all add: as_received_def other_request_def demo_request_def demo_artifact_def)
  obtain d st where m: "evaluate_digest_mismatch ?req demo_artifact demo_state = (d, st)" by fastforce
  then have "de_outcome d = PO_DigestMismatch"
    by (auto simp: evaluate_digest_mismatch_def add_reason_def Let_def split: prod.splits)
  then show ?thesis
    using that [OF m] wf new found m by (simp add: promote_def evaluate_def engine)
qed

lemma mismatch_reason_fits:
  "reason_fits (make_reason EC_DigestMismatch
     ''the caller's expected digest does not match the registered artifact revision'' (digest_to_string other_digest))"
  by (simp add: reason_fits_def make_reason_def)
    (simp add: static_string_def kCapacity_def size_limits digest_to_string_def other_digest_def char_of_def)

lemma other_decision:
  assumes "evaluate_digest_mismatch (as_received demo_client (sv_engine demo_server) other_request) demo_artifact demo_state = (d, st)"
  shows "decision_fits d" "de_plan d = null_id" "length (write_decision d) \<le> 5000"
proof -
  let ?req = "as_received demo_client (sv_engine demo_server) other_request"
  let ?r = "make_reason EC_DigestMismatch
     ''the caller's expected digest does not match the registered artifact revision'' (digest_to_string other_digest)"
  have req: "rq_expected_digest ?req = other_digest" "rq_requested_stage ?req = St_Promoted"
    by (simp_all add: as_received_def other_request_def demo_request_def)
  have d: "de_reasons d = [?r]" "de_gates d = []" "de_findings d = []" "de_artifact_digest d = other_digest"
    "de_policy_digest d = demo_digest" "de_evidence_snapshot_digest d = null_digest" "de_artifact_kind d = AK_Library"
    "de_from d = St_Approved" "de_to d = St_Promoted" "de_outcome d = PO_DigestMismatch" "de_plan d = null_id"
    using assms req
    by (auto simp: evaluate_digest_mismatch_def open_decision_def next_decision_sequence_def add_reason_def
        make_base_decision_def empty_decision_def Let_def demo_artifact_def demo_state_def set_active_policy_def
        demo_policy_def split: prod.splits)
  then show "de_plan d = null_id" by simp
  show "decision_fits d"
    using d mismatch_reason_fits other_digest_simps(1)
    by (simp add: decision_fits_def list_fits_def digest_sized_def demo_digest_def null_digest_def kSha256DigestSize_def
        kMaxDecisionGates_def kMaxDecisionFindings_def kMaxDecisionReasons_def)
  have "length (write_reason ?r) \<le> 1034"
    using length_write_text [of kMaxTextLength "reason_text ?r"] length_write_text [of kMaxReferenceLength "reason_subject ?r"]
    by (simp add: write_reason_def write_error_code_def kMaxTextLength_def kMaxReferenceLength_def)
  then show "length (write_decision d) \<le> 5000"
    using d other_digest_simps(1)
    by (simp add: write_decision_def write_list_def write_decided_def write_authority_def write_digest_def
        null_digest_def demo_digest_def digest_sized_def kSha256DigestSize_def)
qed

theorem remote_promotion_is_local_witness:
  "\<exists>r c' cn' sv'. client_promote (served_by demo_env success) other_request demo_client (Some demo_connection, demo_server)
      = (Inr r, c', Some cn', sv') \<and> cr_outcome r = PO_DigestMismatch
    \<and> fst (promote 1000 2000 (as_received demo_client (sv_engine demo_server) other_request) (sv_engine demo_server)) = Inr r"
proof -
  obtain d st where m: "evaluate_digest_mismatch (as_received demo_client (sv_engine demo_server) other_request) demo_artifact demo_state = (d, st)"
    and p: "promote 1000 2000 (as_received demo_client (sv_engine demo_server) other_request) (sv_engine demo_server) =
      (Inr \<lparr> cr_outcome = PO_DigestMismatch, cr_decision = d, cr_record = None \<rparr>,
       notify_change ((touch (sv_engine demo_server)) \<lparr> state := st \<rparr>))" by (rule other_evaluates)
  have reply: "commit_reply e \<lparr> cr_outcome = PO_DigestMismatch, cr_decision = d, cr_record = None \<rparr> =
      \<lparr> ps_outcome = PO_DigestMismatch, ps_decision = d, ps_plan = None, ps_record = None \<rparr>" for e
    using other_decision(2) [OF m] by (simp add: commit_reply_def id_valid_def null_id_def)
  have "length (write_promotion_result \<lparr> ps_outcome = PO_DigestMismatch, ps_decision = d, ps_plan = None, ps_record = None \<rparr>)
      \<le> kMaxFrameBytes"
    using other_decision(3) [OF m] by (simp add: write_promotion_result_def write_optional_def kMaxFrameBytes_def)
  moreover have "promotion_result_fits \<lparr> ps_outcome = PO_DigestMismatch, ps_decision = d, ps_plan = None, ps_record = None \<rparr>"
    using other_decision(1) [OF m] by (simp add: promotion_result_fits_def)
  moreover have "cl_inbox demo_client = []" "cn_handshake_completed demo_connection"
    "rq_request other_request \<notin> set (cn_seen_requests demo_connection)" "admission_open (sv_engine demo_server)"
    "cl_coordinator demo_client = coordinator (state (sv_engine demo_server))"
    "cl_epoch demo_client = epoch (state (sv_engine demo_server))" "en_sent demo_env" "id_valid (rq_request other_request)"
    by (simp_all add: demo_client_def demo_connection_def demo_server_def demo_engine_def demo_state_def demo_env_def
        other_request_def demo_request_def id_valid_def)
  moreover have "digest_sized (rq_expected_digest other_request)"
    "is_valid_stage_value (stage_value (rq_requested_stage other_request))"
    using other_digest_simps(1) by (simp_all add: other_request_def demo_request_def is_valid_stage_value_def kStageMin_def kStageMax_def)
  moreover have "en_now demo_env = 1000" "en_later demo_env = 2000" by (simp_all add: demo_env_def)
  ultimately have "\<exists>c' cn' sv'. client_promote (served_by demo_env success) other_request demo_client (Some demo_connection, demo_server)
      = (Inr \<lparr> cr_outcome = PO_DigestMismatch, cr_decision = d, cr_record = None \<rparr>, c', Some cn', sv')"
    using remote_promotion_is_local [of demo_client demo_connection other_request demo_server demo_env _ _ success] p reply
    by (auto dest!: meta_spec)
  then show ?thesis using p by auto
qed

section \<open>A restarted worker\<close>

lemma fenced_hello:
  assumes "om_find (sv_worker_boots sv) (fr_worker f) = Some b" "fr_boot f < b" "fr_type f = MT_HelloRequest"
    and "id_valid (fr_worker f)" "id_valid (fr_boot f)" "fr_request f \<notin> set (cn_seen_requests cn)"
  shows "\<exists>cn1 sv1. answer_request env f cn sv =
    (fst (handled_response env f sv), cn1, sv1)
    \<and> fr_type (fst (handled_response env f sv)) = MT_Error \<and> fr_correlation (fst (handled_response env f sv)) = fr_request f
    \<and> fr_payload (fst (handled_response env f sv)) = write_status EC_StaleWorkerBoot
        (static_string ''this worker boot identity is older than the incarnation already registered'')"
proof -
  have "handle_frame env f sv = (Inl (fail EC_StaleWorkerBoot
      ''this worker boot identity is older than the incarnation already registered''), stale_rejection sv)"
    using assms by (auto simp: handle_frame_def handle_hello_def register_worker_boot_def)
  then show ?thesis
    using assms(3,6) by (simp add: answer_request_def handled_response_def fill_response_header_def Let_def make_status_def
        encode_status_def)
qed

text \<open>
  C37: A client whose boot identity is smaller than the one registered for its worker cannot connect: its handshake ends
  with a stale boot.  Boot identities come from the clock through a mixing function, so a later instance of a worker can
  have the smaller one, and is then refused although it is the current incarnation.
\<close>

theorem restarted_worker_is_refused:
  assumes "om_find (sv_worker_boots sv) (cl_worker c) = Some b" and "cl_boot c < b"
    and "id_valid (cl_worker c)" and "id_valid (cl_boot c)" and "id_valid (fst (next_request_id c))"
    and "\<not> cl_connected c" and "en_sent env"
  shows "\<exists>c' w. client_connect (served_by env ended) success success c (Some new_connection, sv) =
    (fail EC_StaleWorkerBoot ''this worker boot identity is older than the incarnation already registered'', c', w)
    \<and> \<not> cl_connected c'"
proof -
  let ?c = "c \<lparr> cl_connected := True, cl_inbox := [] \<rparr>"
  obtain i g where gen: "gen_next (cl_request_generator c) = (i, g)" by fastforce
  let ?c1 = "?c \<lparr> cl_request_generator := g \<rparr>"
  let ?f = "empty_frame \<lparr> fr_type := MT_HelloRequest, fr_request := i, fr_worker := cl_worker c, fr_boot := cl_boot c \<rparr>"
  let ?r = "fst (handled_response env ?f sv)"
  let ?m = "''this worker boot identity is older than the incarnation already registered''"
  have i: "id_valid i" using assms(5) gen by (simp add: next_request_id_def)
  then have fits: "frame_fits ?f" by (simp add: frame_fits_def unknown_flags_def kFlagNone_def)
  obtain cn1 sv1 where ans: "answer_request env ?f new_connection sv = (?r, cn1, sv1)"
    and r: "fr_type ?r = MT_Error" "fr_correlation ?r = i" "fr_payload ?r = write_status EC_StaleWorkerBoot (static_string ?m)"
    using fenced_hello [of sv ?f b new_connection env] assms(1-4) by (auto simp: new_connection_def)
  have acc: "accept_response ?f ?r d = ((fail EC_StaleWorkerBoot (static_string ?m), ?r), d)" for d
    using r status_read_back [OF length_static_string] by (simp add: accept_response_def)
  have "exchange (served_by env ended) ?f ?c1 (Some new_connection, sv) =
      ((fail EC_StaleWorkerBoot (static_string ?m), ?r), ?c1 \<lparr> cl_frames_sent := cl_frames_sent c + 1 \<rparr>, Some cn1, sv1)"
    using exchange_served [OF fits _ _ _ _ assms(7) ans, of ?c1] i r by (simp add: acc length_write_status)
  moreover have "fail EC_StaleWorkerBoot (static_string ?m) = fail EC_StaleWorkerBoot ?m"
    by (simp add: make_status_def static_string_def)
  ultimately have "client_handshake (served_by env ended) ?c (Some new_connection, sv) =
      (fail EC_StaleWorkerBoot ?m, ?c1 \<lparr> cl_frames_sent := cl_frames_sent c + 1 \<rparr>, Some cn1, sv1)"
    by (simp add: client_handshake_def next_request_id_def gen)
  then show ?thesis using assms(6) by (simp add: client_connect_def)
qed

text \<open>Two instances of one worker, the second constructed four clock ticks after the first.\<close>

definition worker_instance :: "u64 \<Rightarrow> client" where
  "worker_instance ticks = client_new (Identity 5 1) (client_entropies (replicate 6 ticks) 77)"

lemma later_boot_smaller: "cl_boot (worker_instance 1004) < cl_boot (worker_instance 1000)"
  by code_simp

theorem restarted_worker_is_refused_witness:
  "\<exists>c' w. client_connect (served_by demo_env success) success success (worker_instance 1004)
      (Some new_connection, with_boots [(Identity 5 1, cl_boot (worker_instance 1000))] demo_server) =
    (fail EC_StaleWorkerBoot ''this worker boot identity is older than the incarnation already registered'', c', w)
    \<and> \<not> cl_connected c'"
proof (rule restarted_worker_is_refused [OF _ later_boot_smaller])
  have "id_valid (cl_boot (worker_instance 1004))" "id_valid (fst (next_request_id (worker_instance 1004)))" by code_simp+
  then show "id_valid (cl_boot (worker_instance 1004))" "id_valid (fst (next_request_id (worker_instance 1004)))" .
qed (simp_all add: worker_instance_def client_new_def demo_env_def id_valid_def)

end
