(* ===== verification/Platform.thy ===== *)
theory Platform
  imports Server
begin

text \<open>
  Files and sockets (\<open>io.hpp\<close>, \<open>src/core/io.cpp\<close>, \<open>src/distributed/socket.cpp\<close>): the atomic
  replacement of a file and the loops that send and receive whole buffers.  What a system call returns is an argument.
  The theory shows that the file primitives and the loops are what the server model takes them for.
\<close>

section \<open>Files\<close>

type_synonym files = "string \<rightharpoonup> bytes"

text \<open>The outcomes of the calls \<open>atomic_write_file\<close> makes, in order.  \<open>ow_stored\<close> is how many bytes of the
  data the file has when the stream is closed, \<open>ow_size\<close> what \<open>file_size\<close> then reports, \<open>ow_renamed\<close>
  the error of the replacement.\<close>

record write_outcomes =
  ow_directory_exists :: bool
  ow_directory_created :: bool
  ow_opened :: bool
  ow_stored :: nat
  ow_flushed :: bool
  ow_size :: "nat option"
  ow_removed :: bool
  ow_renamed :: "string option"

text \<open>The two parts of a path, as \<open>std::filesystem::path\<close> takes them apart.\<close>

definition filename :: "string \<Rightarrow> string" where
  "filename path = rev (takeWhile (\<lambda>c. c \<noteq> CHR ''/'') (rev path))"

definition parent_directory :: "string \<Rightarrow> string" where
  "parent_directory path =
     (if CHR ''/'' \<notin> set path then ''.''
      else
        let parent = rev (dropWhile (\<lambda>c. c = CHR ''/'') (dropWhile (\<lambda>c. c \<noteq> CHR ''/'') (rev path))) in
        if parent = [] then ''/'' else parent)"

definition temporary_path :: "string \<Rightarrow> string" where
  "temporary_path path =
     (let directory = parent_directory path in
      (if last directory = CHR ''/'' then directory else directory @ ''/'') @ filename path @ ''.tmp'')"

definition remove_temporary :: "write_outcomes \<Rightarrow> string \<Rightarrow> files \<Rightarrow> files" where
  "remove_temporary os path fs = (if ow_removed os then fs(temporary_path path := None) else fs)"

text \<open>The status, and the file systems a crash can leave behind, ending with the one at the return.\<close>

definition atomic_write_file :: "write_outcomes \<Rightarrow> string \<Rightarrow> bytes \<Rightarrow> files \<Rightarrow> Status \<times> files list" where
  "atomic_write_file os path data fs =
     (let temporary = temporary_path path;
          stored = fs(temporary \<mapsto> take (ow_stored os) data);
          partials = map (\<lambda>n. fs(temporary \<mapsto> take n data)) [0 ..< Suc (ow_stored os)];
          cleaned = remove_temporary os path stored;
          moved = (stored(path := stored temporary))(temporary := None)
      in if \<not> ow_directory_exists os \<and> \<not> ow_directory_created os
         then (make_status EC_PersistenceIoError ''cannot create the state directory'' (parent_directory path), [fs])
         else if \<not> ow_opened os
         then (make_status EC_PersistenceIoError ''cannot open the temporary state file for writing'' temporary, [fs])
         else if \<not> ow_flushed os
         then (make_status EC_PersistenceIoError ''cannot flush the temporary state file'' temporary,
               fs # partials @ [stored, cleaned])
         else if ow_size os \<noteq> Some (length data)
         then (make_status EC_PersistenceIoError ''temporary state file did not verify after writing'' temporary,
               fs # partials @ [stored, cleaned])
         else (case ow_renamed os of
                 Some message \<Rightarrow>
                   (make_status EC_PersistenceIoError
                      (lit (''atomic replacement of the state file failed: '' @ message)) path,
                    fs # partials @ [stored, cleaned])
               | None \<Rightarrow> (success, fs # partials @ [stored, moved])))"

definition remove_file :: "string option \<Rightarrow> string \<Rightarrow> files \<Rightarrow> Status \<times> files" where
  "remove_file failure path fs =
     (case failure of
        Some message \<Rightarrow> (make_status EC_PersistenceIoError (lit (''cannot remove file: '' @ message)) path, fs)
      | None \<Rightarrow> (success, fs(path := None)))"

definition file_exists :: "string \<Rightarrow> files \<Rightarrow> bool" where
  "file_exists path fs \<longleftrightarrow> fs path \<noteq> None"

lemma filename_joined:
  assumes "last d = CHR ''/''" "d \<noteq> []" "CHR ''/'' \<notin> set f"
  shows "filename (d @ f) = f"
proof -
  from assms(1,2) obtain d' where "d = d' @ ''/''" by (metis append_butlast_last_id)
  moreover have "takeWhile (\<lambda>c. c \<noteq> CHR ''/'') (rev f @ CHR ''/'' # rest) = rev f" for rest
    using assms(3) by (subst takeWhile_append2) auto
  ultimately show ?thesis by (simp add: filename_def)
qed

lemma filename_plain: "CHR ''/'' \<notin> set (filename path)"
  by (auto simp: filename_def dest: set_takeWhileD)

lemma temporary_differs: "temporary_path path \<noteq> path"
proof
  assume eq: "temporary_path path = path"
  let ?d = "if last (parent_directory path) = CHR ''/'' then parent_directory path else parent_directory path @ ''/''"
  have "last ?d = CHR ''/''" "?d \<noteq> []" by (simp_all add: parent_directory_def Let_def)
  then have "filename (temporary_path path) = filename path @ ''.tmp''"
    using filename_joined [of ?d "filename path @ ''.tmp''"] filename_plain [of path]
    by (simp add: temporary_path_def Let_def)
  with eq show False by simp
qed

text \<open>\<open>file_size\<close> reports the size the file has.\<close>

definition size_reported :: "write_outcomes \<Rightarrow> bytes \<Rightarrow> bool" where
  "size_reported os data \<longleftrightarrow> ow_size os \<in> {None, Some (min (ow_stored os) (length data))}"

text \<open>
  C31: Replacing a file is atomic: at every moment, and so after a crash at any point, the file is what it was or
  exactly the new data, and no other file than the temporary one changes; on success it is the new data, also when the
  stream stored less than it was given without reporting it, because the size is verified; on failure it is what it was.
\<close>

theorem atomic_write_is_atomic:
  assumes "atomic_write_file os path data fs = (st, trace)" and "size_reported os data"
  shows "(\<forall>fs' \<in> set trace. (fs' path = fs path \<or> fs' path = Some data)
      \<and> (\<forall>p. p \<noteq> path \<and> p \<noteq> temporary_path path \<longrightarrow> fs' p = fs p))
    \<and> last trace path = (if status_ok st then Some data else fs path)"
proof -
  have full: "take (ow_stored os) data = data" if "ow_size os = Some (length data)"
    using that assms(2) by (auto simp: size_reported_def)
  show ?thesis
    using assms(1) full temporary_differs [of path]
    by (auto simp: atomic_write_file_def remove_temporary_def Let_def status_ok_def split: if_splits option.splits)
qed

theorem atomic_write_is_atomic_witness:
  "\<exists>os st trace. atomic_write_file os ''state'' [1, 2, 3] [''state'' \<mapsto> [7]] = (st, trace) \<and> size_reported os [1, 2, 3]
     \<and> status_failed st \<and> last trace ''state'' = Some [7]"
proof -
  let ?os = "\<lparr> ow_directory_exists = True, ow_directory_created = False, ow_opened = True, ow_stored = 2, ow_flushed = True,
    ow_size = Some 2, ow_removed = False, ow_renamed = None \<rparr>"
  obtain st trace where w: "atomic_write_file ?os ''state'' [1, 2, 3] [''state'' \<mapsto> [7]] = (st, trace)" by fastforce
  moreover have "size_reported ?os [1, 2, 3]" by (simp add: size_reported_def)
  moreover have "status_failed st" using w by (auto simp: atomic_write_file_def status_failed_def Let_def)
  ultimately show ?thesis
    using atomic_write_is_atomic [OF w] by (intro exI [of _ ?os] exI [of _ st] exI [of _ trace])
      (simp add: status_failed_def status_ok_def)
qed

text \<open>What the server model says of a save: the state file is replaced as a whole, and exactly when the write succeeds.\<close>

lemma save_snapshot_is_atomic_write:
  assumes "atomic_write_file os (sv_state_path sv) (encode_snapshot st) fs = (disk, trace)" "size_reported os (encode_snapshot st)"
    and "fs (sv_state_path sv) = sv_file sv"
  shows "last trace (sv_state_path sv) = sv_file (snd (save_snapshot disk st sv))"
    and "fst (save_snapshot disk st sv) = disk"
proof -
  have full: "take (ow_stored os) (encode_snapshot st) = encode_snapshot st" if "ow_size os = Some (length (encode_snapshot st))"
    using that assms(2) by (auto simp: size_reported_def)
  then show "last trace (sv_state_path sv) = sv_file (snd (save_snapshot disk st sv))"
    using assms(1,3) temporary_differs [of "sv_state_path sv"]
    by (auto simp: atomic_write_file_def remove_temporary_def save_snapshot_def Let_def status_failed_def
        split: if_splits option.splits)
  show "fst (save_snapshot disk st sv) = disk"
    using assms(1) by (auto simp: atomic_write_file_def save_snapshot_def Let_def status_failed_def split: if_splits option.splits)
qed

section \<open>Sockets\<close>

text \<open>The segments that arrive, in order, and what a receive meets after them: the end of the stream or an error.  One
  call of \<open>recv\<close> returns a non-empty part of the next segment that fits the remaining space.\<close>

datatype stream_end = Peer_Closed | Receive_Failed string

definition end_status :: "stream_end \<Rightarrow> Status" where
  "end_status e = (case e of
      Peer_Closed \<Rightarrow> fail EC_ConnectionClosed ''peer closed the connection mid-frame''
    | Receive_Failed message \<Rightarrow> fail EC_TransportError (lit (''receive failed: '' @ message)))"

definition kChunkLimit :: nat where "kChunkLimit = 0x7FFFFFFF"

function receive_loop :: "stream_end \<Rightarrow> nat \<Rightarrow> bytes \<Rightarrow> bytes list \<Rightarrow> Status \<times> bytes \<times> bytes list" where
  "receive_loop ended wanted acc segments =
     (if wanted \<le> length acc then (success, acc, segments)
      else case segments of
        [] \<Rightarrow> (end_status ended, acc, [])
      | segment # later \<Rightarrow>
          if segment = [] then (end_status Peer_Closed, acc, later)
          else
            let received = take (min (wanted - length acc) kChunkLimit) segment;
                left = drop (length received) segment
            in receive_loop ended wanted (acc @ received) (if left = [] then later else left # later))"
  by pat_completeness auto
termination
  by (relation "measure (\<lambda>(_, wanted, acc, _). wanted - length acc)")
    (auto simp: kChunkLimit_def Let_def min_def simp flip: length_greater_0_conv)

declare receive_loop.simps [simp del]

lemma concat_received:
  fixes n segment later
  defines "left \<equiv> drop (length (take n segment)) segment"
  shows "concat (segment # later) = take n segment @ concat (if left = [] then later else left # later)"
  by (cases "n \<le> length segment") (auto simp: left_def)

lemma receive_loop_spec:
  assumes "list_all (\<lambda>segment. segment \<noteq> []) segments" "length acc \<le> wanted"
  shows "if wanted \<le> length (acc @ concat segments)
    then \<exists>left. receive_loop ended wanted acc segments = (success, take wanted (acc @ concat segments), left)
      \<and> concat left = drop wanted (acc @ concat segments) \<and> list_all (\<lambda>segment. segment \<noteq> []) left
    else receive_loop ended wanted acc segments = (end_status ended, acc @ concat segments, [])"
  using assms
proof (induction ended wanted acc segments rule: receive_loop.induct)
  case (1 ended wanted acc segments)
  show ?case
  proof (cases "wanted \<le> length acc \<or> segments = []")
    case True
    with "1.prems" show ?thesis by (auto simp: receive_loop.simps [of ended wanted acc segments])
  next
    case False
    then obtain segment later where seg: "segments = segment # later" by (cases segments) auto
    define got where "got = take (min (wanted - length acc) kChunkLimit) segment"
    define left where "left = drop (length got) segment"
    define segs where "segs = (if left = [] then later else left # later)"
    have step: "receive_loop ended wanted acc segments = receive_loop ended wanted (acc @ got) segs"
      using False "1.prems" unfolding seg got_def left_def segs_def by (subst receive_loop.simps) (simp add: Let_def)
    have conc: "concat segments = got @ concat segs"
      using concat_received [of segment later "min (wanted - length acc) kChunkLimit"]
      unfolding seg got_def left_def segs_def by simp
    have rest: "list_all (\<lambda>segment. segment \<noteq> []) (if left = [] then later else left # later)" "length (acc @ got) \<le> wanted"
      using "1.prems" seg by (auto simp: got_def)
    have here: "\<not> wanted \<le> length acc" "segment \<noteq> []" using False "1.prems" seg by auto
    from "1.IH" [OF here(1) seg here(2) got_def left_def rest] show ?thesis
      unfolding step conc segs_def append_assoc .
  qed
qed

definition receive_exactly_on ::
  "bool \<Rightarrow> stream_end \<Rightarrow> nat \<Rightarrow> bytes list \<Rightarrow> Status \<times> bytes \<times> bytes list" where
  "receive_exactly_on valid ended wanted segments =
     (if \<not> valid then (fail EC_TransportError ''receive attempted on a closed socket'', [], segments)
      else receive_loop ended wanted [] segments)"

text \<open>
  C32: Receiving an exact number of bytes does not depend on how the network cuts the stream into segments: it ends, it
  succeeds exactly when enough bytes arrive before the stream ends, and then it returns the next bytes of the stream and
  leaves the others, as the server and client models take it.
\<close>

theorem receive_ignores_segments:
  assumes "list_all (\<lambda>segment. segment \<noteq> []) segments"
  shows "case receive_exactly wanted (concat segments) of
      Some (bytes, rest) \<Rightarrow> \<exists>left. receive_exactly_on True ended wanted segments = (success, bytes, left) \<and> concat left = rest
    | None \<Rightarrow> receive_exactly_on True ended wanted segments = (end_status ended, concat segments, [])"
  using receive_loop_spec [OF assms, of "[]" wanted ended]
  by (auto simp: receive_exactly_on_def receive_exactly_def)

theorem receive_ignores_segments_witness:
  "receive_exactly_on True Peer_Closed 3 [[1, 2], [3, 4]] = (success, [1, 2, 3], [[4]])
   \<and> (\<exists>left. receive_exactly_on True Peer_Closed 3 [[1], [2], [3, 4]] = (success, [1, 2, 3], left) \<and> concat left = [4])"
proof
  show "receive_exactly_on True Peer_Closed 3 [[1, 2], [3, 4]] = (success, [1, 2, 3], [[4]])"
    by (simp add: receive_exactly_on_def receive_loop.simps kChunkLimit_def Let_def)
  show "\<exists>left. receive_exactly_on True Peer_Closed 3 [[1], [2], [3, 4]] = (success, [1, 2, 3], left) \<and> concat left = [4]"
    using receive_ignores_segments [of "[[1], [2], [3, 4]]" Peer_Closed 3]
    by (simp add: receive_exactly_def)
qed

text \<open>\<open>send_all\<close>: \<open>os k\<close> is what the \<open>k\<close>-th call of \<open>send\<close> returns, at most the number of
  bytes it was given.  The result is the status and the bytes handed to the network.\<close>

function send_loop :: "(nat \<Rightarrow> int) \<Rightarrow> string \<Rightarrow> nat \<Rightarrow> bytes \<Rightarrow> Status \<times> bytes" where
  "send_loop os message k data =
     (if data = [] then (success, [])
      else if os k \<le> 0 then (fail EC_TransportError (lit (''send failed: '' @ message)), [])
      else (case send_loop os message (Suc k) (drop (nat (os k)) data) of
              (st, later) \<Rightarrow> (st, take (nat (os k)) data @ later)))"
  by pat_completeness auto
termination
  by (relation "measure (\<lambda>(_, _, _, data). length data)") auto

declare send_loop.simps [simp del]

definition send_all :: "bool \<Rightarrow> (nat \<Rightarrow> int) \<Rightarrow> string \<Rightarrow> bytes \<Rightarrow> Status \<times> bytes" where
  "send_all valid os message data =
     (if \<not> valid then (fail EC_TransportError ''send attempted on a closed socket'', [])
      else send_loop os message 0 data)"

lemma send_loop_prefix: "\<exists>rest. data = snd (send_loop os message k data) @ rest
    \<and> (status_ok (fst (send_loop os message k data)) \<longleftrightarrow> rest = [])"
proof (induction os message k data rule: send_loop.induct)
  case (1 os message k data)
  show ?case
  proof (cases "data = [] \<or> os k \<le> 0")
    case True
    then show ?thesis by (subst (1 2) send_loop.simps) (auto simp: status_ok_def)
  next
    case False
    with "1.IH" obtain rest where "drop (nat (os k)) data = snd (send_loop os message (Suc k) (drop (nat (os k)) data)) @ rest"
      "status_ok (fst (send_loop os message (Suc k) (drop (nat (os k)) data))) \<longleftrightarrow> rest = []" by auto
    with False show ?thesis
      by (subst (1 2) send_loop.simps) (auto simp: case_prod_beta intro!: exI [of _ rest] dest: sym)
  qed
qed

text \<open>What \<open>send_all\<close> hands over is a prefix of the data, and all of it exactly on success.\<close>

lemma send_all_prefix:
  assumes "send_all True os message data = (st, sent)"
  obtains rest where "data = sent @ rest" "status_ok st \<longleftrightarrow> rest = []"
  using send_loop_prefix [of data os message 0] assms by (auto simp: send_all_def)

text \<open>\<open>connect_loopback\<close>: an attempt yields the error of the socket creation or of the connection, or a connection.\<close>

datatype connect_attempt = Socket_Failed string | Connect_Failed string | Connected

fun connect_loop :: "(nat \<Rightarrow> connect_attempt) \<Rightarrow> nat \<Rightarrow> nat \<Rightarrow> Status \<Rightarrow> Status" where
  "connect_loop attempt_outcome attempt 0 latest = latest"
| "connect_loop attempt_outcome attempt (Suc left) latest =
     (case attempt_outcome attempt of
        Connected \<Rightarrow> success
      | Socket_Failed message \<Rightarrow> connect_loop attempt_outcome (Suc attempt) left
          (fail EC_TransportError (lit (''cannot create a client socket: '' @ message)))
      | Connect_Failed message \<Rightarrow> connect_loop attempt_outcome (Suc attempt) left
          (fail EC_TransportError (lit (''connect failed: '' @ message))))"

definition connect_loopback :: "Status \<Rightarrow> (nat \<Rightarrow> connect_attempt) \<Rightarrow> int \<Rightarrow> Status" where
  "connect_loopback init attempt_outcome attempts =
     (if status_failed init then init
      else connect_loop attempt_outcome 0 (nat attempts) (fail EC_TransportError ''no connection attempt was made''))"

lemma connect_loop_ok:
  "status_failed latest \<Longrightarrow>
     status_ok (connect_loop attempt_outcome attempt n latest) \<longleftrightarrow> (\<exists>k < n. attempt_outcome (attempt + k) = Connected)"
proof (induction n arbitrary: attempt latest)
  case (Suc n)
  have "(\<exists>k < Suc n. attempt_outcome (attempt + k) = Connected) \<longleftrightarrow>
      attempt_outcome attempt = Connected \<or> (\<exists>k < n. attempt_outcome (Suc attempt + k) = Connected)"
    by (metis add_Suc_shift Nat.add_0_right less_Suc_eq_0_disj)
  with Suc.IH [of _ "Suc attempt"] show ?case by (auto simp: status_failed_def status_ok_def split: connect_attempt.splits)
qed (auto simp: status_failed_def status_ok_def)

text \<open>A connection is made exactly when one of the configured attempts succeeds.\<close>

lemma connect_loopback_ok:
  "status_ok (connect_loopback init attempt_outcome attempts) \<longleftrightarrow>
     status_ok init \<and> (\<exists>k < nat attempts. attempt_outcome k = Connected)"
  using connect_loop_ok [of "fail EC_TransportError ''no connection attempt was made''" attempt_outcome 0]
  by (auto simp: connect_loopback_def status_failed_def status_ok_def)

end
