(* ===== verification/Command_Line.thy ===== *)
theory Command_Line
  imports Platform Service
begin

text \<open>
  The coordinator and the inspection tool (\<open>tools/artifact-promotion-coordinator.cpp\<close>,
  \<open>tools/artifact-promotion-inspect.cpp\<close>): options, exit codes and the lines they print.  The three tools share one
  argument loop, which takes what an argument means as a parameter.
\<close>

section \<open>Arguments\<close>

datatype 'o meaning =
    Help
  | Flag "'o \<Rightarrow> 'o"
  | Valued "string \<Rightarrow> 'o \<Rightarrow> string list + 'o"
  | Unknown

datatype 'o parsed = Help_Shown | Rejected "string list" | Parsed 'o

fun parse_arguments :: "(string \<Rightarrow> 'o meaning) \<Rightarrow> string list \<Rightarrow> 'o \<Rightarrow> 'o parsed" where
  "parse_arguments meaning [] opts = Parsed opts"
| "parse_arguments meaning (argument # rest) opts =
     (case meaning argument of
        Help \<Rightarrow> Help_Shown
      | Flag set_flag \<Rightarrow> parse_arguments meaning rest (set_flag opts)
      | Valued set_value \<Rightarrow>
          (case rest of
             [] \<Rightarrow> Rejected []
           | text # later \<Rightarrow>
               (case set_value text opts of
                  Inl lines \<Rightarrow> Rejected lines
                | Inr opts1 \<Rightarrow> parse_arguments meaning later opts1))
      | Unknown \<Rightarrow> Rejected [''unknown argument: '' @ argument])"

text \<open>\<open>strtol\<close> and \<open>strtoull\<close> in base ten with 64-bit results: blanks, a sign and the digits that follow; the
  result saturates.\<close>

definition is_space :: "char \<Rightarrow> bool" where
  "is_space c \<longleftrightarrow> of_char c = (32 :: nat) \<or> 9 \<le> (of_char c :: nat) \<and> (of_char c :: nat) \<le> 13"

definition is_digit :: "char \<Rightarrow> bool" where
  "is_digit c \<longleftrightarrow> 48 \<le> (of_char c :: nat) \<and> (of_char c :: nat) \<le> 57"

definition digits_value :: "string \<Rightarrow> nat" where
  "digits_value text = foldl (\<lambda>v c. 10 * v + (of_char c - 48)) 0 (takeWhile is_digit text)"

definition signed_digits :: "string \<Rightarrow> bool \<times> nat" where
  "signed_digits text =
     (case dropWhile is_space text of
        [] \<Rightarrow> (False, 0)
      | c # rest \<Rightarrow>
          if c = CHR ''-'' then (True, digits_value rest)
          else if c = CHR ''+'' then (False, digits_value rest)
          else (False, digits_value (c # rest)))"

definition strtol :: "string \<Rightarrow> int" where
  "strtol text =
     (case signed_digits text of
        (negative, v) \<Rightarrow> if negative then max (- (2 ^ 63)) (- int v) else min (2 ^ 63 - 1) (int v))"

definition strtoull :: "string \<Rightarrow> u64" where
  "strtoull text =
     (case signed_digits text of
        (negative, v) \<Rightarrow> if v \<ge> 2 ^ 64 then - 1 else if negative then - of_nat v else of_nat v)"

definition yes_no :: "bool \<Rightarrow> string" where
  "yes_no b = (if b then ''true'' else ''false'')"

section \<open>The inspection tool\<close>

record InspectOptions =
  io_state_path :: string
  io_artifact :: string
  io_list :: bool
  io_check :: bool
  io_history :: bool

definition inspect_defaults :: InspectOptions where
  "inspect_defaults =
     \<lparr> io_state_path = [], io_artifact = [], io_list = False, io_check = False, io_history = False \<rparr>"

definition inspect_meaning :: "string \<Rightarrow> InspectOptions meaning" where
  "inspect_meaning argument =
     (if argument = ''--help'' \<or> argument = ''-h'' then Help
      else if argument = ''--list'' then Flag (\<lambda>opts. opts \<lparr> io_list := True \<rparr>)
      else if argument = ''--check'' then Flag (\<lambda>opts. opts \<lparr> io_check := True \<rparr>)
      else if argument = ''--history'' then Flag (\<lambda>opts. opts \<lparr> io_history := True \<rparr>)
      else if argument = ''--state'' then Valued (\<lambda>text opts. Inr (opts \<lparr> io_state_path := text \<rparr>))
      else if argument = ''--artifact'' then Valued (\<lambda>text opts. Inr (opts \<lparr> io_artifact := text \<rparr>))
      else Unknown)"

definition inspect_parse :: "string list \<Rightarrow> InspectOptions parsed" where
  "inspect_parse arguments =
     (case parse_arguments inspect_meaning arguments inspect_defaults of
        Parsed opts \<Rightarrow> if io_state_path opts = [] then Rejected [] else Parsed opts
      | other \<Rightarrow> other)"

definition inspect_usage :: "string list" where
  "inspect_usage =
     [''usage: artifact-promotion-inspect --state FILE [--artifact HEX32] [--list] [--check] [--history]'',
      [],
      ''  --state FILE       durable snapshot to read'',
      ''  --artifact HEX32   artifact identity to describe'',
      ''  --list             list every artifact identity with its current stage'',
      ''  --check            verify the whole snapshot against its internal invariants'',
      ''  --history          print the promotion history of the selected artifact'']"

definition snapshot_lines :: "CoordinatorState \<Rightarrow> string list" where
  "snapshot_lines st =
     [''SNAPSHOT coordinator='' @ id_to_string (coordinator st) @ '' epoch='' @ counter_to_string (epoch st)
        @ '' commit_sequence='' @ counter_to_string (commit_sequence st)
        @ '' decision_sequence='' @ counter_to_string (decision_sequence st),
      ''SNAPSHOT policy='' @ id_to_string (active_policy st)
        @ '' generation='' @ counter_to_string (active_policy_generation st)
        @ '' digest='' @ digest_to_string (active_policy_digest st)
        @ '' compatibility_generation='' @ counter_to_string (compatibility_generation st),
      ''SNAPSHOT artifacts='' @ digits_of_nat (length (artifacts st))
        @ '' evidence='' @ digits_of_nat (length (evidence st)) @ '' plans='' @ digits_of_nat (length (plans st))
        @ '' decisions='' @ digits_of_nat (length (decisions st))
        @ '' records='' @ digits_of_nat (length (records st)) @ '' history='' @ digits_of_nat (length (history st))]"

definition check_lines :: "CoordinatorState \<Rightarrow> int \<times> string list" where
  "check_lines st =
     (let consistency = verify_consistency st in
      if status_failed consistency
      then (1, [''CHECK FAILED code='' @ error_code_to_string (status_code consistency)
                  @ '' message='' @ status_message consistency @ '' detail='' @ status_render consistency])
      else (0, [''CHECK OK the snapshot satisfies every internal invariant'']))"

definition list_line :: "ArtifactId \<times> ArtifactRecord list \<Rightarrow> string" where
  "list_line entry =
     (case entry of (i, revisions) \<Rightarrow>
        let current = last revisions in
        ''ARTIFACT id='' @ id_to_string i @ '' revisions='' @ digits_of_nat (length revisions)
        @ '' stage='' @ stage_to_string (ar_stage current) @ '' promoted='' @ yes_no (ar_promoted current)
        @ '' quarantined='' @ yes_no (qr_active (ar_quarantine current))
        @ '' revoked='' @ yes_no (rv_active (ar_revocation current))
        @ '' superseded='' @ yes_no (sp_active (ar_supersession current))
        @ '' digest='' @ digest_to_string (ar_digest current))"

definition detail_lines :: "ArtifactRecord \<Rightarrow> string list" where
  "detail_lines current =
     [''DETAIL '' @ render_artifact_summary current,
      ''DETAIL authoritative='' @ yes_no (currently_authoritative current)
        @ '' revision='' @ id_to_string (ar_revision current) @ '' generation='' @ counter_to_string (ar_generation current)
        @ '' stage_generation='' @ counter_to_string (ar_stage_generation current)]
     @ (let q = ar_quarantine current in
        if qr_active q
        then [''DETAIL quarantine reason='' @ qr_reason_class q @ '' detail='' @ qr_detail q
                @ '' sequence='' @ counter_to_string (qr_sequence q)]
        else [])
     @ (let v = ar_revocation current in
        if rv_active v
        then [''DETAIL revocation decision='' @ id_to_string (rv_decision v) @ '' reason='' @ rv_reason_class v
                @ '' detail='' @ rv_detail v @ '' sequence='' @ counter_to_string (rv_sequence v)]
        else [])
     @ (let s = ar_supersession current in
        if sp_active s
        then [''DETAIL superseded_by='' @ id_to_string (sp_successor s)
                @ '' revision='' @ id_to_string (sp_successor_revision s) @ '' reason='' @ sp_reason s]
        else [])
     @ map (\<lambda>p. ''DETAIL provenance reference='' @ id_to_string (pv_reference p) @ '' source='' @ pv_source p
              @ '' subject='' @ pv_subject p @ '' resolution='' @ provenance_resolution_to_string (pv_resolution p))
         (ar_provenance current)"

definition evidence_lines :: "CoordinatorState \<Rightarrow> ArtifactId \<Rightarrow> ArtifactRecord \<Rightarrow> string list" where
  "evidence_lines st i current =
     (let relevant = filter (\<lambda>r. ev_subject r = i \<and> ev_subject_revision r = ar_revision current) (map snd (evidence st)) in
      map (\<lambda>r. ''EVIDENCE id='' @ id_to_string (ev_id r) @ '' class='' @ evidence_type_to_string (ev_type r)
             @ '' result='' @ evidence_result_to_string (ev_result r) @ '' environment='' @ ev_environment r
             @ '' revoked='' @ yes_no (ev_revoked r) @ '' superseded='' @ yes_no (ev_superseded r)
             @ '' produced='' @ u64_to_string (ev_produced_unix_millis r)) relevant
      @ [''EVIDENCE total='' @ digits_of_nat (length relevant)])"

definition history_lines :: "CoordinatorState \<Rightarrow> ArtifactId \<Rightarrow> string list" where
  "history_lines st i =
     map (\<lambda>(t, r). ''HISTORY sequence='' @ id_to_string t @ '' '' @ stage_to_string (pr_from r) @ ''->''
            @ stage_to_string (pr_to r) @ '' decision='' @ id_to_string (pr_decision r) @ '' note='' @ pr_note r)
       (filter (\<lambda>(_, r). pr_artifact r = i) (records st))
     @ map (\<lambda>(n, ev). ''HISTORY sequence='' @ counter_to_string n @ '' kind='' @ history_event_kind_to_string (he_kind ev)
            @ '' '' @ stage_to_string (he_from ev) @ ''->'' @ stage_to_string (he_to ev) @ '' note='' @ he_note ev)
       (filter (\<lambda>(_, ev). he_artifact ev = i) (history st))"

text \<open>After the snapshot is loaded: the exit code and the lines.\<close>

definition inspect_state :: "InspectOptions \<Rightarrow> CoordinatorState \<Rightarrow> int \<times> string list" where
  "inspect_state opts st =
     (let (code, checked) = (if io_check opts then check_lines st else (0, []));
          listed = (if io_list opts then map list_line (artifacts st) else []);
          lines = snapshot_lines st @ checked @ listed
      in if io_artifact opts = [] then (code, lines)
         else case id_parse (io_artifact opts) of
           None \<Rightarrow> (2, lines @ [''--artifact must be 32 lower-case hex characters and non-zero''])
         | Some i \<Rightarrow>
             (case find_current st i of
                None \<Rightarrow> (1, lines @ [''ARTIFACT NOT FOUND '' @ io_artifact opts])
              | Some current \<Rightarrow>
                  (code, lines @ detail_lines current @ evidence_lines st i current
                     @ (if io_history opts then history_lines st i else []))))"

text \<open>A file that does not exist has no size.\<close>

definition load_path :: "read_outcomes \<Rightarrow> files \<Rightarrow> string \<Rightarrow> Status + CoordinatorState" where
  "load_path os fs path =
     (case fs path of
        None \<Rightarrow> load_snapshot (os \<lparr> rd_sized := False \<rparr>) [] path
      | Some content \<Rightarrow> load_snapshot os content path)"

definition inspect_main :: "read_outcomes \<Rightarrow> files \<Rightarrow> string list \<Rightarrow> int \<times> string list" where
  "inspect_main os fs arguments =
     (case inspect_parse arguments of
        Help_Shown \<Rightarrow> (0, inspect_usage)
      | Rejected lines \<Rightarrow> (2, lines @ inspect_usage)
      | Parsed opts \<Rightarrow>
          (case load_path os fs (io_state_path opts) of
             Inl st \<Rightarrow> (1, [''SNAPSHOT REJECTED code='' @ error_code_to_string (status_code st)
                             @ '' message='' @ status_message st])
           | Inr st \<Rightarrow> inspect_state opts st))"

section \<open>The coordinator\<close>

record CoordinatorOptions =
  co_port :: u16
  co_state_path :: string
  co_ready_file :: string
  co_run_millis :: u64
  co_run_once :: bool

definition coordinator_defaults :: CoordinatorOptions where
  "coordinator_defaults =
     \<lparr> co_port = 0, co_state_path = [], co_ready_file = [], co_run_millis = 0, co_run_once = False \<rparr>"

definition set_port :: "string \<Rightarrow> CoordinatorOptions \<Rightarrow> string list + CoordinatorOptions" where
  "set_port text opts =
     (let number = strtol text in
      if number < 0 \<or> number > 65535 then Inl [] else Inr (opts \<lparr> co_port := of_int number \<rparr>))"

definition coordinator_meaning :: "string \<Rightarrow> CoordinatorOptions meaning" where
  "coordinator_meaning argument =
     (if argument = ''--help'' \<or> argument = ''-h'' then Help
      else if argument = ''--once'' then Flag (\<lambda>opts. opts \<lparr> co_run_once := True \<rparr>)
      else if argument = ''--port'' then Valued set_port
      else if argument = ''--state'' then Valued (\<lambda>text opts. Inr (opts \<lparr> co_state_path := text \<rparr>))
      else if argument = ''--ready-file'' then Valued (\<lambda>text opts. Inr (opts \<lparr> co_ready_file := text \<rparr>))
      else if argument = ''--run-millis'' then Valued (\<lambda>text opts. Inr (opts \<lparr> co_run_millis := strtoull text \<rparr>))
      else Unknown)"

definition coordinator_usage :: "string list" where
  "coordinator_usage =
     [''usage: artifact-promotion-coordinator [--port N] [--state FILE] [--ready-file FILE]'',
      ''                                      [--run-millis N] [--once]'',
      [],
      ''  --port N          loopback port to bind; 0 selects an ephemeral port and prints it'',
      ''  --state FILE      durable snapshot path; every committed mutation is written there'',
      ''  --ready-file FILE write the bound port to this file once the listener is accepting'',
      ''  --run-millis N    stop after this long; 0 means run until interrupted'',
      ''  --once            exit immediately after reporting readiness'']"

text \<open>The loop that waits for an interrupt or the end of the run: each round reads the stop flag and then the clock.
  The value is whether the loop ends within the given rounds.\<close>

fun wait_loop :: "u64 \<Rightarrow> u64 \<Rightarrow> (bool \<times> u64) list \<Rightarrow> bool" where
  "wait_loop run_millis started_at [] = False"
| "wait_loop run_millis started_at ((stop_requested, now) # rounds) =
     (if stop_requested then True
      else if run_millis > 0 \<and> now \<ge> started_at \<and> now - started_at \<ge> run_millis then True
      else wait_loop run_millis started_at rounds)"

text \<open>What surrounds a run: the entropy of the construction, the system calls, the port the listener is bound to, what
  the connections do to the server while it runs, and the rounds of the waiting loop.\<close>

record surroundings =
  su_ticks1 :: u64
  su_ticks2 :: u64
  su_thread_hash :: u64
  su_start :: start_outcomes
  su_bound_port :: "u16 \<Rightarrow> u16"
  su_ready :: write_outcomes
  su_served :: "server \<Rightarrow> server"
  su_stop_disk :: Status
  su_started_at :: u64
  su_rounds :: "(bool \<times> u64) list"

definition ready_line :: "CoordinatorOptions \<Rightarrow> u16 \<Rightarrow> server \<Rightarrow> string" where
  "ready_line opts port sv =
     (let authority = server_authority sv in
      ''READY port='' @ digits_of_nat (unat port) @ '' coordinator='' @ id_to_string (ca_coordinator authority)
      @ '' epoch='' @ counter_to_string (ca_epoch authority)
      @ '' policy='' @ digest_to_string (active_policy_digest (snapshot (sv_engine sv)))
      @ '' state='' @ (if co_state_path opts = [] then ''<memory>'' else co_state_path opts))"

definition stopped_line :: "server \<Rightarrow> string" where
  "stopped_line sv =
     ''STOPPED graceful artifacts='' @ digits_of_nat (count_artifacts (sv_engine sv))
     @ '' evidence='' @ digits_of_nat (count_evidence (sv_engine sv))
     @ '' pending='' @ digits_of_nat (count_pending_transitions (sv_engine sv))"

definition port_bytes :: "u16 \<Rightarrow> bytes" where
  "port_bytes port = map (\<lambda>c. of_nat (of_char c)) (digits_of_nat (unat port))"

text \<open>The run after the server has started; no value while the waiting loop has not ended.\<close>

definition coordinator_run :: "surroundings \<Rightarrow> files \<Rightarrow> CoordinatorOptions \<Rightarrow> server \<Rightarrow> (int \<times> string list \<times> server) option" where
  "coordinator_run su fs opts sv =
     (let port = su_bound_port su (co_port opts);
          ready = ready_line opts port sv;
          written = (if co_ready_file opts = [] then success
                     else fst (atomic_write_file (su_ready su) (co_ready_file opts) (port_bytes port) fs))
      in if status_failed written
         then Some (1, [ready, ''cannot write the readiness file: '' @ status_render written],
                server_stop (su_stop_disk su) sv)
         else if co_run_once opts
         then Some (0, [ready, ''STOPPED graceful''], server_stop (su_stop_disk su) sv)
         else if \<not> wait_loop (co_run_millis opts) (su_started_at su) (su_rounds su) then None
         else
           let stopped = server_stop (su_stop_disk su) (su_served su sv) in
           Some (0, [ready, stopped_line stopped], stopped))"

definition coordinator_main ::
  "surroundings \<Rightarrow> files \<Rightarrow> string list \<Rightarrow> (int \<times> string list \<times> server option) option" where
  "coordinator_main su fs arguments =
     (case parse_arguments coordinator_meaning arguments coordinator_defaults of
        Help_Shown \<Rightarrow> Some (0, coordinator_usage, None)
      | Rejected lines \<Rightarrow> Some (2, lines @ coordinator_usage, None)
      | Parsed opts \<Rightarrow>
          (case server_start (su_start su) (server_new (co_state_path opts) (fs (co_state_path opts)) config_defaults
                  (su_ticks1 su) (su_ticks2 su) (su_thread_hash su)) of
             (started, sv) \<Rightarrow>
               if status_failed started
               then Some (1, [''coordinator failed to start: '' @ status_render started], Some sv)
               else map_option (\<lambda>(code, lines, stopped). (code, lines, Some stopped)) (coordinator_run su fs opts sv)))"

section \<open>What the exit codes say\<close>

text \<open>The waiting loop ends once a stop is requested or, with a bounded run, once the clock has passed its end.\<close>

lemma wait_loop_ends:
  "wait_loop run_millis started_at rounds \<longleftrightarrow>
     (\<exists>(stop_requested, now) \<in> set rounds. stop_requested
        \<or> run_millis > 0 \<and> now \<ge> started_at \<and> now - started_at \<ge> run_millis)"
  by (induction run_millis started_at rounds rule: wait_loop.induct) auto

lemma parse_check: "p \<noteq> [] \<Longrightarrow> inspect_parse [''--state'', p, ''--check'']
  = Parsed (inspect_defaults \<lparr> io_state_path := p, io_check := True \<rparr>)"
  by (simp add: inspect_parse_def inspect_meaning_def inspect_defaults_def)

lemma load_path_iff:
  "load_path os fs p = Inr st \<longleftrightarrow>
     (\<exists>content. fs p = Some content \<and> read_file os content p = Inr content \<and> decode_snapshot content = Inr st)"
  by (cases "fs p") (auto simp: load_path_def load_snapshot_def read_file_def)

text \<open>
  Checking a snapshot file from the command line succeeds exactly when the file exists, can be read, is a valid
  snapshot and the state in it satisfies the consistency check that an installation demands; otherwise the exit code is
  one.
\<close>

theorem inspect_check_verdict:
  assumes "p \<noteq> []"
  shows "fst (inspect_main os fs [''--state'', p, ''--check'']) =
    (if \<exists>content st. fs p = Some content \<and> read_file os content p = Inr content \<and> decode_snapshot content = Inr st
        \<and> status_ok (verify_consistency st)
     then 0 else 1)"
proof -
  let ?opts = "inspect_defaults \<lparr> io_state_path := p, io_check := True \<rparr>"
  have main: "fst (inspect_main os fs [''--state'', p, ''--check'']) =
      (case load_path os fs p of Inl _ \<Rightarrow> 1 | Inr st \<Rightarrow> fst (inspect_state ?opts st))"
    using assms by (simp add: inspect_main_def parse_check split: sum.splits)
  have code: "fst (inspect_state ?opts st) = (if status_ok (verify_consistency st) then 0 else 1)" for st
    by (simp add: inspect_state_def inspect_defaults_def check_lines_def status_failed_iff Let_def)
  show ?thesis
  proof (cases "load_path os fs p")
    case (Inl e)
    then have "\<nexists>st. load_path os fs p = Inr st" by simp
    then have "\<nexists>st content. fs p = Some content \<and> read_file os content p = Inr content \<and> decode_snapshot content = Inr st"
      unfolding load_path_iff .
    then show ?thesis unfolding main Inl by auto
  next
    case (Inr st)
    then show ?thesis unfolding main using load_path_iff [of os fs p st] by (auto simp: code)
  qed
qed

theorem inspect_check_verdict_witness:
  "fst (inspect_main (so_read boot_start) [''state'' \<mapsto> encode_snapshot boot_state] [''--state'', ''state'', ''--check'']) = 0
   \<and> fst (inspect_main (so_read boot_start) Map.empty [''--state'', ''state'', ''--check'']) = 1"
proof -
  have "status_ok (verify_consistency boot_state)"
    using boot_policy_valid
    by (simp add: verify_consistency_def boot_state_def set_active_policy_def empty_state_def Let_def id_valid_def
        counter_valid_def status_failed_iff) (simp add: boot_policy_def)
  moreover have "read_file (so_read boot_start) (encode_snapshot boot_state) ''state'' = Inr (encode_snapshot boot_state)"
    using boot_loads [of "''state''"] load_path_iff [of "so_read boot_start" "[''state'' \<mapsto> encode_snapshot boot_state]" "''state''"]
    by (auto simp: load_path_def)
  ultimately show ?thesis
    using boot_decodes inspect_check_verdict [of "''state''" "so_read boot_start" "[''state'' \<mapsto> encode_snapshot boot_state]"]
      inspect_check_verdict [of "''state''" "so_read boot_start" Map.empty]
    by simp
qed

end
