(* ===== verification/Worker_Tool.thy ===== *)
theory Worker_Tool
  imports Client Command_Line "HOL-Library.Sublist"
begin

text \<open>
  The worker process (\<open>tools/artifact-promotion-worker.cpp\<close>): its options, the steps it takes with a worker client and
  its exit code.  A step works on a session (the client, the coordinator at the other end, what has been printed and the
  exit code recorded so far) and either goes on with a value or ends the process with a code.
\<close>

section \<open>Options\<close>

record WorkerOptions =
  wo_port :: u16
  wo_artifact :: string
  wo_digest :: "Digest option"
  wo_name :: string
  wo_kind :: string
  wo_evidence :: "string list"
  wo_environment :: string
  wo_request_promotion :: string
  wo_inspect :: bool
  wo_history :: bool
  wo_explain :: string
  wo_quarantine_reason :: string
  wo_revoke_reason :: string
  wo_submit_only :: bool
  wo_expect_outcome :: string
  wo_expect_stage :: string
  wo_expect_reason :: string
  wo_produced_offset_millis :: u64
  wo_state_dump :: string

definition worker_defaults :: WorkerOptions where
  "worker_defaults =
     \<lparr> wo_port = 0, wo_artifact = [], wo_digest = None, wo_name = [], wo_kind = ''EXECUTABLE'', wo_evidence = [],
       wo_environment = [], wo_request_promotion = [], wo_inspect = False, wo_history = False, wo_explain = [],
       wo_quarantine_reason = [], wo_revoke_reason = [], wo_submit_only = False, wo_expect_outcome = [],
       wo_expect_stage = [], wo_expect_reason = [], wo_produced_offset_millis = 0, wo_state_dump = [] \<rparr>"

definition worker_usage :: "string list" where
  "worker_usage =
     [''usage: artifact-promotion-worker --port N --artifact HEX32 [options]'',
      [],
      ''  --port N                 coordinator loopback port (required)'',
      ''  --artifact HEX32         artifact identity (32 lower-case hex characters)'',
      ''  --digest HEX64           explicit artifact content digest'',
      ''  --name NAME              artifact name; defaults to the identity'',
      ''  --kind KIND              artifact class; default EXECUTABLE'',
      ''  --evidence TYPE=RESULT   submit one evidence record; repeatable'',
      ''  --environment TEXT       environment binding for typed evidence'',
      ''  --produced-offset-ms N   age the submitted evidence by N milliseconds'',
      ''  --request-promotion STG  request a governed promotion to STAGE'',
      ''  --inspect                print current artifact state'',
      ''  --history                print the promotion history'',
      ''  --explain STAGE          print the decision for a transition without mutating state'',
      ''  --quarantine REASON      quarantine the artifact'',
      ''  --revoke REASON          revoke the artifact's promotion authority'',
      ''  --submit-only            register and submit evidence, then stop'',
      ''  --expect-outcome NAME    fail unless the observed outcome matches'',
      ''  --expect-stage NAME      fail unless the resulting stage matches'',
      ''  --expect-reason CODE     fail unless the first typed reason code matches'',
      ''  --state-dump FILE        ask the coordinator to persist and record the path'']"

definition set_digest :: "string \<Rightarrow> WorkerOptions \<Rightarrow> string list + WorkerOptions" where
  "set_digest text opts =
     (case digest_parse text of
        None \<Rightarrow> Inl [''--digest must be 64 lower-case hex characters'']
      | Some d \<Rightarrow> Inr (opts \<lparr> wo_digest := Some d \<rparr>))"

text \<open>An option that takes any value.\<close>

definition takes :: "(string \<Rightarrow> 'o \<Rightarrow> 'o) \<Rightarrow> 'o meaning" where
  "takes store = Valued (\<lambda>text opts. Inr (store text opts))"

definition worker_meaning :: "string \<Rightarrow> WorkerOptions meaning" where
  "worker_meaning argument =
     (if argument = ''--help'' \<or> argument = ''-h'' then Help
      else if argument = ''--inspect'' then Flag (\<lambda>opts. opts \<lparr> wo_inspect := True \<rparr>)
      else if argument = ''--history'' then Flag (\<lambda>opts. opts \<lparr> wo_history := True \<rparr>)
      else if argument = ''--submit-only'' then Flag (\<lambda>opts. opts \<lparr> wo_submit_only := True \<rparr>)
      else if argument = ''--port'' then takes (\<lambda>text opts. opts \<lparr> wo_port := ucast (strtoull text) \<rparr>)
      else if argument = ''--artifact'' then takes (\<lambda>text opts. opts \<lparr> wo_artifact := text \<rparr>)
      else if argument = ''--digest'' then Valued set_digest
      else if argument = ''--name'' then takes (\<lambda>text opts. opts \<lparr> wo_name := text \<rparr>)
      else if argument = ''--kind'' then takes (\<lambda>text opts. opts \<lparr> wo_kind := text \<rparr>)
      else if argument = ''--evidence'' then takes (\<lambda>text opts. opts \<lparr> wo_evidence := wo_evidence opts @ [text] \<rparr>)
      else if argument = ''--environment'' then takes (\<lambda>text opts. opts \<lparr> wo_environment := text \<rparr>)
      else if argument = ''--produced-offset-ms''
      then takes (\<lambda>text opts. opts \<lparr> wo_produced_offset_millis := strtoull text \<rparr>)
      else if argument = ''--request-promotion'' then takes (\<lambda>text opts. opts \<lparr> wo_request_promotion := text \<rparr>)
      else if argument = ''--explain'' then takes (\<lambda>text opts. opts \<lparr> wo_explain := text \<rparr>)
      else if argument = ''--quarantine'' then takes (\<lambda>text opts. opts \<lparr> wo_quarantine_reason := text \<rparr>)
      else if argument = ''--revoke'' then takes (\<lambda>text opts. opts \<lparr> wo_revoke_reason := text \<rparr>)
      else if argument = ''--expect-outcome'' then takes (\<lambda>text opts. opts \<lparr> wo_expect_outcome := text \<rparr>)
      else if argument = ''--expect-stage'' then takes (\<lambda>text opts. opts \<lparr> wo_expect_stage := text \<rparr>)
      else if argument = ''--expect-reason'' then takes (\<lambda>text opts. opts \<lparr> wo_expect_reason := text \<rparr>)
      else if argument = ''--state-dump'' then takes (\<lambda>text opts. opts \<lparr> wo_state_dump := text \<rparr>)
      else Unknown)"

definition worker_parse :: "string list \<Rightarrow> WorkerOptions parsed" where
  "worker_parse arguments =
     (case parse_arguments worker_meaning arguments worker_defaults of
        Parsed opts \<Rightarrow> if wo_port opts = 0 \<or> wo_artifact opts = [] then Rejected [] else Parsed opts
      | other \<Rightarrow> other)"

definition parse_result :: "string \<Rightarrow> EvidenceResult option" where
  "parse_result text =
     (if text = ''PASS'' then Some ER_Pass
      else if text = ''FAIL'' then Some ER_Fail
      else if text = ''INCONCLUSIVE'' then Some ER_Inconclusive
      else if text = ''UNKNOWN'' then Some ER_Unknown
      else if text = ''NOT_APPLICABLE'' then Some ER_NotApplicable
      else None)"

section \<open>Steps of a session\<close>

record 'w session =
  ss_client :: client
  ss_world :: 'w
  ss_output :: "string list"
  ss_exit_code :: int

type_synonym ('w, 'a) action = "'w session \<Rightarrow> (int + 'a) \<times> 'w session"

definition proceed :: "'a \<Rightarrow> ('w, 'a) action" where
  "proceed x s = (Inr x, s)"

definition leave :: "int \<Rightarrow> ('w, 'a) action" where
  "leave code s = (Inl code, s)"

definition leave_recorded :: "('w, 'a) action" where
  "leave_recorded s = (Inl (ss_exit_code s), s)"

definition andthen :: "('w, 'a) action \<Rightarrow> ('a \<Rightarrow> ('w, 'b) action) \<Rightarrow> ('w, 'b) action" where
  "andthen m k s = (case m s of (Inl code, s1) \<Rightarrow> (Inl code, s1) | (Inr x, s1) \<Rightarrow> k x s1)"

definition print_lines :: "string list \<Rightarrow> ('w, unit) action" where
  "print_lines lines s = (Inr (), s \<lparr> ss_output := ss_output s @ lines \<rparr>)"

definition complain :: "string \<Rightarrow> int \<Rightarrow> ('w, 'a) action" where
  "complain line code = andthen (print_lines [line]) (\<lambda>_. leave code)"

definition print_about_client :: "(client \<Rightarrow> string) \<Rightarrow> ('w, unit) action" where
  "print_about_client line s = print_lines [line (ss_client s)] s"

text \<open>A call of the client, one of its reading functions, and a call whose error ends the process.\<close>

definition call :: "(client \<Rightarrow> 'w \<Rightarrow> 'a \<times> client \<times> 'w) \<Rightarrow> ('w, 'a) action" where
  "call request s =
     (case request (ss_client s) (ss_world s) of
        (r, c, w) \<Rightarrow> (Inr r, s \<lparr> ss_client := c, ss_world := w \<rparr>))"

definition of_client :: "(client \<Rightarrow> 'a \<times> client) \<Rightarrow> ('w, 'a) action" where
  "of_client f = call (\<lambda>c w. case f c of (x, c1) \<Rightarrow> (x, c1, w))"

definition attempt :: "(client \<Rightarrow> 'w \<Rightarrow> 'a Result \<times> client \<times> 'w) \<Rightarrow> (Status \<Rightarrow> string) \<Rightarrow> int \<Rightarrow> ('w, 'a) action" where
  "attempt request complaint code =
     andthen (call request)
       (\<lambda>r. case r of Inl st \<Rightarrow> complain (complaint st) code | Inr x \<Rightarrow> proceed x)"

definition disconnect_client :: "'w peer \<Rightarrow> ('w, unit) action" where
  "disconnect_client peer = call (\<lambda>c w. case client_disconnect peer c w of (c1, w1) \<Rightarrow> ((), c1, w1))"

definition expect_that :: "bool \<Rightarrow> string \<Rightarrow> ('w, unit) action" where
  "expect_that condition message s =
     (if \<not> condition
      then (Inr (), s \<lparr> ss_output := ss_output s @ [''EXPECTATION FAILED '' @ message], ss_exit_code := 1 \<rparr>)
      else (Inr (), s \<lparr> ss_output := ss_output s @ [''EXPECTATION HELD '' @ message] \<rparr>))"

definition when_given :: "string \<Rightarrow> ('w, unit) action \<Rightarrow> ('w, unit) action" where
  "when_given text m = (if text = [] then proceed () else m)"

section \<open>Registration\<close>

definition worker_registration :: "WorkerOptions \<Rightarrow> ArtifactId \<Rightarrow> ArtifactKind \<Rightarrow> ArtifactRegistration" where
  "worker_registration opts i kind =
     \<lparr> rg_id = i, rg_kind = kind,
       rg_digest = (case wo_digest opts of Some d \<Rightarrow> d | None \<Rightarrow> digest_from_string (wo_artifact opts)),
       rg_size_bytes = 1024, rg_name = (if wo_name opts = [] then wo_artifact opts else wo_name opts),
       rg_producer = null_producer,
       rg_provenance =
         [\<lparr> pv_reference = Identity 0xA11CE00000000000 1, pv_source = ''research-ledger'',
            pv_subject = ''ledger:worker-declared'', pv_resolution = PR_Resolved \<rparr>],
       rg_dependencies = [] \<rparr>"

definition registered_line :: "string \<Rightarrow> ArtifactRecord \<Rightarrow> string" where
  "registered_line word r =
     word @ '' revision='' @ id_to_string (ar_revision r) @ '' digest='' @ digest_to_string (ar_digest r)
     @ '' stage='' @ stage_to_string (ar_stage r)"

definition register_step :: "'w peer \<Rightarrow> ArtifactRegistration \<Rightarrow> ArtifactId \<Rightarrow> ('w, ArtifactRecord) action" where
  "register_step peer registration i =
     andthen
       (andthen (call (client_register peer registration))
         (\<lambda>registered. case registered of
            Inr r \<Rightarrow> proceed r
          | Inl st \<Rightarrow>
              if status_code st \<noteq> EC_AlreadyExists
              then complain (''artifact registration rejected: '' @ status_render st) 3
              else
                andthen (attempt (client_state peer i)
                    (\<lambda>st. ''cannot read artifact state after re-registration: '' @ status_render st) 2)
                  (\<lambda>current. andthen (print_lines [registered_line ''ALREADY_REGISTERED'' (ap_record current)])
                     (\<lambda>_. proceed (ap_record current)))))
       (\<lambda>r. andthen (print_lines [registered_line ''REGISTERED'' r]) (\<lambda>_. proceed r))"

section \<open>Evidence\<close>

definition produced_at :: "u64 \<Rightarrow> u64 \<Rightarrow> u64" where
  "produced_at offset now = (if offset \<ge> now then 1 else now - offset)"

definition worker_submission ::
  "string \<Rightarrow> u64 \<Rightarrow> ArtifactId \<Rightarrow> ArtifactRecord \<Rightarrow> EvidenceType \<Rightarrow> EvidenceResult \<Rightarrow> EvidenceSubmission" where
  "worker_submission environment produced i r type verdict =
     \<lparr> es_subject = i, es_subject_digest = ar_digest r, es_subject_revision = ar_revision r, es_type = type,
       es_custom_type = [], es_producer = null_producer, es_result = verdict, es_confidence_milli = 900,
       es_measurement = ''worker-cli'', es_detail = ''submitted by artifact-promotion-worker'',
       es_payload_digest = digest_from_string (''payload:'' @ digest_to_string (ar_digest r)),
       es_provenance = null_id, es_produced_unix_millis = produced, es_has_validity_window = False,
       es_valid_from_unix_millis = 0, es_valid_until_unix_millis = 0, es_environment = environment \<rparr>"

definition submit_one ::
  "'w peer \<Rightarrow> (EvidenceType \<Rightarrow> EvidenceResult \<Rightarrow> EvidenceSubmission) \<Rightarrow> string \<Rightarrow> ('w, unit) action" where
  "submit_one peer submission specification =
     (case dropWhile (\<lambda>c. c \<noteq> CHR ''='') specification of
        [] \<Rightarrow> complain (''--evidence expects TYPE=RESULT, got '' @ specification) 2
      | _ # result_text \<Rightarrow>
          let type_text = takeWhile (\<lambda>c. c \<noteq> CHR ''='') specification in
          (case (evidence_type_from_string type_text, parse_result result_text) of
             (Some type, Some verdict) \<Rightarrow>
               andthen (attempt (client_submit peer (submission type verdict))
                   (\<lambda>st. ''evidence rejected class='' @ type_text @ '' code='' @ error_code_to_string (status_code st)
                      @ '' message='' @ status_message st) 3)
                 (\<lambda>stored. print_lines [''EVIDENCE id='' @ id_to_string (ev_id stored) @ '' class='' @ type_text
                    @ '' result='' @ result_text @ '' generation='' @ counter_to_string (ev_generation stored)])
           | _ \<Rightarrow> complain (''unknown evidence class or result: '' @ specification) 2))"

fun submit_all ::
  "'w peer \<Rightarrow> (EvidenceType \<Rightarrow> EvidenceResult \<Rightarrow> EvidenceSubmission) \<Rightarrow> string list \<Rightarrow> ('w, unit) action" where
  "submit_all peer submission [] = proceed ()"
| "submit_all peer submission (specification # rest) =
     andthen (submit_one peer submission specification) (\<lambda>_. submit_all peer submission rest)"

definition save_step :: "'w peer \<Rightarrow> ('w, unit) action" where
  "save_step peer =
     andthen (attempt (client_save peer) (\<lambda>st. ''snapshot save failed: '' @ status_render st) 2)
       (\<lambda>_. print_lines [''SNAPSHOT saved''])"

text \<open>With \<open>--submit-only\<close> the process ends here.\<close>

definition submit_only_step :: "'w peer \<Rightarrow> bool \<Rightarrow> string list \<Rightarrow> ArtifactRecord \<Rightarrow> ('w, unit) action" where
  "submit_only_step peer submit_only specifications r =
     (if \<not> submit_only then proceed ()
      else
        andthen (if specifications = []
                 then print_lines [''REGISTERED_ONLY revision='' @ id_to_string (ar_revision r) @ '' digest=''
                    @ digest_to_string (ar_digest r)]
                 else proceed ())
          (\<lambda>_. andthen (disconnect_client peer) (\<lambda>_. leave_recorded)))"

section \<open>Trust mutations\<close>

text \<open>A response without an artifact leaves the default record, whose stage is invalid.\<close>

definition mutation_line :: "string \<Rightarrow> TrustMutation \<Rightarrow> string" where
  "mutation_line word m =
     word @ '' outcome='' @ promotion_outcome_to_string (tm_outcome m) @ '' stage=''
     @ stage_to_string (case tm_artifact m of Some r \<Rightarrow> ar_stage r | None \<Rightarrow> St_Invalid)"

definition quarantine_step :: "'w peer \<Rightarrow> ArtifactId \<Rightarrow> string \<Rightarrow> ('w, unit) action" where
  "quarantine_step peer i reason =
     andthen (attempt (client_quarantine peer i ''operator_action'' reason)
         (\<lambda>st. ''quarantine rejected: '' @ status_render st) 3)
       (\<lambda>m. print_lines [mutation_line ''QUARANTINE'' m])"

definition revoke_step :: "'w peer \<Rightarrow> ArtifactId \<Rightarrow> string \<Rightarrow> ('w, unit) action" where
  "revoke_step peer i reason =
     andthen (attempt (client_revoke peer i ''security_finding'' reason)
         (\<lambda>st. ''revocation rejected: '' @ status_render st) 3)
       (\<lambda>m. print_lines [mutation_line ''REVOKE'' m])"

section \<open>Promotion\<close>

text \<open>The stages requested on the way from one stage to another.\<close>

definition promotion_chain :: "Stage \<Rightarrow> Stage \<Rightarrow> Stage list" where
  "promotion_chain source destination =
     (if stage_value destination > stage_value source
      then map (\<lambda>raw. all_stages ! raw) [stage_value source + 1 ..< stage_value destination + 1]
      else [destination])"

definition chain_request ::
  "ArtifactId \<Rightarrow> ArtifactRecord \<Rightarrow> Stage \<Rightarrow> PromotionRequestId \<Rightarrow> PromotionAttemptId \<Rightarrow> client \<Rightarrow> PromotionRequest" where
  "chain_request i r stage request attempt_id c =
     \<lparr> rq_artifact = i, rq_expected_revision = ar_revision r, rq_expected_digest = ar_digest r,
       rq_requested_stage = stage, rq_request = request, rq_attempt = attempt_id,
       rq_authority = \<lparr> ca_coordinator = cl_coordinator c, ca_epoch = cl_epoch c \<rparr>, rq_requester = null_producer \<rparr>"

definition promotion_lines :: "bool \<Rightarrow> Stage \<Rightarrow> Stage \<Rightarrow> CommitResult \<Rightarrow> string list" where
  "promotion_lines is_final source stage r =
     [''PROMOTION '' @ stage_to_string source @ ''->'' @ stage_to_string stage
        @ '' outcome='' @ promotion_outcome_to_string (cr_outcome r) @ '' decision='' @ id_to_string (de_id (cr_decision r))
        @ '' gates='' @ digits_of_nat (length (de_gates (cr_decision r)))
        @ '' failed_gates='' @ digits_of_nat (failed_gate_count (cr_decision r))]
     @ (if is_final \<or> cr_outcome r \<noteq> PO_PromotionCommitted
        then map (\<lambda>g. ''  GATE '' @ gate_explanation_render g) (de_gates (cr_decision r))
          @ map (\<lambda>x. ''  REASON '' @ reason_render x) (de_reasons (cr_decision r))
        else [])
     @ (case cr_record r of
          Some p \<Rightarrow> [''COMMITTED transition='' @ id_to_string (pr_transition p)
                      @ '' sequence='' @ counter_to_string (pr_sequence p)]
        | None \<Rightarrow> [])"

definition check_expectations :: "string \<Rightarrow> string \<Rightarrow> CommitResult \<Rightarrow> ('w, unit) action" where
  "check_expectations expect_outcome expect_reason r =
     andthen
       (when_given expect_outcome
         (let outcome = promotion_outcome_to_string (cr_outcome r) in
          expect_that (outcome = expect_outcome) (''outcome '' @ outcome @ '' == '' @ expect_outcome)))
       (\<lambda>_. when_given expect_reason
         (case de_reasons (cr_decision r) of
            [] \<Rightarrow> proceed ()
          | reason # _ \<Rightarrow>
              let code = error_code_to_string (reason_code reason) in
              expect_that (code = expect_reason) (''reason '' @ code @ '' == '' @ expect_reason)))"

fun request_chain ::
  "'w peer \<Rightarrow> ArtifactId \<Rightarrow> ArtifactRecord \<Rightarrow> string \<Rightarrow> string \<Rightarrow> Stage list \<Rightarrow> PromotionOutcome
     \<Rightarrow> ('w, PromotionOutcome) action" where
  "request_chain peer i r expect_outcome expect_reason [] observed = proceed observed"
| "request_chain peer i r expect_outcome expect_reason (stage # later) observed =
     andthen (of_client next_request_id) (\<lambda>request.
     andthen (of_client next_attempt_id) (\<lambda>attempt_id.
     andthen (of_client (\<lambda>c. (chain_request i r stage request attempt_id c, c))) (\<lambda>req.
     andthen (attempt (client_promote peer req)
        (\<lambda>st. ''promotion rejected at the transport or authority layer: '' @ status_render st) 3) (\<lambda>committed.
     andthen (print_lines (promotion_lines (later = []) (ar_stage r) stage committed)) (\<lambda>_.
     andthen (if later \<noteq> [] then proceed () else check_expectations expect_outcome expect_reason committed) (\<lambda>_.
     request_chain peer i r expect_outcome expect_reason later (cr_outcome committed)))))))"

definition promotion_step ::
  "'w peer \<Rightarrow> ArtifactId \<Rightarrow> string \<Rightarrow> string \<Rightarrow> string \<Rightarrow> ('w, PromotionOutcome) action" where
  "promotion_step peer i destination_text expect_outcome expect_reason =
     (if destination_text = [] then proceed PO_Invalid
      else
        case stage_from_string destination_text of
          None \<Rightarrow> complain (''unknown stage: '' @ destination_text) 2
        | Some destination \<Rightarrow>
            andthen (attempt (client_state peer i) (\<lambda>st. ''cannot read artifact state: '' @ status_render st) 2)
              (\<lambda>current. request_chain peer i (ap_record current) expect_outcome expect_reason
                 (promotion_chain (ar_stage (ap_record current)) destination) PO_Invalid))"

section \<open>Reports\<close>

definition explain_step :: "'w peer \<Rightarrow> ArtifactId \<Rightarrow> string \<Rightarrow> ('w, unit) action" where
  "explain_step peer i destination_text =
     (case stage_from_string destination_text of
        None \<Rightarrow> complain (''unknown stage: '' @ destination_text) 2
      | Some destination \<Rightarrow>
          andthen (attempt (client_explain peer i destination) (\<lambda>st. ''explanation unavailable: '' @ status_render st) 2)
            (\<lambda>d. print_lines [''EXPLAIN '' @ decision_render d]))"

definition state_line :: "ArtifactStatePayload \<Rightarrow> string" where
  "state_line p =
     (let r = ap_record p in
      ''STATE stage='' @ stage_to_string (ar_stage r) @ '' promoted='' @ yes_no (ar_promoted r)
      @ '' quarantined='' @ yes_no (qr_active (ar_quarantine r)) @ '' revoked='' @ yes_no (rv_active (ar_revocation r))
      @ '' superseded='' @ yes_no (sp_active (ar_supersession r))
      @ '' evidence='' @ digits_of_nat (unat (ap_evidence_count p))
      @ '' records='' @ digits_of_nat (unat (ap_promotion_record_count p)))"

definition state_step :: "'w peer \<Rightarrow> ArtifactId \<Rightarrow> string \<Rightarrow> bool \<Rightarrow> bool \<Rightarrow> ('w, unit) action" where
  "state_step peer i expect_stage with_inspect with_history =
     (if expect_stage = [] \<or> with_inspect \<or> with_history
      then
        andthen (attempt (client_state peer i) (\<lambda>st. ''cannot read artifact state: '' @ status_render st) 2)
          (\<lambda>p. andthen (print_lines [state_line p])
             (\<lambda>_. when_given expect_stage
                (let stage = stage_to_string (ar_stage (ap_record p)) in
                 expect_that (stage = expect_stage) (''stage '' @ stage @ '' == '' @ expect_stage))))
      else proceed ())"

definition history_step :: "'w peer \<Rightarrow> ArtifactId \<Rightarrow> ('w, unit) action" where
  "history_step peer i =
     andthen (attempt (client_history peer i) (\<lambda>st. ''cannot read history: '' @ status_render st) 2)
       (\<lambda>records. print_lines
          ((''HISTORY records='' @ digits_of_nat (length records))
           # map (\<lambda>p. ''  RECORD sequence='' @ counter_to_string (pr_sequence p) @ '' '' @ stage_to_string (pr_from p)
               @ ''->'' @ stage_to_string (pr_to p) @ '' note='' @ pr_note p) records))"

definition done_line :: "PromotionOutcome \<Rightarrow> client \<Rightarrow> string" where
  "done_line observed c =
     (if observed \<noteq> PO_Invalid
      then ''DONE outcome='' @ promotion_outcome_to_string observed @ '' frames='' @ u64_to_string (cl_frames_sent c)
      else ''DONE frames='' @ u64_to_string (cl_frames_sent c))"

section \<open>The process\<close>

definition handshake_line :: "client \<Rightarrow> string" where
  "handshake_line c =
     ''HANDSHAKE worker='' @ id_to_string (cl_worker c) @ '' boot='' @ id_to_string (cl_boot c)
     @ '' coordinator='' @ id_to_string (cl_coordinator c) @ '' epoch='' @ counter_to_string (cl_epoch c)"

text \<open>From the connection to the end; \<open>init\<close> and \<open>opened\<close> are the outcomes of the network initialisation and of the
  socket, \<open>now\<close> the clock.\<close>

definition worker_steps ::
  "'w peer \<Rightarrow> Status \<Rightarrow> Status \<Rightarrow> u64 \<Rightarrow> WorkerOptions \<Rightarrow> ArtifactId \<Rightarrow> ArtifactKind \<Rightarrow> ('w, unit) action" where
  "worker_steps peer init opened now opts i kind =
     andthen (call (client_connect peer init opened)) (\<lambda>connected.
     if status_failed connected
     then complain (''worker cannot reach the coordinator: '' @ status_render connected) 2
     else
       andthen (print_about_client handshake_line) (\<lambda>_.
       andthen (register_step peer (worker_registration opts i kind) i) (\<lambda>r.
       andthen (submit_all peer
          (worker_submission (wo_environment opts) (produced_at (wo_produced_offset_millis opts) now) i r)
          (wo_evidence opts)) (\<lambda>_.
       andthen (when_given (wo_state_dump opts) (save_step peer)) (\<lambda>_.
       andthen (submit_only_step peer (wo_submit_only opts) (wo_evidence opts) r) (\<lambda>_.
       andthen (when_given (wo_quarantine_reason opts) (quarantine_step peer i (wo_quarantine_reason opts))) (\<lambda>_.
       andthen (when_given (wo_revoke_reason opts) (revoke_step peer i (wo_revoke_reason opts))) (\<lambda>_.
       andthen (promotion_step peer i (wo_request_promotion opts) (wo_expect_outcome opts) (wo_expect_reason opts))
         (\<lambda>observed.
       andthen (when_given (wo_explain opts) (explain_step peer i (wo_explain opts))) (\<lambda>_.
       andthen (state_step peer i (wo_expect_stage opts) (wo_inspect opts) (wo_history opts)) (\<lambda>_.
       andthen (if wo_history opts then history_step peer i else proceed ()) (\<lambda>_.
       andthen (disconnect_client peer) (\<lambda>_.
       print_about_client (done_line observed))))))))))))))"

definition new_session :: "client \<Rightarrow> 'w \<Rightarrow> 'w session" where
  "new_session c w = \<lparr> ss_client = c, ss_world = w, ss_output = [], ss_exit_code = 0 \<rparr>"

text \<open>The process with the client of six clock readings.  The client's destructor says goodbye on every way out.\<close>

definition worker_main ::
  "'w peer \<Rightarrow> Status \<Rightarrow> Status \<Rightarrow> u64 \<Rightarrow> u64 list \<Rightarrow> u64 \<Rightarrow> string list \<Rightarrow> 'w \<Rightarrow> int \<times> string list \<times> 'w" where
  "worker_main peer init opened now ticks thread_hash arguments w =
     (case worker_parse arguments of
        Help_Shown \<Rightarrow> (0, worker_usage, w)
      | Rejected lines \<Rightarrow> (2, lines @ worker_usage, w)
      | Parsed opts \<Rightarrow>
          (case id_parse (wo_artifact opts) of
             None \<Rightarrow> (2, [''--artifact must be 32 lower-case hex characters and non-zero''], w)
           | Some i \<Rightarrow>
               (case artifact_kind_from_string (wo_kind opts) of
                  None \<Rightarrow> (2, [''unknown artifact kind: '' @ wo_kind opts], w)
                | Some kind \<Rightarrow>
                    (case worker_steps peer init opened now opts i kind
                            (new_session (client_new null_id (client_entropies ticks thread_hash)) w) of
                       (r, s) \<Rightarrow>
                         (case r of Inl code \<Rightarrow> code | Inr _ \<Rightarrow> ss_exit_code s, ss_output s,
                          snd (client_disconnect peer (ss_client s) (ss_world s)))))))"

section \<open>What the exit code says\<close>

definition reports_failure :: "string \<Rightarrow> bool" where
  "reports_failure line \<longleftrightarrow> prefix ''EXPECTATION FAILED '' line"

text \<open>The complaints of the process, by how they start, with the exit code each stands for: 2 when the arguments, the
  connection, a read or a save failed, 3 when a registration, evidence, a mutation or a promotion was not accepted.\<close>

definition complaints :: "(string \<times> int) list" where
  "complaints =
     [(''--artifact must '', 2), (''unknown artifact kind: '', 2), (''worker cannot reach the coordinator: '', 2),
      (''cannot read artifact state'', 2), (''--evidence expects TYPE=RESULT'', 2),
      (''unknown evidence class or result: '', 2), (''snapshot save failed: '', 2), (''unknown stage: '', 2),
      (''explanation unavailable: '', 2), (''cannot read history: '', 2),
      (''artifact registration rejected: '', 3), (''evidence rejected '', 3), (''quarantine rejected: '', 3),
      (''revocation rejected: '', 3), (''promotion rejected at the transport or authority layer: '', 3)]"

definition complaint_code :: "string \<Rightarrow> int option" where
  "complaint_code line = map_option snd (find (\<lambda>(start, _). prefix start line) complaints)"

text \<open>The exit code that the printed lines call for: that of the complaint they end with, and otherwise 1 when a failed
  expectation is among them and 0 when none is.\<close>

definition exit_code_of :: "string list \<Rightarrow> int" where
  "exit_code_of lines =
     (case (if lines = [] then None else complaint_code (last lines)) of
        Some code \<Rightarrow> code
      | None \<Rightarrow> if list_ex reports_failure lines then 1 else 0)"

definition plain :: "string \<Rightarrow> bool" where
  "plain line \<longleftrightarrow> \<not> reports_failure line \<and> complaint_code line = None"

lemmas printed = plain_def reports_failure_def complaint_code_def complaints_def

text \<open>Until the process ends nothing was complained about, and the recorded exit code is the one the lines call for.\<close>

definition truthful :: "'w session \<Rightarrow> bool" where
  "truthful s \<longleftrightarrow> list_all (\<lambda>line. complaint_code line = None) (ss_output s)
     \<and> ss_exit_code s = (if list_ex reports_failure (ss_output s) then 1 else 0)"

lemma truthful_exit: "truthful s \<Longrightarrow> exit_code_of (ss_output s) = ss_exit_code s"
  using last_in_set [of "ss_output s"] by (auto simp: truthful_def exit_code_of_def list_all_iff)

text \<open>A step that keeps this, and ends the process only with the code its output calls for.\<close>

fun settled :: "(int + 'a) \<times> 'w session \<Rightarrow> bool" where
  "settled (Inl code, s) \<longleftrightarrow> code = exit_code_of (ss_output s)"
| "settled (Inr _, s) \<longleftrightarrow> truthful s"

definition honest :: "('w, 'a) action \<Rightarrow> bool" where
  "honest m \<longleftrightarrow> (\<forall>s. truthful s \<longrightarrow> settled (m s))"

named_theorems honest_steps

lemma honest_proceed [honest_steps]: "honest (proceed x)"
  by (simp add: honest_def proceed_def)

lemma honest_leave_recorded [honest_steps]: "honest leave_recorded"
  by (simp add: honest_def leave_recorded_def truthful_exit)

lemma honest_andthen [honest_steps]:
  assumes "honest m" "\<And>x. honest (k x)"
  shows "honest (andthen m k)"
proof -
  have "settled (andthen m k s)" if s: "truthful s" for s
  proof -
    have m: "settled (m s)" using assms(1) s by (simp add: honest_def)
    show ?thesis
    proof (cases "m s" rule: settled.cases)
      case (1 code s1)
      with m show ?thesis by (simp add: andthen_def)
    next
      case (2 x s1)
      with m assms(2) [of x] show ?thesis by (simp add: andthen_def honest_def)
    qed
  qed
  then show ?thesis by (simp add: honest_def)
qed

lemma honest_print [honest_steps]: "list_all plain lines \<Longrightarrow> honest (print_lines lines)"
  by (auto simp: honest_def truthful_def print_lines_def plain_def list_all_iff list_ex_iff)

lemma honest_print_about [honest_steps]: "(\<And>c. plain (line c)) \<Longrightarrow> honest (print_about_client line)"
  using honest_print [of "[line c]" for c] by (auto simp: honest_def print_about_client_def)

lemma honest_call [honest_steps]: "honest (call f)"
  by (simp add: honest_def truthful_def call_def split: prod.splits)

lemma honest_of_client [honest_steps]: "honest (of_client f)"
  by (simp add: of_client_def honest_call)

lemma honest_disconnect [honest_steps]: "honest (disconnect_client peer)"
  by (simp add: disconnect_client_def honest_call)

lemma honest_complain [honest_steps]: "complaint_code line = Some code \<Longrightarrow> honest (complain line code)"
  by (simp add: honest_def complain_def andthen_def print_lines_def leave_def exit_code_of_def)

lemma honest_attempt [honest_steps]:
  "(\<And>st. complaint_code (complaint st) = Some code) \<Longrightarrow> honest (attempt f complaint code)"
  by (auto simp: attempt_def intro!: honest_steps split: sum.split)

lemma honest_expect [honest_steps]: "honest (expect_that condition message)"
  by (simp add: honest_def truthful_def expect_that_def printed)

lemma honest_when_given [honest_steps]: "honest m \<Longrightarrow> honest (when_given text m)"
  by (simp add: when_given_def honest_proceed)

lemma honest_if [honest_steps]: "honest m \<Longrightarrow> honest n \<Longrightarrow> honest (if b then m else n)"
  by simp

lemma honest_cases [honest_steps]:
  "honest m \<Longrightarrow> (\<And>x xs. honest (k x xs)) \<Longrightarrow> honest (case l of [] \<Rightarrow> m | x # xs \<Rightarrow> k x xs)"
  "honest m \<Longrightarrow> (\<And>x. honest (f x)) \<Longrightarrow> honest (case v of None \<Rightarrow> m | Some x \<Rightarrow> f x)"
  "(\<And>st. honest (g st)) \<Longrightarrow> (\<And>x. honest (f x)) \<Longrightarrow> honest (case r of Inl st \<Rightarrow> g st | Inr x \<Rightarrow> f x)"
  "(\<And>x y. honest (h x y)) \<Longrightarrow> honest (case p of (x, y) \<Rightarrow> h x y)"
  by (simp_all split: list.split option.split sum.split prod.split)

subsection \<open>Every step is honest\<close>

lemma honest_register [honest_steps]: "honest (register_step peer registration i)"
  by (auto simp: register_step_def registered_line_def printed intro!: honest_steps split: sum.split)

lemma honest_submit_one [honest_steps]: "honest (submit_one peer submission specification)"
  unfolding submit_one_def Let_def by (intro honest_steps) (simp_all add: printed)

lemma honest_submit_all [honest_steps]: "honest (submit_all peer submission specifications)"
  by (induction peer submission specifications rule: submit_all.induct) (auto intro!: honest_steps)

lemma honest_save [honest_steps]: "honest (save_step peer)"
  by (auto simp: save_step_def printed intro!: honest_steps)

lemma honest_submit_only [honest_steps]: "honest (submit_only_step peer submit_only specifications r)"
  by (auto simp: submit_only_step_def printed intro!: honest_steps)

lemma honest_quarantine [honest_steps]: "honest (quarantine_step peer i reason)"
  by (auto simp: quarantine_step_def mutation_line_def printed intro!: honest_steps)

lemma honest_revoke [honest_steps]: "honest (revoke_step peer i reason)"
  by (auto simp: revoke_step_def mutation_line_def printed intro!: honest_steps)

lemma promotion_lines_plain [simp]: "list_all plain (promotion_lines is_final source stage r)"
  by (auto simp: promotion_lines_def printed list_all_iff split: option.split)

lemma honest_check_expectations [honest_steps]: "honest (check_expectations expect_outcome expect_reason r)"
  by (auto simp: check_expectations_def Let_def intro!: honest_steps split: list.split)

lemma honest_request_chain [honest_steps]:
  "honest (request_chain peer i r expect_outcome expect_reason stages observed)"
proof (induction stages arbitrary: observed)
  case Nil
  show ?case by (simp add: honest_proceed)
next
  case (Cons stage later)
  show ?case
    unfolding request_chain.simps
    by (intro honest_steps Cons.IH promotion_lines_plain) (simp_all add: printed)
qed

lemma honest_promotion [honest_steps]: "honest (promotion_step peer i destination expect_outcome expect_reason)"
  by (auto simp: promotion_step_def printed intro!: honest_steps split: option.split)

lemma honest_explain [honest_steps]: "honest (explain_step peer i destination)"
  by (auto simp: explain_step_def printed intro!: honest_steps split: option.split)

lemma honest_state [honest_steps]: "honest (state_step peer i expect_stage with_inspect with_history)"
  by (auto simp: state_step_def state_line_def printed Let_def intro!: honest_steps)

lemma honest_history [honest_steps]: "honest (history_step peer i)"
  by (auto simp: history_step_def printed list_all_iff intro!: honest_steps)

lemma printed_lines_plain [simp]: "plain (handshake_line c)" "plain (done_line observed c)"
  by (simp_all add: handshake_line_def done_line_def printed)

lemma honest_worker [honest_steps]: "honest (worker_steps peer init opened now opts i kind)"
  unfolding worker_steps_def
  by (intro honest_steps printed_lines_plain) (simp_all add: printed)

lemma steps_exit_code:
  assumes "worker_steps peer init opened now opts i kind (new_session c w) = (r, s)"
  shows "(case r of Inl code \<Rightarrow> code | Inr _ \<Rightarrow> ss_exit_code s) = exit_code_of (ss_output s)"
proof -
  have "truthful (new_session c w)" by (simp add: truthful_def new_session_def)
  with honest_worker [of peer init opened now opts i kind]
  have "settled (r, s)" unfolding honest_def using assms by metis
  then show ?thesis by (cases r) (simp_all add: truthful_exit)
qed

text \<open>
  C34: The exit code of the worker process says what happened, whatever the arguments and whatever the coordinator answers.
  It is 0 when help was asked for and 2 when the arguments were rejected.  Otherwise it is the code of the complaint the
  output ends with: 2 for an unusable argument, a failed connection, a failed read or a failed save, 3 for a
  registration, evidence, a mutation or a promotion that was not accepted.  When the output ends with no complaint, it is 1
  when a failed expectation was printed and 0 when none was.
\<close>

theorem worker_exit_code:
  "case worker_main peer init opened now ticks thread_hash arguments w of
     (code, output, _) \<Rightarrow>
       code = (case worker_parse arguments of Help_Shown \<Rightarrow> 0 | Rejected _ \<Rightarrow> 2 | Parsed _ \<Rightarrow> exit_code_of output)"
proof (cases "worker_parse arguments")
  case (Parsed opts)
  let ?s = "new_session (client_new null_id (client_entropies ticks thread_hash)) w"
  have "(case fst (worker_steps peer init opened now opts i kind ?s) of Inl code \<Rightarrow> code
        | Inr _ \<Rightarrow> ss_exit_code (snd (worker_steps peer init opened now opts i kind ?s)))
      = exit_code_of (ss_output (snd (worker_steps peer init opened now opts i kind ?s)))"
    for i kind by (rule steps_exit_code) simp
  moreover have "exit_code_of [''--artifact must be 32 lower-case hex characters and non-zero''] = 2"
    "exit_code_of [''unknown artifact kind: '' @ wo_kind opts] = 2"
    by (simp_all add: exit_code_of_def printed)
  ultimately show ?thesis
    using Parsed
    by (cases "id_parse (wo_artifact opts) :: ArtifactId option"; cases "artifact_kind_from_string (wo_kind opts)")
      (simp_all add: worker_main_def case_prod_beta)
qed (simp_all add: worker_main_def)

text \<open>The stages requested for a destination end with it; a destination further up is reached through every stage between.\<close>

lemma stage_at_value [simp]: "all_stages ! stage_value s = s"
  by (cases s) (simp_all add: all_stages_def)

lemma last_promotion_chain: "last (promotion_chain source destination) = destination"
  by (simp add: promotion_chain_def last_map)

lemma promotion_chain_steps:
  assumes "stage_value source < stage_value destination"
  shows "map stage_value (promotion_chain source destination) = [stage_value source + 1 ..< stage_value destination + 1]"
proof -
  have "stage_value (all_stages ! n) = n" if "n \<le> 10" for n
  proof -
    from that have "n \<in> set [0 ..< 11]" by simp
    then show ?thesis by (simp add: upt_rec all_stages_def) (elim disjE; simp)
  qed
  moreover have "stage_value destination \<le> 10" by (cases destination) simp_all
  ultimately show ?thesis using assms by (auto simp: promotion_chain_def simp del: upt_Suc intro!: map_idI)
qed

text \<open>An expected stage that is given without \<open>--inspect\<close> and \<open>--history\<close> is never compared with anything.\<close>

lemma expect_stage_ignored:
  assumes "wo_expect_stage opts \<noteq> []" "expected \<noteq> []" "\<not> wo_inspect opts" "\<not> wo_history opts"
  shows "worker_steps peer init opened now (opts \<lparr> wo_expect_stage := expected \<rparr>) i kind
    = worker_steps peer init opened now opts i kind"
proof -
  have "worker_registration (opts \<lparr> wo_expect_stage := expected \<rparr>) i kind = worker_registration opts i kind"
    by (simp add: worker_registration_def split: option.split)
  then show ?thesis using assms by (simp add: worker_steps_def state_step_def cong: if_cong)
qed

end
