(* ===== verification/Sockets.thy ===== *)
theory Sockets
  imports Platform Server_Safety
begin

text \<open>
  Sockets and listeners as owners of descriptors (\<open>socket.hpp\<close>, \<open>src/distributed/socket.cpp\<close>) and the loop that
  accepts connections (\<open>CoordinatorServer::accept_loop\<close>).  The model is the POSIX branch: an invalid handle is
  \<open>None\<close>, the operating system is the set of open descriptors, and what a system call returns is an argument.  The
  theory shows that every open descriptor has exactly one owner, except those that binding a listener again overwrote.
\<close>

section \<open>Initialisation and options\<close>

text \<open>\<open>WSAStartup\<close> is called on Windows only; \<open>std::call_once\<close> keeps the first status.\<close>

definition perform_init :: "int option \<Rightarrow> Status" where
  "perform_init startup =
     (case startup of
        None \<Rightarrow> success
      | Some code \<Rightarrow>
          if code \<noteq> 0
          then fail EC_TransportError (lit (''WSAStartup failed with error ''
                 @ (if code < 0 then ''-'' else []) @ digits_of_nat (nat \<bar>code\<bar>)))
          else success)"

definition initialize_networking :: "int option \<Rightarrow> Status option \<Rightarrow> Status \<times> Status option" where
  "initialize_networking startup kept =
     (case kept of
        None \<Rightarrow> (perform_init startup, Some (perform_init startup))
      | Some st \<Rightarrow> (st, Some st))"

definition set_option :: "bool \<Rightarrow> string \<Rightarrow> string option \<Rightarrow> Status" where
  "set_option valid complaint failure =
     (if \<not> valid then fail EC_TransportError ''option set attempted on a closed socket''
      else case failure of
        Some message \<Rightarrow> fail EC_TransportError (lit (complaint @ message))
      | None \<Rightarrow> success)"

definition set_nodelay :: "bool \<Rightarrow> string option \<Rightarrow> Status" where
  "set_nodelay valid failure = set_option valid ''cannot set TCP_NODELAY: '' failure"

text \<open>The \<open>timeval\<close> of a timeout: seconds and microseconds.\<close>

definition timeval_of :: "u32 \<Rightarrow> u32 \<times> u32" where
  "timeval_of millis = (millis div 1000, (millis mod 1000) * 1000)"

definition set_receive_timeout_millis :: "bool \<Rightarrow> (u32 \<times> u32 \<Rightarrow> string option) \<Rightarrow> u32 \<Rightarrow> Status" where
  "set_receive_timeout_millis valid setsockopt millis =
     set_option valid ''cannot set the receive timeout: '' (setsockopt (timeval_of millis))"

definition set_send_timeout_millis :: "bool \<Rightarrow> (u32 \<times> u32 \<Rightarrow> string option) \<Rightarrow> u32 \<Rightarrow> Status" where
  "set_send_timeout_millis valid setsockopt millis =
     set_option valid ''cannot set the send timeout: '' (setsockopt (timeval_of millis))"

text \<open>What \<open>getpeername\<close> reports: the host and port of an IPv4 peer, or another family.\<close>

datatype peer_name = Ipv4 u32 u16 | Other_Family

definition peer_address :: "bool \<Rightarrow> peer_name option \<Rightarrow> string" where
  "peer_address valid name =
     (if \<not> valid then ''<closed>''
      else case name of
        None \<Rightarrow> ''<unknown>''
      | Some (Ipv4 host port) \<Rightarrow>
          digits_of_nat (unat (drop_bit 24 host AND 0xFF)) @ ''.'' @ digits_of_nat (unat (drop_bit 16 host AND 0xFF))
          @ ''.'' @ digits_of_nat (unat (drop_bit 8 host AND 0xFF)) @ ''.'' @ digits_of_nat (unat (host AND 0xFF))
          @ '':'' @ digits_of_nat (unat port)
      | Some Other_Family \<Rightarrow> ''<non-ipv4>'')"

definition create_directories :: "string option \<Rightarrow> string \<Rightarrow> Status" where
  "create_directories failure path =
     (case failure of
        Some message \<Rightarrow> make_status EC_PersistenceIoError (lit (''cannot create directory: '' @ message)) path
      | None \<Rightarrow> success)"

section \<open>Descriptors and their owners\<close>

type_synonym handle = nat

record Listener =
  li_handle :: "handle option"
  li_bound_port :: u16

text \<open>The sockets and listeners of the process by number, and the descriptors the operating system has open.\<close>

record network =
  nw_open :: "handle set"
  nw_sockets :: "nat \<Rightarrow> handle option"
  nw_listeners :: "nat \<Rightarrow> Listener"

definition close_handle :: "handle option \<Rightarrow> handle set \<Rightarrow> handle set" where
  "close_handle h opened = (case h of None \<Rightarrow> opened | Some d \<Rightarrow> opened - {d})"

definition socket_close :: "nat \<Rightarrow> network \<Rightarrow> network" where
  "socket_close a nw =
     nw \<lparr> nw_open := close_handle (nw_sockets nw a) (nw_open nw), nw_sockets := (nw_sockets nw)(a := None) \<rparr>"

text \<open>The move constructor makes a new object; the move assignment closes what its target owned.\<close>

definition socket_move :: "nat \<Rightarrow> nat \<Rightarrow> network \<Rightarrow> network" where
  "socket_move a b nw = nw \<lparr> nw_sockets := (nw_sockets nw)(a := nw_sockets nw b, b := None) \<rparr>"

definition socket_assign :: "nat \<Rightarrow> nat \<Rightarrow> network \<Rightarrow> network" where
  "socket_assign a b nw = (if a \<noteq> b then socket_move a b (socket_close a nw) else nw)"

definition listener_close :: "nat \<Rightarrow> network \<Rightarrow> network" where
  "listener_close l nw =
     nw \<lparr> nw_open := close_handle (li_handle (nw_listeners nw l)) (nw_open nw),
          nw_listeners := (nw_listeners nw)(l := nw_listeners nw l \<lparr> li_handle := None \<rparr>) \<rparr>"

definition listener_move :: "nat \<Rightarrow> nat \<Rightarrow> network \<Rightarrow> network" where
  "listener_move a b nw =
     nw \<lparr> nw_listeners := (nw_listeners nw)(a := nw_listeners nw b, b := \<lparr> li_handle = None, li_bound_port = 0 \<rparr>) \<rparr>"

definition listener_assign :: "nat \<Rightarrow> nat \<Rightarrow> network \<Rightarrow> network" where
  "listener_assign a b nw = (if a \<noteq> b then listener_move a b (listener_close a nw) else nw)"

text \<open>\<open>bind_loopback\<close>: the status of the initialisation, the descriptor \<open>socket\<close> returns, the error of \<open>bind\<close>, and the
  port \<open>getsockname\<close> reports.\<close>

definition bind_loopback ::
  "Status \<Rightarrow> string + handle \<Rightarrow> string option \<Rightarrow> u16 option \<Rightarrow> nat \<Rightarrow> u16 \<Rightarrow> network \<Rightarrow> Status \<times> network" where
  "bind_loopback init created bind_error reported l port nw =
     (if status_failed init then (init, nw)
      else case created of
        Inl message \<Rightarrow> (fail EC_TransportError (lit (''cannot create a listening socket: '' @ message)), nw)
      | Inr d \<Rightarrow>
          let nw1 = nw \<lparr> nw_open := insert d (nw_open nw),
                         nw_listeners := (nw_listeners nw)(l := nw_listeners nw l \<lparr> li_handle := Some d \<rparr>) \<rparr>
          in case bind_error of
               Some message \<Rightarrow>
                 (fail EC_TransportError (lit (''cannot bind the loopback listener: '' @ message)), listener_close l nw1)
             | None \<Rightarrow>
                 let bound = (case reported of Some p \<Rightarrow> p | None \<Rightarrow> port) in
                 (success,
                  nw1 \<lparr> nw_listeners := (nw_listeners nw1)(l := nw_listeners nw1 l \<lparr> li_bound_port := bound \<rparr>) \<rparr>))"

definition listener_listen :: "string option \<Rightarrow> Listener \<Rightarrow> Status" where
  "listener_listen failure li =
     (if li_handle li = None then fail EC_TransportError ''listen attempted on an unbound listener''
      else case failure of
        Some message \<Rightarrow> fail EC_TransportError (lit (''cannot listen on the loopback socket: '' @ message))
      | None \<Rightarrow> success)"

text \<open>\<open>accept_one\<close> returns a socket; \<open>a\<close> is the object that receives it.\<close>

definition accept_one :: "string + handle \<Rightarrow> nat \<Rightarrow> nat \<Rightarrow> network \<Rightarrow> Status \<times> network" where
  "accept_one accepted l a nw =
     (if li_handle (nw_listeners nw l) = None then (fail EC_ConnectionClosed ''listener is closed'', nw)
      else case accepted of
        Inl message \<Rightarrow> (fail EC_ConnectionClosed (lit (''accept failed: '' @ message)), nw)
      | Inr d \<Rightarrow> (success, nw \<lparr> nw_open := insert d (nw_open nw), nw_sockets := (nw_sockets nw)(a := Some d) \<rparr>))"

text \<open>The descriptors of \<open>connect_loopback\<close>: an attempt that fails after the socket was created closes it.\<close>

fun connect_descriptors ::
  "(nat \<Rightarrow> connect_attempt) \<Rightarrow> (nat \<Rightarrow> handle) \<Rightarrow> nat \<Rightarrow> nat \<Rightarrow> handle set \<Rightarrow> handle option \<times> handle set" where
  "connect_descriptors outcome descriptor attempt 0 opened = (None, opened)"
| "connect_descriptors outcome descriptor attempt (Suc left) opened =
     (case outcome attempt of
        Connected \<Rightarrow> (Some (descriptor attempt), insert (descriptor attempt) opened)
      | Socket_Failed message \<Rightarrow> connect_descriptors outcome descriptor (Suc attempt) left opened
      | Connect_Failed message \<Rightarrow>
          connect_descriptors outcome descriptor (Suc attempt) left
            (close_handle (Some (descriptor attempt)) (insert (descriptor attempt) opened)))"

definition connect_into ::
  "Status \<Rightarrow> (nat \<Rightarrow> connect_attempt) \<Rightarrow> (nat \<Rightarrow> handle) \<Rightarrow> int \<Rightarrow> nat \<Rightarrow> network \<Rightarrow> Status \<times> network" where
  "connect_into init outcome descriptor attempts a nw =
     (connect_loopback init outcome attempts,
      if status_failed init then nw
      else case connect_descriptors outcome descriptor 0 (nat attempts) (nw_open nw) of
        (h, opened) \<Rightarrow> nw \<lparr> nw_open := opened, nw_sockets := (nw_sockets nw)(a := h) \<rparr>)"

section \<open>Accepting connections\<close>

text \<open>A round of the accept loop: the stop flag before the call, what \<open>accept_one\<close> returns, the stop flag after it.  The
  result is whether the loop has ended, the sockets handed to connection threads and the sockets closed at once.\<close>

fun accept_loop :: "(bool \<times> 'c Result \<times> bool) list \<Rightarrow> bool \<times> 'c list \<times> 'c list" where
  "accept_loop [] = (False, [], [])"
| "accept_loop ((stopping, accepted, stopping_after) # rounds) =
     (if stopping then (True, [], [])
      else case accepted of
        Inl _ \<Rightarrow> if stopping_after then (True, [], []) else accept_loop rounds
      | Inr socket \<Rightarrow>
          if stopping_after then (True, [], [socket])
          else (case accept_loop rounds of (ended, served, shut) \<Rightarrow> (ended, socket # served, shut)))"

section \<open>Bounds\<close>

lemma first_status_stays: "fst (initialize_networking startup' (snd (initialize_networking startup kept)))
    = fst (initialize_networking startup kept)"
  by (simp add: initialize_networking_def split: option.split)

text \<open>A timeout is passed on without loss: the two parts make up the milliseconds, and the microseconds are below a
  second.\<close>

lemma timeval_exact:
  assumes "timeval_of millis = (seconds, micros)"
  shows "unat seconds * 1000000 + unat micros = unat millis * 1000" and "unat micros < 1000000"
proof -
  have parts: "seconds = millis div 1000" "micros = (millis mod 1000) * 1000" using assms by (simp_all add: timeval_of_def)
  have "unat (millis mod 1000) < 1000" by (simp add: unat_mod)
  then have micros: "unat micros = unat (millis mod 1000) * 1000"
    unfolding parts(2) by (subst unat_mult_lem [THEN iffD1]) (simp_all add: unat_mod)
  show "unat micros < 1000000" using \<open>unat (millis mod 1000) < 1000\<close> micros by simp
  have "unat millis * 1000 = (unat millis div 1000 * 1000 + unat millis mod 1000) * 1000"
    by (simp only: div_mult_mod_eq)
  also have "\<dots> = unat millis div 1000 * 1000000 + unat millis mod 1000 * 1000" by (subst add_mult_distrib) simp
  finally have "unat millis div 1000 * 1000000 + unat millis mod 1000 * 1000 = unat millis * 1000" by (rule sym)
  then show "unat seconds * 1000000 + unat micros = unat millis * 1000"
    unfolding micros unfolding parts(1) by (simp add: unat_div unat_mod)
qed

lemma length_digits: "n < 10 ^ k \<Longrightarrow> 0 < k \<Longrightarrow> length (digits_of_nat n) \<le> k"
proof (induction k arbitrary: n)
  case (Suc k)
  show ?case
  proof (cases "n < 10")
    case True
    then show ?thesis by (subst digits_of_nat.simps) simp
  next
    case False
    with Suc.prems have "n div 10 < 10 ^ k" "0 < k" by (auto simp: div_less_iff_less_mult mult.commute intro: Nat.gr0I)
    with Suc.IH False show ?thesis by (subst digits_of_nat.simps) simp
  qed
qed simp

text \<open>The peer's address always fits the buffer of 64 characters it is printed to.\<close>

lemma peer_address_fits: "length (peer_address valid name) < 64"
proof -
  have byte: "length (digits_of_nat (unat (w AND 0xFF))) \<le> 3" for w :: u32
  proof -
    have "unat (w AND 0xFF) \<le> unat (0xFF :: u32)" by (rule word_le_nat_alt [THEN iffD1]) (rule word_and_le1)
    then show ?thesis by (intro length_digits) simp_all
  qed
  have port: "length (digits_of_nat (unat p)) \<le> 5" for p :: u16
    using unsigned_less [of p, where 'a = nat] by (intro length_digits) simp_all
  have "length (peer_address True (Some (Ipv4 h p))) \<le> 3 + 1 + 3 + 1 + 3 + 1 + 3 + 1 + 5" for h p
    unfolding peer_address_def
    using byte [of "drop_bit 24 h"] byte [of "drop_bit 16 h"] byte [of "drop_bit 8 h"] byte [of h] port [of p] by simp
  then have "length (peer_address True (Some (Ipv4 h p))) < 64" for h p by (rule le_less_trans) simp
  moreover have "length (peer_address valid name) < 64" if "\<nexists>h p. valid \<and> name = Some (Ipv4 h p)"
    using that by (auto simp: peer_address_def split: option.split peer_name.split)
  ultimately show ?thesis by (cases "\<exists>h p. valid \<and> name = Some (Ipv4 h p)") auto
qed

section \<open>Who owns a descriptor\<close>

datatype owner = Socket_Of nat | Listener_Of nat

fun handle_of :: "network \<Rightarrow> owner \<Rightarrow> handle option" where
  "handle_of nw (Socket_Of a) = nw_sockets nw a"
| "handle_of nw (Listener_Of l) = li_handle (nw_listeners nw l)"

text \<open>What an object holds is open, no two objects hold the same descriptor, and what is open is held.\<close>

definition owned :: "('o \<Rightarrow> handle option) \<Rightarrow> handle set \<Rightarrow> bool" where
  "owned holds opened \<longleftrightarrow>
     (\<forall>x d. holds x = Some d \<longrightarrow> d \<in> opened) \<and> (\<forall>x y d. holds x = Some d \<longrightarrow> holds y = Some d \<longrightarrow> x = y)
     \<and> (\<forall>d \<in> opened. \<exists>x. holds x = Some d)"

lemma ownedI:
  assumes "\<And>x d. holds x = Some d \<Longrightarrow> d \<in> opened" "\<And>x y d. holds x = Some d \<Longrightarrow> holds y = Some d \<Longrightarrow> x = y"
    "\<And>d. d \<in> opened \<Longrightarrow> \<exists>x. holds x = Some d"
  shows "owned holds opened"
  using assms unfolding owned_def by simp

lemma ownedD:
  assumes "owned holds opened"
  shows "holds x = Some d \<Longrightarrow> d \<in> opened" and "holds x = Some d \<Longrightarrow> holds y = Some d \<Longrightarrow> x = y"
    and "d \<in> opened \<Longrightarrow> \<exists>x. holds x = Some d"
  using assms unfolding owned_def by simp_all

lemma owned_release:
  assumes "owned holds opened"
  shows "owned (holds(x := None)) (close_handle (holds x) opened)"
proof (cases "holds x")
  case None
  with assms show ?thesis by (simp add: close_handle_def fun_upd_idem)
next
  case (Some d)
  show ?thesis
  proof (rule ownedI)
    fix y e
    assume "(holds(x := None)) y = Some e"
    then have "y \<noteq> x" "holds y = Some e" by (simp_all split: if_splits)
    with Some ownedD(1,2) [OF assms] show "e \<in> close_handle (holds x) opened" by (auto simp: close_handle_def)
  next
    fix y z e
    assume "(holds(x := None)) y = Some e" "(holds(x := None)) z = Some e"
    with ownedD(2) [OF assms] show "y = z" by (simp split: if_splits)
  next
    fix e
    assume "e \<in> close_handle (holds x) opened"
    with Some have "e \<in> opened" "e \<noteq> d" by (simp_all add: close_handle_def)
    with ownedD(3) [OF assms] obtain y where y: "holds y = Some e" by blast
    with Some \<open>e \<noteq> d\<close> have "y \<noteq> x" by auto
    with y show "\<exists>y. (holds(x := None)) y = Some e" by (intro exI [of _ y]) simp
  qed
qed

lemma owned_transfer:
  assumes "owned holds opened" "holds x = None"
  shows "owned (holds(x := holds y, y := None)) opened"
proof (rule ownedI)
  fix z d
  assume "(holds(x := holds y, y := None)) z = Some d"
  with ownedD(1) [OF assms(1)] show "d \<in> opened" by (simp split: if_splits)
next
  fix u v d
  assume "(holds(x := holds y, y := None)) u = Some d" "(holds(x := holds y, y := None)) v = Some d"
  with ownedD(2) [OF assms(1)] show "u = v" by (auto split: if_splits)
next
  fix d
  assume "d \<in> opened"
  with ownedD(3) [OF assms(1)] obtain z where z: "holds z = Some d" by blast
  with assms(2) have "(holds(x := holds y, y := None)) (if z = y then x else z) = Some d" by auto
  then show "\<exists>z. (holds(x := holds y, y := None)) z = Some d" ..
qed

lemma owned_acquire:
  assumes "owned holds opened" "holds x = None" "d \<notin> opened"
  shows "owned (holds(x \<mapsto> d)) (insert d opened)"
proof (rule ownedI)
  fix z e
  assume "(holds(x \<mapsto> d)) z = Some e"
  with ownedD(1) [OF assms(1)] show "e \<in> insert d opened" by (simp split: if_splits)
next
  fix u v e
  assume "(holds(x \<mapsto> d)) u = Some e" "(holds(x \<mapsto> d)) v = Some e"
  with ownedD(1,2) [OF assms(1)] assms(3) show "u = v" by (auto split: if_splits)
next
  fix e
  assume "e \<in> insert d opened"
  then consider "e = d" | z where "holds z = Some e" using ownedD(3) [OF assms(1)] by blast
  then show "\<exists>z. (holds(x \<mapsto> d)) z = Some e"
  proof cases
    case 2
    with assms(2) have "z \<noteq> x" by auto
    with 2 show ?thesis by (intro exI [of _ z]) simp
  qed (auto intro: exI [of _ x])
qed

subsection \<open>The operations on the owners\<close>

lemma nw_open_simps [simp]:
  "nw_open (socket_close a nw) = close_handle (nw_sockets nw a) (nw_open nw)"
  "nw_open (listener_close l nw) = close_handle (li_handle (nw_listeners nw l)) (nw_open nw)"
  "nw_open (socket_move a b nw) = nw_open nw"
  "nw_open (listener_move a b nw) = nw_open nw"
  by (simp_all add: socket_close_def listener_close_def socket_move_def listener_move_def)

lemma handle_of_simps [simp]:
  "handle_of (socket_close a nw) = (handle_of nw)(Socket_Of a := None)"
  "handle_of (listener_close l nw) = (handle_of nw)(Listener_Of l := None)"
  "handle_of (socket_move a b nw) = (handle_of nw)(Socket_Of a := nw_sockets nw b, Socket_Of b := None)"
  "handle_of (listener_move a b nw)
     = (handle_of nw)(Listener_Of a := li_handle (nw_listeners nw b), Listener_Of b := None)"
  by (rule ext, rename_tac x, case_tac x,
      simp_all add: socket_close_def listener_close_def socket_move_def listener_move_def)+

text \<open>Every open descriptor that is not lost has exactly one owner, and what is lost is open and has none.\<close>

definition network_owned :: "handle set \<Rightarrow> network \<Rightarrow> bool" where
  "network_owned lost nw \<longleftrightarrow> lost \<subseteq> nw_open nw \<and> owned (handle_of nw) (nw_open nw - lost)"

lemma network_ownedD: "network_owned lost nw \<Longrightarrow> handle_of nw x = Some d \<Longrightarrow> d \<in> nw_open nw \<and> d \<notin> lost"
  using ownedD(1) [of "handle_of nw" "nw_open nw - lost" x d] by (simp add: network_owned_def)

lemma owned_closed:
  assumes "network_owned lost nw" and "handle_of nw' = (handle_of nw)(x := None)"
    and "nw_open nw' = close_handle (handle_of nw x) (nw_open nw)"
  shows "network_owned lost nw'"
proof -
  have "nw_open nw' - lost = close_handle (handle_of nw x) (nw_open nw - lost)"
    by (auto simp: assms(3) close_handle_def split: option.splits)
  moreover have "lost \<subseteq> nw_open nw'"
    using assms(1,3) network_ownedD [OF assms(1), of x] by (auto simp: network_owned_def close_handle_def split: option.splits)
  ultimately show ?thesis
    using assms(1,2) owned_release [of "handle_of nw" "nw_open nw - lost" x] by (simp add: network_owned_def)
qed

lemma owned_socket_close: "network_owned lost nw \<Longrightarrow> network_owned lost (socket_close a nw)"
  by (rule owned_closed [where x = "Socket_Of a"]) simp_all

lemma owned_listener_close: "network_owned lost nw \<Longrightarrow> network_owned lost (listener_close l nw)"
  by (rule owned_closed [where x = "Listener_Of l"]) simp_all

lemma owned_socket_move: "network_owned lost nw \<Longrightarrow> nw_sockets nw a = None \<Longrightarrow> network_owned lost (socket_move a b nw)"
  using owned_transfer [of "handle_of nw" "nw_open nw - lost" "Socket_Of a" "Socket_Of b"] by (simp add: network_owned_def)

lemma owned_listener_move:
  "network_owned lost nw \<Longrightarrow> li_handle (nw_listeners nw a) = None \<Longrightarrow> network_owned lost (listener_move a b nw)"
  using owned_transfer [of "handle_of nw" "nw_open nw - lost" "Listener_Of a" "Listener_Of b"] by (simp add: network_owned_def)

lemma owned_assign:
  assumes "network_owned lost nw"
  shows "network_owned lost (socket_assign a b nw)" and "network_owned lost (listener_assign a b nw)"
proof -
  have "nw_sockets (socket_close a nw) a = None" "li_handle (nw_listeners (listener_close a nw) a) = None"
    by (simp_all add: socket_close_def listener_close_def)
  with assms show "network_owned lost (socket_assign a b nw)" "network_owned lost (listener_assign a b nw)"
    by (simp_all add: socket_assign_def listener_assign_def owned_socket_close owned_socket_move owned_listener_close
        owned_listener_move)
qed

text \<open>An object that takes a descriptor the operating system has just opened loses the one it held.\<close>

lemma owned_opened:
  assumes "network_owned lost nw" "d \<notin> nw_open nw"
    and "handle_of nw' = (handle_of nw)(x \<mapsto> d)" "nw_open nw' = insert d (nw_open nw)"
  shows "network_owned (lost \<union> {e. handle_of nw x = Some e}) nw'"
proof -
  let ?lost = "lost \<union> {e. handle_of nw x = Some e}"
  have "close_handle (handle_of nw x) (nw_open nw - lost) = nw_open nw - ?lost"
    by (cases "handle_of nw x") (auto simp: close_handle_def)
  then have "owned ((handle_of nw)(x := None)) (nw_open nw - ?lost)"
    using owned_release [of "handle_of nw" "nw_open nw - lost" x] assms(1) by (simp add: network_owned_def)
  moreover have lost: "?lost \<subseteq> nw_open nw" using assms(1) network_ownedD [OF assms(1)] by (auto simp: network_owned_def)
  moreover have "nw_open nw' - ?lost = insert d (nw_open nw - ?lost)" using lost assms(2,4) by auto
  ultimately have "owned (handle_of nw') (nw_open nw' - ?lost)"
    using owned_acquire [of "(handle_of nw)(x := None)" "nw_open nw - ?lost" x d] assms(2,3) by simp
  with lost show ?thesis unfolding network_owned_def assms(4) by blast
qed

lemma handle_of_listener:
  "handle_of (nw \<lparr> nw_open := opened, nw_listeners := (nw_listeners nw)(l := li) \<rparr>) = (handle_of nw)(Listener_Of l := li_handle li)"
  by (rule ext, rename_tac x, case_tac x) simp_all

lemma handle_of_socket:
  "handle_of (nw \<lparr> nw_open := opened, nw_sockets := (nw_sockets nw)(a := h) \<rparr>) = (handle_of nw)(Socket_Of a := h)"
  by (rule ext, rename_tac x, case_tac x) simp_all

text \<open>What \<open>bind_loopback\<close> overwrites: the handle the listener held, once a new socket has been created.\<close>

definition overwritten :: "Status \<Rightarrow> string + handle \<Rightarrow> nat \<Rightarrow> network \<Rightarrow> handle set" where
  "overwritten init created l nw =
     (if status_failed init \<or> isl created then {} else {d. li_handle (nw_listeners nw l) = Some d})"

lemma owned_bind:
  assumes "network_owned lost nw" "\<And>d. created = Inr d \<Longrightarrow> d \<notin> nw_open nw"
  shows "network_owned (lost \<union> overwritten init created l nw) (snd (bind_loopback init created bind_error reported l port nw))"
proof (cases "status_failed init \<or> isl created")
  case True
  with assms(1) show ?thesis by (auto simp: bind_loopback_def overwritten_def split: sum.splits)
next
  case False
  then obtain d where d: "created = Inr d" by (cases created) auto
  have opened: "network_owned (lost \<union> overwritten init created l nw)
      (nw \<lparr> nw_open := insert d (nw_open nw), nw_listeners := (nw_listeners nw)(l := li) \<rparr>)"
    if "li_handle li = Some d" for li
    using owned_opened [OF assms(1) assms(2) [OF d], of _ "Listener_Of l"] False
    by (simp add: overwritten_def that handle_of_listener)
  from False d show ?thesis
    by (auto simp: bind_loopback_def Let_def opened [unfolded d] intro!: owned_listener_close split: option.split)
qed

lemma owned_accept:
  assumes "network_owned lost nw" "nw_sockets nw a = None" "\<And>d. accepted = Inr d \<Longrightarrow> d \<notin> nw_open nw"
  shows "network_owned lost (snd (accept_one accepted l a nw))"
  using assms owned_opened [OF assms(1), of _ _ "Socket_Of a"]
  by (cases accepted) (simp_all add: accept_one_def handle_of_socket)

lemma connect_descriptors_open:
  assumes "\<And>k. descriptor k \<notin> opened"
  shows "snd (connect_descriptors outcome descriptor attempt n opened) =
    (case fst (connect_descriptors outcome descriptor attempt n opened) of None \<Rightarrow> opened | Some d \<Rightarrow> insert d opened)
    \<and> (\<forall>d. fst (connect_descriptors outcome descriptor attempt n opened) = Some d \<longrightarrow> d \<notin> opened)"
  using assms
  by (induction n arbitrary: attempt) (auto simp: close_handle_def split: connect_attempt.split)

lemma owned_connect:
  assumes "network_owned lost nw" "nw_sockets nw a = None" "\<And>k. descriptor k \<notin> nw_open nw"
  shows "network_owned lost (snd (connect_into init outcome descriptor attempts a nw))"
proof -
  obtain h opened where c: "connect_descriptors outcome descriptor 0 (nat attempts) (nw_open nw) = (h, opened)" by fastforce
  let ?nw = "nw \<lparr> nw_open := opened, nw_sockets := (nw_sockets nw)(a := h) \<rparr>"
  have o: "opened = (case h of None \<Rightarrow> nw_open nw | Some d \<Rightarrow> insert d (nw_open nw))" "\<And>d. h = Some d \<Longrightarrow> d \<notin> nw_open nw"
    using connect_descriptors_open [of descriptor "nw_open nw" outcome 0 "nat attempts"] assms(3) c by simp_all
  have "network_owned lost ?nw"
  proof (cases h)
    case None
    with assms(1,2) o(1) show ?thesis by (simp add: network_owned_def handle_of_socket fun_upd_idem)
  next
    case (Some d)
    then show ?thesis
      using owned_opened [OF assms(1) o(2) [OF Some], of ?nw "Socket_Of a"] assms(2) o(1) by (simp add: handle_of_socket)
  qed
  with assms(1) c show ?thesis by (simp add: connect_into_def)
qed

section \<open>Every run keeps one owner per descriptor\<close>

definition no_network :: network where
  "no_network = \<lparr> nw_open = {}, nw_sockets = (\<lambda>_. None), nw_listeners = (\<lambda>_. \<lparr> li_handle = None, li_bound_port = 0 \<rparr>) \<rparr>"

text \<open>A step with the descriptors it loses.  The operating system returns a descriptor that is not open.  A move
  constructor, an accept and a connect make a new object, which holds nothing; destruction is closing.\<close>

inductive network_step :: "network \<Rightarrow> handle set \<Rightarrow> network \<Rightarrow> bool" where
  socket_closed: "network_step nw {} (socket_close a nw)"
| socket_moved: "nw_sockets nw a = None \<Longrightarrow> network_step nw {} (socket_move a b nw)"
| socket_assigned: "network_step nw {} (socket_assign a b nw)"
| listener_closed: "network_step nw {} (listener_close l nw)"
| listener_moved: "li_handle (nw_listeners nw a) = None \<Longrightarrow> network_step nw {} (listener_move a b nw)"
| listener_assigned: "network_step nw {} (listener_assign a b nw)"
| bound: "(\<And>d. created = Inr d \<Longrightarrow> d \<notin> nw_open nw)
    \<Longrightarrow> network_step nw (overwritten init created l nw) (snd (bind_loopback init created bind_error reported l port nw))"
| accepted: "nw_sockets nw a = None \<Longrightarrow> (\<And>d. accepted = Inr d \<Longrightarrow> d \<notin> nw_open nw)
    \<Longrightarrow> network_step nw {} (snd (accept_one accepted l a nw))"
| connected: "nw_sockets nw a = None \<Longrightarrow> (\<And>k. descriptor k \<notin> nw_open nw)
    \<Longrightarrow> network_step nw {} (snd (connect_into init outcome descriptor attempts a nw))"

inductive network_run :: "network \<Rightarrow> handle set \<Rightarrow> bool" where
  fresh: "network_run no_network {}"
| stepped: "network_run nw lost \<Longrightarrow> network_step nw dropped nw' \<Longrightarrow> network_run nw' (lost \<union> dropped)"

lemma network_step_owned: "network_step nw dropped nw' \<Longrightarrow> network_owned lost nw \<Longrightarrow> network_owned (lost \<union> dropped) nw'"
  by (induction rule: network_step.induct)
    (simp_all add: owned_socket_close owned_socket_move owned_assign owned_listener_close owned_listener_move owned_bind
      owned_accept owned_connect)

lemma no_network_owned: "network_owned {} no_network"
proof -
  have "handle_of no_network x = None" for x by (cases x) (simp_all add: no_network_def)
  then show ?thesis by (simp add: network_owned_def owned_def) (simp add: no_network_def)
qed

text \<open>
  C33: However sockets and listeners are opened, moved, assigned, bound, accepted, connected and closed, whatever fails on
  the way, every object holds an open descriptor or none, no two objects hold the same one, and every open descriptor has
  exactly one owner, with one exception: a descriptor that a listener held when it was bound again is lost.  It stays open
  for ever and no object holds it.
\<close>

theorem one_owner_per_descriptor:
  assumes "network_run nw lost"
  shows "(\<forall>d. d \<in> nw_open nw \<and> d \<notin> lost \<longrightarrow> (\<exists>!x. handle_of nw x = Some d))
    \<and> (\<forall>x d. handle_of nw x = Some d \<longrightarrow> d \<in> nw_open nw \<and> d \<notin> lost) \<and> lost \<subseteq> nw_open nw"
proof -
  from assms have net: "network_owned lost nw" by induction (auto intro: no_network_owned network_step_owned)
  then have own: "owned (handle_of nw) (nw_open nw - lost)" by (simp add: network_owned_def)
  have "\<exists>!x. handle_of nw x = Some d" if "d \<in> nw_open nw \<and> d \<notin> lost" for d
    using ownedD(3) [OF own, of d] ownedD(2) [OF own] that by blast
  with network_ownedD [OF net] net show ?thesis by (simp add: network_owned_def)
qed

text \<open>A listener bound to descriptor 3, with an accepted connection on descriptor 4, and then bound again to 5.\<close>

definition demo_network :: network where
  "demo_network = snd (accept_one (Inr 4) 0 0 (snd (bind_loopback success (Inr 3) None (Some 7000) 0 0 no_network)))"

definition rebound_network :: network where
  "rebound_network = snd (bind_loopback success (Inr 5) None (Some 7001) 0 0 demo_network)"

theorem one_owner_per_descriptor_witness:
  "network_run demo_network {} \<and> 4 \<in> nw_open demo_network \<and> (\<exists>!x. handle_of demo_network x = Some 4)
   \<and> network_run rebound_network {3} \<and> 3 \<in> nw_open rebound_network \<and> (\<forall>x. handle_of rebound_network x \<noteq> Some 3)"
proof -
  let ?bound = "snd (bind_loopback success (Inr 3) None (Some 7000) 0 0 no_network)"
  have "network_step no_network {} ?bound"
    using network_step.bound [of "Inr 3" no_network success 0 None "Some 7000" 0] by (simp add: overwritten_def no_network_def)
  moreover have "network_step ?bound {} demo_network"
    unfolding demo_network_def by (rule network_step.accepted) (simp_all add: bind_loopback_def no_network_def Let_def)
  ultimately have run: "network_run demo_network {}"
    using network_run.stepped [OF network_run.stepped [OF network_run.fresh]] by fastforce
  have held: "li_handle (nw_listeners demo_network 0) = Some 3" "nw_open demo_network = {3, 4}"
    by (auto simp: demo_network_def bind_loopback_def accept_one_def no_network_def Let_def)
  have "network_step demo_network {3} rebound_network"
    using network_step.bound [of "Inr 5" demo_network success 0 None "Some 7001" 0] held
    by (simp add: overwritten_def rebound_network_def)
  then have again: "network_run rebound_network {3}" using network_run.stepped [OF run] by fastforce
  have "\<exists>!x. handle_of demo_network x = Some 4" using one_owner_per_descriptor [OF run] held(2) by simp
  moreover have "3 \<in> nw_open rebound_network" "\<forall>x. handle_of rebound_network x \<noteq> Some 3"
    using one_owner_per_descriptor [OF again] by auto
  ultimately show ?thesis using run again held(2) by simp
qed

section \<open>The accept loop\<close>

text \<open>The loop ends once it sees the stop flag; what it handed to connection threads and what it closed are the
  connections accepted in its first rounds, in their order.\<close>

lemma accept_loop_ends:
  "fst (accept_loop rounds) \<longleftrightarrow> (\<exists>(stopping, _, stopping_after) \<in> set rounds. stopping \<or> stopping_after)"
  by (induction rounds rule: accept_loop.induct) (auto simp: case_prod_beta split: sum.split)

fun accepted_in :: "bool \<times> 'c Result \<times> bool \<Rightarrow> 'c list" where
  "accepted_in (_, Inl _, _) = []"
| "accepted_in (_, Inr c, _) = [c]"

lemma accept_loop_sockets:
  "\<exists>n. fst (snd (accept_loop rounds)) @ snd (snd (accept_loop rounds)) = concat (map accepted_in (take n rounds))"
proof (induction rounds rule: accept_loop.induct)
  case (2 stopping accepted stopping_after rounds)
  show ?case
  proof (cases "stopping \<or> stopping_after")
    case True
    then show ?thesis
      by (cases "stopping"; cases accepted) (auto intro: exI [of _ 0] exI [of _ "Suc 0"])
  next
    case False
    with 2 obtain n where "fst (snd (accept_loop rounds)) @ snd (snd (accept_loop rounds)) = concat (map accepted_in (take n rounds))"
      by (cases accepted) auto
    with False show ?thesis by (cases accepted) (auto simp: case_prod_beta intro!: exI [of _ "Suc n"])
  qed
qed simp

text \<open>Every connection thread the loop starts is a connection the server model accepts.\<close>

lemma accepted_connections_run:
  assumes "running (sv, cs)" "\<And>m. n \<le> m \<Longrightarrow> cs m = None"
  shows "running (sv, \<lambda>m. if n \<le> m \<and> m < n + k then Some new_connection else cs m)"
proof (induction k)
  case 0
  have "(\<lambda>m. if n \<le> m \<and> m < n + 0 then Some new_connection else cs m) = cs" by (rule ext, rename_tac m, case_tac "n \<le> m") simp_all
  with assms(1) show ?case by simp
next
  case (Suc k)
  let ?cs = "\<lambda>m. if n \<le> m \<and> m < n + k then Some new_connection else cs m"
  have "server_step (sv, ?cs) (sv, ?cs(n + k \<mapsto> new_connection))" by (rule server_step.accepted) (simp add: assms(2))
  with Suc have "running (sv, ?cs(n + k \<mapsto> new_connection))" by (rule running.stepped)
  moreover have "?cs(n + k \<mapsto> new_connection) = (\<lambda>m. if n \<le> m \<and> m < n + Suc k then Some new_connection else cs m)" by auto
  ultimately show ?case by simp
qed

end
