(* ===== verification/Spec2Isabelle.thy ===== *)
theory Spec2Isabelle
  imports Explanation Durability Lifecycle Progress Remote Worker_Tool Sockets
begin

text \<open>
  \<^bold>\<open>Artifact Promotion\<close> is a coordinator that moves registered artifacts through a policy-governed lifecycle on the
  strength of exact evidence.  A worker registers content under an identity and a digest, evidence producers submit
  observations about exactly that content, a policy says which evidence a transition needs, and the coordinator
  evaluates a request, reserves the transition, revalidates it and commits it.  Quarantine, revocation, supersession,
  retirement, a newer policy or a restart withdraw authority.  The coordinator runs behind a framed TCP protocol and
  keeps its state in a snapshot file.

  \<^bold>\<open>How the parts fit.\<close>  \<open>src/core\<close> has the primitives (errors, bytes, identities, SHA-256, the wire reader and writer,
  files); \<open>src/domain\<close> the data (stages, artifacts, evidence, policy, decisions, the state); \<open>src/engine\<close> the operations
  on the state; \<open>src/persist\<close> the record codecs and the snapshot; \<open>src/distributed\<close> the protocol, the server that owns an
  engine, and the client; \<open>tools\<close> the three processes: coordinator, worker and inspection.  The theories follow that
  order.

  \<^bold>\<open>Theories and sources.\<close>
    \<^item> \<open>Prelude\<close>: words, byte strings, \<open>std::map\<close> as an ordered entry sequence (locale \<open>ordered_map\<close>), retention of the
      newest entries.
    \<^item> \<open>Errors\<close> (\<open>error.hpp\<close>, \<open>error.cpp\<close>; locale \<open>enumeration\<close>), \<open>Bytes\<close> (\<open>bytes.cpp\<close>), \<open>Identities\<close>
      (\<open>identity.hpp\<close>, \<open>identity.cpp\<close>), \<open>Sha256\<close> and \<open>Sha256_Bits\<close> (\<open>sha256.cpp\<close>), \<open>Wire\<close> (\<open>wire.cpp\<close>, the reader
      and writer headers; locale \<open>codec\<close>).
    \<^item> \<open>Stage\<close> and \<open>Stage_Graph\<close> (\<open>stage.cpp\<close>), \<open>Artifact\<close>, \<open>Evidence\<close>, \<open>Policy\<close> and \<open>Reference_Policy\<close>, \<open>Decision\<close>,
      \<open>Store\<close> (\<open>store.hpp\<close>, \<open>config.hpp\<close>, \<open>store.cpp\<close>).
    \<^item> \<open>Evaluate\<close> and \<open>Gates\<close> (\<open>evaluate.cpp\<close>), \<open>Engine\<close> (\<open>engine.cpp\<close>), \<open>Promotion\<close> (\<open>promotion.cpp\<close>,
      \<open>explain.cpp\<close>), \<open>Trust\<close> (\<open>trust.cpp\<close>).
    \<^item> \<open>Codec\<close>, \<open>Record_Codec\<close>, \<open>Policy_Codec\<close> (\<open>persist/codec.cpp\<close>; locale \<open>roundtrip\<close>), \<open>Snapshot\<close> (\<open>snapshot.cpp\<close>).
    \<^item> \<open>Protocol\<close> and \<open>Messages\<close> (\<open>protocol.cpp\<close>; locale \<open>message_codec\<close>), \<open>Server\<close> (\<open>coordinator_server.cpp\<close>),
      \<open>Client\<close> (\<open>worker_client.cpp\<close>), \<open>Platform\<close> (\<open>io.cpp\<close>, the transfer loops of \<open>socket.cpp\<close>),
      \<open>Sockets\<close> (the rest of \<open>socket.cpp\<close>, the accept loop).
    \<^item> \<open>Command_Line\<close> (\<open>artifact-promotion-coordinator.cpp\<close>, \<open>artifact-promotion-inspect.cpp\<close>), \<open>Worker_Tool\<close>
      (\<open>artifact-promotion-worker.cpp\<close>).
    \<^item> The properties: \<open>Commit\<close>, \<open>Promotion_Safety\<close>, \<open>Fencing\<close>, \<open>Authority\<close>, \<open>Coordinator_Invariant\<close>, \<open>Lifecycle\<close>,
      \<open>Explanation\<close>, \<open>Progress\<close>, \<open>Durability\<close>, \<open>Server_Safety\<close> (locale \<open>request_handler\<close>), \<open>Service\<close>, \<open>Remote\<close>; \<open>Scenario\<close> holds the
      coordinator the witnesses run.

  \<^bold>\<open>State and operations.\<close>  A struct is a record with a two-letter field prefix, an enumeration a datatype with the
  source's enumerators, an integer a word of its width, a \<open>std::map\<close> an entry sequence in key order, an optional field
  with its \<open>has_\<close> flag an option.  \<open>engine\<close> is \<open>PromotionEngine\<close>: the coordinator state, the configuration, the admission
  flag and the calls of the change listener.  Every public method is a function from its arguments and the engine to its
  result and the engine afterwards; an error is \<open>Inl\<close> of a \<open>Status\<close> with the source's code and text.  The relation
  \<open>operation\<close> has one rule per method that changes the engine but \<open>install_state\<close>; \<open>reachable\<close> are the engines that
  construction, operations and the installation of a state with well-formed maps, which is what the decoder returns, lead
  to.  \<open>server\<close> adds the state file, the worker
  boots and the counters; \<open>serve_bytes\<close> is one round of the connection loop and \<open>server_step\<close> lets rounds of several
  connections interleave.  A clock reading, the outcome of a system call and the bytes a peer sends are arguments.

  \<^bold>\<open>What is shown.\<close>
    \<^item> \<open>Promotion_Safety\<close>: when a commit succeeds, what it changes and what it leaves, that an eligible request has exact,
      current evidence for every gate that needs evidence, that a refused commit moves nothing, and which evaluations are
      replayed.  \<open>Explanation\<close>: the decision explains every gate up to an unregistered dependency; when a freshness gate
      passes.  \<open>Progress\<close>: an issued plan commits.
    \<^item> \<open>Coordinator_Invariant\<close>: the state invariant over every reachable engine and the immutability of registered content.
      \<open>Lifecycle\<close>: an abstract lifecycle that every operation refines.
    \<^item> \<open>Fencing\<close>, \<open>Authority\<close>: what each withdrawing operation does, and that plans issued before it cannot commit.
    \<^item> \<open>Stage_Graph\<close>: graph validation against its declarative meaning.  \<open>Durability\<close>: the snapshot round trip, the
      soundness of whatever is decoded, and that six of the identity generators reissue nothing after a restart.
    \<^item> \<open>Protocol\<close>: the decoder accepts exactly the encoded frames.  \<open>Service\<close>: a server run is an engine run, who can act,
      that requests are answered, that repetition and old boots are refused, what is on disk and after a restart.  \<open>Remote\<close>:
      a promotion through the client is the engine's promotion, errors included.  \<open>Platform\<close>: file replacement is atomic, receiving ignores segments.
      \<open>Sockets\<close>: every open descriptor has exactly one owner, unless a listener was bound again.
    \<^item> \<open>Command_Line\<close>: what the exit code of a snapshot check means.  \<open>Worker_Tool\<close>: what the exit code of a worker means.
    \<^item> Behaviour that contradicts a comment or the evident intent is stated as a theorem as well
      (\<open>recommit_conflicts\<close>, \<open>validate_accepts_cycle\<close>, \<open>validate_accepts_foreign_return\<close>, \<open>unregistered_request_breaks_snapshot\<close>,
      \<open>explain_reports_eligible_for_illegal\<close>, \<open>acknowledgement_ignores_disk\<close>, \<open>restarted_worker_is_refused\<close>,
      \<open>fenced_boot_keeps_acting\<close>, \<open>expect_stage_ignored\<close>).

  \<^bold>\<open>Bounds and termination.\<close>  There is no fuel: every loop is a total function, structurally recursive or with a measure
  (the length of the stream of a connection, the bytes still wanted by a receive, the stages not yet visited by a graph
  traversal).  Size bounds are the program's constants.  Identities, counters, clock readings and generators wrap or
  saturate as 64-bit words do; container sizes are natural numbers.

  \<^bold>\<open>Not modelled.\<close>  Locks and threads: each engine method runs under its exclusive lock and is one step; the accept loop
  hands connections to threads, which \<open>server_step\<close> interleaves.  Of two branches for Windows and POSIX the POSIX one is
  modelled.  Signal handlers, which only set the stop flag, and console output beyond the lines of the tools.  The
  examples, benchmarks and tests, which call the library on fixed inputs.  Texts cut by \<open>StaticString\<close> are cut in the
  model too; texts assembled at run time are kept opaque by \<open>lit\<close>, which is the identity.
\<close>

end
